(* ===== verification/Go_Prelude.thy ===== *)
theory Go_Prelude
  imports Main "HOL-Library.Word" "HOL-Library.Sublist"
begin

text \<open>
  What every component shares: the Go strings the program manipulates (package \<^verbatim>\<open>strings\<close>,
  \<^verbatim>\<open>strconv\<close>), Go's \<^verbatim>\<open>error\<close> values with their wrapping chain, the error-and-state
  combinators with which the handlers are written, and the generic lemmas on lists and maps
  that the component proofs rest on.

  A Go string is its list of bytes (type \<^typ>\<open>string\<close>).  \<open>TrimSpace\<close>, \<open>ToLower\<close> and
  \<open>ToUpper\<close> act on ASCII bytes and leave the others alone: for ASCII text (interface names,
  PCI addresses, UIDs, Kubernetes names, dotted addresses) they are Go's functions; Go's
  Unicode case folding and Unicode blanks are outside the model.
\<close>

section \<open>Types shared by the components\<close>

type_synonym u8 = "8 word"
type_synonym u16 = "16 word"
type_synonym u32 = "32 word"
type_synonym uid = string

named_theorems go_split \<open>case splits for results, options and pairs\<close>
named_theorems go_str \<open>definitions of the string functions\<close>

lemmas [go_split] = sum.splits option.splits prod.splits if_splits

section \<open>Package strings\<close>

definition is_space :: "char \<Rightarrow> bool" where
  [go_str]: "is_space c \<longleftrightarrow> c = CHR 0x09 \<or> c = CHR 0x0A \<or> c = CHR 0x0B \<or> c = CHR 0x0C
     \<or> c = CHR 0x0D \<or> c = CHR '' ''"

definition is_digit :: "char \<Rightarrow> bool" where
  [go_str]: "is_digit c \<longleftrightarrow> 48 \<le> (of_char c :: nat) \<and> (of_char c :: nat) \<le> 57"

definition lower_char :: "char \<Rightarrow> char" where
  [go_str]: "lower_char c =
     (if 65 \<le> (of_char c :: nat) \<and> (of_char c :: nat) \<le> 90 then char_of ((of_char c :: nat) + 32) else c)"

definition upper_char :: "char \<Rightarrow> char" where
  [go_str]: "upper_char c =
     (if 97 \<le> (of_char c :: nat) \<and> (of_char c :: nat) \<le> 122 then char_of ((of_char c :: nat) - 32) else c)"

definition TrimSpace :: "string \<Rightarrow> string" where
  [go_str]: "TrimSpace s = rev (dropWhile is_space (rev (dropWhile is_space s)))"

definition ToLower :: "string \<Rightarrow> string" where
  [go_str]: "ToLower s = map lower_char s"

definition ToUpper :: "string \<Rightarrow> string" where
  [go_str]: "ToUpper s = map upper_char s"

definition HasPrefix :: "string \<Rightarrow> string \<Rightarrow> bool" where
  [go_str]: "HasPrefix s p \<longleftrightarrow> take (length p) s = p"

definition TrimPrefix :: "string \<Rightarrow> string \<Rightarrow> string" where
  [go_str]: "TrimPrefix s p = (if HasPrefix s p then drop (length p) s else s)"

definition ContainsAny :: "string \<Rightarrow> string \<Rightarrow> bool" where
  [go_str]: "ContainsAny s chars \<longleftrightarrow> list_ex (\<lambda>c. List.member chars c) s"

text \<open>\<^verbatim>\<open>strings.ReplaceAll\<close> for an old string of one byte, the only use the source makes of it.\<close>

definition ReplaceAll :: "string \<Rightarrow> char \<Rightarrow> string \<Rightarrow> string" where
  [go_str]: "ReplaceAll s old new = concat (map (\<lambda>c. if c = old then new else [c]) s)"

fun Join :: "string list \<Rightarrow> string \<Rightarrow> string" where
  "Join [] sep = []"
| "Join [x] sep = x"
| "Join (x # y # xs) sep = x @ sep @ Join (y # xs) sep"

text \<open>\<^verbatim>\<open>strings.Split\<close> at a separator of one byte.\<close>

fun Split :: "string \<Rightarrow> char \<Rightarrow> string list" where
  "Split [] sep = [[]]"
| "Split (c # cs) sep =
     (if c = sep then [] # Split cs sep
      else (case Split cs sep of [] \<Rightarrow> [[c]] | w # ws \<Rightarrow> (c # w) # ws))"

section \<open>Package strconv\<close>

definition digit_char :: "nat \<Rightarrow> char" where
  "digit_char d = char_of (48 + d)"

definition digit_value :: "char \<Rightarrow> nat" where
  "digit_value c = (of_char c :: nat) - 48"

fun utoa :: "nat \<Rightarrow> string" where
  "utoa n = (if n < 10 then [digit_char n] else utoa (n div 10) @ [digit_char (n mod 10)])"

declare utoa.simps [simp del]

definition Itoa :: "int \<Rightarrow> string" where
  "Itoa i = (if i < 0 then CHR ''-'' # utoa (nat (- i)) else utoa (nat i))"

definition dec_value :: "string \<Rightarrow> nat" where
  "dec_value s = foldl (\<lambda>v c. v * 10 + digit_value c) 0 s"

text \<open>
  \<^verbatim>\<open>strconv.Atoi\<close>: an optional sign, at least one digit, nothing else, and the value fits
  in 64 bits; \<^const>\<open>None\<close> is the error.
\<close>

definition Atoi :: "string \<Rightarrow> int option" where
  "Atoi s =
     (let neg = HasPrefix s ''-'';
          ds = (if neg \<or> HasPrefix s ''+'' then drop 1 s else s)
      in if ds = [] \<or> \<not> list_all is_digit ds then None
         else let v = (if neg then - int (dec_value ds) else int (dec_value ds))
              in if - (2 ^ 63) \<le> v \<and> v < 2 ^ 63 then Some v else None)"

section \<open>Go errors\<close>

text \<open>
  An error keeps the format string and the arguments of the \<^verbatim>\<open>fmt.Errorf\<close> call that made it;
  \<open>Wrapf\<close> is one whose format ends in \<^verbatim>\<open>%w\<close>, with the wrapped error.  An API error is
  represented by its reason; the \<^verbatim>\<open>apierrors\<close> predicates look for it through the wrapping
  chain.  An error of the operating system carries its kind and the path; \<open>Joined\<close> is
  \<^verbatim>\<open>errors.Join\<close> of a non-empty list, which the program only hands to its caller.
\<close>

datatype api_reason = NotFound | AlreadyExists | Conflict | OtherReason string

datatype errno = ErrNotExist | ErrExist | ErrIO

datatype goerr =
    Errorf string "string list"
  | Wrapf string "string list" goerr
  | ApiStatus api_reason string
  | PathError errno string
  | Joined "goerr list"

fun ReasonForError :: "goerr \<Rightarrow> api_reason option" where
  "ReasonForError (Errorf _ _) = None"
| "ReasonForError (Wrapf _ _ e) = ReasonForError e"
| "ReasonForError (ApiStatus r _) = Some r"
| "ReasonForError (PathError _ _) = None"
| "ReasonForError (Joined _) = None"

definition IsNotFound :: "goerr \<Rightarrow> bool" where
  "IsNotFound e \<longleftrightarrow> ReasonForError e = Some NotFound"

definition IsAlreadyExists :: "goerr \<Rightarrow> bool" where
  "IsAlreadyExists e \<longleftrightarrow> ReasonForError e = Some AlreadyExists"

definition IsConflict :: "goerr \<Rightarrow> bool" where
  "IsConflict e \<longleftrightarrow> ReasonForError e = Some Conflict"

text \<open>\<^verbatim>\<open>os.IsNotExist\<close> and \<^verbatim>\<open>os.IsExist\<close> look at the error itself, \<^verbatim>\<open>errors.Is\<close> through the chain.\<close>

fun os_IsNotExist :: "goerr \<Rightarrow> bool" where
  "os_IsNotExist (PathError ErrNotExist _) = True"
| "os_IsNotExist _ = False"

fun os_IsExist :: "goerr \<Rightarrow> bool" where
  "os_IsExist (PathError ErrExist _) = True"
| "os_IsExist _ = False"

fun errors_Is_NotExist :: "goerr \<Rightarrow> bool" where
  "errors_Is_NotExist (PathError ErrNotExist _) = True"
| "errors_Is_NotExist (Wrapf _ _ e) = errors_Is_NotExist e"
| "errors_Is_NotExist _ = False"

text \<open>\<^verbatim>\<open>errors.Join\<close>: nil when there is no error.\<close>

definition errors_Join :: "goerr list \<Rightarrow> goerr + unit" where
  "errors_Join es = (if es = [] then Inr () else Inl (Joined es))"

section \<open>Results and effects\<close>

text \<open>
  A Go function that returns a value and an error is a function into \<^typ>\<open>goerr + 'a\<close>; one
  with effects on a state \<open>'s\<close> is a function \<^typ>\<open>'s \<Rightarrow> (goerr + 'a) \<times> 's\<close>.
  \<open>andThen\<close> is the statement \<^verbatim>\<open>x, err := m; if err != nil { return err }; f(x)\<close>.
\<close>

type_synonym ('s, 'a) eff = "'s \<Rightarrow> (goerr + 'a) \<times> 's"

definition ok :: "'a \<Rightarrow> ('s, 'a) eff" where
  "ok x s = (Inr x, s)"

definition fail :: "goerr \<Rightarrow> ('s, 'a) eff" where
  "fail e s = (Inl e, s)"

definition andThen :: "('s, 'a) eff \<Rightarrow> ('a \<Rightarrow> ('s, 'b) eff) \<Rightarrow> ('s, 'b) eff" where
  "andThen m f s = (case m s of (Inl e, s') \<Rightarrow> (Inl e, s') | (Inr x, s') \<Rightarrow> f x s')"

text \<open>\<^verbatim>\<open>if err != nil { return fmt.Errorf("...: %w", err) }\<close>: the error is replaced, the value kept.\<close>

definition mapErr :: "(goerr \<Rightarrow> goerr) \<Rightarrow> ('s, 'a) eff \<Rightarrow> ('s, 'a) eff" where
  "mapErr h m s = (case m s of (Inl e, s') \<Rightarrow> (Inl (h e), s') | (Inr x, s') \<Rightarrow> (Inr x, s'))"

text \<open>Membership test written as a computation (\<^verbatim>\<open>slices.Contains\<close>).\<close>

definition Contains :: "'a list \<Rightarrow> 'a \<Rightarrow> bool" where
  [simp]: "Contains xs x \<longleftrightarrow> List.member xs x"

section \<open>Generic lemmas\<close>

lemma ok_eq [simp]: "ok x s = (r, s') \<longleftrightarrow> r = Inr x \<and> s' = s"
  by (auto simp: ok_def)

lemma fail_eq [simp]: "fail e s = (r, s') \<longleftrightarrow> r = Inl e \<and> s' = s"
  by (auto simp: fail_def)

lemma andThen_Inr:
  "andThen m f s = (Inr y, s'') \<longleftrightarrow> (\<exists>x s'. m s = (Inr x, s') \<and> f x s' = (Inr y, s''))"
  by (auto simp: andThen_def split: go_split)

lemma andThen_Inl:
  "andThen m f s = (Inl e, s'') \<longleftrightarrow>
     m s = (Inl e, s'') \<or> (\<exists>x s'. m s = (Inr x, s') \<and> f x s' = (Inl e, s''))"
  by (auto simp: andThen_def split: go_split)

lemma mapErr_Inr [simp]: "mapErr h m s = (Inr x, s') \<longleftrightarrow> m s = (Inr x, s')"
  by (auto simp: mapErr_def split: go_split)

lemma mapErr_Inl: "mapErr h m s = (Inl e, s') \<longleftrightarrow> (\<exists>e0. m s = (Inl e0, s') \<and> e = h e0)"
  by (auto simp: mapErr_def split: go_split)

lemma digit_char_value [simp]: "d < 10 \<Longrightarrow> digit_value (digit_char d) = d"
  by (simp add: digit_char_def digit_value_def)

lemma is_digit_digit_char [simp]: "d < 10 \<Longrightarrow> is_digit (digit_char d)"
  by (simp add: digit_char_def is_digit_def)

lemma utoa_nonempty [simp]: "utoa n \<noteq> []"
  by (subst utoa.simps) simp

lemma utoa_digits: "list_all is_digit (utoa n)"
proof (induction n rule: utoa.induct)
  case (1 n)
  then show ?case by (subst utoa.simps) (auto simp: list_all_append)
qed

lemma dec_value_snoc: "dec_value (s @ [c]) = dec_value s * 10 + digit_value c"
  by (simp add: dec_value_def)

lemma dec_value_utoa [simp]: "dec_value (utoa n) = n"
proof (induction n rule: utoa.induct)
  case (1 n)
  then show ?case
    by (subst utoa.simps) (auto simp: dec_value_snoc dec_value_def)
qed

lemma utoa_inj [simp]: "utoa m = utoa n \<longleftrightarrow> m = n"
  by (metis dec_value_utoa)

lemma minus_not_digit [simp]: "\<not> is_digit (CHR ''-'')"
  and plus_not_digit [simp]: "\<not> is_digit (CHR ''+'')"
  by (simp_all add: is_digit_def)

lemma HasPrefix_Nil [simp]: "HasPrefix s []"
  by (simp add: HasPrefix_def)

lemma HasPrefix_iff: "HasPrefix s p \<longleftrightarrow> (\<exists>t. s = p @ t)"
  by (auto simp: HasPrefix_def) (metis append_take_drop_id)

lemma digits_no_sign: "list_all is_digit s \<Longrightarrow> s \<noteq> [] \<Longrightarrow> \<not> HasPrefix s ''-'' \<and> \<not> HasPrefix s ''+''"
  by (cases s) (auto simp: HasPrefix_def)

lemma Atoi_Itoa: "- (2 ^ 63) \<le> i \<Longrightarrow> i < 2 ^ 63 \<Longrightarrow> Atoi (Itoa i) = Some i"
  using digits_no_sign [OF utoa_digits utoa_nonempty]
  by (auto simp: Atoi_def Itoa_def utoa_digits HasPrefix_def)

lemma map_of_SomeI: "distinct (map fst ps) \<Longrightarrow> (k, v) \<in> set ps \<Longrightarrow> map_of ps k = Some v"
  by simp

lemma lower_char_idem [simp]: "lower_char (lower_char c) = lower_char c"
  by (auto simp: lower_char_def)

lemma ToLower_idem [simp]: "ToLower (ToLower s) = ToLower s"
  by (simp add: ToLower_def)

lemma is_space_lower [simp]: "is_space (lower_char c) = is_space c"
proof (cases "65 \<le> (of_char c :: nat) \<and> (of_char c :: nat) \<le> 90")
  case True
  then have "\<not> is_space c" by (auto simp: is_space_def)
  moreover from True have "\<not> is_space (lower_char c)"
    by (auto simp: is_space_def lower_char_def char_of_eq_iff take_bit_eq_mod)
  ultimately show ?thesis by simp
next
  case False
  then show ?thesis by (auto simp: lower_char_def)
qed

end
