(* ===== verification/Kube_API.thy ===== *)
theory Kube_API
  imports Go_Prelude
begin

text \<open>
  The Kubernetes client libraries as the program sees them.  They are not part of the
  repository, so they are parameters: a record of the operations the source calls
  (\<open>unstr\<close>: the accessors of unstructured objects; \<open>kube\<close>: the API calls, which act on a
  cluster state \<open>'w\<close> the model knows nothing about), and locales that state what their
  documentation promises.  Every definition that uses a library takes the record as an
  argument; every theorem that relies on a promise names the locale as a hypothesis.

  A decoded JSON object, \<^verbatim>\<open>map[string]interface{}\<close>, is an association list of dynamic values.
\<close>

section \<open>Unstructured objects\<close>

datatype gval =
    GNil
  | GBool bool
  | GInt int
  | GStr string
  | GSlice "gval list"
  | GMap "(string \<times> gval) list"

type_synonym gmap = "(string \<times> gval) list"

record unstr =
  uNestedString :: "gmap \<Rightarrow> string list \<Rightarrow> string \<times> bool"
  uNestedSlice :: "gmap \<Rightarrow> string list \<Rightarrow> gval list \<times> bool"
  uNestedStringSlice :: "gmap \<Rightarrow> string list \<Rightarrow> string list \<times> bool"
  uNestedMap :: "gmap \<Rightarrow> string list \<Rightarrow> gmap option"
  uSetNestedMap :: "gmap \<Rightarrow> gmap \<Rightarrow> string list \<Rightarrow> goerr + gmap"
  uGetName :: "gmap \<Rightarrow> string"
  uGetUID :: "gmap \<Rightarrow> uid"
  uGetGeneration :: "gmap \<Rightarrow> int"

text \<open>Following a path of keys through nested maps: what the accessors are documented to do.\<close>

fun nested :: "gmap \<Rightarrow> string list \<Rightarrow> gval option" where
  "nested m [] = Some (GMap m)"
| "nested m [k] = map_of m k"
| "nested m (k # k' # ks) =
     (case map_of m k of Some (GMap m') \<Rightarrow> nested m' (k' # ks) | _ \<Rightarrow> None)"

fun as_string :: "gval option \<Rightarrow> string \<times> bool" where
  "as_string (Some (GStr s)) = (s, True)"
| "as_string _ = ([], False)"

fun as_slice :: "gval option \<Rightarrow> gval list \<times> bool" where
  "as_slice (Some (GSlice xs)) = (xs, True)"
| "as_slice _ = ([], False)"

fun all_strings :: "gval list \<Rightarrow> string list option" where
  "all_strings [] = Some []"
| "all_strings (GStr s # xs) = map_option ((#) s) (all_strings xs)"
| "all_strings _ = None"

fun as_string_slice :: "gval option \<Rightarrow> string list \<times> bool" where
  "as_string_slice (Some (GSlice xs)) =
     (case all_strings xs of Some ss \<Rightarrow> (ss, True) | None \<Rightarrow> ([], False))"
| "as_string_slice _ = ([], False)"

fun as_map :: "gval option \<Rightarrow> gmap option" where
  "as_map (Some (GMap m)) = Some m"
| "as_map _ = None"

fun as_int :: "gval option \<Rightarrow> int" where
  "as_int (Some (GInt i)) = i"
| "as_int _ = 0"

text \<open>Writing a key of a Go map: a present key keeps its place, a new one is added.\<close>

fun gput :: "string \<Rightarrow> 'v \<Rightarrow> (string \<times> 'v) list \<Rightarrow> (string \<times> 'v) list" where
  "gput k v [] = [(k, v)]"
| "gput k v ((k', v') # m) = (if k = k' then (k, v) # m else (k', v') # gput k v m)"

lemma map_of_gput [simp]: "map_of (gput k v m) = (map_of m)(k \<mapsto> v)"
  by (induction m) auto

lemma fst_gput [simp]: "fst ` set (gput k v m) = insert k (fst ` set m)"
  by (induction k v m rule: gput.induct) (simp_all add: insert_commute)

lemma distinct_gput [simp]: "distinct (map fst m) \<Longrightarrow> distinct (map fst (gput k v m))"
  by (induction m) auto

locale unstructured_lib =
  fixes U :: "'z unstr_scheme"
  assumes NestedString: "uNestedString U m ks = as_string (nested m ks)"
    and NestedSlice: "uNestedSlice U m ks = as_slice (nested m ks)"
    and NestedStringSlice: "uNestedStringSlice U m ks = as_string_slice (nested m ks)"
    and NestedMap: "uNestedMap U m ks = as_map (nested m ks)"
    and SetNestedMap1: "uSetNestedMap U m v [k] = Inr (gput k (GMap v) m)"
    and GetName: "uGetName U m = fst (as_string (nested m [''metadata'', ''name'']))"
    and GetUID: "uGetUID U m = fst (as_string (nested m [''metadata'', ''uid'']))"
    and GetGeneration: "uGetGeneration U m = as_int (nested m [''metadata'', ''generation''])"

text \<open>The documented behaviour written as a library, for evaluating the model.\<close>

definition doc_unstr :: unstr where
  "doc_unstr = \<lparr>uNestedString = (\<lambda>m ks. as_string (nested m ks)),
     uNestedSlice = (\<lambda>m ks. as_slice (nested m ks)),
     uNestedStringSlice = (\<lambda>m ks. as_string_slice (nested m ks)),
     uNestedMap = (\<lambda>m ks. as_map (nested m ks)),
     uSetNestedMap = (\<lambda>m v ks. case ks of [k] \<Rightarrow> Inr (gput k (GMap v) m)
        | _ \<Rightarrow> Inl (Errorf ''unsupported path'' [])),
     uGetName = (\<lambda>m. fst (as_string (nested m [''metadata'', ''name'']))),
     uGetUID = (\<lambda>m. fst (as_string (nested m [''metadata'', ''uid'']))),
     uGetGeneration = (\<lambda>m. as_int (nested m [''metadata'', ''generation'']))\<rparr>"

interpretation doc: unstructured_lib "unstr.extend doc_unstr x" for x
  by unfold_locales (simp_all add: doc_unstr_def unstr.defs)

section \<open>Typed objects\<close>

text \<open>The fields of \<^verbatim>\<open>resource.k8s.io/v1\<close> and core objects that the source reads or writes.\<close>

record GVR =
  gvr_Group :: string
  gvr_Version :: string
  gvr_Resource :: string

record DeleteOptions =
  do_UID :: uid
  do_PropagationPolicy :: "string option"

record Condition =
  cond_Type :: string
  cond_Status :: string
  cond_ObservedGeneration :: int
  cond_LastTransitionTime :: string
  cond_Reason :: string
  cond_Message :: string

record NetworkDeviceData =
  nd_InterfaceName :: string
  nd_IPs :: "string list"
  nd_HardwareAddress :: string

record AllocatedDeviceStatus =
  ads_Driver :: string
  ads_Pool :: string
  ads_Device :: string
  ads_ShareID :: "string option"
  ads_Conditions :: "Condition list"
  ads_Data :: gmap
  ads_NetworkData :: "NetworkDeviceData option"

record ConsumerReference =
  cons_APIGroup :: string
  cons_Resource :: string
  cons_Name :: string
  cons_UID :: uid

record AllocationResult =
  ar_Request :: string
  ar_Driver :: string
  ar_Pool :: string
  ar_Device :: string
  ar_ShareID :: "string option"

text \<open>An opaque device configuration: the requests it is for, and driver and raw parameters.\<close>

record DeviceConfiguration =
  dcf_Requests :: "string list"
  dcf_Opaque :: "(string \<times> string) option"

record ResourceClaim =
  rc_Namespace :: string
  rc_Name :: string
  rc_UID :: uid
  rc_Generation :: int
  rc_Annotations :: "(string \<times> string) list"
  rc_ReservedFor :: "ConsumerReference list"
  rc_Results :: "AllocationResult list"
  rc_Config :: "DeviceConfiguration list"
  rc_Devices :: "AllocatedDeviceStatus list"

record PodCondition =
  pc_Type :: string
  pc_Status :: string
  pc_LastProbeTime :: string
  pc_LastTransitionTime :: string
  pc_Reason :: string
  pc_Message :: string

record Pod =
  pod_Namespace :: string
  pod_Name :: string
  pod_UID :: uid
  pod_Annotations :: "(string \<times> string) list"
  pod_ReadinessGates :: "string list"
  pod_Conditions :: "PodCondition list"

text \<open>A node, by the type and the text of each of its addresses.\<close>

record Node =
  node_Addresses :: "(string \<times> string) list"

record Event =
  ev_Namespace :: string
  ev_GenerateName :: string
  ev_EventTime :: string
  ev_ReportingController :: string
  ev_ReportingInstance :: string
  ev_Action :: string
  ev_Reason :: string
  ev_Note :: string
  ev_Type :: string
  ev_Regarding :: "string \<times> string \<times> uid"
  ev_Related :: "(string \<times> string) option"

section \<open>API calls\<close>

text \<open>
  The dynamic client on a resource (\<open>GVR\<close>), the typed clients for resource claims, pods,
  nodes and events, and the helpers of client-go and apimachinery that act around them.
  Each call acts on the cluster state and returns a value or an error; \<open>kNow\<close> reads the
  clock.
\<close>

record 'w kube = unstr +
  kCreate :: "GVR \<Rightarrow> gmap \<Rightarrow> 'w \<Rightarrow> (goerr + gmap) \<times> 'w"
  kGet :: "GVR \<Rightarrow> string \<Rightarrow> 'w \<Rightarrow> (goerr + gmap) \<times> 'w"
  kList :: "GVR \<Rightarrow> 'w \<Rightarrow> (goerr + gmap list) \<times> 'w"
  kDelete :: "GVR \<Rightarrow> string \<Rightarrow> DeleteOptions \<Rightarrow> 'w \<Rightarrow> (goerr + unit) \<times> 'w"
  kUpdateStatus :: "GVR \<Rightarrow> gmap \<Rightarrow> 'w \<Rightarrow> (goerr + gmap) \<times> 'w"
  kGetClaim :: "string \<Rightarrow> string \<Rightarrow> 'w \<Rightarrow> (goerr + ResourceClaim) \<times> 'w"
  kUpdateClaimStatus :: "ResourceClaim \<Rightarrow> 'w \<Rightarrow> (goerr + unit) \<times> 'w"
  kGetPod :: "string \<Rightarrow> string \<Rightarrow> 'w \<Rightarrow> (goerr + Pod) \<times> 'w"
  kUpdatePod :: "Pod \<Rightarrow> 'w \<Rightarrow> (goerr + unit) \<times> 'w"
  kUpdatePodStatus :: "Pod \<Rightarrow> 'w \<Rightarrow> (goerr + unit) \<times> 'w"
  kGetNode :: "string \<Rightarrow> 'w \<Rightarrow> (goerr + Node) \<times> 'w"
  kCreateEvent :: "Event \<Rightarrow> 'w \<Rightarrow> (goerr + unit) \<times> 'w"
  kRetryOnConflict :: "('w \<Rightarrow> (goerr + unit) \<times> 'w) \<Rightarrow> 'w \<Rightarrow> (goerr + unit) \<times> 'w"
  kSetStatusCondition :: "Condition list \<Rightarrow> Condition \<Rightarrow> 'w \<Rightarrow> Condition list"
  kNow :: "'w \<Rightarrow> string"

end
