(* ===== verification/Sha256.thy ===== *)
theory Sha256
  imports Go_Prelude
begin

unbundle bit_operations_syntax

text \<open>
  Go's \<^verbatim>\<open>crypto/sha256.Sum256\<close> (FIPS 180-4) and \<^verbatim>\<open>encoding/hex.EncodeToString\<close>, from which
  the name of an \<^verbatim>\<open>IPAllocation\<close> object is made.  No property of the development needs the
  hash to be collision free: the names identify the object, the object carries the pool and
  the address.
\<close>

text \<open>
  The constants of the standard: 32 bits of the fractional parts of the cube roots of the
  first 64 primes, and of the square roots of the first 8.  The root is found bit by bit.
\<close>

fun root_bits :: "nat \<Rightarrow> nat \<Rightarrow> nat \<Rightarrow> nat \<Rightarrow> nat" where
  "root_bits k n 0 acc = acc"
| "root_bits k n (Suc b) acc =
     (if (acc + 2 ^ b) ^ k \<le> n then root_bits k n b (acc + 2 ^ b) else root_bits k n b acc)"

definition frac_root :: "nat \<Rightarrow> nat \<Rightarrow> u32" where
  "frac_root k p = of_nat (root_bits k (p * 2 ^ (32 * k)) 40 0)"

definition first_primes :: "nat list" where
  "first_primes = filter (\<lambda>p. list_all (\<lambda>d. p mod d \<noteq> 0) [2..<p]) [2..<312]"

definition sha_K :: "u32 list" where
  "sha_K = map (frac_root 3) first_primes"

definition sha_H0 :: "u32 list" where
  "sha_H0 = map (frac_root 2) [2, 3, 5, 7, 11, 13, 17, 19]"

definition sha_bytes :: "string \<Rightarrow> u8 list" where
  "sha_bytes s = map of_char s"

definition sha_pad :: "u8 list \<Rightarrow> u8 list" where
  "sha_pad m = (let l = length m; z = (119 - l mod 64) mod 64 in
     m @ [0x80] @ replicate z 0 @ map (\<lambda>i. of_nat (l * 8 div 2 ^ (8 * (7 - i)))) [0..<8])"

fun sha_words :: "u8 list \<Rightarrow> u32 list" where
  "sha_words (a # b # c # d # r) =
     (push_bit 24 (ucast a) OR push_bit 16 (ucast b) OR push_bit 8 (ucast c) OR ucast d) # sha_words r"
| "sha_words _ = []"

text \<open>The message schedule, kept newest word first.\<close>

definition sha_extend1 :: "u32 list \<Rightarrow> u32" where
  "sha_extend1 w =
     (let x = w ! 14; y = w ! 1;
          s0 = word_rotr 7 x XOR word_rotr 18 x XOR drop_bit 3 x;
          s1 = word_rotr 17 y XOR word_rotr 19 y XOR drop_bit 10 y
      in w ! 15 + s0 + w ! 6 + s1)"

fun sha_schedule :: "nat \<Rightarrow> u32 list \<Rightarrow> u32 list" where
  "sha_schedule 0 w = w"
| "sha_schedule (Suc n) w = sha_schedule n (sha_extend1 w # w)"

fun sha_round :: "u32 list \<Rightarrow> u32 \<times> u32 \<Rightarrow> u32 list" where
  "sha_round [a, b, c, d, e, f, g, h] (k, w) =
     (let s1 = word_rotr 6 e XOR word_rotr 11 e XOR word_rotr 25 e;
          ch = (e AND f) XOR (NOT e AND g);
          t1 = h + s1 + ch + k + w;
          s0 = word_rotr 2 a XOR word_rotr 13 a XOR word_rotr 22 a;
          maj = (a AND b) XOR (a AND c) XOR (b AND c);
          t2 = s0 + maj
      in [t1 + t2, a, b, c, d + t1, e, f, g])"
| "sha_round st _ = st"

definition sha_block :: "u32 list \<Rightarrow> u32 list \<Rightarrow> u32 list" where
  "sha_block st blk =
     map2 (+) st (foldl sha_round st (zip sha_K (rev (sha_schedule 48 (rev blk)))))"

fun sha_blocks :: "nat \<Rightarrow> u32 list \<Rightarrow> u32 list \<Rightarrow> u32 list" where
  "sha_blocks 0 st ws = st"
| "sha_blocks (Suc n) st ws = sha_blocks n (sha_block st (take 16 ws)) (drop 16 ws)"

definition Sum256 :: "string \<Rightarrow> u8 list" where
  "Sum256 s =
     (let ws = sha_words (sha_pad (sha_bytes s)) in
      concat (map (\<lambda>w. [ucast (drop_bit 24 w), ucast (drop_bit 16 w), ucast (drop_bit 8 w), ucast w])
        (sha_blocks (length ws div 16) sha_H0 ws)))"

definition hex_nibble :: "nat \<Rightarrow> char" where
  "hex_nibble k = (if k < 10 then char_of (48 + k) else char_of (87 + k))"

definition EncodeToString :: "u8 list \<Rightarrow> string" where
  "EncodeToString bs = concat (map (\<lambda>b. [hex_nibble (unat b div 16), hex_nibble (unat b mod 16)]) bs)"

section \<open>Shape of the result\<close>

lemma length_sha_round [simp]: "length (sha_round st kw) = length st"
  by (cases "(st, kw)" rule: sha_round.cases) (simp_all add: Let_def)

lemma length_sha_rounds [simp]: "length (foldl sha_round st ws) = length st"
  by (induction ws arbitrary: st) simp_all

lemma length_sha_block [simp]: "length (sha_block st blk) = length st"
  by (simp add: sha_block_def)

lemma length_sha_blocks [simp]: "length (sha_blocks n st ws) = length st"
  by (induction n st ws rule: sha_blocks.induct) simp_all

lemma length_Sum256 [simp]: "length (Sum256 s) = 32"
proof -
  have "sum_list (map (\<lambda>w. Suc (Suc (Suc (Suc 0)))) ws) = 4 * length ws" for ws :: "u32 list"
    by (induction ws) simp_all
  then show ?thesis by (simp add: Sum256_def Let_def length_concat comp_def sha_H0_def)
qed

lemma length_EncodeToString [simp]: "length (EncodeToString bs) = 2 * length bs"
  by (induction bs) (simp_all add: EncodeToString_def)

definition lower_alnum :: "char \<Rightarrow> bool" where
  "lower_alnum c \<longleftrightarrow> is_digit c \<or> 97 \<le> (of_char c :: nat) \<and> (of_char c :: nat) \<le> 122"

lemma lower_alnum_nibble: "k < 16 \<Longrightarrow> lower_alnum (hex_nibble k)"
  by (auto simp: lower_alnum_def hex_nibble_def is_digit_def)

lemma EncodeToString_alnum: "list_all lower_alnum (EncodeToString bs)"
proof -
  have "unat (b :: u8) < 256" for b using unsigned_less [of b, where ?'a = nat] by simp
  then show ?thesis
    by (induction bs) (simp_all add: EncodeToString_def lower_alnum_nibble less_mult_imp_div_less)
qed

end
