(* ===== verification/Ipam_Allocation.thy ===== *)
theory Ipam_Allocation
  imports Kube_API Sha256
begin

text \<open>
  \<^verbatim>\<open>internal/ipamapi/allocation.go\<close>: the cluster-wide \<^verbatim>\<open>IPAllocation\<close> objects.  One object per
  pool and address, named by a hash of the two, so that the API server's refusal to create a
  second object with the same name is the lock that keeps an address from being given twice.
\<close>

section \<open>Objects\<close>

definition IPPoolGVR :: GVR where
  "IPPoolGVR = \<lparr>gvr_Group = ''linux-net.dra.infinitydon.com'', gvr_Version = ''v1alpha1'',
     gvr_Resource = ''ippools''\<rparr>"

definition IPAllocationGVR :: GVR where
  "IPAllocationGVR = \<lparr>gvr_Group = ''linux-net.dra.infinitydon.com'', gvr_Version = ''v1alpha1'',
     gvr_Resource = ''ipallocations''\<rparr>"

record ObjectReference =
  or_Namespace :: string
  or_Name :: string
  or_UID :: uid

record Allocation =
  al_Name :: string
  al_Pool :: string
  al_Address :: string
  al_AllocationType :: string
  al_Claim :: ObjectReference
  al_Pod :: ObjectReference
  al_NodeName :: string

definition AllocationName :: "string \<Rightarrow> string \<Rightarrow> string" where
  "AllocationName pool address =
     ''ipa-'' @ EncodeToString (take 16 (Sum256 (pool @ [CHR 0x00] @ address)))"

definition refMap :: "ObjectReference \<Rightarrow> gval" where
  "refMap r = GMap [(''namespace'', GStr (or_Namespace r)), (''name'', GStr (or_Name r)),
     (''uid'', GStr (or_UID r))]"

definition NewAllocationObject :: "Allocation \<Rightarrow> gmap" where
  "NewAllocationObject a =
     [(''apiVersion'', GStr ''linux-net.dra.infinitydon.com/v1alpha1''),
      (''kind'', GStr ''IPAllocation''),
      (''metadata'', GMap [(''name'', GStr (AllocationName (al_Pool a) (al_Address a))),
         (''labels'', GMap [(''linux-net.dra.infinitydon.com/pool'', GStr (al_Pool a))])]),
      (''spec'', GMap [(''poolRef'', GStr (al_Pool a)), (''address'', GStr (al_Address a)),
         (''allocationType'', GStr (al_AllocationType a)), (''claimRef'', refMap (al_Claim a)),
         (''podRef'', refMap (al_Pod a)), (''nodeName'', GStr (al_NodeName a))])]"

definition referenceFromSpec :: "'z unstr_scheme \<Rightarrow> gmap \<Rightarrow> string \<Rightarrow> ObjectReference" where
  "referenceFromSpec U spec field =
     \<lparr>or_Namespace = fst (uNestedString U spec [field, ''namespace'']),
      or_Name = fst (uNestedString U spec [field, ''name'']),
      or_UID = fst (uNestedString U spec [field, ''uid''])\<rparr>"

definition ParseAllocation :: "'z unstr_scheme \<Rightarrow> gmap \<Rightarrow> goerr + Allocation" where
  "ParseAllocation U obj =
     (case map_of obj ''spec'' of
        Some (GMap spec) \<Rightarrow>
          let a = \<lparr>al_Name = uGetName U obj,
                   al_Pool = fst (uNestedString U spec [''poolRef'']),
                   al_Address = fst (uNestedString U spec [''address'']),
                   al_AllocationType = fst (uNestedString U spec [''allocationType'']),
                   al_Claim = referenceFromSpec U spec ''claimRef'',
                   al_Pod = referenceFromSpec U spec ''podRef'',
                   al_NodeName = fst (uNestedString U spec [''nodeName''])\<rparr>
          in if TrimSpace (al_Pool a) = [] \<or> TrimSpace (al_Address a) = [] \<or> or_UID (al_Claim a) = []
             then Inl (Errorf ''IPAllocation %s is missing poolRef, address, or claimRef.uid'' [uGetName U obj])
             else Inr a
      | _ \<Rightarrow> Inl (Errorf ''IPAllocation %s has no spec'' [uGetName U obj]))"

section \<open>Operations\<close>

definition Reserve :: "('w, 'z) kube_scheme \<Rightarrow> Allocation \<Rightarrow> ('w, gmap) eff" where
  "Reserve K allocation w =
     (let desired = NewAllocationObject allocation in
      case kCreate K IPAllocationGVR desired w of
        (Inr created, w1) \<Rightarrow> (Inr created, w1)
      | (Inl err, w1) \<Rightarrow>
          if \<not> IsAlreadyExists err then (Inl err, w1)
          else
            (case kGet K IPAllocationGVR (uGetName K desired) w1 of
               (Inl getErr, w2) \<Rightarrow> (Inl getErr, w2)
             | (Inr existing, w2) \<Rightarrow>
                 (case ParseAllocation K existing of
                    Inl parseErr \<Rightarrow> (Inl parseErr, w2)
                  | Inr parsed \<Rightarrow>
                      if or_UID (al_Claim parsed) = or_UID (al_Claim allocation)
                         \<and> al_Pool parsed = al_Pool allocation
                         \<and> al_Address parsed = al_Address allocation
                      then (Inr existing, w2)
                      else (Inl (ApiStatus AlreadyExists (uGetName K desired)), w2))))"

text \<open>The loop of \<^verbatim>\<open>DeleteForClaim\<close> over the listed items.\<close>

fun deleteItems :: "('w, 'z) kube_scheme \<Rightarrow> uid \<Rightarrow> gmap list \<Rightarrow> ('w, unit) eff" where
  "deleteItems K claimUID [] w = (Inr (), w)"
| "deleteItems K claimUID (item # items) w =
     (case ParseAllocation K item of
        Inl _ \<Rightarrow> deleteItems K claimUID items w
      | Inr allocation \<Rightarrow>
          if or_UID (al_Claim allocation) \<noteq> claimUID then deleteItems K claimUID items w
          else
            (case kDelete K IPAllocationGVR (uGetName K item)
                    \<lparr>do_UID = uGetUID K item, do_PropagationPolicy = Some ''Background''\<rparr> w of
               (Inr _, w1) \<Rightarrow> deleteItems K claimUID items w1
             | (Inl err, w1) \<Rightarrow>
                 if \<not> IsNotFound err then (Inl err, w1) else deleteItems K claimUID items w1))"

definition DeleteForClaim :: "('w, 'z) kube_scheme \<Rightarrow> uid \<Rightarrow> ('w, unit) eff" where
  "DeleteForClaim K claimUID w =
     (case kList K IPAllocationGVR w of
        (Inl err, w1) \<Rightarrow> if IsNotFound err then (Inr (), w1) else (Inl err, w1)
      | (Inr items, w1) \<Rightarrow> deleteItems K claimUID items w1)"

fun findItem :: "'z unstr_scheme \<Rightarrow> uid \<Rightarrow> gmap list \<Rightarrow> Allocation option" where
  "findItem U claimUID [] = None"
| "findItem U claimUID (item # items) =
     (case ParseAllocation U item of
        Inl _ \<Rightarrow> findItem U claimUID items
      | Inr allocation \<Rightarrow>
          if or_UID (al_Claim allocation) = claimUID then Some allocation
          else findItem U claimUID items)"

text \<open>The pair of a value and a found flag is an option.\<close>

definition FindForClaim :: "('w, 'z) kube_scheme \<Rightarrow> uid \<Rightarrow> ('w, Allocation option) eff" where
  "FindForClaim K claimUID w =
     (case kList K IPAllocationGVR w of
        (Inl err, w1) \<Rightarrow> if IsNotFound err then (Inr None, w1) else (Inl err, w1)
      | (Inr items, w1) \<Rightarrow> (Inr (findItem K claimUID items), w1))"

section \<open>The table of allocations\<close>

text \<open>
  The server's allocation objects by name.  The participants of the cluster change the table
  only by creating an object under the name of its own pool and address, and by deleting
  one: \<open>table_step\<close>.
\<close>

type_synonym table = "string \<rightharpoonup> gmap"

definition well_named :: "'z unstr_scheme \<Rightarrow> string \<Rightarrow> gmap \<Rightarrow> bool" where
  "well_named U n obj \<longleftrightarrow>
     (case ParseAllocation U obj of Inl _ \<Rightarrow> True | Inr a \<Rightarrow> n = AllocationName (al_Pool a) (al_Address a))"

definition wf_table :: "'z unstr_scheme \<Rightarrow> table \<Rightarrow> bool" where
  "wf_table U t \<longleftrightarrow> (\<forall>n obj. t n = Some obj \<longrightarrow> well_named U n obj)"

inductive table_step :: "'z unstr_scheme \<Rightarrow> table \<Rightarrow> table \<Rightarrow> bool" for U where
  create: "t n = None \<Longrightarrow> well_named U n obj \<Longrightarrow> table_step U t (t(n \<mapsto> obj))"
| delete: "t n = Some obj \<Longrightarrow> table_step U t (t(n := None))"

inductive_cases table_stepE: "table_step U t t'"

abbreviation table_steps :: "'z unstr_scheme \<Rightarrow> table \<Rightarrow> table \<Rightarrow> bool" where
  "table_steps U \<equiv> (table_step U)\<^sup>*\<^sup>*"

text \<open>The claims that an object of the table records as owners of an address.\<close>

definition owners :: "'z unstr_scheme \<Rightarrow> table \<Rightarrow> string \<Rightarrow> string \<Rightarrow> uid set" where
  "owners U t pool address =
     {u. \<exists>n obj a. t n = Some obj \<and> ParseAllocation U obj = Inr a \<and> al_Pool a = pool
        \<and> al_Address a = address \<and> or_UID (al_Claim a) = u}"

definition valid_request :: "Allocation \<Rightarrow> bool" where
  "valid_request a \<longleftrightarrow>
     TrimSpace (al_Pool a) \<noteq> [] \<and> TrimSpace (al_Address a) \<noteq> [] \<and> or_UID (al_Claim a) \<noteq> []"

section \<open>What the API server promises\<close>

text \<open>
  A call is atomic at the server, but others may act between two calls of one handler:
  before its own effect a call may see the changes of the other participants, which satisfy
  \<open>rely\<close>.  A create that fails for a reason other than a conflict of names may still have
  taken effect (a lost reply), and so may a failing delete.
\<close>

definition same_object :: "'z unstr_scheme \<Rightarrow> gmap \<Rightarrow> gmap \<Rightarrow> bool" where
  "same_object U c obj \<longleftrightarrow> map_of c ''spec'' = map_of obj ''spec'' \<and> uGetName U c = uGetName U obj"

locale alloc_api = unstructured_lib K for K :: "('w, 'z) kube_scheme" +
  fixes tab :: "'w \<Rightarrow> table" and rely :: "'w \<Rightarrow> 'w \<Rightarrow> bool"
  assumes rely_steps: "rely w w1 \<Longrightarrow> table_steps K (tab w) (tab w1)"
    and tab_names: "tab w n = Some obj \<Longrightarrow> uGetName K obj = n"
    and create_ok: "kCreate K IPAllocationGVR obj w = (Inr c, w') \<Longrightarrow>
      \<exists>w1. rely w w1 \<and> tab w1 (uGetName K obj) = None \<and> same_object K c obj
        \<and> tab w' = (tab w1)(uGetName K obj \<mapsto> c)"
    and create_err: "kCreate K IPAllocationGVR obj w = (Inl e, w') \<Longrightarrow>
      \<exists>w1. rely w w1 \<and> (IsAlreadyExists e \<longrightarrow> tab w1 (uGetName K obj) \<noteq> None) \<and>
        (tab w' = tab w1 \<or> \<not> IsAlreadyExists e \<and> tab w1 (uGetName K obj) = None \<and>
           (\<exists>c. same_object K c obj \<and> tab w' = (tab w1)(uGetName K obj \<mapsto> c)))"
    and get_ok: "kGet K IPAllocationGVR n w = (Inr obj, w') \<Longrightarrow>
      \<exists>w1. rely w w1 \<and> tab w' = tab w1 \<and> tab w1 n = Some obj"
    and get_err: "kGet K IPAllocationGVR n w = (Inl e, w') \<Longrightarrow>
      \<not> IsAlreadyExists e \<and> (\<exists>w1. rely w w1 \<and> tab w' = tab w1)"
    and list_ok: "kList K IPAllocationGVR w = (Inr items, w') \<Longrightarrow>
      \<exists>w1. rely w w1 \<and> tab w' = tab w1 \<and> set items = ran (tab w1)"
    and list_err: "kList K IPAllocationGVR w = (Inl e, w') \<Longrightarrow>
      \<exists>w1. rely w w1 \<and> tab w' = tab w1 \<and> (IsNotFound e \<longrightarrow> tab w1 = Map.empty)"
    and delete_ok: "kDelete K IPAllocationGVR n opts w = (Inr u, w') \<Longrightarrow>
      \<exists>w1 obj. rely w w1 \<and> tab w1 n = Some obj \<and> uGetUID K obj = do_UID opts
        \<and> tab w' = (tab w1)(n := None)"
    and delete_err: "kDelete K IPAllocationGVR n opts w = (Inl e, w') \<Longrightarrow>
      \<exists>w1. rely w w1 \<and> (IsNotFound e \<longrightarrow> tab w1 n = None) \<and>
        (tab w' = tab w1 \<or>
           (\<exists>obj. tab w1 n = Some obj \<and> uGetUID K obj = do_UID opts \<and> tab w' = (tab w1)(n := None)))"

section \<open>Lemmas on names, objects and tables\<close>

lemma ParseAllocation_same: "same_object U c obj \<Longrightarrow> ParseAllocation U c = ParseAllocation U obj"
  unfolding same_object_def ParseAllocation_def by (elim conjE) (simp only:)

lemma well_named_same: "same_object U c obj \<Longrightarrow> well_named U n c = well_named U n obj"
  by (simp add: well_named_def ParseAllocation_same)

context unstructured_lib
begin

lemma GetName_New [simp]:
  "uGetName U (NewAllocationObject a) = AllocationName (al_Pool a) (al_Address a)"
  by (simp add: GetName NewAllocationObject_def)

lemma Parse_New:
  "ParseAllocation U (NewAllocationObject a) =
     (if valid_request a then Inr (a\<lparr>al_Name := AllocationName (al_Pool a) (al_Address a)\<rparr>)
      else Inl (Errorf ''IPAllocation %s is missing poolRef, address, or claimRef.uid''
        [AllocationName (al_Pool a) (al_Address a)]))"
proof -
  have "map_of (NewAllocationObject a) ''spec'' =
      Some (GMap [(''poolRef'', GStr (al_Pool a)), (''address'', GStr (al_Address a)),
         (''allocationType'', GStr (al_AllocationType a)), (''claimRef'', refMap (al_Claim a)),
         (''podRef'', refMap (al_Pod a)), (''nodeName'', GStr (al_NodeName a))])"
    by (simp add: NewAllocationObject_def)
  then show ?thesis
    by (simp add: ParseAllocation_def Let_def NestedString referenceFromSpec_def refMap_def
        valid_request_def)
qed

lemma well_named_New: "well_named U (AllocationName (al_Pool a) (al_Address a)) (NewAllocationObject a)"
  by (simp add: well_named_def Parse_New)

end

lemma table_steps_create:
  "table_steps U t t1 \<Longrightarrow> t1 n = None \<Longrightarrow> well_named U n obj \<Longrightarrow> table_steps U t (t1(n \<mapsto> obj))"
  by (erule rtranclp.rtrancl_into_rtrancl) (rule table_step.create)

lemma table_steps_delete:
  "table_steps U t t1 \<Longrightarrow> t1 n = Some obj \<Longrightarrow> table_steps U t (t1(n := None))"
  by (erule rtranclp.rtrancl_into_rtrancl) (rule table_step.delete)

lemma table_step_wf: "table_step U t t' \<Longrightarrow> wf_table U t \<Longrightarrow> wf_table U t'"
  by (induction rule: table_step.induct) (auto simp: wf_table_def split: if_splits)

lemma table_steps_wf: "table_steps U t t' \<Longrightarrow> wf_table U t \<Longrightarrow> wf_table U t'"
  by (induction rule: rtranclp_induct) (auto intro: table_step_wf)

text \<open>In a well-formed table an address is owned through the object of its own name.\<close>

lemma owners_named:
  "wf_table U t \<Longrightarrow> u \<in> owners U t pool address \<Longrightarrow>
     \<exists>obj a. t (AllocationName pool address) = Some obj \<and> ParseAllocation U obj = Inr a
       \<and> al_Pool a = pool \<and> al_Address a = address \<and> or_UID (al_Claim a) = u"
  by (fastforce simp: owners_def wf_table_def well_named_def)

lemma owners_unique:
  "wf_table U t \<Longrightarrow> u \<in> owners U t pool address \<Longrightarrow> v \<in> owners U t pool address \<Longrightarrow> u = v"
  by (metis owners_named option.inject sum.inject(2))

lemma owners_I:
  "t n = Some obj \<Longrightarrow> ParseAllocation U obj = Inr a \<Longrightarrow>
     or_UID (al_Claim a) \<in> owners U t (al_Pool a) (al_Address a)"
  by (auto simp: owners_def)

text \<open>An address changes hands only through a state in which its object does not exist.\<close>

lemma same_entry_or_gap:
  "table_steps U t t' \<Longrightarrow> t n = Some obj \<Longrightarrow>
     t' n = Some obj \<or> (\<exists>t1. table_steps U t t1 \<and> t1 n = None \<and> table_steps U t1 t')"
proof (induction rule: rtranclp_induct)
  case base
  then show ?case by simp
next
  case (step t1 t2)
  then consider "t1 n = Some obj"
    | t0 where "table_steps U t t0" "t0 n = None" "table_steps U t0 t1" by blast
  then show ?case
  proof cases
    case 1
    show ?thesis
    proof (cases "t2 n = Some obj")
      case False
      with step.hyps(2) 1 have "t2 n = None"
        by (auto elim!: table_stepE split: if_splits)
      with step.hyps show ?thesis by (meson rtranclp.rtrancl_into_rtrancl rtranclp.rtrancl_refl)
    qed simp
  next
    case 2
    with step.hyps(2) show ?thesis by (meson rtranclp.rtrancl_into_rtrancl)
  qed
qed

section \<open>Operations over any server\<close>

context alloc_api
begin

lemma create_step:
  assumes "kCreate K IPAllocationGVR (NewAllocationObject a) w = (r, w')"
  shows "table_steps K (tab w) (tab w')"
proof -
  let ?n = "AllocationName (al_Pool a) (al_Address a)"
  have "\<exists>w1. rely w w1 \<and> (tab w' = tab w1 \<or>
      tab w1 ?n = None \<and> (\<exists>c. same_object K c (NewAllocationObject a) \<and> tab w' = (tab w1)(?n \<mapsto> c)))"
  proof (cases r)
    case (Inl e)
    with create_err [of "NewAllocationObject a" w e w'] assms show ?thesis by auto
  next
    case (Inr c)
    with create_ok [of "NewAllocationObject a" w c w'] assms show ?thesis by auto
  qed
  then obtain w1 where w1: "table_steps K (tab w) (tab w1)" and "tab w' = tab w1 \<or>
      tab w1 ?n = None \<and> (\<exists>c. same_object K c (NewAllocationObject a) \<and> tab w' = (tab w1)(?n \<mapsto> c))"
    using rely_steps by blast
  then show ?thesis
    using table_steps_create [OF w1] well_named_New [of a] by (auto simp: well_named_same)
qed

lemma get_step:
  assumes "kGet K IPAllocationGVR n w = (r, w')"
  shows "table_steps K (tab w) (tab w')"
proof (cases r)
  case (Inl e)
  with get_err [of n w e w'] assms rely_steps show ?thesis by auto
next
  case (Inr obj)
  with get_ok [of n w obj w'] assms rely_steps show ?thesis by auto
qed

lemma list_step:
  assumes "kList K IPAllocationGVR w = (r, w')"
  shows "table_steps K (tab w) (tab w')"
proof (cases r)
  case (Inl e)
  with assms list_err [of w e w'] obtain w1 where "rely w w1" "tab w' = tab w1" by metis
  with rely_steps show ?thesis by metis
next
  case (Inr items)
  with assms list_ok [of w items w'] obtain w1 where "rely w w1" "tab w' = tab w1" by metis
  with rely_steps show ?thesis by metis
qed

lemma delete_step:
  assumes "kDelete K IPAllocationGVR n opts w = (r, w')"
  shows "table_steps K (tab w) (tab w')"
proof -
  have "\<exists>w1. rely w w1 \<and> (tab w' = tab w1 \<or> (\<exists>obj. tab w1 n = Some obj \<and> tab w' = (tab w1)(n := None)))"
  proof (cases r)
    case (Inl e)
    with delete_err [of n opts w e w'] assms show ?thesis by auto
  next
    case (Inr u)
    with delete_ok [of n opts w u w'] assms show ?thesis by auto
  qed
  then show ?thesis using rely_steps table_steps_delete by metis
qed

lemma Reserve_steps:
  assumes "Reserve K a w = (r, w')"
  shows "table_steps K (tab w) (tab w')"
proof (cases "kCreate K IPAllocationGVR (NewAllocationObject a) w")
  case (Pair r1 w1)
  then have 1: "table_steps K (tab w) (tab w1)" by (rule create_step)
  obtain r2 w2 where g: "kGet K IPAllocationGVR (uGetName K (NewAllocationObject a)) w1 = (r2, w2)"
    by fastforce
  then have "table_steps K (tab w1) (tab w2)" by (rule get_step)
  with 1 have 2: "table_steps K (tab w) (tab w2)" by simp
  from assms Pair g have "w' = w1 \<or> w' = w2"
    by (auto simp: Reserve_def Let_def split: go_split)
  with 1 2 show ?thesis by blast
qed

text \<open>A successful reservation leaves the claim's own object under the address's name.\<close>

lemma Reserve_Inr:
  assumes "Reserve K a w = (Inr obj, w')" and "valid_request a"
  shows "\<exists>p. tab w' (AllocationName (al_Pool a) (al_Address a)) = Some obj \<and> ParseAllocation K obj = Inr p
    \<and> al_Pool p = al_Pool a \<and> al_Address p = al_Address a \<and> or_UID (al_Claim p) = or_UID (al_Claim a)"
proof (cases "kCreate K IPAllocationGVR (NewAllocationObject a) w")
  case (Pair r1 w1)
  show ?thesis
  proof (cases r1)
    case (Inr c)
    with Pair assms(1) have "obj = c" "w' = w1" by (auto simp: Reserve_def)
    with Pair Inr have "same_object K obj (NewAllocationObject a)"
      and "tab w' (AllocationName (al_Pool a) (al_Address a)) = Some obj"
      using create_ok by fastforce+
    with assms(2) show ?thesis by (simp add: ParseAllocation_same Parse_New)
  next
    case (Inl e)
    with Pair assms(1) obtain p where
        g: "kGet K IPAllocationGVR (AllocationName (al_Pool a) (al_Address a)) w1 = (Inr obj, w')"
      and p: "ParseAllocation K obj = Inr p" "or_UID (al_Claim p) = or_UID (al_Claim a)"
        "al_Pool p = al_Pool a" "al_Address p = al_Address a"
      by (auto simp: Reserve_def Let_def split: go_split)
    from get_ok [OF g] have "tab w' (AllocationName (al_Pool a) (al_Address a)) = Some obj" by auto
    with p show ?thesis by blast
  qed
qed

text \<open>A reservation is refused with \<^const>\<open>AlreadyExists\<close> only when the name is taken.\<close>

lemma Reserve_refused:
  assumes "Reserve K a w = (Inl e, w')" and "IsAlreadyExists e"
  shows "\<exists>w1. rely w w1 \<and> tab w1 (AllocationName (al_Pool a) (al_Address a)) \<noteq> None"
proof (cases "kCreate K IPAllocationGVR (NewAllocationObject a) w")
  case (Pair r1 w1)
  with assms obtain e1 where "r1 = Inl e1" and "IsAlreadyExists e1"
    by (auto simp: Reserve_def Let_def split: go_split)
  with Pair create_err [of "NewAllocationObject a" w e1 w1] show ?thesis by auto
qed

lemma findItem_Some:
  "findItem K u items = Some a \<Longrightarrow> \<exists>obj \<in> set items. ParseAllocation K obj = Inr a \<and> or_UID (al_Claim a) = u"
  by (induction items) (auto split: go_split)

lemma findItem_None:
  "findItem K u items = None \<Longrightarrow> obj \<in> set items \<Longrightarrow> ParseAllocation K obj = Inr a \<Longrightarrow> or_UID (al_Claim a) \<noteq> u"
  by (induction items) (auto split: go_split)

lemma FindForClaim_Some:
  assumes "FindForClaim K u w = (Inr (Some a), w')"
  shows "u \<in> owners K (tab w') (al_Pool a) (al_Address a)"
proof -
  from assms obtain items where l: "kList K IPAllocationGVR w = (Inr items, w')"
    and f: "findItem K u items = Some a"
    by (auto simp: FindForClaim_def split: go_split)
  from findItem_Some [OF f] obtain obj where obj: "obj \<in> set items" "ParseAllocation K obj = Inr a"
    "or_UID (al_Claim a) = u" by blast
  from list_ok [OF l] have "set items = ran (tab w')" by metis
  with obj(1) obtain n where n: "tab w' n = Some obj" by (auto simp: ran_def)
  from owners_I [of "tab w'", OF n obj(2)] obj(3) show ?thesis by simp
qed

lemma FindForClaim_None:
  assumes "FindForClaim K u w = (Inr None, w')"
  shows "u \<notin> owners K (tab w') pool address"
proof -
  from assms consider items where "kList K IPAllocationGVR w = (Inr items, w')" "findItem K u items = None"
    | e where "kList K IPAllocationGVR w = (Inl e, w')" "IsNotFound e"
    by (auto simp: FindForClaim_def split: go_split)
  then show ?thesis
  proof cases
    case 1
    from list_ok [OF 1(1)] have "set items = ran (tab w')" by metis
    with findItem_None [OF 1(2)] have "\<And>n obj a. tab w' n = Some obj \<Longrightarrow> ParseAllocation K obj = Inr a
        \<Longrightarrow> or_UID (al_Claim a) \<noteq> u" by (metis ranI)
    then show ?thesis by (auto simp: owners_def)
  next
    case 2
    from list_err [OF 2(1)] 2(2) have "tab w' = Map.empty" by metis
    then show ?thesis by (simp add: owners_def)
  qed
qed

lemma FindForClaim_steps:
  assumes "FindForClaim K u w = (r, w')"
  shows "table_steps K (tab w) (tab w')"
proof (rule list_step)
  from assms show "kList K IPAllocationGVR w = (fst (kList K IPAllocationGVR w), w')"
    by (auto simp: FindForClaim_def split: go_split)
qed

lemma deleteItems_steps: "deleteItems K u items w = (r, w') \<Longrightarrow> table_steps K (tab w) (tab w')"
proof (induction items arbitrary: w)
  case Nil
  then show ?case by simp
next
  case (Cons item items)
  from Cons.prems consider "deleteItems K u items w = (r, w')"
    | r1 w1 opts where "kDelete K IPAllocationGVR (uGetName K item) opts w = (r1, w1)"
        "deleteItems K u items w1 = (r, w') \<or> w' = w1"
    by (auto split: go_split)
  then show ?case
  proof cases
    case 2
    with delete_step Cons.IH show ?thesis by (metis rtranclp_trans)
  qed (rule Cons.IH)
qed

lemma DeleteForClaim_steps:
  assumes "DeleteForClaim K u w = (r, w')"
  shows "table_steps K (tab w) (tab w')"
proof (cases "kList K IPAllocationGVR w")
  case (Pair r1 w1)
  with assms have "w' = w1 \<or> (\<exists>items. deleteItems K u items w1 = (r, w'))"
    by (auto simp: DeleteForClaim_def split: go_split)
  with list_step [OF Pair] deleteItems_steps [of u _ w1 r w'] show ?thesis
    by (metis rtranclp_trans)
qed

end

definition owned_by :: "'z unstr_scheme \<Rightarrow> uid \<Rightarrow> gmap \<Rightarrow> bool" where
  "owned_by U u obj \<longleftrightarrow> (case ParseAllocation U obj of Inl _ \<Rightarrow> False | Inr a \<Rightarrow> or_UID (al_Claim a) = u)"

text \<open>The table without the objects of a claim.\<close>

definition without_claim :: "'z unstr_scheme \<Rightarrow> uid \<Rightarrow> table \<Rightarrow> table" where
  "without_claim U u t n = (case t n of Some obj \<Rightarrow> if owned_by U u obj then None else Some obj | None \<Rightarrow> None)"

text \<open>With no other participant, a deletion that reports success has removed exactly the claim's objects.\<close>

locale quiet_alloc_api = alloc_api K tab rely for K :: "('w, 'z) kube_scheme" and tab rely +
  assumes quiet: "rely w w1 \<Longrightarrow> tab w1 = tab w"
begin

lemma delete_quiet:
  assumes "kDelete K IPAllocationGVR n opts w = (r, w')" and "r = Inr u \<or> r = Inl e \<and> IsNotFound e"
  shows "tab w' = (tab w)(n := None)"
  using assms(2)
proof
  assume "r = Inr u"
  with assms(1) delete_ok [of n opts w u w'] obtain w1 where
      "rely w w1" "tab w' = (tab w1)(n := None)" by blast
  then show ?thesis using quiet [of w w1] by simp
next
  assume "r = Inl e \<and> IsNotFound e"
  with assms(1) delete_err [of n opts w e w'] obtain w1 where
      "rely w w1" "tab w1 n = None" "tab w' = tab w1" by (metis option.distinct(1))
  then have "tab w n = None" "tab w' = tab w" using quiet [of w w1] by simp_all
  then show ?thesis by (simp add: fun_upd_idem)
qed

lemma Reserve_quiet_refused:
  assumes "Reserve K a w = (Inl e, w')" and "IsAlreadyExists e"
  shows "tab w' = tab w \<and> (\<exists>obj. tab w (AllocationName (al_Pool a) (al_Address a)) = Some obj
     \<and> (\<forall>p. ParseAllocation K obj = Inr p \<longrightarrow> \<not> (or_UID (al_Claim p) = or_UID (al_Claim a)
          \<and> al_Pool p = al_Pool a \<and> al_Address p = al_Address a)))"
proof (cases "kCreate K IPAllocationGVR (NewAllocationObject a) w")
  case (Pair r1 w1)
  let ?n = "AllocationName (al_Pool a) (al_Address a)"
  from Pair assms obtain e1 where e1: "r1 = Inl e1" "IsAlreadyExists e1"
    by (auto simp: Reserve_def Let_def split: go_split)
  with Pair create_err [of "NewAllocationObject a" w e1 w1] obtain w0 where
      "rely w w0" "tab w0 ?n \<noteq> None" "tab w1 = tab w0" by auto
  with quiet [of w w0] have t1: "tab w1 = tab w" and n: "tab w ?n \<noteq> None" by simp_all
  obtain r2 w2 where g: "kGet K IPAllocationGVR ?n w1 = (r2, w2)" by fastforce
  from Pair e1 g assms(1) have w': "w' = w2" by (auto simp: Reserve_def Let_def split: go_split)
  show ?thesis
  proof (cases r2)
    case (Inl e2)
    with g get_err [of ?n w1 e2 w2] quiet t1 have "tab w2 = tab w" by metis
    moreover from Inl Pair e1 g assms have "IsAlreadyExists e2" by (simp add: Reserve_def Let_def)
    ultimately show ?thesis using get_err [of ?n w1 e2 w2] g Inl by blast
  next
    case (Inr obj)
    with g get_ok [of ?n w1 obj w2] obtain w3 where "rely w1 w3" "tab w2 = tab w3" "tab w3 ?n = Some obj"
      by blast
    with quiet [of w1 w3] t1 have "tab w2 = tab w" "tab w ?n = Some obj" by simp_all
    with w' Inr Pair e1 g assms(1) show ?thesis
      by (auto simp: Reserve_def Let_def split: go_split)
  qed
qed

lemma deleteItems_quiet:
  "deleteItems K u items w = (Inr x, w') \<Longrightarrow>
     tab w' = (\<lambda>n. if \<exists>item\<in>set items. owned_by K u item \<and> uGetName K item = n then None else tab w n)"
proof (induction items arbitrary: w)
  case Nil
  then show ?case by auto
next
  case (Cons item items)
  show ?case
  proof (cases "owned_by K u item")
    case False
    with Cons.prems have "deleteItems K u items w = (Inr x, w')"
      by (auto simp: owned_by_def split: go_split)
    from Cons.IH [OF this] False show ?thesis by auto
  next
    case True
    with Cons.prems obtain r w1 opts where
        d: "kDelete K IPAllocationGVR (uGetName K item) opts w = (r, w1)"
      and r: "(\<exists>u. r = Inr u) \<or> (\<exists>e. r = Inl e \<and> IsNotFound e)"
      and rest: "deleteItems K u items w1 = (Inr x, w')"
      by (auto simp: owned_by_def split: go_split)
    from d r have "tab w1 = (tab w)(uGetName K item := None)" using delete_quiet by blast
    with Cons.IH [OF rest] True show ?thesis by fastforce
  qed
qed

lemma DeleteForClaim_quiet:
  assumes "DeleteForClaim K u w = (Inr x, w')"
  shows "tab w' = without_claim K u (tab w)"
proof (cases "kList K IPAllocationGVR w")
  case (Pair r w1)
  show ?thesis
  proof (cases r)
    case (Inl e)
    with Pair assms have "IsNotFound e" "w' = w1" by (auto simp: DeleteForClaim_def split: go_split)
    with Pair Inl list_err [of w e w1] quiet have "tab w' = Map.empty" "tab w = Map.empty" by metis+
    then show ?thesis by (simp add: without_claim_def fun_eq_iff)
  next
    case (Inr items)
    with Pair have l: "kList K IPAllocationGVR w = (Inr items, w1)" by simp
    with assms have d: "deleteItems K u items w1 = (Inr x, w')" by (simp add: DeleteForClaim_def)
    from list_ok [OF l] quiet have i: "set items = ran (tab w)" and t: "tab w1 = tab w" by metis+
    have "(\<exists>item\<in>set items. owned_by K u item \<and> uGetName K item = n) \<longleftrightarrow>
        (\<exists>obj. tab w n = Some obj \<and> owned_by K u obj)" for n
      unfolding i ran_def using tab_names by blast
    with deleteItems_quiet [OF d] t show ?thesis
      by (fastforce simp: without_claim_def fun_eq_iff split: option.splits)
  qed
qed

end

text \<open>
  With other participants at work, but none that allocates for this claim, a deletion that
  reports success leaves no object of the claim.
\<close>

locale release_api = alloc_api K tab rely for K :: "('w, 'z) kube_scheme" and tab rely +
  fixes u :: uid
  assumes no_new: "rely w w1 \<Longrightarrow> tab w1 n = Some obj \<Longrightarrow> owned_by K u obj \<Longrightarrow> tab w n = Some obj"
begin

lemma deleteItems_release:
  "deleteItems K u items w = (Inr x, w') \<Longrightarrow>
     (\<And>n obj. tab w n = Some obj \<Longrightarrow> owned_by K u obj \<Longrightarrow> obj \<in> set items) \<Longrightarrow>
     tab w' n = Some obj \<Longrightarrow> \<not> owned_by K u obj"
proof (induction items arbitrary: w)
  case Nil
  then show ?case by auto
next
  case (Cons item items)
  show ?case
  proof (cases "owned_by K u item")
    case False
    with Cons.prems(1) have "deleteItems K u items w = (Inr x, w')"
      by (auto simp: owned_by_def split: go_split)
    from Cons.IH [OF this] Cons.prems(2,3) False show ?thesis by (metis set_ConsD)
  next
    case True
    with Cons.prems(1) obtain r w1 opts where
        d: "kDelete K IPAllocationGVR (uGetName K item) opts w = (r, w1)"
      and r: "(\<exists>u. r = Inr u) \<or> (\<exists>e. r = Inl e \<and> IsNotFound e)"
      and rest: "deleteItems K u items w1 = (Inr x, w')"
      by (auto simp: owned_by_def split: go_split)
    from r d obtain w0 where w0: "rely w w0" and w1: "tab w1 = (tab w0)(uGetName K item := None)"
      using delete_ok delete_err by (metis fun_upd_idem option.distinct(1))
    have "obj \<in> set items" if "tab w1 n = Some obj" "owned_by K u obj" for n obj
    proof -
      from that(1) w1 have n: "n \<noteq> uGetName K item" "tab w0 n = Some obj" by (auto split: if_splits)
      with no_new [OF w0] that(2) Cons.prems(2) tab_names show ?thesis by (metis set_ConsD)
    qed
    with Cons.IH [OF rest] Cons.prems(3) show ?thesis by blast
  qed
qed

lemma DeleteForClaim_release:
  assumes "DeleteForClaim K u w = (Inr x, w')" and "tab w' n = Some obj"
  shows "\<not> owned_by K u obj"
proof (cases "kList K IPAllocationGVR w")
  case (Pair r w1)
  show ?thesis
  proof (cases r)
    case (Inl e)
    with Pair assms(1) have "IsNotFound e" "w' = w1" by (auto simp: DeleteForClaim_def split: go_split)
    with Pair Inl list_err [of w e w1] have "tab w' = Map.empty" by metis
    with assms(2) show ?thesis by simp
  next
    case (Inr items)
    with Pair have l: "kList K IPAllocationGVR w = (Inr items, w1)" by simp
    with assms(1) have d: "deleteItems K u items w1 = (Inr x, w')" by (simp add: DeleteForClaim_def)
    from list_ok [OF l] have "set items = ran (tab w1)" by metis
    then have "obj \<in> set items" if "tab w1 n = Some obj" for n obj using that by (simp add: ranI)
    with deleteItems_release [OF d _ assms(2)] show ?thesis by blast
  qed
qed

end

sublocale quiet_alloc_api \<subseteq> release_api K tab rely u for u
  by unfold_locales (simp add: quiet)

end
