(* ===== verification/Api_Server.thy ===== *)
theory Api_Server
  imports Ipam_Allocation
begin

text \<open>
  An API server in the small, on which the laws of \<open>alloc_api\<close> are discharged and the
  model's operations evaluated: it keeps the objects, gives a fresh UID to each object it
  creates, refuses a second object with a name, honours the UID precondition of a delete,
  lets other participants act before each call, and may lose a request or a reply.
\<close>

datatype foreign = FCreate Allocation | FDelete string

datatype fault = NoFault | LostRequest | LostReply

record server =
  sv_allocs :: "gmap list"
  sv_pools :: "gmap list"
  sv_claims :: "ResourceClaim list"
  sv_pods :: "Pod list"
  sv_nodes :: "(string \<times> Node) list"
  sv_events :: "Event list"
  sv_next :: nat
  sv_foreign :: "foreign list list"
  sv_faults :: "fault list"

section \<open>Objects by name\<close>

abbreviation doc_name :: "gmap \<Rightarrow> string" where
  "doc_name \<equiv> uGetName doc_unstr"

definition doc_metadata :: "gmap \<Rightarrow> gmap" where
  "doc_metadata obj = (case as_map (map_of obj ''metadata'') of Some m \<Rightarrow> m | None \<Rightarrow> [])"

definition stamp :: "nat \<Rightarrow> gmap \<Rightarrow> gmap" where
  "stamp k obj = gput ''metadata'' (GMap (gput ''uid'' (GStr (''uid-'' @ utoa k)) (doc_metadata obj))) obj"

definition by_name :: "gmap list \<Rightarrow> string \<Rightarrow> gmap option" where
  "by_name objs n = find (\<lambda>obj. doc_name obj = n) objs"

definition uniq :: "gmap list \<Rightarrow> gmap list" where
  "uniq objs = map (\<lambda>n. the (by_name objs n)) (remdups (map doc_name objs))"

definition sv_tab :: "server \<Rightarrow> table" where
  "sv_tab s = by_name (sv_allocs s)"

section \<open>Effects of the calls\<close>

definition sv_create :: "gmap \<Rightarrow> (server, gmap) eff" where
  "sv_create obj s =
     (if sv_tab s (doc_name obj) \<noteq> None then (Inl (ApiStatus AlreadyExists (doc_name obj)), s)
      else let c = stamp (sv_next s) obj
           in (Inr c, s\<lparr>sv_allocs := sv_allocs s @ [c], sv_next := Suc (sv_next s)\<rparr>))"

definition sv_remove :: "string \<Rightarrow> server \<Rightarrow> server" where
  "sv_remove n s = s\<lparr>sv_allocs := filter (\<lambda>obj. doc_name obj \<noteq> n) (sv_allocs s)\<rparr>"

definition sv_delete :: "string \<Rightarrow> DeleteOptions \<Rightarrow> (server, unit) eff" where
  "sv_delete n opts s =
     (case sv_tab s n of
        None \<Rightarrow> (Inl (ApiStatus NotFound n), s)
      | Some obj \<Rightarrow>
          if uGetUID doc_unstr obj \<noteq> do_UID opts then (Inl (ApiStatus Conflict n), s)
          else (Inr (), sv_remove n s))"

definition sv_get :: "string \<Rightarrow> (server, gmap) eff" where
  "sv_get n s = (case sv_tab s n of None \<Rightarrow> (Inl (ApiStatus NotFound n), s) | Some obj \<Rightarrow> (Inr obj, s))"

definition sv_list :: "(server, gmap list) eff" where
  "sv_list s = (Inr (uniq (sv_allocs s)), s)"

fun foreign_act :: "foreign \<Rightarrow> server \<Rightarrow> server" where
  "foreign_act (FCreate a) s = snd (sv_create (NewAllocationObject a) s)"
| "foreign_act (FDelete n) s = sv_remove n s"

definition interfere :: "server \<Rightarrow> server" where
  "interfere s = (case sv_foreign s of [] \<Rightarrow> s | b # bs \<Rightarrow> fold foreign_act b (s\<lparr>sv_foreign := bs\<rparr>))"

definition next_fault :: "server \<Rightarrow> fault \<times> server" where
  "next_fault s = (case sv_faults s of [] \<Rightarrow> (NoFault, s) | f # fs \<Rightarrow> (f, s\<lparr>sv_faults := fs\<rparr>))"

text \<open>A call: the others act, then the request is lost, or it is served and its reply may be lost.\<close>

definition serve :: "(server \<Rightarrow> server) \<Rightarrow> (server, 'a) eff \<Rightarrow> (server, 'a) eff" where
  "serve env m s =
     (let (f, s1) = next_fault (env s) in
      case f of
        NoFault \<Rightarrow> m s1
      | LostRequest \<Rightarrow> (Inl (ApiStatus (OtherReason ''Timeout'') ''lost''), s1)
      | LostReply \<Rightarrow> (Inl (ApiStatus (OtherReason ''Timeout'') ''lost''), snd (m s1)))"

text \<open>Pools, and the typed objects.\<close>

definition sv_updateStatus :: "GVR \<Rightarrow> gmap \<Rightarrow> (server, gmap) eff" where
  "sv_updateStatus g obj s =
     (if g = IPPoolGVR \<and> doc_name obj \<in> doc_name ` set (sv_pools s)
      then (Inr obj, s\<lparr>sv_pools := map (\<lambda>p. if doc_name p = doc_name obj then obj else p) (sv_pools s)\<rparr>)
      else (Inl (ApiStatus NotFound (doc_name obj)), s))"

definition sv_getClaim :: "string \<Rightarrow> string \<Rightarrow> (server, ResourceClaim) eff" where
  "sv_getClaim ns n s =
     (case find (\<lambda>c. rc_Namespace c = ns \<and> rc_Name c = n) (sv_claims s) of
        None \<Rightarrow> (Inl (ApiStatus NotFound n), s) | Some c \<Rightarrow> (Inr c, s))"

definition sv_updateClaimStatus :: "ResourceClaim \<Rightarrow> (server, unit) eff" where
  "sv_updateClaimStatus c s =
     (case sv_getClaim (rc_Namespace c) (rc_Name c) s of
        (Inl e, _) \<Rightarrow> (Inl e, s)
      | (Inr _, _) \<Rightarrow> (Inr (), s\<lparr>sv_claims := map (\<lambda>d. if rc_Namespace d = rc_Namespace c \<and> rc_Name d = rc_Name c
            then d\<lparr>rc_Devices := rc_Devices c\<rparr> else d) (sv_claims s)\<rparr>))"

definition sv_getPod :: "string \<Rightarrow> string \<Rightarrow> (server, Pod) eff" where
  "sv_getPod ns n s =
     (case find (\<lambda>p. pod_Namespace p = ns \<and> pod_Name p = n) (sv_pods s) of
        None \<Rightarrow> (Inl (ApiStatus NotFound n), s) | Some p \<Rightarrow> (Inr p, s))"

definition sv_updatePod :: "(Pod \<Rightarrow> Pod) \<Rightarrow> Pod \<Rightarrow> (server, unit) eff" where
  "sv_updatePod upd p s =
     (case sv_getPod (pod_Namespace p) (pod_Name p) s of
        (Inl e, _) \<Rightarrow> (Inl e, s)
      | (Inr _, _) \<Rightarrow> (Inr (), s\<lparr>sv_pods := map (\<lambda>q. if pod_Namespace q = pod_Namespace p
            \<and> pod_Name q = pod_Name p then upd q else q) (sv_pods s)\<rparr>))"

definition sv_getNode :: "string \<Rightarrow> (server, Node) eff" where
  "sv_getNode n s =
     (case map_of (sv_nodes s) n of None \<Rightarrow> (Inl (ApiStatus NotFound n), s) | Some d \<Rightarrow> (Inr d, s))"

definition sv_createEvent :: "Event \<Rightarrow> (server, unit) eff" where
  "sv_createEvent e s = (Inr (), s\<lparr>sv_events := sv_events s @ [e]\<rparr>)"

text \<open>client-go's \<^verbatim>\<open>RetryOnConflict\<close> with the default back-off of four attempts.\<close>

fun retry_steps :: "nat \<Rightarrow> ('w \<Rightarrow> (goerr + unit) \<times> 'w) \<Rightarrow> 'w \<Rightarrow> (goerr + unit) \<times> 'w" where
  "retry_steps 0 f w = f w"
| "retry_steps (Suc k) f w =
     (case f w of
        (Inl e, w1) \<Rightarrow> if IsConflict e then retry_steps k f w1 else (Inl e, w1)
      | (Inr u, w1) \<Rightarrow> (Inr u, w1))"

fun setStatusCondition :: "string \<Rightarrow> Condition list \<Rightarrow> Condition \<Rightarrow> Condition list" where
  "setStatusCondition t [] c = [c\<lparr>cond_LastTransitionTime := t\<rparr>]"
| "setStatusCondition t (d # ds) c =
     (if cond_Type d = cond_Type c
      then c\<lparr>cond_LastTransitionTime := if cond_Status d = cond_Status c then cond_LastTransitionTime d else t\<rparr> # ds
      else d # setStatusCondition t ds c)"

definition sv_time :: "server \<Rightarrow> string" where
  "sv_time s = ''2025-01-01T00:00:00Z''"

definition server_kube :: "(server \<Rightarrow> server) \<Rightarrow> server kube" where
  "server_kube env = unstr.extend doc_unstr (kube.fields
     (\<lambda>g obj. serve env (if g = IPAllocationGVR then sv_create obj else fail (ApiStatus NotFound [])))
     (\<lambda>g n. serve env (if g = IPAllocationGVR then sv_get n else fail (ApiStatus NotFound n)))
     (\<lambda>g. serve env (if g = IPAllocationGVR then sv_list
        else if g = IPPoolGVR then (\<lambda>s. (Inr (uniq (sv_pools s)), s)) else fail (ApiStatus NotFound [])))
     (\<lambda>g n opts. serve env (if g = IPAllocationGVR then sv_delete n opts else fail (ApiStatus NotFound n)))
     (\<lambda>g obj. serve env (sv_updateStatus g obj))
     (\<lambda>ns n. serve env (sv_getClaim ns n)) (\<lambda>c. serve env (sv_updateClaimStatus c))
     (\<lambda>ns n. serve env (sv_getPod ns n))
     (\<lambda>p. serve env (sv_updatePod (\<lambda>q. q\<lparr>pod_Annotations := pod_Annotations p\<rparr>) p))
     (\<lambda>p. serve env (sv_updatePod (\<lambda>q. q\<lparr>pod_Conditions := pod_Conditions p\<rparr>) p))
     (\<lambda>n. serve env (sv_getNode n)) (\<lambda>e. serve env (sv_createEvent e))
     (retry_steps 3) (\<lambda>cs c s. setStatusCondition (sv_time s) cs c) sv_time)"

section \<open>The laws hold\<close>

definition sv_rely :: "(server \<Rightarrow> server) \<Rightarrow> server \<Rightarrow> server \<Rightarrow> bool" where
  "sv_rely env s s1 \<longleftrightarrow> s1 = snd (next_fault (env s))"

lemmas server_ops = server_kube_def kube.defs unstr.defs

lemma server_kube_sel [simp]:
  "uGetName (server_kube env) = uGetName doc_unstr"
  "uGetUID (server_kube env) = uGetUID doc_unstr"
  "kCreate (server_kube env) IPAllocationGVR obj = serve env (sv_create obj)"
  "kGet (server_kube env) IPAllocationGVR n = serve env (sv_get n)"
  "kList (server_kube env) IPAllocationGVR = serve env sv_list"
  "kDelete (server_kube env) IPAllocationGVR n opts = serve env (sv_delete n opts)"
  "kList (server_kube env) IPPoolGVR = serve env (\<lambda>s. (Inr (uniq (sv_pools s)), s))"
  "kUpdateStatus (server_kube env) g obj = serve env (sv_updateStatus g obj)"
  "kGetClaim (server_kube env) ns m = serve env (sv_getClaim ns m)"
  by (simp_all add: server_ops doc_unstr_def IPAllocationGVR_def IPPoolGVR_def)

interpretation svu: unstructured_lib "server_kube env" for env
  unfolding server_kube_def by (rule doc.unstructured_lib_axioms)

lemma doc_name_def: "doc_name obj = fst (as_string (nested obj [''metadata'', ''name'']))"
  by (simp add: doc_unstr_def)

lemma stamp_spec [simp]: "map_of (stamp k obj) ''spec'' = map_of obj ''spec''"
  by (simp add: stamp_def)

lemma stamp_name [simp]: "doc_name (stamp k obj) = doc_name obj"
  by (cases "map_of obj ''metadata''" ; cases "the (map_of obj ''metadata'')")
    (auto simp: stamp_def doc_name_def doc_metadata_def)

lemma same_object_stamp: "same_object (server_kube env) (stamp k obj) obj"
  by (simp add: same_object_def)

lemma by_name_name: "by_name objs n = Some obj \<Longrightarrow> doc_name obj = n"
  by (auto simp: by_name_def find_Some_iff)

lemma sv_tab_names: "sv_tab s n = Some obj \<Longrightarrow> doc_name obj = n"
  by (simp add: sv_tab_def by_name_name)

lemma sv_tab_cong: "sv_allocs s = sv_allocs s' \<Longrightarrow> sv_tab s = sv_tab s'"
  by (simp add: sv_tab_def fun_eq_iff)

lemma find_append: "find P (xs @ ys) = (case find P xs of None \<Rightarrow> find P ys | Some x \<Rightarrow> Some x)"
  by (induction xs) auto

lemma find_filter_name:
  "find (\<lambda>obj. f obj = m) (filter (\<lambda>obj. f obj \<noteq> n) xs) = (if m = n then None else find (\<lambda>obj. f obj = m) xs)"
  by (induction xs) auto

lemma sv_remove_tab: "sv_tab (sv_remove n s) = (sv_tab s)(n := None)"
  by (auto simp: sv_tab_def by_name_def sv_remove_def find_filter_name fun_eq_iff)

lemma sv_create_tab:
  "sv_create obj s = (r, s') \<Longrightarrow>
     (case r of Inl e \<Rightarrow> e = ApiStatus AlreadyExists (doc_name obj) \<and> s' = s \<and> sv_tab s (doc_name obj) \<noteq> None
      | Inr c \<Rightarrow> sv_tab s (doc_name obj) = None \<and> same_object (server_kube env) c obj
          \<and> sv_tab s' = (sv_tab s)(doc_name obj \<mapsto> c))"
proof -
  assume c: "sv_create obj s = (r, s')"
  show ?thesis
  proof (cases "sv_tab s (doc_name obj)")
    case None
    let ?c = "stamp (sv_next s) obj"
    from c None have r: "r = Inr ?c" and s': "sv_allocs s' = sv_allocs s @ [?c]"
      by (auto simp: sv_create_def Let_def)
    have "sv_tab s' n = ((sv_tab s)(doc_name obj \<mapsto> ?c)) n" for n
      using None unfolding sv_tab_def by_name_def s' find_append by (simp split: option.split)
    then show ?thesis unfolding r by (simp add: None same_object_stamp fun_eq_iff)
  next
    case (Some d)
    with c show ?thesis by (auto simp: sv_create_def)
  qed
qed

lemma ran_image_dom: "ran t = (\<lambda>n. the (t n)) ` dom t"
  unfolding ran_def dom_def image_def by (auto intro: rev_bexI)

lemma dom_by_name: "dom (by_name objs) = doc_name ` set objs"
  by (auto simp: by_name_def dom_def find_None_iff simp flip: not_None_eq)

lemma set_uniq: "set (uniq objs) = ran (by_name objs)"
  by (simp add: uniq_def ran_image_dom dom_by_name)

lemma distinct_uniq: "distinct (map doc_name (uniq objs))"
proof -
  have "doc_name (the (by_name objs n)) = n" if "n \<in> doc_name ` set objs" for n
    using that dom_by_name by_name_name by (metis domD option.sel)
  then have "map doc_name (uniq objs) = remdups (map doc_name objs)"
    by (auto simp: uniq_def intro!: map_idI)
  then show ?thesis by simp
qed

lemma foreign_act_steps: "table_steps (server_kube env) (sv_tab s) (sv_tab (foreign_act f s))"
proof (cases f)
  case (FCreate a)
  obtain r s' where c: "sv_create (NewAllocationObject a) s = (r, s')" by fastforce
  from svu.GetName_New [of env a] svu.well_named_New [of env a]
  have n: "well_named (server_kube env) (doc_name (NewAllocationObject a)) (NewAllocationObject a)" by simp
  show ?thesis
  proof (cases r)
    case (Inl e)
    with sv_create_tab [OF c, of env] c FCreate show ?thesis by simp
  next
    case (Inr d)
    with sv_create_tab [OF c, of env] n have
        "table_steps (server_kube env) (sv_tab s) ((sv_tab s)(doc_name (NewAllocationObject a) \<mapsto> d))"
      by (auto intro!: table_steps_create simp: well_named_same)
    with Inr sv_create_tab [OF c, of env] c FCreate show ?thesis by simp
  qed
next
  case (FDelete n)
  show ?thesis
  proof (cases "sv_tab s n")
    case None
    then show ?thesis using FDelete by (simp add: sv_remove_tab fun_upd_idem)
  next
    case (Some obj)
    then show ?thesis using FDelete by (auto simp: sv_remove_tab intro: table_steps_delete)
  qed
qed

lemma interfere_steps: "table_steps (server_kube env) (sv_tab s) (sv_tab (interfere s))"
proof -
  have "table_steps (server_kube env) (sv_tab s) (sv_tab (fold foreign_act b s))" for b s
    by (induction b arbitrary: s) (auto intro: rtranclp_trans foreign_act_steps)
  from this [of "s\<lparr>sv_foreign := tl (sv_foreign s)\<rparr>" "hd (sv_foreign s)"] show ?thesis
    by (auto simp: interfere_def split: list.splits cong: sv_tab_cong)
qed

section \<open>Interpretation\<close>

lemma sv_tab_fault [simp]: "sv_tab (snd (next_fault s)) = sv_tab s"
  by (rule sv_tab_cong) (auto simp: next_fault_def split: list.splits)

lemma serve_cases:
  assumes "serve env m s = (r, s')"
  obtains s1 where "sv_rely env s s1" "m s1 = (r, s')"
  | s1 where "sv_rely env s s1" "r = Inl (ApiStatus (OtherReason ''Timeout'') ''lost'')"
      "s' = s1 \<or> s' = snd (m s1)"
  using assms by (auto simp: serve_def sv_rely_def Let_def split: prod.splits fault.splits)

lemma timeout_reason [simp]:
  "\<not> IsAlreadyExists (ApiStatus (OtherReason x) y)" "\<not> IsNotFound (ApiStatus (OtherReason x) y)"
  by (simp_all add: IsAlreadyExists_def IsNotFound_def)

lemma serve_create_ok:
  assumes "serve env (sv_create obj) s = (Inr c, s')"
  shows "\<exists>s1. sv_rely env s s1 \<and> sv_tab s1 (doc_name obj) = None \<and> same_object (server_kube env) c obj
    \<and> sv_tab s' = (sv_tab s1)(doc_name obj \<mapsto> c)"
  using assms
proof (cases rule: serve_cases)
  case (1 s1)
  with sv_create_tab [OF 1(2), of env] show ?thesis by auto
qed simp

lemma serve_create_err:
  assumes "serve env (sv_create obj) s = (Inl e, s')"
  shows "\<exists>s1. sv_rely env s s1 \<and> (IsAlreadyExists e \<longrightarrow> sv_tab s1 (doc_name obj) \<noteq> None) \<and>
    (sv_tab s' = sv_tab s1 \<or> \<not> IsAlreadyExists e \<and> sv_tab s1 (doc_name obj) = None \<and>
       (\<exists>c. same_object (server_kube env) c obj \<and> sv_tab s' = (sv_tab s1)(doc_name obj \<mapsto> c)))"
  using assms
proof (cases rule: serve_cases)
  case (1 s1)
  from sv_create_tab [OF 1(2), of env] have "s' = s1" "sv_tab s1 (doc_name obj) \<noteq> None" by simp_all
  with 1(1) show ?thesis by blast
next
  case (2 s1)
  from 2(2) have ne: "\<not> IsAlreadyExists e" by simp
  obtain r s2 where c: "sv_create obj s1 = (r, s2)" by fastforce
  from sv_create_tab [OF c, of env] have "s2 = s1 \<or> sv_tab s1 (doc_name obj) = None \<and>
      (\<exists>d. same_object (server_kube env) d obj \<and> sv_tab s2 = (sv_tab s1)(doc_name obj \<mapsto> d))"
    by (cases r) auto
  moreover from 2(3) c have "s' = s1 \<or> s' = s2" by simp
  ultimately show ?thesis using 2(1) ne by blast
qed

lemma serve_get:
  assumes "serve env (sv_get n) s = (r, s')"
  shows "\<exists>s1. sv_rely env s s1 \<and> sv_tab s' = sv_tab s1 \<and> (\<forall>obj. r = Inr obj \<longrightarrow> sv_tab s1 n = Some obj)
    \<and> (\<forall>e. r = Inl e \<longrightarrow> \<not> IsAlreadyExists e)"
  using assms
proof (cases rule: serve_cases)
  case (1 s1)
  then show ?thesis by (auto simp: sv_get_def IsAlreadyExists_def split: option.splits)
next
  case (2 s1)
  moreover have "snd (sv_get n s1) = s1" by (simp add: sv_get_def split: option.splits)
  ultimately show ?thesis by auto
qed

lemma serve_list:
  assumes "serve env sv_list s = (r, s')"
  shows "\<exists>s1. sv_rely env s s1 \<and> sv_tab s' = sv_tab s1 \<and> (\<forall>items. r = Inr items \<longrightarrow> set items = ran (sv_tab s1))
    \<and> (\<forall>e. r = Inl e \<longrightarrow> \<not> IsNotFound e)"
  using assms by (cases rule: serve_cases) (auto simp: sv_list_def set_uniq sv_tab_def)

lemma serve_delete_ok:
  assumes "serve env (sv_delete n opts) s = (Inr u, s')"
  shows "\<exists>s1 obj. sv_rely env s s1 \<and> sv_tab s1 n = Some obj \<and> uGetUID doc_unstr obj = do_UID opts
    \<and> sv_tab s' = (sv_tab s1)(n := None)"
  using assms
  by (cases rule: serve_cases) (auto simp: sv_delete_def sv_remove_tab split: option.splits if_splits)

lemma serve_delete_err:
  assumes "serve env (sv_delete n opts) s = (Inl e, s')"
  shows "\<exists>s1. sv_rely env s s1 \<and> (IsNotFound e \<longrightarrow> sv_tab s1 n = None) \<and>
    (sv_tab s' = sv_tab s1 \<or>
       (\<exists>obj. sv_tab s1 n = Some obj \<and> uGetUID doc_unstr obj = do_UID opts \<and> sv_tab s' = (sv_tab s1)(n := None)))"
  using assms
proof (cases rule: serve_cases)
  case (1 s1)
  then have "s' = s1" "IsNotFound e \<longrightarrow> sv_tab s1 n = None"
    by (auto simp: sv_delete_def IsNotFound_def split: option.splits if_splits)
  with 1(1) show ?thesis by blast
next
  case (2 s1)
  from 2(2) have ne: "\<not> IsNotFound e" by simp
  have "snd (sv_delete n opts s1) = s1 \<or> (\<exists>obj. sv_tab s1 n = Some obj \<and> uGetUID doc_unstr obj = do_UID opts
      \<and> sv_tab (snd (sv_delete n opts s1)) = (sv_tab s1)(n := None))"
    by (simp add: sv_delete_def sv_remove_tab split: option.splits)
  with 2 ne show ?thesis by metis
qed

text \<open>Any behaviour of the others that respects the discipline of the table will do.\<close>

locale server_env =
  fixes env :: "server \<Rightarrow> server"
  assumes env_steps: "table_steps (server_kube env) (sv_tab s) (sv_tab (env s))"

sublocale server_env \<subseteq> api: alloc_api "server_kube env" sv_tab "sv_rely env"
proof unfold_locales
  show "table_steps (server_kube env) (sv_tab s) (sv_tab s1)" if "sv_rely env s s1" for s s1
    using that by (simp add: sv_rely_def env_steps)
  show "\<not> IsAlreadyExists e \<and> (\<exists>s1. sv_rely env s s1 \<and> sv_tab s' = sv_tab s1)" if "kGet (server_kube env) IPAllocationGVR n s = (Inl e, s')" for n s e s'
    using serve_get [of env n s "Inl e" s'] that by auto
  show "\<exists>s1. sv_rely env s s1 \<and> sv_tab s' = sv_tab s1 \<and> sv_tab s1 n = Some obj"
    if "kGet (server_kube env) IPAllocationGVR n s = (Inr obj, s')" for n s obj s'
    using serve_get [of env n s "Inr obj" s'] that by auto
  show "\<exists>s1. sv_rely env s s1 \<and> sv_tab s' = sv_tab s1 \<and> set items = ran (sv_tab s1)"
    if "kList (server_kube env) IPAllocationGVR s = (Inr items, s')" for s items s'
    using serve_list [of env s "Inr items" s'] that by auto
  show "\<exists>s1. sv_rely env s s1 \<and> sv_tab s' = sv_tab s1 \<and> (IsNotFound e \<longrightarrow> sv_tab s1 = Map.empty)"
    if "kList (server_kube env) IPAllocationGVR s = (Inl e, s')" for s e s'
    using serve_list [of env s "Inl e" s'] that by auto
qed (use sv_tab_names serve_create_ok serve_create_err serve_delete_ok serve_delete_err
    in \<open>simp_all\<close>)

interpretation busy: server_env interfere
  by unfold_locales (rule interfere_steps)

interpretation calm: server_env id
  by unfold_locales simp

interpretation calmq: quiet_alloc_api "server_kube id" sv_tab "sv_rely id"
  by unfold_locales (simp add: sv_rely_def)

end
