(* ===== verification/Ipam_Safety.thy ===== *)
theory Ipam_Safety
  imports Api_Server
begin

text \<open>
  The promises of \<^verbatim>\<open>internal/ipamapi\<close>: an address of a pool has at most one owner at any
  time, whoever else acts on the cluster; what a claim reserved is found again and is
  released in full.  Each theorem takes the behaviour of the API server (\<open>alloc_api\<close> or one
  of its refinements) as a hypothesis; the witnesses discharge it on the server of
  \<^verbatim>\<open>Api_Server\<close>.
\<close>

section \<open>Sample data\<close>

definition sample_alloc :: Allocation where
  "sample_alloc = \<lparr>al_Name = [], al_Pool = ''lan'', al_Address = ''10.0.0.5/24'',
     al_AllocationType = ''Dynamic'',
     al_Claim = \<lparr>or_Namespace = ''default'', or_Name = ''net-a'', or_UID = ''uid-a''\<rparr>,
     al_Pod = \<lparr>or_Namespace = ''default'', or_Name = ''pod-a'', or_UID = ''pod-a-uid''\<rparr>,
     al_NodeName = ''node-1''\<rparr>"

definition rival_alloc :: Allocation where
  "rival_alloc = sample_alloc\<lparr>al_Claim := \<lparr>or_Namespace = ''default'', or_Name = ''net-b'', or_UID = ''uid-b''\<rparr>\<rparr>"

definition empty_server :: server where
  "empty_server = \<lparr>sv_allocs = [], sv_pools = [], sv_claims = [], sv_pods = [], sv_nodes = [], sv_events = [],
     sv_next = 0, sv_foreign = [], sv_faults = []\<rparr>"

lemma sample_valid [simp]: "valid_request sample_alloc" "valid_request rival_alloc"
  by (simp_all add: valid_request_def rival_alloc_def sample_alloc_def TrimSpace_def is_space_def)

lemma empty_server_sel [simp]:
  "sv_faults empty_server = []" "sv_foreign empty_server = []" "sv_allocs empty_server = []"
  "sv_next empty_server = 0"
  by (simp_all add: empty_server_def)

lemma empty_server_tab [simp]: "sv_tab empty_server = Map.empty"
  by (simp add: sv_tab_def by_name_def empty_server_def fun_eq_iff)

abbreviation sample_server :: server where
  "sample_server \<equiv> snd (Reserve (server_kube id) sample_alloc empty_server)"

lemma sample_reserve:
  "Reserve (server_kube id) sample_alloc empty_server =
     (Inr (stamp 0 (NewAllocationObject sample_alloc)),
      empty_server\<lparr>sv_allocs := [stamp 0 (NewAllocationObject sample_alloc)], sv_next := 1\<rparr>)"
  by (simp add: Reserve_def Let_def serve_def next_fault_def sv_create_def empty_server_def sv_tab_def by_name_def)

lemma Parse_stamp [simp]:
  "ParseAllocation (server_kube env) (stamp k (NewAllocationObject a)) =
     ParseAllocation (server_kube env) (NewAllocationObject a)"
  by (rule ParseAllocation_same [OF same_object_stamp])

lemma Parse_sample [simp]:
  "ParseAllocation (server_kube env) (NewAllocationObject sample_alloc) =
     Inr (sample_alloc\<lparr>al_Name := AllocationName ''lan'' ''10.0.0.5/24''\<rparr>)"
  by (simp add: svu.Parse_New) (simp add: sample_alloc_def)

lemma doc_name_New [simp]: "doc_name (NewAllocationObject a) = AllocationName (al_Pool a) (al_Address a)"
  using svu.GetName_New [of id a] by simp

lemma doc_uid_stamp [simp]: "uGetUID doc_unstr (stamp k obj) = ''uid-'' @ utoa k"
  by (simp add: doc_unstr_def stamp_def)

lemma sample_items: "sv_tab sample_server = [AllocationName ''lan'' ''10.0.0.5/24'' \<mapsto> stamp 0 (NewAllocationObject sample_alloc)]"
  by (simp add: sample_reserve sv_tab_def by_name_def fun_eq_iff) (simp add: sample_alloc_def)

section \<open>Objects\<close>

text \<open>C27: parsing the object built for an allocation gives the allocation back, with the name the object
  was given, whenever pool, address and claim UID are present.\<close>

theorem ParseAllocation_round_trip:
  assumes "unstructured_lib U" and "valid_request a"
  shows "ParseAllocation U (NewAllocationObject a) = Inr (a\<lparr>al_Name := AllocationName (al_Pool a) (al_Address a)\<rparr>)"
  using unstructured_lib.Parse_New [OF assms(1), of a] assms(2) by simp

theorem ParseAllocation_round_trip_witness:
  "ParseAllocation doc_unstr (NewAllocationObject sample_alloc) =
     Inr (sample_alloc\<lparr>al_Name := AllocationName ''lan'' ''10.0.0.5/24''\<rparr>)"
proof -
  have "unstructured_lib doc_unstr"
    by unfold_locales (simp_all add: doc_unstr_def)
  from ParseAllocation_round_trip [OF this sample_valid(1)] show ?thesis
    by (simp add: sample_alloc_def)
qed



section \<open>Reservation\<close>

text \<open>C9: when a reservation succeeds, the claim is the one and only owner of the address, whatever the
  other participants did before and between the calls.\<close>

theorem Reserve_sole_owner:
  assumes "alloc_api K tab rely" and "wf_table K (tab w)" and "valid_request a"
    and "Reserve K a w = (Inr obj, w')"
  shows "owners K (tab w') (al_Pool a) (al_Address a) = {or_UID (al_Claim a)}"
proof -
  from alloc_api.Reserve_steps [OF assms(1,4)] assms(2) have wf: "wf_table K (tab w')"
    by (rule table_steps_wf)
  from alloc_api.Reserve_Inr [OF assms(1,4,3)] obtain p where
      "tab w' (AllocationName (al_Pool a) (al_Address a)) = Some obj" "ParseAllocation K obj = Inr p"
      "al_Pool p = al_Pool a" "al_Address p = al_Address a" "or_UID (al_Claim p) = or_UID (al_Claim a)"
    by blast
  then have "or_UID (al_Claim a) \<in> owners K (tab w') (al_Pool a) (al_Address a)"
    unfolding owners_def by blast
  with owners_unique [OF wf] show ?thesis by blast
qed


text \<open>A cluster in which, before the second of its calls, somebody deletes the sample allocation.\<close>

definition contested_server :: server where
  "contested_server = empty_server\<lparr>sv_foreign := [[], [FDelete (AllocationName ''lan'' ''10.0.0.5/24'')]]\<rparr>"

lemma contested_first:
  "Reserve (server_kube interfere) sample_alloc contested_server =
     (Inr (stamp 0 (NewAllocationObject sample_alloc)),
      contested_server\<lparr>sv_allocs := [stamp 0 (NewAllocationObject sample_alloc)], sv_next := 1,
        sv_foreign := tl (sv_foreign contested_server)\<rparr>)"
  by (simp add: Reserve_def Let_def serve_def next_fault_def interfere_def contested_server_def
      empty_server_def sv_create_def sv_tab_def by_name_def)

lemma contested_second:
  "Reserve (server_kube interfere) rival_alloc (snd (Reserve (server_kube interfere) sample_alloc contested_server)) =
     (Inr (stamp 1 (NewAllocationObject rival_alloc)),
      contested_server\<lparr>sv_allocs := [stamp 1 (NewAllocationObject rival_alloc)], sv_next := 2, sv_foreign := []\<rparr>)"
  unfolding contested_first
  by (simp add: Reserve_def Let_def serve_def next_fault_def interfere_def contested_server_def
      empty_server_def sv_create_def sv_tab_def by_name_def sv_remove_def)
    (simp add: sample_alloc_def rival_alloc_def)

lemma wf_empty_table [simp]: "wf_table U Map.empty"
  by (simp add: wf_table_def)

lemma contested_tab [simp]: "sv_tab contested_server = Map.empty"
  by (simp add: sv_tab_def by_name_def contested_server_def empty_server_def fun_eq_iff)

theorem Reserve_sole_owner_witness:
  "owners (server_kube interfere) (sv_tab (snd (Reserve (server_kube interfere) sample_alloc contested_server)))
     ''lan'' ''10.0.0.5/24'' = {''uid-a''}"
  using Reserve_sole_owner [OF busy.api.alloc_api_axioms _ sample_valid(1) contested_first]
  by (simp add: contested_first) (simp add: sample_alloc_def)


text \<open>A claim that already holds an address is never refused it: on its object a repeated reservation
  does not end in \<^const>\<open>AlreadyExists\<close>, and an \<^const>\<open>AlreadyExists\<close> refusal means that the object of the
  address's name is not this claim's.\<close>

theorem Reserve_reentrant:
  assumes "quiet_alloc_api K tab rely" and "Reserve K a w = (Inl e, w')" and "IsAlreadyExists e"
  shows "tab w' = tab w \<and> (\<exists>obj. tab w (AllocationName (al_Pool a) (al_Address a)) = Some obj
     \<and> (\<forall>p. ParseAllocation K obj = Inr p \<longrightarrow> \<not> (or_UID (al_Claim p) = or_UID (al_Claim a)
          \<and> al_Pool p = al_Pool a \<and> al_Address p = al_Address a)))"
  using quiet_alloc_api.Reserve_quiet_refused [OF assms] .

lemma sample_refused:
  "Reserve (server_kube id) rival_alloc sample_server =
     (Inl (ApiStatus AlreadyExists (AllocationName ''lan'' ''10.0.0.5/24'')), sample_server)"
  by (simp add: Reserve_def Let_def serve_def next_fault_def sv_create_def sv_get_def sample_reserve
      sv_tab_def by_name_def empty_server_def IsAlreadyExists_def)
    (simp add: rival_alloc_def sample_alloc_def)

theorem Reserve_reentrant_witness:
  "\<exists>obj. sv_tab sample_server (AllocationName ''lan'' ''10.0.0.5/24'') = Some obj
     \<and> (\<forall>p. ParseAllocation (server_kube id) obj = Inr p \<longrightarrow> or_UID (al_Claim p) \<noteq> ''uid-b''
          \<or> al_Pool p \<noteq> ''lan'' \<or> al_Address p \<noteq> ''10.0.0.5/24'')"
  using Reserve_reentrant [OF calmq.quiet_alloc_api_axioms sample_refused]
  by (simp add: IsAlreadyExists_def) (simp add: rival_alloc_def sample_alloc_def)

section \<open>Release and lookup\<close>

text \<open>With nobody else acting, deleting the allocations of a claim removes exactly its objects and leaves
  every other object of the table as it was.\<close>

theorem DeleteForClaim_exact:
  assumes "quiet_alloc_api K tab rely" and "DeleteForClaim K u w = (Inr x, w')"
  shows "tab w' = without_claim K u (tab w)"
  using assms by (rule quiet_alloc_api.DeleteForClaim_quiet)

lemma sample_delete:
  "DeleteForClaim (server_kube id) ''uid-a'' sample_server =
     (Inr (), empty_server\<lparr>sv_next := 1\<rparr>)"
  by (simp add: DeleteForClaim_def serve_def next_fault_def sv_list_def uniq_def by_name_def sv_tab_def sample_reserve
      sv_delete_def sv_remove_def)
    (simp add: sample_alloc_def empty_server_def)

theorem DeleteForClaim_exact_witness:
  "sv_tab (empty_server\<lparr>sv_next := 1\<rparr>) = without_claim (server_kube id) ''uid-a'' (sv_tab sample_server)"
  by (rule DeleteForClaim_exact [OF calmq.quiet_alloc_api_axioms sample_delete])

text \<open>C11: whatever the others do meanwhile, as long as nobody allocates for the claim being released, a deletion
  that reports success leaves the claim without any address.\<close>

theorem DeleteForClaim_complete:
  assumes "release_api K tab rely u" and "DeleteForClaim K u w = (Inr x, w')"
  shows "u \<notin> owners K (tab w') pool address"
proof
  assume "u \<in> owners K (tab w') pool address"
  then obtain n obj a where "tab w' n = Some obj" "ParseAllocation K obj = Inr a" "or_UID (al_Claim a) = u"
    unfolding owners_def by blast
  with release_api.DeleteForClaim_release [OF assms] show False by (fastforce simp: owned_by_def)
qed

theorem DeleteForClaim_complete_witness:
  "''uid-a'' \<notin> owners (server_kube id) (sv_tab (empty_server\<lparr>sv_next := 1\<rparr>)) ''lan'' ''10.0.0.5/24''"
  by (rule DeleteForClaim_complete [OF calmq.release_api_axioms sample_delete])

text \<open>What \<^const>\<open>FindForClaim\<close> answers is what the table holds at that moment: an allocation it returns
  belongs to the claim, and when it returns none the claim owns no address.\<close>

theorem FindForClaim_correct:
  assumes "alloc_api K tab rely" and "FindForClaim K u w = (Inr r, w')"
  shows "case r of Some a \<Rightarrow> u \<in> owners K (tab w') (al_Pool a) (al_Address a)
     | None \<Rightarrow> \<forall>pool address. u \<notin> owners K (tab w') pool address"
  using assms alloc_api.FindForClaim_Some [OF assms(1), of u w _ w'] alloc_api.FindForClaim_None [OF assms(1), of u w w']
  by (cases r) simp_all

lemma sample_find:
  "FindForClaim (server_kube id) ''uid-a'' sample_server =
     (Inr (Some (sample_alloc\<lparr>al_Name := AllocationName ''lan'' ''10.0.0.5/24''\<rparr>)), sample_server)"
  by (simp add: FindForClaim_def serve_def next_fault_def sv_list_def uniq_def by_name_def sv_tab_def sample_reserve)
    (simp add: sample_alloc_def)

theorem FindForClaim_correct_witness:
  "''uid-a'' \<in> owners (server_kube id) (sv_tab sample_server) ''lan'' ''10.0.0.5/24''"
  using FindForClaim_correct [OF calm.api.alloc_api_axioms sample_find]
  by (simp add: sample_alloc_def)

text \<open>Every operation of the package, on every outcome and amid the actions of the others, keeps the
  discipline of the table (each object stands under the name of its own pool and address), so in every state
  the program can reach an address has at most one owner.\<close>

theorem ipamapi_one_owner:
  assumes "alloc_api K tab rely" and "wf_table K (tab w)"
    and "w' \<in> {snd (Reserve K a w), snd (DeleteForClaim K u w), snd (FindForClaim K u w)}"
    and "x \<in> owners K (tab w') pool address" and "y \<in> owners K (tab w') pool address"
  shows "x = y"
proof -
  from assms(3) have "table_steps K (tab w) (tab w')"
    using alloc_api.Reserve_steps [OF assms(1)] alloc_api.DeleteForClaim_steps [OF assms(1)]
      alloc_api.FindForClaim_steps [OF assms(1)] by (metis empty_iff insertE prod.collapse)
  then have "wf_table K (tab w')" using assms(2) by (rule table_steps_wf)
  with assms(4,5) show ?thesis by (metis owners_unique)
qed

theorem ipamapi_one_owner_witness:
  "wf_table (server_kube id) (sv_tab sample_server)
     \<and> owners (server_kube id) (sv_tab (snd (Reserve (server_kube id) rival_alloc sample_server))) ''lan'' ''10.0.0.5/24''
         \<subseteq> {''uid-a''}"
proof -
  have w: "wf_table (server_kube id) (sv_tab empty_server)" by simp
  have wf: "wf_table (server_kube id) (sv_tab sample_server)"
    using table_steps_wf [OF calm.api.Reserve_steps [OF sample_reserve] w] by (simp add: sample_reserve)
  have "''uid-a'' \<in> owners (server_kube id) (sv_tab sample_server) ''lan'' ''10.0.0.5/24''"
    unfolding owners_def by (simp add: sample_items) (simp add: sample_alloc_def)
  then have "x = ''uid-a''" if "x \<in> owners (server_kube id) (sv_tab sample_server) ''lan'' ''10.0.0.5/24''" for x
    using ipamapi_one_owner [OF calm.api.alloc_api_axioms wf, of sample_server rival_alloc "''uid-b''"] that
    by (metis insertI1 sample_refused snd_conv)
  then show ?thesis using wf unfolding sample_refused snd_conv by blast
qed

end
