(* ===== verification/Reconciler.thy ===== *)
theory Reconciler
  imports Ipam_Safety
begin

text \<open>
  \<^verbatim>\<open>internal/controller/controller.go\<close>: the leader-elected controller that deletes allocations
  whose claim is gone and writes the number of live allocations into the status of every
  \<^verbatim>\<open>IPPool\<close>.  The ticker loop of \<^verbatim>\<open>Run\<close> calls \<open>Reconcile\<close> over and over; it is modelled as the
  sequence of its passes.
\<close>

section \<open>Model\<close>

record Controller =
  ctl_interval :: int

text \<open>The clients are nil or not; \<^verbatim>\<open>time.Duration\<close> counts nanoseconds.\<close>

definition New :: "'c option \<Rightarrow> 'd option \<Rightarrow> int \<Rightarrow> goerr + Controller" where
  "New client dynamicClient interval =
     (if client = None \<or> dynamicClient = None then Inl (Errorf ''Kubernetes clients are required'' [])
      else Inr \<lparr>ctl_interval = (if interval \<le> 0 then 30 * 1000000000 else interval)\<rparr>)"

record poolCounts =
  pcn_Total :: int
  pcn_Dynamic :: int
  pcn_Static :: int

definition no_counts :: poolCounts where
  "no_counts = \<lparr>pcn_Total = 0, pcn_Dynamic = 0, pcn_Static = 0\<rparr>"

text \<open>Reading a Go map: the zero value for a missing key.\<close>

definition count_of :: "(string \<times> poolCounts) list \<Rightarrow> string \<Rightarrow> poolCounts" where
  "count_of counts pool = (case map_of counts pool of Some c \<Rightarrow> c | None \<Rightarrow> no_counts)"

definition addCount :: "Allocation \<Rightarrow> poolCounts \<Rightarrow> poolCounts" where
  "addCount a c =
     (let c1 = c\<lparr>pcn_Total := pcn_Total c + 1\<rparr>
      in if al_AllocationType a = ''Static'' then c1\<lparr>pcn_Static := pcn_Static c1 + 1\<rparr>
         else c1\<lparr>pcn_Dynamic := pcn_Dynamic c1 + 1\<rparr>)"

definition allocationIsStale :: "('w, 'z) kube_scheme \<Rightarrow> Allocation \<Rightarrow> ('w, bool) eff" where
  "allocationIsStale K a w =
     (case kGetClaim K (or_Namespace (al_Claim a)) (or_Name (al_Claim a)) w of
        (Inl err, w1) \<Rightarrow>
          if IsNotFound err then (Inr True, w1)
          else (Inl (Wrapf ''get ResourceClaim %s/%s'' [or_Namespace (al_Claim a), or_Name (al_Claim a)] err), w1)
      | (Inr claim, w1) \<Rightarrow> (Inr (rc_UID claim \<noteq> or_UID (al_Claim a)), w1))"

definition deleteAllocation :: "('w, 'z) kube_scheme \<Rightarrow> gmap \<Rightarrow> ('w, unit) eff" where
  "deleteAllocation K obj w =
     (case kDelete K IPAllocationGVR (uGetName K obj)
             \<lparr>do_UID = uGetUID K obj, do_PropagationPolicy = None\<rparr> w of
        (Inl err, w1) \<Rightarrow>
          if \<not> IsNotFound err then (Inl (Wrapf ''delete stale IPAllocation %s'' [uGetName K obj] err), w1)
          else (Inr (), w1)
      | (Inr _, w1) \<Rightarrow> (Inr (), w1))"

text \<open>The loop of \<^verbatim>\<open>Reconcile\<close> over the listed objects.\<close>

fun reconcileItems ::
  "('w, 'z) kube_scheme \<Rightarrow> gmap list \<Rightarrow> (string \<times> poolCounts) list \<Rightarrow> ('w, (string \<times> poolCounts) list) eff" where
  "reconcileItems K [] counts w = (Inr counts, w)"
| "reconcileItems K (obj # items) counts w =
     (case ParseAllocation K obj of
        Inl _ \<Rightarrow> reconcileItems K items counts w
      | Inr a \<Rightarrow>
          (case allocationIsStale K a w of
             (Inl err, w1) \<Rightarrow> (Inl err, w1)
           | (Inr stale, w1) \<Rightarrow>
               if stale then
                 (case deleteAllocation K obj w1 of
                    (Inl err, w2) \<Rightarrow> (Inl err, w2)
                  | (Inr _, w2) \<Rightarrow> reconcileItems K items counts w2)
               else reconcileItems K items
                      (gput (al_Pool a) (addCount a (count_of counts (al_Pool a))) counts) w1))"

text \<open>
  \<^verbatim>\<open>reflect.DeepEqual\<close> on decoded JSON: maps are equal when they have the same keys with
  equal values, in whatever order they are kept.
\<close>

fun deep_eq :: "gval \<Rightarrow> gval \<Rightarrow> bool"
  and deep_slice :: "gval list \<Rightarrow> gval list \<Rightarrow> bool"
  and deep_sub :: "gmap \<Rightarrow> gmap \<Rightarrow> bool" where
  "deep_eq (GMap m) y = (case y of GMap n \<Rightarrow> deep_sub m n \<and> set (map fst n) \<subseteq> set (map fst m) | _ \<Rightarrow> False)"
| "deep_eq (GSlice xs) y = (case y of GSlice ys \<Rightarrow> deep_slice xs ys | _ \<Rightarrow> False)"
| "deep_eq (GStr s) y = (y = GStr s)"
| "deep_eq (GInt i) y = (y = GInt i)"
| "deep_eq (GBool b) y = (y = GBool b)"
| "deep_eq GNil y = (y = GNil)"
| "deep_slice [] ys = (ys = [])"
| "deep_slice (x # xs) ys = (case ys of [] \<Rightarrow> False | y # ys' \<Rightarrow> deep_eq x y \<and> deep_slice xs ys')"
| "deep_sub [] n = True"
| "deep_sub ((k, v) # m) n = ((case map_of n k of Some v' \<Rightarrow> deep_eq v v' | None \<Rightarrow> False) \<and> deep_sub m n)"

fun firstReadyTime :: "gval list \<Rightarrow> string option" where
  "firstReadyTime [] = None"
| "firstReadyTime (GMap condition # rest) =
     (if map_of condition ''type'' \<noteq> Some (GStr ''Ready'') \<or> map_of condition ''status'' \<noteq> Some (GStr ''True'')
      then firstReadyTime rest
      else (case map_of condition ''lastTransitionTime'' of
              Some (GStr value) \<Rightarrow> if value \<noteq> [] then Some value else firstReadyTime rest
            | _ \<Rightarrow> firstReadyTime rest))"
| "firstReadyTime (_ # rest) = firstReadyTime rest"

definition transitionTime :: "('w, 'z) kube_scheme \<Rightarrow> gmap \<Rightarrow> 'w \<Rightarrow> string" where
  "transitionTime K pool w =
     (let (conditions, ok) = uNestedSlice K pool [''status'', ''conditions''] in
      if ok then (case firstReadyTime conditions of Some value \<Rightarrow> value | None \<Rightarrow> kNow K w)
      else kNow K w)"

definition poolStatus :: "poolCounts \<Rightarrow> int \<Rightarrow> string \<Rightarrow> gmap" where
  "poolStatus count generation time =
     [(''allocated'', GInt (pcn_Total count)), (''dynamicAllocated'', GInt (pcn_Dynamic count)),
      (''staticAllocated'', GInt (pcn_Static count)),
      (''conditions'', GSlice [GMap
         [(''type'', GStr ''Ready''), (''status'', GStr ''True''), (''observedGeneration'', GInt generation),
          (''lastTransitionTime'', GStr time), (''reason'', GStr ''Reconciled''),
          (''message'', GStr ''IP allocations are reconciled'')]])]"

fun updatePools :: "('w, 'z) kube_scheme \<Rightarrow> (string \<times> poolCounts) list \<Rightarrow> gmap list \<Rightarrow> ('w, unit) eff" where
  "updatePools K counts [] w = (Inr (), w)"
| "updatePools K counts (pool # pools) w =
     (let status = poolStatus (count_of counts (uGetName K pool)) (uGetGeneration K pool) (transitionTime K pool w) in
      if (case uNestedMap K pool [''status''] of Some current \<Rightarrow> deep_eq (GMap current) (GMap status) | None \<Rightarrow> False)
      then updatePools K counts pools w
      else
        (case uSetNestedMap K pool status [''status''] of
           Inl err \<Rightarrow> (Inl err, w)
         | Inr pool' \<Rightarrow>
             (case kUpdateStatus K IPPoolGVR pool' w of
                (Inl err, w1) \<Rightarrow> (Inl (Wrapf ''update IPPool %s status'' [uGetName K pool] err), w1)
              | (Inr _, w1) \<Rightarrow> updatePools K counts pools w1)))"

definition updatePoolStatuses :: "('w, 'z) kube_scheme \<Rightarrow> (string \<times> poolCounts) list \<Rightarrow> ('w, unit) eff" where
  "updatePoolStatuses K counts w =
     (case kList K IPPoolGVR w of
        (Inl err, w1) \<Rightarrow> (Inl (Wrapf ''list IP pools'' [] err), w1)
      | (Inr pools, w1) \<Rightarrow> updatePools K counts pools w1)"

definition Reconcile :: "('w, 'z) kube_scheme \<Rightarrow> ('w, unit) eff" where
  "Reconcile K w =
     (case kList K IPAllocationGVR w of
        (Inl err, w1) \<Rightarrow> (Inl (Wrapf ''list IP allocations'' [] err), w1)
      | (Inr items, w1) \<Rightarrow>
          (case reconcileItems K items [] w1 of
             (Inl err, w2) \<Rightarrow> (Inl err, w2)
           | (Inr counts, w2) \<Rightarrow> updatePoolStatuses K counts w2))"

text \<open>
  The ticker loop: a first pass, then one per tick until the context is done; a failing
  pass is logged and the loop goes on.  The list says what the \<^verbatim>\<open>select\<close> sees each time it waits
  (\<open>True\<close> a tick, \<open>False\<close> the context is done); between two of its entries the cluster moves on
  its own, by \<open>idle\<close>.
\<close>

fun RunTicks :: "('w, 'z) kube_scheme \<Rightarrow> ('w \<Rightarrow> 'w) \<Rightarrow> bool list \<Rightarrow> 'w \<Rightarrow> 'w" where
  "RunTicks K idle [] w = w"
| "RunTicks K idle (False # _) w = w"
| "RunTicks K idle (True # events) w = RunTicks K idle events (snd (Reconcile K (idle w)))"

definition Run :: "('w, 'z) kube_scheme \<Rightarrow> ('w \<Rightarrow> 'w) \<Rightarrow> bool list \<Rightarrow> 'w \<Rightarrow> 'w" where
  "Run K idle events w = RunTicks K idle events (snd (Reconcile K w))"

section \<open>What the passes rely on\<close>

text \<open>The other calls of the controller leave the table of allocations to the other participants.\<close>

locale cluster_api = alloc_api K tab rely for K :: "('w, 'z) kube_scheme" and tab rely +
  assumes getClaim_tab: "kGetClaim K ns n w = (r1, w') \<Longrightarrow> \<exists>w1. rely w w1 \<and> tab w' = tab w1"
    and listPools_tab: "kList K IPPoolGVR w = (r2, w') \<Longrightarrow> \<exists>w1. rely w w1 \<and> tab w' = tab w1"
    and updatePool_tab: "kUpdateStatus K IPPoolGVR obj w = (r3, w') \<Longrightarrow> \<exists>w1. rely w w1 \<and> tab w' = tab w1"
begin

lemma stale_steps: "allocationIsStale K a w = (r, w') \<Longrightarrow> table_steps K (tab w) (tab w')"
proof -
  assume "allocationIsStale K a w = (r, w')"
  then have "kGetClaim K (or_Namespace (al_Claim a)) (or_Name (al_Claim a)) w =
      (fst (kGetClaim K (or_Namespace (al_Claim a)) (or_Name (al_Claim a)) w), w')"
    by (auto simp: allocationIsStale_def split: go_split)
  then show ?thesis using getClaim_tab rely_steps by metis
qed

lemma deleteAllocation_steps: "deleteAllocation K obj w = (r, w') \<Longrightarrow> table_steps K (tab w) (tab w')"
  by (rule delete_step [of "uGetName K obj" "\<lparr>do_UID = uGetUID K obj, do_PropagationPolicy = None\<rparr>" w
        "fst (kDelete K IPAllocationGVR (uGetName K obj) \<lparr>do_UID = uGetUID K obj, do_PropagationPolicy = None\<rparr> w)"])
    (auto simp: deleteAllocation_def split: go_split)

lemma reconcileItems_steps:
  "reconcileItems K items counts w = (r, w') \<Longrightarrow> table_steps K (tab w) (tab w')"
proof (induction items arbitrary: counts w)
  case Nil
  then show ?case by simp
next
  case (Cons obj items)
  show ?case
  proof (cases "ParseAllocation K obj")
    case (Inl e)
    with Cons show ?thesis by simp
  next
    case (Inr a)
    obtain st w1 where st: "allocationIsStale K a w = (st, w1)" by fastforce
    obtain d w2 where d: "deleteAllocation K obj w1 = (d, w2)" by fastforce
    note 1 = stale_steps [OF st] and 2 = deleteAllocation_steps [OF d]
    from Cons.prems Inr st d consider "w' = w1" | "w' = w2"
      | counts' where "reconcileItems K items counts' w1 = (r, w')"
      | "reconcileItems K items counts w2 = (r, w')"
      by (auto split: sum.splits if_splits)
    then show ?thesis
      using 1 2 Cons.IH by cases (metis rtranclp_trans)+
  qed
qed

lemma updatePools_steps: "updatePools K counts pools w = (r, w') \<Longrightarrow> table_steps K (tab w) (tab w')"
proof (induction pools arbitrary: w)
  case Nil
  then show ?case by simp
next
  case (Cons pool pools)
  from Cons.prems consider "updatePools K counts pools w = (r, w')" | "w' = w"
    | p u w1 where "kUpdateStatus K IPPoolGVR p w = (u, w1)" "w' = w1 \<or> updatePools K counts pools w1 = (r, w')"
    by (auto simp: Let_def split: go_split)
  then show ?case
  proof cases
    case (3 p u w1)
    then have "table_steps K (tab w) (tab w1)" using updatePool_tab rely_steps by metis
    with 3(2) Cons.IH show ?thesis by (metis rtranclp_trans)
  qed (auto intro: Cons.IH)
qed

lemma Reconcile_steps: "table_steps K (tab w) (tab (snd (Reconcile K w)))"
proof -
  obtain l w1 where l: "kList K IPAllocationGVR w = (l, w1)" by fastforce
  note 1 = list_step [OF l]
  show ?thesis
  proof (cases l)
    case (Inl e)
    with l 1 show ?thesis by (simp add: Reconcile_def)
  next
    case (Inr items)
    obtain c w2 where c: "reconcileItems K items [] w1 = (c, w2)" by fastforce
    obtain p w3 where p: "kList K IPPoolGVR w2 = (p, w3)" by fastforce
    from 1 reconcileItems_steps [OF c] have 2: "table_steps K (tab w) (tab w2)" by simp
    from listPools_tab [OF p] rely_steps have "table_steps K (tab w2) (tab w3)" by metis
    with 2 have 3: "table_steps K (tab w) (tab w3)" by simp
    have "table_steps K (tab w3) (tab (snd (updatePools K counts ps w3)))" for counts ps
      by (rule updatePools_steps [OF prod.collapse [symmetric]])
    with l Inr c p 2 3 show ?thesis
      by (auto simp: Reconcile_def updatePoolStatuses_def intro: rtranclp_trans split: go_split)
  qed
qed

lemma RunTicks_steps:
  assumes "\<And>w. table_steps K (tab w) (tab (idle w))"
  shows "table_steps K (tab w) (tab (RunTicks K idle events w))"
proof (induction events arbitrary: w)
  case (Cons e events)
  have "table_steps K (tab w) (tab (snd (Reconcile K (idle w))))"
    using assms Reconcile_steps by (rule rtranclp_trans)
  with Cons.IH show ?case by (cases e) (auto intro: rtranclp_trans)
qed simp

end

section \<open>What a pass achieves\<close>

text \<open>An allocation is live when its claim exists under the recorded name with the recorded UID.\<close>

type_synonym claim_view = "string \<times> string \<rightharpoonup> uid"

definition live :: "claim_view \<Rightarrow> Allocation \<Rightarrow> bool" where
  "live cl a \<longleftrightarrow> cl (or_Namespace (al_Claim a), or_Name (al_Claim a)) = Some (or_UID (al_Claim a))"

definition stale_object :: "'z unstr_scheme \<Rightarrow> claim_view \<Rightarrow> gmap \<Rightarrow> bool" where
  "stale_object U cl obj \<longleftrightarrow> (case ParseAllocation U obj of Inl _ \<Rightarrow> False | Inr a \<Rightarrow> \<not> live cl a)"

definition live_part :: "'z unstr_scheme \<Rightarrow> claim_view \<Rightarrow> table \<Rightarrow> table" where
  "live_part U cl t n = (case t n of Some obj \<Rightarrow> if stale_object U cl obj then None else Some obj | None \<Rightarrow> None)"

definition live_count :: "'z unstr_scheme \<Rightarrow> claim_view \<Rightarrow> table \<Rightarrow> (Allocation \<Rightarrow> bool) \<Rightarrow> int" where
  "live_count U cl t P = int (card {n. \<exists>obj a. t n = Some obj \<and> ParseAllocation U obj = Inr a \<and> live cl a \<and> P a})"

definition pool_tally :: "'z unstr_scheme \<Rightarrow> claim_view \<Rightarrow> table \<Rightarrow> string \<Rightarrow> poolCounts" where
  "pool_tally U cl t pool =
     \<lparr>pcn_Total = live_count U cl t (\<lambda>a. al_Pool a = pool),
      pcn_Dynamic = live_count U cl t (\<lambda>a. al_Pool a = pool \<and> al_AllocationType a \<noteq> ''Static''),
      pcn_Static = live_count U cl t (\<lambda>a. al_Pool a = pool \<and> al_AllocationType a = ''Static'')\<rparr>"

text \<open>The live allocations among listed objects, in their order.\<close>

definition live_allocs :: "'z unstr_scheme \<Rightarrow> claim_view \<Rightarrow> gmap list \<Rightarrow> Allocation list" where
  "live_allocs U cl items =
     concat (map (\<lambda>obj. case ParseAllocation U obj of Inl _ \<Rightarrow> [] | Inr a \<Rightarrow> if live cl a then [a] else []) items)"

lemma fold_addCount:
  "fold addCount as c = \<lparr>pcn_Total = pcn_Total c + int (length as),
     pcn_Dynamic = pcn_Dynamic c + int (length (filter (\<lambda>a. al_AllocationType a \<noteq> ''Static'') as)),
     pcn_Static = pcn_Static c + int (length (filter (\<lambda>a. al_AllocationType a = ''Static'') as))\<rparr>"
  by (induction as arbitrary: c) (auto simp: addCount_def Let_def)

lemma count_of_gput:
  "count_of (gput p c counts) q = (if q = p then c else count_of counts q)"
  by (simp add: count_of_def)

lemma length_live_allocs:
  "int (length (filter P (live_allocs U cl items))) =
     int (length (filter (\<lambda>obj. case ParseAllocation U obj of Inl _ \<Rightarrow> False | Inr a \<Rightarrow> live cl a \<and> P a) items))"
  by (induction items) (auto simp: live_allocs_def split: sum.splits)

lemma live_count_items:
  assumes "set items = ran t" and "distinct (map name items)" and "\<And>n obj. t n = Some obj \<Longrightarrow> name obj = n"
  shows "int (length (filter P (live_allocs U cl items))) = live_count U cl t P"
proof -
  let ?Q = "\<lambda>obj. case ParseAllocation U obj of Inl _ \<Rightarrow> False | Inr a \<Rightarrow> live cl a \<and> P a"
  have "{n. \<exists>obj a. t n = Some obj \<and> ParseAllocation U obj = Inr a \<and> live cl a \<and> P a} = name ` set (filter ?Q items)"
  proof (rule set_eqI)
    fix n
    have Q: "?Q obj \<longleftrightarrow> (\<exists>a. ParseAllocation U obj = Inr a \<and> live cl a \<and> P a)" for obj
      by (simp split: sum.splits)
    have "n \<in> name ` set (filter ?Q items) \<longleftrightarrow> (\<exists>obj. t n = Some obj \<and> ?Q obj)"
      unfolding image_iff set_filter assms(1) ran_def using assms(3) by blast
    also have "\<dots> \<longleftrightarrow> (\<exists>obj a. t n = Some obj \<and> ParseAllocation U obj = Inr a \<and> live cl a \<and> P a)"
      unfolding Q by simp
    finally show "n \<in> {n. \<exists>obj a. t n = Some obj \<and> ParseAllocation U obj = Inr a \<and> live cl a \<and> P a} \<longleftrightarrow>
        n \<in> name ` set (filter ?Q items)" by simp
  qed
  moreover have "card (name ` set (filter ?Q items)) = length (filter ?Q items)"
    using distinct_card [OF distinct_map_filter [OF assms(2), of ?Q]] by simp
  ultimately show ?thesis by (simp add: live_count_def length_live_allocs)
qed

text \<open>The status of a pool object says what a count demands.\<close>

definition reports :: "'z unstr_scheme \<Rightarrow> poolCounts \<Rightarrow> gmap \<Rightarrow> bool" where
  "reports U c p \<longleftrightarrow> (\<exists>cur time. uNestedMap U p [''status''] = Some cur
     \<and> deep_eq (GMap cur) (GMap (poolStatus c (uGetGeneration U p) time)))"

lemma reportsI: "uNestedMap U p [''status''] = Some (poolStatus c (uGetGeneration U p) t) \<Longrightarrow> reports U c p"
  unfolding reports_def by (intro exI [of _ "poolStatus c (uGetGeneration U p) t"] exI [of _ t])
    (simp add: poolStatus_def)

text \<open>With nobody else acting, and claims and pools that only the calls change:\<close>

locale still_cluster = quiet_alloc_api K tab rely + cluster_api K tab rely
  for K :: "('w, 'z) kube_scheme" and tab rely +
  fixes claims :: "'w \<Rightarrow> claim_view" and pools :: "'w \<Rightarrow> string \<rightharpoonup> gmap"
  assumes pool_names: "pools w n = Some p \<Longrightarrow> uGetName K p = n"
    and list_once: "kList K IPAllocationGVR w = (Inr items, w') \<Longrightarrow> distinct (map (uGetName K) items)"
    and list_keeps: "kList K IPAllocationGVR w = (r1, w') \<Longrightarrow> claims w' = claims w \<and> pools w' = pools w"
    and getClaim_keeps: "kGetClaim K ns n w = (r2, w') \<Longrightarrow> claims w' = claims w \<and> pools w' = pools w"
    and getClaim_ok: "kGetClaim K ns n w = (Inr c, w') \<Longrightarrow> claims w (ns, n) = Some (rc_UID c)"
    and getClaim_none: "kGetClaim K ns n w = (Inl e, w') \<Longrightarrow> IsNotFound e \<Longrightarrow> claims w (ns, n) = None"
    and delete_keeps: "kDelete K IPAllocationGVR n opts w = (r3, w') \<Longrightarrow> claims w' = claims w \<and> pools w' = pools w"
    and listPools_ok: "kList K IPPoolGVR w = (Inr items, w') \<Longrightarrow>
      set items = ran (pools w) \<and> pools w' = pools w"
    and updatePool_ok: "kUpdateStatus K IPPoolGVR obj w = (Inr p, w') \<Longrightarrow>
      pools w' = (pools w)(uGetName K obj \<mapsto> p) \<and> uGetName K p = uGetName K obj
      \<and> uGetGeneration K p = uGetGeneration K obj \<and> uNestedMap K p [''status''] = uNestedMap K obj [''status'']"
begin

lemma quiet_call: "\<exists>w1. rely w w1 \<and> tab w' = tab w1 \<Longrightarrow> tab w' = tab w"
  using quiet by metis

lemma stale_quiet:
  assumes "allocationIsStale K a w = (Inr stale, w1)"
  shows "tab w1 = tab w" "claims w1 = claims w" "pools w1 = pools w" "stale \<longleftrightarrow> \<not> live (claims w) a"
proof -
  let ?g = "kGetClaim K (or_Namespace (al_Claim a)) (or_Name (al_Claim a)) w"
  obtain r where g: "?g = (r, w1)" using assms by (auto simp: allocationIsStale_def split: go_split)
  show "tab w1 = tab w" using getClaim_tab [OF g] by (rule quiet_call)
  show "claims w1 = claims w" "pools w1 = pools w" using getClaim_keeps [OF g] by auto
  show "stale \<longleftrightarrow> \<not> live (claims w) a"
  proof (cases r)
    case (Inl e)
    with assms g getClaim_none [of _ _ w e w1] show ?thesis
      by (auto simp: allocationIsStale_def live_def split: if_splits)
  next
    case (Inr c)
    with assms g getClaim_ok [of _ _ w c w1] show ?thesis
      by (auto simp: allocationIsStale_def live_def)
  qed
qed

lemma deleteAllocation_quiet:
  assumes "deleteAllocation K obj w = (Inr u, w1)"
  shows "tab w1 = (tab w)(uGetName K obj := None)" "claims w1 = claims w" "pools w1 = pools w"
proof -
  obtain r where r: "kDelete K IPAllocationGVR (uGetName K obj)
      \<lparr>do_UID = uGetUID K obj, do_PropagationPolicy = None\<rparr> w = (r, w1)"
    and d: "(\<exists>u. r = Inr u) \<or> (\<exists>e. r = Inl e \<and> IsNotFound e)"
    using assms by (auto simp: deleteAllocation_def split: go_split)
  from r d show "tab w1 = (tab w)(uGetName K obj := None)" using delete_quiet by blast
  from delete_keeps [OF r] show "claims w1 = claims w" "pools w1 = pools w" by auto
qed

lemma reconcileItems_quiet:
  "reconcileItems K items counts w = (Inr counts', w') \<Longrightarrow>
     claims w' = claims w \<and> pools w' = pools w
     \<and> tab w' = (\<lambda>n. if \<exists>obj\<in>set items. stale_object K (claims w) obj \<and> uGetName K obj = n then None else tab w n)
     \<and> (\<forall>p. count_of counts' p =
          fold addCount (filter (\<lambda>a. al_Pool a = p) (live_allocs K (claims w) items)) (count_of counts p))"
proof (induction items arbitrary: counts w)
  case Nil
  then show ?case by (simp add: live_allocs_def)
next
  case (Cons obj items)
  show ?case
  proof (cases "ParseAllocation K obj")
    case (Inl e)
    with Cons.prems have "reconcileItems K items counts w = (Inr counts', w')" by simp
    from Cons.IH [OF this] Inl show ?thesis by (simp add: live_allocs_def stale_object_def)
  next
    case (Inr a)
    then obtain stale w1 where st: "allocationIsStale K a w = (Inr stale, w1)"
      using Cons.prems by (auto split: go_split)
    note q = stale_quiet [OF st]
    show ?thesis
    proof (cases stale)
      case True
      with Cons.prems Inr st obtain u w2 where d: "deleteAllocation K obj w1 = (Inr u, w2)"
        and rest: "reconcileItems K items counts w2 = (Inr counts', w')" by (auto split: go_split)
      note d' = deleteAllocation_quiet [OF d]
      have "stale_object K (claims w) obj" using True q(4) Inr by (simp add: stale_object_def)
      then show ?thesis using Cons.IH [OF rest] q d' True Inr
        by (auto simp: live_allocs_def fun_eq_iff)
    next
      case False
      with Cons.prems Inr st have rest: "reconcileItems K items
          (gput (al_Pool a) (addCount a (count_of counts (al_Pool a))) counts) w1 = (Inr counts', w')" by simp
      have "\<not> stale_object K (claims w) obj" using False q(4) Inr by (simp add: stale_object_def)
      then show ?thesis using Cons.IH [OF rest, unfolded q] q(4) False Inr
        by (simp add: live_allocs_def count_of_gput)
    qed
  qed
qed

lemma set_status:
  assumes "uSetNestedMap K pool status [''status''] = Inr pool'"
  shows "uNestedMap K pool' [''status''] = Some status" "uGetName K pool' = uGetName K pool"
    "uGetGeneration K pool' = uGetGeneration K pool"
  using assms by (auto simp: SetNestedMap1 NestedMap GetName GetGeneration)

lemma updatePools_quiet:
  "updatePools K counts ps w = (Inr u, w') \<Longrightarrow>
     (\<forall>n p. pools w n = Some p \<longrightarrow> reports K (count_of counts n) p \<or> p \<in> set ps) \<Longrightarrow>
     (\<forall>n p. pools w' n = Some p \<longrightarrow> reports K (count_of counts n) p) \<and> dom (pools w) \<subseteq> dom (pools w')"
proof (induction ps arbitrary: w)
  case Nil
  then show ?case by auto
next
  case (Cons pool ps)
  let ?n = "uGetName K pool"
  let ?status = "poolStatus (count_of counts ?n) (uGetGeneration K pool) (transitionTime K pool w)"
  show ?case
  proof (cases "case uNestedMap K pool [''status''] of Some current \<Rightarrow> deep_eq (GMap current) (GMap ?status)
      | None \<Rightarrow> False")
    case True
    then have "reports K (count_of counts ?n) pool" by (auto simp: reports_def split: option.splits)
    with Cons.prems(2) pool_names have
        "\<forall>n p. pools w n = Some p \<longrightarrow> reports K (count_of counts n) p \<or> p \<in> set ps" by (metis set_ConsD)
    with Cons.IH Cons.prems(1) True show ?thesis by (simp add: Let_def)
  next
    case False
    with Cons.prems(1) obtain pool' p' w1 where set: "uSetNestedMap K pool ?status [''status''] = Inr pool'"
      and upd: "kUpdateStatus K IPPoolGVR pool' w = (Inr p', w1)"
      and rest: "updatePools K counts ps w1 = (Inr u, w')"
      by (auto simp: Let_def split: go_split)
    note s = set_status [OF set] and o = updatePool_ok [OF upd]
    then have p': "pools w1 = (pools w)(?n \<mapsto> p')" and r: "reports K (count_of counts ?n) p'"
      by (auto intro: reportsI)
    have "reports K (count_of counts n) p \<or> p \<in> set ps" if "pools w1 n = Some p" for n p
      using that p' r Cons.prems(2) pool_names by (metis fun_upd_apply option.inject set_ConsD)
    with Cons.IH [OF rest] have "(\<forall>n p. pools w' n = Some p \<longrightarrow> reports K (count_of counts n) p)
        \<and> dom (pools w1) \<subseteq> dom (pools w')" by blast
    then show ?thesis using p' by auto
  qed
qed

lemma updatePools_tab: "updatePools K counts ps w = (r, w') \<Longrightarrow> tab w' = tab w"
proof (induction ps arbitrary: w)
  case Nil
  then show ?case by simp
next
  case (Cons pool ps)
  from Cons.prems consider "updatePools K counts ps w = (r, w')" | "w' = w"
    | p u w1 where "kUpdateStatus K IPPoolGVR p w = (u, w1)" "w' = w1 \<or> updatePools K counts ps w1 = (r, w')"
    by (auto simp: Let_def split: go_split)
  then show ?case
  proof cases
    case (3 p u w1)
    from quiet_call [OF updatePool_tab [OF 3(1)]] 3(2) Cons.IH show ?thesis by metis
  qed (auto intro: Cons.IH)
qed

lemma Reconcile_quiet:
  assumes "Reconcile K w = (Inr u, w')"
  shows "tab w' = live_part K (claims w) (tab w) \<and> (\<forall>n p. pools w' n = Some p \<longrightarrow> reports K (pool_tally K (claims w) (tab w) n) p)
    \<and> dom (pools w) \<subseteq> dom (pools w')"
proof -
  from assms obtain items w1 counts w2 ps w3 where
      l: "kList K IPAllocationGVR w = (Inr items, w1)"
    and c: "reconcileItems K items [] w1 = (Inr counts, w2)"
    and p: "kList K IPPoolGVR w2 = (Inr ps, w3)"
    and up: "updatePools K counts ps w3 = (Inr u, w')"
    by (auto simp: Reconcile_def updatePoolStatuses_def split: go_split)
  have t1: "tab w1 = tab w" "set items = ran (tab w)" using list_ok [OF l] quiet by metis+
  note k1 = list_keeps [OF l] and r = reconcileItems_quiet [OF c] and k3 = listPools_ok [OF p]
  have "count_of counts n = pool_tally K (claims w) (tab w) n" for n
    using r k1 live_count_items [where name = "uGetName K" and U = K and cl = "claims w", OF t1(2) list_once [OF l] tab_names [of w]]
    by (simp add: fold_addCount count_of_def no_counts_def pool_tally_def conj_commute)
  moreover have "tab w' = live_part K (claims w) (tab w)"
  proof
    fix n
    have "tab w' n = (if \<exists>obj\<in>set items. stale_object K (claims w) obj \<and> uGetName K obj = n then None else tab w n)"
      using updatePools_tab [OF up] quiet_call [OF listPools_tab [OF p]] r [unfolded t1(1)] k1 by auto
    moreover have "(\<exists>obj\<in>set items. stale_object K (claims w) obj \<and> uGetName K obj = n) \<longleftrightarrow>
        (\<exists>obj. tab w n = Some obj \<and> stale_object K (claims w) obj)"
      unfolding t1(2) ran_def using tab_names by blast
    ultimately show "tab w' n = live_part K (claims w) (tab w) n"
      by (simp add: live_part_def split: option.splits)
  qed
  moreover have "\<forall>n p. pools w3 n = Some p \<longrightarrow> p \<in> set ps" using k3 by (auto simp: ran_def)
  moreover have "pools w3 = pools w" using k1 r k3 by simp
  ultimately show ?thesis using updatePools_quiet [OF up] by simp
qed

end

section \<open>The server keeps these promises\<close>

lemma serve_keeps:
  assumes "serve env m s = (r, s')" and "\<And>x. f (snd (m x)) = f x"
  shows "\<exists>s1. sv_rely env s s1 \<and> f s' = f s1"
  using assms(1)
proof (cases rule: serve_cases)
  case (1 s1)
  with assms(2) [of s1] show ?thesis by (metis snd_conv)
next
  case (2 s1)
  with assms(2) [of s1] show ?thesis by metis
qed

lemma snd_getClaim [simp]: "snd (sv_getClaim ns n s) = s"
  by (simp add: sv_getClaim_def split: option.splits)

lemma updateStatus_tab: "sv_tab (snd (sv_updateStatus g obj s)) = sv_tab s"
  by (simp add: sv_updateStatus_def sv_tab_def)

sublocale server_env \<subseteq> cluster: cluster_api "server_kube env" sv_tab "sv_rely env"
proof unfold_locales
  fix ns n w w' obj
  show "\<exists>w1. sv_rely env w w1 \<and> sv_tab w' = sv_tab w1" if "kGetClaim (server_kube env) ns n w = (r1, w')" for r1
    using that serve_keeps [where f = sv_tab and m = "sv_getClaim ns n"] by simp
  show "\<exists>w1. sv_rely env w w1 \<and> sv_tab w' = sv_tab w1" if "kList (server_kube env) IPPoolGVR w = (r2, w')" for r2
    using that serve_keeps [where f = sv_tab and m = "\<lambda>s. (Inr (uniq (sv_pools s)), s)"] by simp
  show "\<exists>w1. sv_rely env w w1 \<and> sv_tab w' = sv_tab w1"
    if "kUpdateStatus (server_kube env) IPPoolGVR obj w = (r3, w')" for r3
    using that serve_keeps [where f = sv_tab and m = "sv_updateStatus IPPoolGVR obj"]
    by (simp add: updateStatus_tab)
qed

definition sv_claim_view :: "server \<Rightarrow> claim_view" where
  "sv_claim_view s = (\<lambda>(ns, n). map_option rc_UID (find (\<lambda>c. rc_Namespace c = ns \<and> rc_Name c = n) (sv_claims s)))"

definition sv_pool_view :: "server \<Rightarrow> string \<rightharpoonup> gmap" where
  "sv_pool_view s = by_name (sv_pools s)"

lemma view_fault [simp]:
  "sv_claim_view (snd (next_fault s)) = sv_claim_view s" "sv_pool_view (snd (next_fault s)) = sv_pool_view s"
  by (auto simp: next_fault_def sv_claim_view_def sv_pool_view_def split: list.splits)

lemma views_keep:
  assumes "serve id m s = (r, s')"
    and "\<And>x. sv_claims (snd (m x)) = sv_claims x \<and> sv_pools (snd (m x)) = sv_pools x"
  shows "sv_claim_view s' = sv_claim_view s \<and> sv_pool_view s' = sv_pool_view s"
  using serve_keeps [OF assms(1), of "\<lambda>x. (sv_claim_view x, sv_pool_view x)"] assms(2)
  by (auto simp: sv_rely_def sv_claim_view_def sv_pool_view_def)
    (metis view_fault sv_claim_view_def sv_pool_view_def)+

lemma calm_serve_Inr:
  assumes "serve id m s = (Inr x, s')"
  shows "m (snd (next_fault s)) = (Inr x, s')"
  using assms by (cases rule: serve_cases) (simp_all add: sv_rely_def)

lemma by_name_update:
  "doc_name obj \<in> doc_name ` set ps \<Longrightarrow>
     by_name (map (\<lambda>p. if doc_name p = doc_name obj then obj else p) ps) = (by_name ps)(doc_name obj \<mapsto> obj)"
proof (rule ext)
  fix n
  assume "doc_name obj \<in> doc_name ` set ps"
  then show "by_name (map (\<lambda>p. if doc_name p = doc_name obj then obj else p) ps) n =
      ((by_name ps)(doc_name obj \<mapsto> obj)) n"
    unfolding by_name_def
  proof (induction ps)
    case (Cons p ps)
    show ?case
    proof (cases "doc_name obj \<in> doc_name ` set ps")
      case True
      with Cons.IH show ?thesis by auto
    next
      case False
      with Cons.prems have p: "doc_name p = doc_name obj" by auto
      have "map (\<lambda>p. if doc_name p = doc_name obj then obj else p) ps = ps"
        using False by (intro map_idI) (metis imageI)
      with p show ?thesis by simp
    qed
  qed simp
qed

lemma calm_getClaim_ok:
  assumes "serve id (sv_getClaim ns n) s = (Inr c, s')"
  shows "sv_claim_view s (ns, n) = Some (rc_UID c)"
proof -
  from calm_serve_Inr [OF assms] have "sv_claim_view (snd (next_fault s)) (ns, n) = Some (rc_UID c)"
    by (auto simp: sv_getClaim_def sv_claim_view_def split: option.splits)
  then show ?thesis by simp
qed

lemma calm_getClaim_none:
  assumes "serve id (sv_getClaim ns n) s = (Inl e, s')" and "IsNotFound e"
  shows "sv_claim_view s (ns, n) = None"
  using assms(1)
proof (cases rule: serve_cases)
  case (1 s1)
  then have "sv_claim_view s1 (ns, n) = None"
    by (auto simp: sv_getClaim_def sv_claim_view_def split: option.splits)
  with 1(1) show ?thesis by (simp add: sv_rely_def)
next
  case (2 s1)
  with assms(2) show ?thesis by simp
qed

lemma calm_updatePool_ok:
  assumes "serve id (sv_updateStatus IPPoolGVR obj) s = (Inr p, s')"
  shows "sv_pool_view s' = (sv_pool_view s)(doc_name obj \<mapsto> p) \<and> p = obj"
proof -
  let ?s = "snd (next_fault s)"
  from calm_serve_Inr [OF assms] have o: "doc_name obj \<in> doc_name ` set (sv_pools ?s)" "p = obj"
    "s' = ?s\<lparr>sv_pools := map (\<lambda>p. if doc_name p = doc_name obj then obj else p) (sv_pools ?s)\<rparr>"
    by (auto simp: sv_updateStatus_def split: if_splits)
  then have "sv_pool_view s' = (sv_pool_view ?s)(doc_name obj \<mapsto> obj)"
    by (simp add: sv_pool_view_def by_name_update)
  with o(2) show ?thesis by simp
qed

lemma calm_listPools_ok:
  assumes "serve id (\<lambda>s. (Inr (uniq (sv_pools s)), s)) s = (Inr items, s')"
  shows "set items = ran (sv_pool_view s) \<and> sv_pool_view s' = sv_pool_view s"
  using calm_serve_Inr [OF assms] view_fault(2) [of s]
  by (auto simp: sv_pool_view_def set_uniq)

lemma delete_views:
  "sv_claims (snd (sv_delete n opts s)) = sv_claims s \<and> sv_pools (snd (sv_delete n opts s)) = sv_pools s"
  by (simp add: sv_delete_def sv_remove_def split: option.splits)

interpretation calms: still_cluster "server_kube id" sv_tab "sv_rely id" sv_claim_view sv_pool_view
proof unfold_locales
  fix w w' n ns p obj opts items c e
  show "uGetName (server_kube id) p = n" if "sv_pool_view w n = Some p"
    using that by_name_name by (simp add: sv_pool_view_def)
  show "distinct (map (uGetName (server_kube id)) items)"
    if "kList (server_kube id) IPAllocationGVR w = (Inr items, w')"
  proof -
    from that have "serve id sv_list w = (Inr items, w')" by simp
    from calm_serve_Inr [OF this] show ?thesis by (auto simp: sv_list_def distinct_uniq)
  qed
  show "sv_claim_view w' = sv_claim_view w \<and> sv_pool_view w' = sv_pool_view w"
    if "kList (server_kube id) IPAllocationGVR w = (r, w')" for r
    using that views_keep [where m = sv_list] by (simp add: sv_list_def)
  show "sv_claim_view w' = sv_claim_view w \<and> sv_pool_view w' = sv_pool_view w"
    if "kGetClaim (server_kube id) ns n w = (r, w')" for r
    using that views_keep [where m = "sv_getClaim ns n"] by simp
  show "sv_claim_view w (ns, n) = Some (rc_UID c)" if "kGetClaim (server_kube id) ns n w = (Inr c, w')"
    using that calm_getClaim_ok by simp
  show "sv_claim_view w (ns, n) = None" if "kGetClaim (server_kube id) ns n w = (Inl e, w')" "IsNotFound e"
    using that calm_getClaim_none by simp
  show "sv_claim_view w' = sv_claim_view w \<and> sv_pool_view w' = sv_pool_view w"
    if "kDelete (server_kube id) IPAllocationGVR n opts w = (r, w')" for r
    using that views_keep [where m = "sv_delete n opts"] delete_views by simp
  show "set items = ran (sv_pool_view w) \<and> sv_pool_view w' = sv_pool_view w"
    if "kList (server_kube id) IPPoolGVR w = (Inr items, w')"
    using that calm_listPools_ok by simp
  show "sv_pool_view w' = (sv_pool_view w)(uGetName (server_kube id) obj \<mapsto> p)
      \<and> uGetName (server_kube id) p = uGetName (server_kube id) obj
      \<and> uGetGeneration (server_kube id) p = uGetGeneration (server_kube id) obj
      \<and> uNestedMap (server_kube id) p [''status''] = uNestedMap (server_kube id) obj [''status'']"
    if "kUpdateStatus (server_kube id) IPPoolGVR obj w = (Inr p, w')"
    using that calm_updatePool_ok [of obj w p w'] by simp
qed

section \<open>A sample cluster\<close>

definition sample_pool_object :: gmap where
  "sample_pool_object = [(''metadata'', GMap [(''name'', GStr ''lan''), (''generation'', GInt 1)]),
     (''spec'', GMap [(''subnet'', GStr ''10.0.0.0/24'')])]"

definition sample_claim :: ResourceClaim where
  "sample_claim = \<lparr>rc_Namespace = ''default'', rc_Name = ''net-a'', rc_UID = ''uid-a'', rc_Generation = 1,
     rc_Annotations = [], rc_ReservedFor = [], rc_Results = [], rc_Config = [], rc_Devices = []\<rparr>"

text \<open>One pool, one allocation, and the claims given.\<close>

definition sample_cluster :: "ResourceClaim list \<Rightarrow> server" where
  "sample_cluster cs = empty_server\<lparr>sv_allocs := [stamp 0 (NewAllocationObject sample_alloc)], sv_next := 1,
     sv_pools := [sample_pool_object], sv_claims := cs\<rparr>"

lemma sample_pool_sel [simp]:
  "uGetName doc_unstr sample_pool_object = ''lan''"
  "uGetGeneration (server_kube env) sample_pool_object = 1"
  "uNestedMap (server_kube env) sample_pool_object [''status''] = None"
  by (simp_all add: server_ops doc_unstr_def sample_pool_object_def)

lemma sample_set_status [simp]:
  "uSetNestedMap (server_kube env) sample_pool_object v [''status''] = Inr (gput ''status'' (GMap v) sample_pool_object)"
  by (rule svu.SetNestedMap1)

lemma sample_pool_status_name [simp]:
  "uGetName doc_unstr (gput ''status'' v sample_pool_object) = ''lan''"
  by (simp add: doc_unstr_def sample_pool_object_def)

lemma sample_list [simp]: "uniq [obj] = [obj]"
  by (simp add: uniq_def by_name_def)

lemma serve_calm: "sv_faults s = [] \<Longrightarrow> serve id m s = m s"
  by (simp add: serve_def next_fault_def)

lemma sample_cluster_sel [simp]:
  "sv_faults (sample_cluster cs) = []" "sv_allocs (sample_cluster cs) = [stamp 0 (NewAllocationObject sample_alloc)]"
  "sv_pools (sample_cluster cs) = [sample_pool_object]" "sv_claims (sample_cluster cs) = cs"
  by (simp_all add: sample_cluster_def)

section \<open>Properties\<close>

text \<open>C21: a reconciliation pass that succeeds deletes every allocation whose claim is gone or was replaced,
  and no other.\<close>

theorem Reconcile_deletes_stale:
  assumes "still_cluster K tab rely claims pools" and "Reconcile K w = (Inr u, w')"
  shows "tab w' = live_part K (claims w) (tab w)"
  using still_cluster.Reconcile_quiet [OF assms] by blast

lemma Reconcile_gone: "\<exists>s. Reconcile (server_kube id) (sample_cluster []) = (Inr (), s)"
  by (simp add: Reconcile_def serve_calm sv_list_def allocationIsStale_def sv_getClaim_def IsNotFound_def
      deleteAllocation_def sv_delete_def sv_tab_def by_name_def sv_remove_def updatePoolStatuses_def
      sv_updateStatus_def Let_def)

theorem Reconcile_deletes_stale_witness:
  "\<exists>s. Reconcile (server_kube id) (sample_cluster []) = (Inr (), s) \<and> sv_tab s = Map.empty"
proof -
  obtain s where s: "Reconcile (server_kube id) (sample_cluster []) = (Inr (), s)" using Reconcile_gone by blast
  have "live_part (server_kube id) (sv_claim_view (sample_cluster [])) (sv_tab (sample_cluster [])) = Map.empty"
    by (auto simp: live_part_def sv_tab_def by_name_def stale_object_def live_def sv_claim_view_def fun_eq_iff)
  with Reconcile_deletes_stale [OF calms.still_cluster_axioms s] s show ?thesis by simp
qed

text \<open>C22: after a pass that succeeds, the status of every pool gives the number of live allocations of that
  pool, in total, static and dynamic, and no pool was lost.\<close>

theorem Reconcile_counts:
  assumes "still_cluster K tab rely claims pools" and "Reconcile K w = (Inr u, w')" and "pools w n \<noteq> None"
  shows "\<exists>p. pools w' n = Some p \<and> reports K (pool_tally K (claims w) (tab w) n) p"
  using still_cluster.Reconcile_quiet [OF assms(1,2)] assms(3) by fastforce

lemma Reconcile_live: "\<exists>s. Reconcile (server_kube id) (sample_cluster [sample_claim]) = (Inr (), s)"
  by (simp add: Reconcile_def serve_calm sv_list_def allocationIsStale_def sv_getClaim_def
      updatePoolStatuses_def sv_updateStatus_def Let_def)
    (simp add: sample_claim_def sample_alloc_def)

theorem Reconcile_counts_witness:
  "\<exists>s p. Reconcile (server_kube id) (sample_cluster [sample_claim]) = (Inr (), s) \<and> sv_pool_view s ''lan'' = Some p
     \<and> reports (server_kube id) \<lparr>pcn_Total = 1, pcn_Dynamic = 1, pcn_Static = 0\<rparr> p"
proof -
  let ?t = "sv_tab (sample_cluster [sample_claim])" and ?c = "sv_claim_view (sample_cluster [sample_claim])"
  obtain s where s: "Reconcile (server_kube id) (sample_cluster [sample_claim]) = (Inr (), s)"
    using Reconcile_live by blast
  have t: "?t = [AllocationName ''lan'' ''10.0.0.5/24'' \<mapsto> stamp 0 (NewAllocationObject sample_alloc)]"
    by (auto simp: sv_tab_def by_name_def fun_eq_iff) (simp_all add: sample_alloc_def)
  have "pool_tally (server_kube id) ?c ?t ''lan'' = \<lparr>pcn_Total = 1, pcn_Dynamic = 1, pcn_Static = 0\<rparr>"
    by (simp add: pool_tally_def live_count_def t live_def sv_claim_view_def)
      (simp add: sample_claim_def sample_alloc_def)
  moreover have "sv_pool_view (sample_cluster [sample_claim]) ''lan'' \<noteq> None"
    by (simp add: sv_pool_view_def by_name_def)
  ultimately show ?thesis using Reconcile_counts [OF calms.still_cluster_axioms s, of "''lan''"] s by auto
qed

text \<open>The controller's loop, over any number of ticks, on every outcome of every call and whatever the rest
  of the cluster does between and during its passes, never lets an address have two owners.\<close>

theorem Run_one_owner:
  assumes "cluster_api K tab rely" and "\<And>w. table_steps K (tab w) (tab (idle w))" and "wf_table K (tab w)"
    and "x \<in> owners K (tab (Run K idle events w)) pool address"
    and "y \<in> owners K (tab (Run K idle events w)) pool address"
  shows "x = y"
proof -
  have "table_steps K (tab w) (tab (Run K idle events w))"
    unfolding Run_def using cluster_api.Reconcile_steps [OF assms(1)] cluster_api.RunTicks_steps [OF assms(1,2)]
    by (rule rtranclp_trans)
  then have "wf_table K (tab (Run K idle events w))" using assms(3) by (rule table_steps_wf)
  from owners_unique [OF this assms(4,5)] show ?thesis .
qed

theorem Run_one_owner_witness:
  "\<exists>u. owners (server_kube interfere) (sv_tab (Run (server_kube interfere) id [True, False] contested_server))
     ''lan'' ''10.0.0.5/24'' \<subseteq> {u}"
proof -
  have i: "\<And>w. table_steps (server_kube interfere) (sv_tab w) (sv_tab (id w))" by simp
  have w: "wf_table (server_kube interfere) (sv_tab contested_server)" by simp
  from Run_one_owner [OF busy.cluster.cluster_api_axioms i w] show ?thesis by (metis singletonI subsetI)
qed

text \<open>A pool that was just written is left alone by the next pass, whenever that comes, as long as its
  counts stay the same: the transition time is kept and the status compares equal, so no further write is made.\<close>

theorem updatePools_settled:
  assumes "unstructured_lib K" and "time \<noteq> []" and "uGetName K pool = n"
    and "uSetNestedMap K pool (poolStatus (count_of counts n) (uGetGeneration K pool) time) [''status''] = Inr pool'"
  shows "updatePools K counts [pool'] w = (Inr (), w)"
proof -
  note lib = unstructured_lib.SetNestedMap1 [OF assms(1)] unstructured_lib.NestedMap [OF assms(1)]
    unstructured_lib.NestedSlice [OF assms(1)] unstructured_lib.GetName [OF assms(1)]
    unstructured_lib.GetGeneration [OF assms(1)]
  let ?status = "poolStatus (count_of counts n) (uGetGeneration K pool) time"
  from assms(4) have p': "pool' = gput ''status'' (GMap ?status) pool" by (simp add: lib)
  have n: "uGetName K pool' = n" "uGetGeneration K pool' = uGetGeneration K pool"
    using assms(3) by (simp_all add: p' lib)
  have "transitionTime K pool' w = time"
    using assms(2) by (simp add: transitionTime_def lib p') (simp add: poolStatus_def)
  moreover have "uNestedMap K pool' [''status''] = Some ?status" by (simp add: p' lib)
  ultimately show ?thesis by (simp add: n Let_def) (simp add: poolStatus_def)
qed

theorem updatePools_settled_witness:
  "updatePools (server_kube id) []
     [gput ''status'' (GMap (poolStatus no_counts 1 ''2025-01-01T00:00:00Z'')) sample_pool_object] empty_server =
       (Inr (), empty_server)"
  using updatePools_settled [OF svu.unstructured_lib_axioms, of "''2025-01-01T00:00:00Z''" id sample_pool_object "''lan''"
      "[]" _ empty_server]
  by (simp add: count_of_def)

end
