(* ===== verification/Config_Model.thy ===== *)
theory Config_Model
  imports Go_Prelude
begin

text \<open>
  \<^verbatim>\<open>internal/config/config.go\<close>: the operator's configuration, its defaults and its validation.
  A Go slice that the code only measures or iterates is a list (nil and empty coincide);
  \<^verbatim>\<open>PCIClasses\<close>, whose nil and empty values mean different things, is an optional list.
  \<^verbatim>\<open>Load\<close> takes the outcome of \<^verbatim>\<open>os.ReadFile\<close> and the JSON decoder as arguments.
\<close>

section \<open>The configuration types\<close>

definition DefaultDriverName :: string where
  "DefaultDriverName = ''linux-net.dra.infinitydon.com''"

record PCISelector =
  ps_Vendors :: "string list"
  ps_Devices :: "string list"
  ps_PCIAddresses :: "string list"

record DPDKConfig =
  dc_Enabled :: bool
  dc_AllowUnsafeNoIOMMU :: bool
  dc_SysfsPath :: string
  dc_DevPath :: string
  dc_CDIHostDevPath :: string
  dc_CDIPath :: string
  dc_PCIIDPath :: string
  dc_ModulesPath :: string
  dc_AllowedKernelDrivers :: "string list"
  dc_Drivers :: "string list"
  dc_PCIClasses :: "string list option"
  dc_Include :: PCISelector
  dc_Exclude :: PCISelector
  dc_CompatibleDriverOverrides :: "(string \<times> string list) list"

record InterfaceConfig =
  ic_Name :: string
  ic_Default :: bool
  ic_AllocationPolicy :: string
  ic_Types :: "string list"
  ic_MacvlanModes :: "string list"
  ic_IPvlanModes :: "string list"
  ic_DefaultType :: string
  ic_DefaultMode :: string
  ic_DefaultPodName :: string
  ic_MTU :: int
  ic_AllowUnsafe :: bool

record IPRange =
  r_Name :: string
  r_Addresses :: "string list"
  r_RangeStart :: string
  r_RangeEnd :: string

record ConfigRoute =
  cr_Destination :: string
  cr_Gateway :: string

record IPPool =
  p_Name :: string
  p_Subnet :: string
  p_RangeStart :: string
  p_RangeEnd :: string
  p_Allocations :: "IPRange list"
  p_Reservations :: "IPRange list"
  p_Gateway :: string
  p_Routes :: "ConfigRoute list"

record Config =
  cfg_DriverName :: string
  cfg_Interfaces :: "InterfaceConfig list"
  cfg_IPPools :: "IPPool list"
  cfg_DPDK :: DPDKConfig

section \<open>Defaults\<close>

definition normalize :: "string \<Rightarrow> string" where
  "normalize v = TrimPrefix (ToLower (TrimSpace v)) ''0x''"

definition normalizeSelector :: "PCISelector \<Rightarrow> PCISelector" where
  "normalizeSelector s = s\<lparr>ps_Vendors := map normalize (ps_Vendors s),
     ps_Devices := map normalize (ps_Devices s),
     ps_PCIAddresses := map normalize (ps_PCIAddresses s)\<rparr>"

definition or_default :: "string \<Rightarrow> string \<Rightarrow> string" where
  "or_default v d = (if v = [] then d else v)"

definition setDPDKDefaults :: "DPDKConfig \<Rightarrow> DPDKConfig" where
  "setDPDKDefaults c =
     (let allowed0 = (if dc_AllowedKernelDrivers c = [] then dc_Drivers c else dc_AllowedKernelDrivers c);
          allowed1 = (if allowed0 = [] then [''vfio-pci''] else allowed0);
          classes = (case dc_PCIClasses c of None \<Rightarrow> [''0200''] | Some cs \<Rightarrow> cs);
          allowed = map normalize allowed1
      in c\<lparr>dc_SysfsPath := or_default (dc_SysfsPath c) ''/sys'',
           dc_DevPath := or_default (dc_DevPath c) ''/dev'',
           dc_CDIHostDevPath := or_default (dc_CDIHostDevPath c) ''/dev'',
           dc_CDIPath := or_default (dc_CDIPath c) ''/var/run/cdi'',
           dc_PCIIDPath := or_default (dc_PCIIDPath c) ''/usr/share/misc/pci.ids'',
           dc_ModulesPath := or_default (dc_ModulesPath c) ''/host/lib/modules'',
           dc_AllowedKernelDrivers := allowed,
           dc_Drivers := allowed,
           dc_PCIClasses := Some (map normalize classes),
           dc_Include := normalizeSelector (dc_Include c),
           dc_Exclude := normalizeSelector (dc_Exclude c)\<rparr>)"

section \<open>Loading\<close>

text \<open>The \<^verbatim>\<open>switch networkType\<close> loop: which kinds of link type occur.\<close>

fun scanTypes :: "nat \<Rightarrow> bool \<Rightarrow> bool \<Rightarrow> string list \<Rightarrow> goerr + (bool \<times> bool)" where
  "scanTypes i hostDevice sharedType [] = Inr (hostDevice, sharedType)"
| "scanTypes i hostDevice sharedType (t # ts) =
     (if t = ''host-device'' then scanTypes i True sharedType ts
      else if t = ''macvlan'' \<or> t = ''ipvlan'' then scanTypes i hostDevice True ts
      else Inl (Errorf ''interfaces[%d].types contains unsupported type %q'' [utoa i, t]))"

definition typesOrDefault :: "InterfaceConfig \<Rightarrow> string list" where
  "typesOrDefault ifc = (if ic_Types ifc = [] then [''macvlan'', ''ipvlan''] else ic_Types ifc)"

text \<open>The end of the loop body, which fills in what the operator left out.\<close>

definition interfaceDefaults :: "string \<Rightarrow> InterfaceConfig \<Rightarrow> InterfaceConfig" where
  "interfaceDefaults policy ifc =
     (let types = typesOrDefault ifc;
          defaultType = or_default (ic_DefaultType ifc) (hd types);
          hostDefault = (defaultType = ''host-device'')
      in ifc\<lparr>ic_Types := types, ic_AllocationPolicy := policy,
           ic_MacvlanModes := (if ic_MacvlanModes ifc = []
              then [''bridge'', ''private'', ''vepa'', ''passthru''] else ic_MacvlanModes ifc),
           ic_IPvlanModes := (if ic_IPvlanModes ifc = []
              then [''l2'', ''l3'', ''l3s''] else ic_IPvlanModes ifc),
           ic_DefaultType := defaultType,
           ic_DefaultMode := (if ic_DefaultMode ifc = [] \<and> \<not> hostDefault
              then ''bridge'' else ic_DefaultMode ifc),
           ic_DefaultPodName := (if ic_DefaultPodName ifc = [] \<and> \<not> hostDefault
              then ''net1'' else ic_DefaultPodName ifc)\<rparr>)"

text \<open>The body of the loop over \<^verbatim>\<open>cfg.Interfaces\<close>.\<close>

definition loadInterface :: "nat \<Rightarrow> InterfaceConfig \<Rightarrow> goerr + InterfaceConfig" where
  "loadInterface i ifc =
     (if ic_Name ifc = [] then Inl (Errorf ''interfaces[%d].name is required'' [utoa i])
      else
        let types = typesOrDefault ifc;
            policy = or_default (ic_AllocationPolicy ifc) ''shared''
        in
        if policy \<noteq> ''shared'' \<and> policy \<noteq> ''exclusive''
        then Inl (Errorf ''interfaces[%d].allocationPolicy must be shared or exclusive'' [utoa i])
        else (case scanTypes i False False types of
            Inl e \<Rightarrow> Inl e
          | Inr (hostDevice, sharedType) \<Rightarrow>
              if hostDevice \<and> (policy \<noteq> ''exclusive'' \<or> sharedType)
              then Inl (Errorf ''interfaces[%d] host-device must be exclusive and cannot be combined with shared link types'' [utoa i])
              else if \<not> hostDevice \<and> policy \<noteq> ''shared''
              then Inl (Errorf ''interfaces[%d] exclusive policy requires host-device type'' [utoa i])
              else Inr (interfaceDefaults policy ifc)))"

text \<open>The body of the loop over \<^verbatim>\<open>cfg.IPPools\<close>.\<close>

definition loadPool :: "nat \<Rightarrow> IPPool \<Rightarrow> goerr + IPPool" where
  "loadPool i p =
     (if p_Name p = [] then Inl (Errorf ''ipPools[%d].name is required'' [utoa i])
      else if p_Subnet p = [] then Inl (Errorf ''ipPools[%d].subnet is required'' [utoa i])
      else
        let allocs = (if p_Allocations p = [] \<and> p_RangeStart p \<noteq> [] \<and> p_RangeEnd p \<noteq> []
                      then [\<lparr>r_Name = [], r_Addresses = [], r_RangeStart = p_RangeStart p,
                             r_RangeEnd = p_RangeEnd p\<rparr>]
                      else p_Allocations p)
        in if allocs = [] then Inl (Errorf ''ipPools[%d].allocations is required'' [utoa i])
           else Inr (p\<lparr>p_Allocations := allocs\<rparr>))"

text \<open>A \<^verbatim>\<open>for i := range xs\<close> loop that updates each element or returns the first error.\<close>

fun loadEach :: "(nat \<Rightarrow> 'a \<Rightarrow> goerr + 'b) \<Rightarrow> nat \<Rightarrow> 'a list \<Rightarrow> goerr + 'b list" where
  "loadEach f i [] = Inr []"
| "loadEach f i (x # xs) =
     (case f i x of
        Inl e \<Rightarrow> Inl e
      | Inr y \<Rightarrow> (case loadEach f (Suc i) xs of Inl e \<Rightarrow> Inl e | Inr ys \<Rightarrow> Inr (y # ys)))"

text \<open>\<^verbatim>\<open>Load\<close> after the JSON has been decoded.\<close>

definition finishConfig :: "Config \<Rightarrow> goerr + Config" where
  "finishConfig c0 =
     (let c1 = c0\<lparr>cfg_DriverName := or_default (cfg_DriverName c0) DefaultDriverName\<rparr>;
          dpdk = (if dc_Enabled (cfg_DPDK c1) then setDPDKDefaults (cfg_DPDK c1) else cfg_DPDK c1)
      in if dc_Enabled dpdk \<and> dc_AllowUnsafeNoIOMMU dpdk \<and> ps_PCIAddresses (dc_Include dpdk) = []
         then Inl (Errorf ''dpdk.allowUnsafeNoIOMMU requires explicit dpdk.include.pciAddresses'' [])
         else (case loadEach loadInterface 0 (cfg_Interfaces c1) of
             Inl e \<Rightarrow> Inl e
           | Inr ifs \<Rightarrow> (case loadEach loadPool 0 (cfg_IPPools c1) of
               Inl e \<Rightarrow> Inl e
             | Inr pools \<Rightarrow>
                 Inr (c1\<lparr>cfg_DPDK := dpdk, cfg_Interfaces := ifs, cfg_IPPools := pools\<rparr>))))"

definition Load :: "(goerr + string) \<Rightarrow> (string \<Rightarrow> goerr + Config) \<Rightarrow> goerr + Config" where
  "Load readFile unmarshal =
     (case readFile of
        Inl e \<Rightarrow> Inl e
      | Inr data \<Rightarrow> (case unmarshal data of Inl e \<Rightarrow> Inl e | Inr c \<Rightarrow> finishConfig c))"

section \<open>Well-formed configurations\<close>

definition wf_interface :: "InterfaceConfig \<Rightarrow> bool" where
  "wf_interface ifc \<longleftrightarrow>
     ic_Name ifc \<noteq> [] \<and> ic_Types ifc \<noteq> [] \<and> ic_DefaultType ifc \<noteq> [] \<and>
     ic_MacvlanModes ifc \<noteq> [] \<and> ic_IPvlanModes ifc \<noteq> [] \<and>
     (ic_AllocationPolicy ifc = ''exclusive'' \<and> set (ic_Types ifc) = {''host-device''} \<or>
      ic_AllocationPolicy ifc = ''shared'' \<and> set (ic_Types ifc) \<subseteq> {''macvlan'', ''ipvlan''}) \<and>
     (ic_DefaultType ifc \<noteq> ''host-device'' \<longrightarrow> ic_DefaultMode ifc \<noteq> [] \<and> ic_DefaultPodName ifc \<noteq> [])"

definition wf_pool :: "IPPool \<Rightarrow> bool" where
  "wf_pool p \<longleftrightarrow> p_Name p \<noteq> [] \<and> p_Subnet p \<noteq> [] \<and> p_Allocations p \<noteq> []"

definition wf_dpdk :: "DPDKConfig \<Rightarrow> bool" where
  "wf_dpdk d \<longleftrightarrow>
     dc_SysfsPath d \<noteq> [] \<and> dc_DevPath d \<noteq> [] \<and> dc_CDIHostDevPath d \<noteq> [] \<and> dc_CDIPath d \<noteq> [] \<and>
     dc_PCIIDPath d \<noteq> [] \<and> dc_ModulesPath d \<noteq> [] \<and> dc_AllowedKernelDrivers d \<noteq> [] \<and>
     dc_Drivers d = dc_AllowedKernelDrivers d \<and> dc_PCIClasses d \<noteq> None \<and>
     (dc_AllowUnsafeNoIOMMU d \<longrightarrow> ps_PCIAddresses (dc_Include d) \<noteq> [])"

definition wf_config :: "Config \<Rightarrow> bool" where
  "wf_config c \<longleftrightarrow> cfg_DriverName c \<noteq> [] \<and>
     (\<forall>ifc \<in> set (cfg_Interfaces c). wf_interface ifc) \<and>
     (\<forall>p \<in> set (cfg_IPPools c). wf_pool p) \<and>
     (dc_Enabled (cfg_DPDK c) \<longrightarrow> wf_dpdk (cfg_DPDK c))"

section \<open>Lemmas\<close>

lemma or_default_nonempty [simp]: "d \<noteq> [] \<Longrightarrow> or_default v d \<noteq> []"
  by (simp add: or_default_def)

lemma scanTypes_Inr:
  "scanTypes i h0 s0 ts = Inr (h, s) \<longleftrightarrow>
     set ts \<subseteq> {''host-device'', ''macvlan'', ''ipvlan''} \<and>
     h = (h0 \<or> ''host-device'' \<in> set ts) \<and> s = (s0 \<or> ''macvlan'' \<in> set ts \<or> ''ipvlan'' \<in> set ts)"
  by (induction i h0 s0 ts rule: scanTypes.induct) auto

lemma loadEach_Inr:
  "loadEach f i xs = Inr ys \<longleftrightarrow> length ys = length xs \<and> (\<forall>k < length xs. f (i + k) (xs ! k) = Inr (ys ! k))"
proof (induction f i xs arbitrary: ys rule: loadEach.induct)
  case (1 f i)
  then show ?case by auto
next
  case (2 f i x xs)
  show ?case
  proof (cases ys)
    case Nil
    then show ?thesis by (auto split: sum.splits)
  next
    case (Cons y ys')
    have "(\<forall>k < length (x # xs). f (i + k) ((x # xs) ! k) = Inr ((y # ys') ! k)) \<longleftrightarrow>
        f i x = Inr y \<and> (\<forall>k < length xs. f (Suc i + k) (xs ! k) = Inr (ys' ! k))"
      by (simp add: All_less_Suc2)
    with Cons 2 show ?thesis by (auto split: sum.splits)
  qed
qed

lemma loadEach_set:
  "loadEach f i xs = Inr ys \<Longrightarrow> y \<in> set ys \<Longrightarrow> \<exists>k x. x \<in> set xs \<and> f k x = Inr y"
  by (auto simp: loadEach_Inr in_set_conv_nth)

text \<open>What a successful pass over one interface has checked and set.\<close>

lemma loadInterface_Inr:
  assumes "loadInterface i ifc = Inr r"
  obtains h s policy where "scanTypes i False False (typesOrDefault ifc) = Inr (h, s)"
    and "h \<longrightarrow> policy = ''exclusive'' \<and> \<not> s" and "h \<or> policy = ''shared''"
    and "ic_Name ifc \<noteq> []" and "r = interfaceDefaults policy ifc"
proof (cases "scanTypes i False False (typesOrDefault ifc)")
  case (Inl e)
  with assms show ?thesis by (simp add: loadInterface_def Let_def split: if_splits)
next
  case (Inr hs)
  obtain h s where "hs = (h, s)" by (cases hs)
  with Inr assms show ?thesis
    by (intro that [of h s "or_default (ic_AllocationPolicy ifc) ''shared''"])
       (simp_all add: loadInterface_def Let_def split: if_splits)
qed

lemma interfaceDefaults_sel [simp]:
  "ic_Name (interfaceDefaults pol ifc) = ic_Name ifc"
  "ic_Types (interfaceDefaults pol ifc) = typesOrDefault ifc"
  "ic_AllocationPolicy (interfaceDefaults pol ifc) = pol"
  "ic_DefaultType (interfaceDefaults pol ifc) = or_default (ic_DefaultType ifc) (hd (typesOrDefault ifc))"
  "ic_MacvlanModes (interfaceDefaults pol ifc) \<noteq> []"
  "ic_IPvlanModes (interfaceDefaults pol ifc) \<noteq> []"
  by (simp_all add: interfaceDefaults_def Let_def)

lemma interfaceDefaults_podName:
  "or_default (ic_DefaultType ifc) (hd (typesOrDefault ifc)) \<noteq> ''host-device'' \<Longrightarrow>
     ic_DefaultMode (interfaceDefaults pol ifc) \<noteq> [] \<and> ic_DefaultPodName (interfaceDefaults pol ifc) \<noteq> []"
  by (simp add: interfaceDefaults_def Let_def)

lemma only_first: "T \<subseteq> {a, b, c} \<Longrightarrow> T \<noteq> {} \<Longrightarrow> b \<notin> T \<Longrightarrow> c \<notin> T \<Longrightarrow> T = {a}"
  and not_first: "T \<subseteq> {a, b, c} \<Longrightarrow> a \<notin> T \<Longrightarrow> T \<subseteq> {b, c}"
  by blast+

lemma typesOrDefault_nonempty [simp]: "typesOrDefault ifc \<noteq> []"
  by (simp add: typesOrDefault_def)

lemma scanned_defaultType:
  "set ts \<subseteq> {''host-device'', ''macvlan'', ''ipvlan''} \<Longrightarrow> ts \<noteq> [] \<Longrightarrow> or_default d (hd ts) \<noteq> []"
  by (cases ts) (auto simp: or_default_def)

lemma loadInterface_wf:
  assumes "loadInterface i ifc = Inr r"
  shows "wf_interface r"
proof (rule loadInterface_Inr [OF assms])
  fix h s policy
  assume scan: "scanTypes i False False (typesOrDefault ifc) = Inr (h, s)"
    and excl: "h \<longrightarrow> policy = ''exclusive'' \<and> \<not> s"
    and shared: "h \<or> policy = ''shared''"
    and name: "ic_Name ifc \<noteq> []" and r: "r = interfaceDefaults policy ifc"
  let ?ts = "set (typesOrDefault ifc)"
  from scan have sub: "?ts \<subseteq> {''host-device'', ''macvlan'', ''ipvlan''}"
    and h: "h = (''host-device'' \<in> ?ts)" and s: "s = (''macvlan'' \<in> ?ts \<or> ''ipvlan'' \<in> ?ts)"
    unfolding scanTypes_Inr by simp_all
  have ne: "?ts \<noteq> {}" by simp
  have "policy = ''exclusive'' \<and> ?ts = {''host-device''} \<or> policy = ''shared'' \<and> ?ts \<subseteq> {''macvlan'', ''ipvlan''}"
  proof (cases h)
    case True
    with excl have "\<not> s" and pol: "policy = ''exclusive''" by auto
    with s have "?ts = {''host-device''}" by (intro only_first [OF sub ne]) simp_all
    with pol show ?thesis by blast
  next
    case False
    with h have "?ts \<subseteq> {''macvlan'', ''ipvlan''}" by (intro not_first [OF sub]) simp
    with False shared show ?thesis by blast
  qed
  then show ?thesis
    using name scanned_defaultType [OF sub typesOrDefault_nonempty] interfaceDefaults_podName
    by (simp add: wf_interface_def r)
qed

lemma loadPool_wf: "loadPool i p = Inr r \<Longrightarrow> wf_pool r"
  by (auto simp: loadPool_def wf_pool_def Let_def split: go_split)

lemma setDPDKDefaults_wf:
  "(dc_AllowUnsafeNoIOMMU d \<longrightarrow> ps_PCIAddresses (dc_Include (setDPDKDefaults d)) \<noteq> []) \<Longrightarrow>
   wf_dpdk (setDPDKDefaults d)"
  by (auto simp: setDPDKDefaults_def wf_dpdk_def Let_def)


text \<open>A second pass over a loaded interface or pool changes nothing.\<close>

lemma interfaceDefaults_idem:
  "interfaceDefaults pol (interfaceDefaults pol' ifc) = interfaceDefaults pol ifc"
proof -
  have "typesOrDefault (interfaceDefaults pol' ifc) = typesOrDefault ifc"
    by (simp add: typesOrDefault_def)
  moreover have "or_default (or_default d x) x = or_default d x" for d x
    by (simp add: or_default_def)
  ultimately show ?thesis
    by (simp add: interfaceDefaults_def Let_def)
qed

lemma scanTypes_index: "scanTypes i a b ts = Inr r \<Longrightarrow> scanTypes j a b ts = Inr r"
  by (cases r) (simp add: scanTypes_Inr)

lemma loadInterface_again:
  assumes "loadInterface i ifc = Inr r"
  shows "loadInterface j r = Inr r"
proof (rule loadInterface_Inr [OF assms])
  fix h s policy
  assume scan: "scanTypes i False False (typesOrDefault ifc) = Inr (h, s)"
    and pol: "h \<longrightarrow> policy = ''exclusive'' \<and> \<not> s" "h \<or> policy = ''shared''"
    and name: "ic_Name ifc \<noteq> []" and r: "r = interfaceDefaults policy ifc"
  have types: "typesOrDefault r = typesOrDefault ifc"
    by (simp add: r typesOrDefault_def)
  have "policy = ''shared'' \<or> policy = ''exclusive''" using pol by blast
  then have "or_default (ic_AllocationPolicy r) ''shared'' = policy"
    by (auto simp: r or_default_def)
  with pol name types scanTypes_index [OF scan, of j] show ?thesis
    by (auto simp: loadInterface_def Let_def r interfaceDefaults_idem)
qed

lemma loadPool_again: "loadPool i p = Inr r \<Longrightarrow> loadPool j r = Inr r"
  by (auto simp: loadPool_def Let_def split: if_splits)

lemma loadEach_again:
  assumes "\<And>i x y j. f i x = Inr y \<Longrightarrow> f j y = Inr y" and "loadEach f i xs = Inr ys"
  shows "loadEach f j ys = Inr ys"
  using assms unfolding loadEach_Inr by metis

lemma finishConfig_Inr:
  assumes "finishConfig c = Inr r"
  obtains ifs pools dpdk where "loadEach loadInterface 0 (cfg_Interfaces c) = Inr ifs"
    and "loadEach loadPool 0 (cfg_IPPools c) = Inr pools"
    and "dpdk = (if dc_Enabled (cfg_DPDK c) then setDPDKDefaults (cfg_DPDK c) else cfg_DPDK c)"
    and "\<not> (dc_Enabled dpdk \<and> dc_AllowUnsafeNoIOMMU dpdk \<and> ps_PCIAddresses (dc_Include dpdk) = [])"
    and "r = c\<lparr>cfg_DriverName := or_default (cfg_DriverName c) DefaultDriverName,
           cfg_Interfaces := ifs, cfg_IPPools := pools, cfg_DPDK := dpdk\<rparr>"
  using assms by (auto simp: finishConfig_def Let_def split: sum.splits if_splits)

lemma setDPDKDefaults_sel [simp]:
  "dc_Enabled (setDPDKDefaults d) = dc_Enabled d"
  "dc_AllowUnsafeNoIOMMU (setDPDKDefaults d) = dc_AllowUnsafeNoIOMMU d"
  by (simp_all add: setDPDKDefaults_def Let_def)

lemma finishConfig_wf:
  assumes "finishConfig c0 = Inr c"
  shows "wf_config c"
  using assms
proof (rule finishConfig_Inr)
  fix ifs pools dpdk
  assume ifs: "loadEach loadInterface 0 (cfg_Interfaces c0) = Inr ifs"
    and pools: "loadEach loadPool 0 (cfg_IPPools c0) = Inr pools"
    and dpdk: "dpdk = (if dc_Enabled (cfg_DPDK c0) then setDPDKDefaults (cfg_DPDK c0) else cfg_DPDK c0)"
    and safe: "\<not> (dc_Enabled dpdk \<and> dc_AllowUnsafeNoIOMMU dpdk \<and> ps_PCIAddresses (dc_Include dpdk) = [])"
    and c: "c = c0\<lparr>cfg_DriverName := or_default (cfg_DriverName c0) DefaultDriverName,
         cfg_Interfaces := ifs, cfg_IPPools := pools, cfg_DPDK := dpdk\<rparr>"
  have "\<forall>ifc \<in> set ifs. wf_interface ifc"
    using loadEach_set [OF ifs] loadInterface_wf by blast
  moreover have "\<forall>p \<in> set pools. wf_pool p"
    using loadEach_set [OF pools] loadPool_wf by blast
  moreover have "dc_Enabled dpdk \<longrightarrow> wf_dpdk dpdk"
    using safe setDPDKDefaults_wf [of "cfg_DPDK c0"] by (auto simp: dpdk split: if_splits)
  ultimately show ?thesis
    by (simp add: wf_config_def c DefaultDriverName_def)
qed

lemma Load_finish:
  assumes "Load readFile unmarshal = Inr c"
  obtains c0 where "finishConfig c0 = Inr c"
  using assms by (auto simp: Load_def split: sum.splits)

section \<open>Properties\<close>

text \<open>C29: whatever the file and the decoder give, a configuration that \<^verbatim>\<open>Load\<close> accepts is well
  formed: every interface is named, is either an exclusive host-device or a shared
  macvlan/ipvlan parent and never both, has modes, a default type, and (host-device apart) a
  default mode and Pod interface name; every pool is named and has a subnet and allocations; an enabled DPDK section
  has all its paths and kernel drivers; and unsafe no-IOMMU mode comes with a PCI allow-list.\<close>

theorem Load_wf:
  assumes "Load readFile unmarshal = Inr c"
  shows "wf_config c"
  using assms by (rule Load_finish) (rule finishConfig_wf)

definition sample_interface :: InterfaceConfig where
  "sample_interface = \<lparr>ic_Name = ''enp8s20'', ic_Default = True, ic_AllocationPolicy = [],
     ic_Types = [], ic_MacvlanModes = [], ic_IPvlanModes = [], ic_DefaultType = [],
     ic_DefaultMode = [], ic_DefaultPodName = [], ic_MTU = 1500, ic_AllowUnsafe = False\<rparr>"

definition sample_pool :: IPPool where
  "sample_pool = \<lparr>p_Name = ''lan-88'', p_Subnet = ''192.168.88.0/24'', p_RangeStart = ''192.168.88.11'',
     p_RangeEnd = ''192.168.88.12'', p_Allocations = [], p_Reservations = [], p_Gateway = [], p_Routes = []\<rparr>"

definition no_selector :: PCISelector where
  "no_selector = \<lparr>ps_Vendors = [], ps_Devices = [], ps_PCIAddresses = []\<rparr>"

definition sample_dpdk :: DPDKConfig where
  "sample_dpdk = \<lparr>dc_Enabled = True, dc_AllowUnsafeNoIOMMU = False, dc_SysfsPath = [], dc_DevPath = [],
     dc_CDIHostDevPath = [], dc_CDIPath = [], dc_PCIIDPath = [], dc_ModulesPath = [],
     dc_AllowedKernelDrivers = [], dc_Drivers = [], dc_PCIClasses = None, dc_Include = no_selector,
     dc_Exclude = no_selector, dc_CompatibleDriverOverrides = []\<rparr>"

definition sample_config :: Config where
  "sample_config = \<lparr>cfg_DriverName = [], cfg_Interfaces = [sample_interface],
     cfg_IPPools = [sample_pool], cfg_DPDK = sample_dpdk\<rparr>"

lemma finish_sample: "\<exists>c. finishConfig sample_config = Inr c"
  by (simp add: finishConfig_def sample_config_def sample_interface_def sample_pool_def sample_dpdk_def
      no_selector_def loadInterface_def loadPool_def typesOrDefault_def or_default_def Let_def)

theorem Load_wf_witness:
  "\<exists>c. Load (Inr ''{}'') (\<lambda>_. Inr sample_config) = Inr c \<and> wf_config c"
proof -
  obtain c where "finishConfig sample_config = Inr c" using finish_sample by blast
  then have l: "Load (Inr ''{}'') (\<lambda>_. Inr sample_config) = Inr c" by (simp add: Load_def)
  with Load_wf [OF l] show ?thesis by blast
qed

text \<open>Loading is stable: the interfaces and pools of a loaded configuration pass the same
  loops again, at any position, and come out unchanged.\<close>

theorem finishConfig_stable:
  assumes "finishConfig c = Inr r"
  shows "loadEach loadInterface j (cfg_Interfaces r) = Inr (cfg_Interfaces r) \<and>
     loadEach loadPool j (cfg_IPPools r) = Inr (cfg_IPPools r)"
proof -
  from assms obtain ifs pools dpdk where
      ifs: "loadEach loadInterface 0 (cfg_Interfaces c) = Inr ifs"
    and pools: "loadEach loadPool 0 (cfg_IPPools c) = Inr pools"
    and r: "cfg_Interfaces r = ifs" "cfg_IPPools r = pools"
    by (rule finishConfig_Inr) auto
  show ?thesis
    using loadEach_again [OF loadInterface_again ifs] loadEach_again [OF loadPool_again pools]
    by (simp add: r)
qed

theorem finishConfig_stable_witness:
  "\<exists>r. finishConfig sample_config = Inr r
     \<and> loadEach loadInterface 0 (cfg_Interfaces r) = Inr (cfg_Interfaces r)
     \<and> loadEach loadPool 0 (cfg_IPPools r) = Inr (cfg_IPPools r)"
proof -
  obtain r where r: "finishConfig sample_config = Inr r" using finish_sample by blast
  from finishConfig_stable [OF r] show ?thesis using r by blast
qed

end
