(* ===== verification/Driver_Types.thy ===== *)
theory Driver_Types
  imports Config_Model Kube_API
begin

text \<open>
  \<^verbatim>\<open>internal/driver/types.go\<close>: the attribute names the driver publishes and the records it keeps
  for every prepared device.  A pointer that is only read is its value or \<^const>\<open>None\<close>; the
  one pointer the driver writes through, \<^verbatim>\<open>DeviceConfig.HostDevice\<close>, is shared between the
  store and the handlers, and the handlers say where that shows.  Go \<^verbatim>\<open>int\<close> fields are \<^typ>\<open>int\<close>.
\<close>

section \<open>Attribute names\<close>

definition AttrPrefix :: string where "AttrPrefix = ''linux-net.dra.infinitydon.com''"
definition AttrInterface :: string where "AttrInterface = AttrPrefix @ ''/interface''"
definition AttrMAC :: string where "AttrMAC = AttrPrefix @ ''/mac''"
definition AttrMTU :: string where "AttrMTU = AttrPrefix @ ''/mtu''"
definition AttrDefault :: string where "AttrDefault = AttrPrefix @ ''/default''"
definition AttrMacvlan :: string where "AttrMacvlan = AttrPrefix @ ''/macvlan''"
definition AttrIPvlan :: string where "AttrIPvlan = AttrPrefix @ ''/ipvlan''"
definition AttrTypes :: string where "AttrTypes = AttrPrefix @ ''/types''"
definition AttrMacvlanModes :: string where "AttrMacvlanModes = AttrPrefix @ ''/macvlanModes''"
definition AttrIPvlanModes :: string where "AttrIPvlanModes = AttrPrefix @ ''/ipvlanModes''"
definition AttrHostDevice :: string where "AttrHostDevice = AttrPrefix @ ''/hostDevice''"
definition AttrKernelDriver :: string where "AttrKernelDriver = AttrPrefix @ ''/kernelDriver''"
definition AttrBusType :: string where "AttrBusType = AttrPrefix @ ''/busType''"
definition AttrPCIAddress :: string where "AttrPCIAddress = AttrPrefix @ ''/pciAddress''"
definition AttrPCIVendorID :: string where "AttrPCIVendorID = AttrPrefix @ ''/pciVendorID''"
definition AttrPCIDeviceID :: string where "AttrPCIDeviceID = AttrPrefix @ ''/pciDeviceID''"
definition AttrAdminState :: string where "AttrAdminState = AttrPrefix @ ''/adminState''"
definition AttrOperState :: string where "AttrOperState = AttrPrefix @ ''/operState''"
definition AttrPolicy :: string where "AttrPolicy = AttrPrefix @ ''/allocationPolicy''"
definition AttrDPDK :: string where "AttrDPDK = AttrPrefix @ ''/dpdk''"
definition AttrPCIClass :: string where "AttrPCIClass = AttrPrefix @ ''/pciClass''"
definition AttrVendorName :: string where "AttrVendorName = AttrPrefix @ ''/vendorName''"
definition AttrDeviceName :: string where "AttrDeviceName = AttrPrefix @ ''/deviceName''"
definition AttrSubsystemVendorID :: string where "AttrSubsystemVendorID = AttrPrefix @ ''/subsystemVendorID''"
definition AttrSubsystemDeviceID :: string where "AttrSubsystemDeviceID = AttrPrefix @ ''/subsystemDeviceID''"
definition AttrCompatibleDriver :: string where "AttrCompatibleDriver = AttrPrefix @ ''/compatibleKernelDriver''"
definition AttrIOMMUGroup :: string where "AttrIOMMUGroup = AttrPrefix @ ''/iommuGroup''"
definition AttrIOMMUMode :: string where "AttrIOMMUMode = AttrPrefix @ ''/iommuMode''"
definition AttrNUMANode :: string where "AttrNUMANode = AttrPrefix @ ''/numaNode''"
definition AttrStandardPCIBusID :: string where "AttrStandardPCIBusID = ''resource.kubernetes.io/pciBusID''"
definition AttrStandardPCIeRoot :: string where "AttrStandardPCIeRoot = ''resource.kubernetes.io/pcieRoot''"
definition PodClaimNameAnnotation :: string where "PodClaimNameAnnotation = ''resource.kubernetes.io/pod-claim-name''"

section \<open>Device records\<close>

record InterfaceIdentity =
  ii_KernelDriver :: string
  ii_BusType :: string
  ii_PCIAddress :: string
  ii_PCIeRoot :: string
  ii_PCIVendorID :: string
  ii_PCIDeviceID :: string

definition no_identity :: InterfaceIdentity where
  "no_identity = \<lparr>ii_KernelDriver = [], ii_BusType = [], ii_PCIAddress = [], ii_PCIeRoot = [],
     ii_PCIVendorID = [], ii_PCIDeviceID = []\<rparr>"

record DPDKDeviceState =
  ds_PCIAddress :: string
  ds_PCIeRoot :: string
  ds_PCIClass :: string
  ds_VendorID :: string
  ds_VendorName :: string
  ds_DeviceID :: string
  ds_DeviceName :: string
  ds_SubsystemVendorID :: string
  ds_SubsystemDeviceID :: string
  ds_CurrentDriver :: string
  ds_CompatibleKernelDrivers :: "string list"
  ds_IOMMUGroup :: string
  ds_IOMMUMode :: string
  ds_NUMANode :: int
  ds_DeviceNodes :: "string list"
  ds_CDIDeviceID :: string
  ds_CDISpecPath :: string

record HostAddressState =
  ha_CIDR :: string
  ha_Label :: string
  ha_Flags :: int
  ha_Scope :: int
  ha_Peer :: string
  ha_Broadcast :: string
  ha_PreferredLft :: int
  ha_ValidLft :: int

record HostDeviceState =
  hd_OriginalName :: string
  hd_PodInterfaceName :: string
  hd_OriginalAdminUp :: bool
  hd_OriginalOperState :: string
  hd_OriginalMTU :: int
  hd_OriginalMAC :: string
  hd_OriginalAddresses :: "string list"
  hd_AddressState :: "HostAddressState list"
  hd_Restored :: bool

record Route =
  rt_Destination :: string
  rt_Gateway :: string

record NetworkConfig =
  nc_Type :: string
  nc_Mode :: string
  nc_InterfaceName :: string
  nc_MTU :: int
  nc_IPPool :: string
  nc_Address :: string
  nc_Addresses :: "string list"
  nc_Gateway :: string
  nc_Routes :: "Route list"

definition no_network :: NetworkConfig where
  "no_network = \<lparr>nc_Type = [], nc_Mode = [], nc_InterfaceName = [], nc_MTU = 0, nc_IPPool = [], nc_Address = [],
     nc_Addresses = [], nc_Gateway = [], nc_Routes = []\<rparr>"

record NamespacedName =
  nn_Namespace :: string
  nn_Name :: string

record DeviceConfig =
  dev_Claim :: NamespacedName
  dev_ClaimUID :: uid
  dev_DriverName :: string
  dev_PoolName :: string
  dev_DeviceName :: string
  dev_ShareID :: "string option"
  dev_ParentName :: string
  dev_AllocationPolicy :: string
  dev_Identity :: InterfaceIdentity
  dev_HostDevice :: "HostDeviceState option"
  dev_DPDK :: "DPDKDeviceState option"
  dev_Network :: NetworkConfig
  dev_AttachedIf :: string
  dev_HardwareAddress :: string
  dev_LifecycleState :: string

text \<open>A nil map of devices (\<^const>\<open>None\<close>) and an empty one are different values in Go.\<close>

record PodConfig =
  pcf_PodUID :: uid
  pcf_NetNS :: string
  pcf_Devices :: "(string \<times> DeviceConfig) list option"

definition no_pod :: PodConfig where
  "no_pod = \<lparr>pcf_PodUID = [], pcf_NetNS = [], pcf_Devices = None\<rparr>"

text \<open>Reading a nil map finds nothing.\<close>

definition pod_devices :: "PodConfig \<Rightarrow> (string \<times> DeviceConfig) list" where
  "pod_devices pod = (case pcf_Devices pod of Some ds \<Rightarrow> ds | None \<Rightarrow> [])"

record IPAllocation =
  ia_Pool :: string
  ia_Address :: string
  ia_ClaimUID :: uid
  ia_PodUID :: uid

end
