(* ===== verification/Go_OS.thy ===== *)
theory Go_OS
  imports Go_Prelude "HOL-Library.List_Lexorder" "HOL-Library.Char_ord"
begin

text \<open>
  What the program uses of \<^verbatim>\<open>os\<close>, \<^verbatim>\<open>path\<close> and \<^verbatim>\<open>path/filepath\<close>.  The file system maps resolved
  paths (lists of components from the root) to files, directories and symbolic links; path
  strings are cleaned lexically as \<^verbatim>\<open>filepath.Clean\<close> does and then followed through the
  links.  A relative path starts at the root, the working directory of the container.  Every
  operation that writes first consults a schedule of faults, so that a theorem for all states
  covers every failure; a failing \<^verbatim>\<open>WriteFile\<close> leaves the bytes it had written.
\<close>

section \<open>Paths\<close>

text \<open>\<^verbatim>\<open>filepath.Clean\<close> on a rooted path: empty components and dots go, a double dot removes the one before.\<close>

fun clean_comps :: "string list \<Rightarrow> string list \<Rightarrow> string list" where
  "clean_comps acc [] = rev acc"
| "clean_comps acc (c # cs) =
     (if c = [] \<or> c = ''.'' then clean_comps acc cs
      else if c = ''..'' then clean_comps (drop 1 acc) cs
      else clean_comps (c # acc) cs)"

definition path_comps :: "string \<Rightarrow> string list" where
  "path_comps p = clean_comps [] (Split p CHR ''/'')"

definition comps_path :: "string list \<Rightarrow> string" where
  "comps_path cs = (if cs = [] then ''/'' else concat (map (\<lambda>c. CHR ''/'' # c) cs))"

definition filepath_Join :: "string list \<Rightarrow> string" where
  "filepath_Join elems = comps_path (path_comps (Join (filter (\<lambda>e. e \<noteq> []) elems) ''/''))"

definition filepath_Base :: "string \<Rightarrow> string" where
  "filepath_Base p = (if p = [] then ''.'' else case rev (path_comps p) of [] \<Rightarrow> ''/'' | c # _ \<Rightarrow> c)"

definition filepath_Dir :: "string \<Rightarrow> string" where
  "filepath_Dir p = comps_path (butlast (path_comps p))"

section \<open>Pattern matching\<close>

text \<open>
  \<^verbatim>\<open>path.Match\<close>: a star matches any run without a slash, a question mark one byte other than
  a slash, a bracket a class, a backslash quotes.  A malformed pattern is \<^const>\<open>None\<close>.
\<close>

datatype pat = PStar | PAny | PLit char | PClass bool "(char \<times> char) list"

text \<open>One byte of a class, quoted or not.\<close>

fun class_char :: "string \<Rightarrow> (char \<times> string) option" where
  "class_char [] = None"
| "class_char (c # cs) =
     (if c = CHR ''-'' \<or> c = CHR '']'' then None
      else if c = CHR 0x5C then (case cs of [] \<Rightarrow> None | d # ds \<Rightarrow> if ds = [] then None else Some (d, ds))
      else if cs = [] then None else Some (c, cs))"

lemma class_char_length: "class_char s = Some (c, t) \<Longrightarrow> length t < length s"
  by (cases s) (auto split: if_splits list.splits)

function parse_class :: "(char \<times> char) list \<Rightarrow> string \<Rightarrow> ((char \<times> char) list \<times> string) option" where
  "parse_class acc s =
     (if acc \<noteq> [] \<and> HasPrefix s '']'' then Some (rev acc, drop 1 s)
      else (case class_char s of
              None \<Rightarrow> None
            | Some (lo, t) \<Rightarrow>
                if HasPrefix t ''-'' then
                  (case class_char (drop 1 t) of
                     None \<Rightarrow> None
                   | Some (hi, t') \<Rightarrow> parse_class ((lo, hi) # acc) t')
                else parse_class ((lo, lo) # acc) t))"
  by pat_completeness auto
termination
proof (relation "measure (\<lambda>(acc, s). length s)", goal_cases)
  case (2 acc s r lo t q hi t')
  then show ?case
    using class_char_length [of s lo t] class_char_length [of "drop 1 t" hi t'] by simp
qed (use class_char_length in auto)

declare parse_class.simps [simp del]

lemma parse_class_length: "parse_class acc s = Some (cls, t) \<Longrightarrow> length t < length s"
proof (induction acc s rule: parse_class.induct)
  case (1 acc s)
  show ?case
  proof (cases "acc \<noteq> [] \<and> HasPrefix s '']''")
    case True
    with 1(3) show ?thesis by (subst (asm) parse_class.simps) (cases s; auto simp: HasPrefix_def)
  next
    case False
    with 1(3) obtain lo u where u: "class_char s = Some (lo, u)"
      by (subst (asm) parse_class.simps) (auto split: option.splits)
    note lu = class_char_length [OF u]
    show ?thesis
    proof (cases "HasPrefix u ''-''")
      case True
      with 1(3) False u obtain hi v where v: "class_char (drop 1 u) = Some (hi, v)"
        and r: "parse_class ((lo, hi) # acc) v = Some (cls, t)"
        by (subst (asm) parse_class.simps) (auto split: option.splits)
      from 1(1) [OF False u refl True v refl r] class_char_length [OF v] lu show ?thesis by simp
    next
      case N: False
      with 1(3) False u have r: "parse_class ((lo, lo) # acc) u = Some (cls, t)"
        by (subst (asm) parse_class.simps) auto
      from 1(2) [OF False u refl N r] lu show ?thesis by simp
    qed
  qed
qed

function parse_pattern :: "string \<Rightarrow> pat list option" where
  "parse_pattern [] = Some []"
| "parse_pattern (c # cs) =
     (if c = CHR ''*'' then map_option ((#) PStar) (parse_pattern cs)
      else if c = CHR ''?'' then map_option ((#) PAny) (parse_pattern cs)
      else if c = CHR 0x5C then (case cs of [] \<Rightarrow> None | d # ds \<Rightarrow> map_option ((#) (PLit d)) (parse_pattern ds))
      else if c = CHR ''['' then
        (let neg = HasPrefix cs ''^''; body = (if neg then drop 1 cs else cs) in
         case parse_class [] body of
           None \<Rightarrow> None
         | Some (cls, rest) \<Rightarrow> map_option ((#) (PClass neg cls)) (parse_pattern rest))
      else map_option ((#) (PLit c)) (parse_pattern cs))"
  by pat_completeness auto
termination
proof (relation "measure length", goal_cases)
  case (5 c cs neg body q cls rest)
  then show ?case using parse_class_length [of "[]" body cls rest] by (auto split: if_splits)
qed auto

fun in_class :: "(char \<times> char) list \<Rightarrow> char \<Rightarrow> bool" where
  "in_class [] c = False"
| "in_class ((lo, hi) # cls) c = (lo \<le> c \<and> c \<le> hi \<or> in_class cls c)"

fun match_pat :: "pat list \<Rightarrow> string \<Rightarrow> bool" where
  "match_pat [] s = (s = [])"
| "match_pat (PStar # ps) [] = match_pat ps []"
| "match_pat (PStar # ps) (c # cs) = (match_pat ps (c # cs) \<or> c \<noteq> CHR ''/'' \<and> match_pat (PStar # ps) cs)"
| "match_pat (PAny # ps) (c # cs) = (c \<noteq> CHR ''/'' \<and> match_pat ps cs)"
| "match_pat (PLit d # ps) (c # cs) = (c = d \<and> match_pat ps cs)"
| "match_pat (PClass neg cls # ps) (c # cs) = (in_class cls c \<noteq> neg \<and> match_pat ps cs)"
| "match_pat (_ # ps) [] = False"

definition path_Match :: "string \<Rightarrow> string \<Rightarrow> bool option" where
  "path_Match pattern name = map_option (\<lambda>ps. match_pat ps name) (parse_pattern pattern)"

section \<open>The file system\<close>

datatype fnode = FFile string | FDir | FLink string

text \<open>A fault: the operation fails, and a write stops after so many bytes.\<close>

datatype wfault = WOk | WFail nat

record fsys =
  fs_nodes :: "(string list \<times> fnode) list"
  fs_faults :: "wfault list"
  fs_temp :: nat

type_synonym 'a io = "fsys \<Rightarrow> (goerr + 'a) \<times> fsys"

definition node_at :: "fsys \<Rightarrow> string list \<Rightarrow> fnode option" where
  "node_at fs p = (if p = [] then Some FDir else map_of (fs_nodes fs) p)"

text \<open>Following a path through the links; the fuel bounds the steps (Go gives up after 255 links).\<close>

fun walk :: "fsys \<Rightarrow> nat \<Rightarrow> string list \<Rightarrow> string list \<Rightarrow> string list option" where
  "walk fs 0 _ _ = None"
| "walk fs (Suc k) dir [] = Some dir"
| "walk fs (Suc k) dir (c # cs) =
     (if c = ''..'' then walk fs k (butlast dir) cs
      else (case node_at fs (dir @ [c]) of
              Some (FLink target) \<Rightarrow>
                walk fs k (if HasPrefix target ''/'' then [] else dir)
                  (filter (\<lambda>x. x \<noteq> [] \<and> x \<noteq> ''.'') (Split target CHR ''/'') @ cs)
            | Some _ \<Rightarrow> walk fs k (dir @ [c]) cs
            | None \<Rightarrow> None))"

definition resolve :: "fsys \<Rightarrow> string \<Rightarrow> string list option" where
  "resolve fs p = walk fs 4096 [] (path_comps p)"

definition EvalSymlinks :: "fsys \<Rightarrow> string \<Rightarrow> goerr + string" where
  "EvalSymlinks fs p =
     (case resolve fs p of None \<Rightarrow> Inl (PathError ErrNotExist p) | Some q \<Rightarrow> Inr (comps_path q))"

definition os_ReadFile :: "fsys \<Rightarrow> string \<Rightarrow> goerr + string" where
  "os_ReadFile fs p =
     (case resolve fs p of
        None \<Rightarrow> Inl (PathError ErrNotExist p)
      | Some q \<Rightarrow>
          (case node_at fs q of Some (FFile data) \<Rightarrow> Inr data | Some _ \<Rightarrow> Inl (PathError ErrIO p)
           | None \<Rightarrow> Inl (PathError ErrNotExist p)))"

definition fileExists :: "fsys \<Rightarrow> string \<Rightarrow> bool" where
  "fileExists fs p = (resolve fs p \<noteq> None)"

text \<open>The names in a directory, sorted as \<^verbatim>\<open>Glob\<close> sorts them.\<close>

definition dir_names :: "fsys \<Rightarrow> string list \<Rightarrow> string list" where
  "dir_names fs dir = sort (remdups (map last (filter (\<lambda>p. p \<noteq> [] \<and> butlast p = dir) (map fst (fs_nodes fs)))))"

definition has_meta :: "string \<Rightarrow> bool" where
  "has_meta s = ContainsAny s (''*?['' @ [CHR 0x5C])"

text \<open>\<^verbatim>\<open>filepath.Glob\<close>, component by component: the prefix has been matched.\<close>

fun glob_comps :: "fsys \<Rightarrow> bool \<Rightarrow> string list \<Rightarrow> string list \<Rightarrow> string list list" where
  "glob_comps fs meta pre [] = [pre]"
| "glob_comps fs meta pre (c # cs) =
     (if meta \<or> has_meta c then
        (case walk fs 4096 [] pre of
           None \<Rightarrow> []
         | Some dir \<Rightarrow>
             if node_at fs dir \<noteq> Some FDir then []
             else concat (map (\<lambda>n. if path_Match c n = Some True then glob_comps fs True (pre @ [n]) cs else [])
                    (dir_names fs dir)))
      else glob_comps fs meta (pre @ [c]) cs)"

definition Glob :: "fsys \<Rightarrow> string \<Rightarrow> goerr + string list" where
  "Glob fs pattern =
     (if parse_pattern pattern = None then Inl (Errorf ''syntax error in pattern'' [])
      else if \<not> has_meta pattern then
        Inr (case walk fs 4096 [] (butlast (path_comps pattern)) of
               None \<Rightarrow> []
             | Some dir \<Rightarrow> if node_at fs (dir @ [last (path_comps pattern)]) = None then [] else [pattern])
      else Inr (map comps_path (glob_comps fs False [] (path_comps pattern))))"

section \<open>Writing\<close>

definition next_wfault :: "fsys \<Rightarrow> wfault \<times> fsys" where
  "next_wfault fs = (case fs_faults fs of [] \<Rightarrow> (WOk, fs) | f # r \<Rightarrow> (f, fs\<lparr>fs_faults := r\<rparr>))"

definition put_node :: "string list \<Rightarrow> fnode \<Rightarrow> fsys \<Rightarrow> fsys" where
  "put_node p n fs = fs\<lparr>fs_nodes := (p, n) # filter (\<lambda>(q, _). q \<noteq> p) (fs_nodes fs)\<rparr>"

definition drop_node :: "string list \<Rightarrow> fsys \<Rightarrow> fsys" where
  "drop_node p fs = fs\<lparr>fs_nodes := filter (\<lambda>(q, _). q \<noteq> p) (fs_nodes fs)\<rparr>"

text \<open>The file a path names for writing: its directory is followed, its last component is not.\<close>

definition target_of :: "fsys \<Rightarrow> string \<Rightarrow> string list option" where
  "target_of fs p =
     (case rev (path_comps p) of
        [] \<Rightarrow> None
      | base # dirs \<Rightarrow>
          (case walk fs 4096 [] (rev dirs) of
             None \<Rightarrow> None
           | Some dir \<Rightarrow> if node_at fs dir = Some FDir then Some (dir @ [base]) else None))"

fun mkdirs :: "string list \<Rightarrow> string list \<Rightarrow> fsys \<Rightarrow> fsys option" where
  "mkdirs dir [] fs = Some fs"
| "mkdirs dir (c # cs) fs =
     (case walk fs 4096 [] (dir @ [c]) of
        Some q \<Rightarrow> if node_at fs q = Some FDir then mkdirs (dir @ [c]) cs fs else None
      | None \<Rightarrow>
          (case walk fs 4096 [] dir of
             Some q \<Rightarrow> if node_at fs (q @ [c]) = None then mkdirs (dir @ [c]) cs (put_node (q @ [c]) FDir fs) else None
           | None \<Rightarrow> None))"

definition MkdirAll :: "string \<Rightarrow> unit io" where
  "MkdirAll p fs =
     (let (f, fs1) = next_wfault fs in
      if f \<noteq> WOk then (Inl (PathError ErrIO p), fs1)
      else (case mkdirs [] (path_comps p) fs1 of
              Some fs2 \<Rightarrow> (Inr (), fs2) | None \<Rightarrow> (Inl (PathError ErrIO p), fs1)))"

text \<open>\<^verbatim>\<open>os.WriteFile\<close> truncates or creates the file (through a link), then writes.\<close>

definition WriteFile :: "string \<Rightarrow> string \<Rightarrow> unit io" where
  "WriteFile p data fs =
     (let (f, fs1) = next_wfault fs in
      case (case resolve fs1 p of Some q \<Rightarrow> Some q | None \<Rightarrow> target_of fs1 p) of
        None \<Rightarrow> (Inl (PathError ErrNotExist p), fs1)
      | Some q \<Rightarrow>
          if node_at fs1 q = Some FDir then (Inl (PathError ErrIO p), fs1)
          else (case f of
                  WOk \<Rightarrow> (Inr (), put_node q (FFile data) fs1)
                | WFail k \<Rightarrow> (Inl (PathError ErrIO p), put_node q (FFile (take k data)) fs1)))"

text \<open>\<^verbatim>\<open>os.Rename\<close> replaces the new name in one step, or does nothing.\<close>

definition Rename :: "string \<Rightarrow> string \<Rightarrow> unit io" where
  "Rename old new fs =
     (let (f, fs1) = next_wfault fs in
      case (target_of fs1 old, target_of fs1 new) of
        (Some p, Some q) \<Rightarrow>
          (case (f, node_at fs1 p, node_at fs1 q) of
             (WOk, Some (FFile data), Some FDir) \<Rightarrow> (Inl (PathError ErrExist new), fs1)
           | (WOk, Some (FFile data), _) \<Rightarrow> (Inr (), put_node q (FFile data) (drop_node p fs1))
           | (WOk, None, _) \<Rightarrow> (Inl (PathError ErrNotExist old), fs1)
           | _ \<Rightarrow> (Inl (PathError ErrIO old), fs1))
      | _ \<Rightarrow> (Inl (PathError ErrNotExist old), fs1))"

definition os_Remove :: "string \<Rightarrow> unit io" where
  "os_Remove p fs =
     (let (f, fs1) = next_wfault fs in
      case target_of fs1 p of
        None \<Rightarrow> (Inl (PathError ErrNotExist p), fs1)
      | Some q \<Rightarrow>
          (case node_at fs1 q of
             None \<Rightarrow> (Inl (PathError ErrNotExist p), fs1)
           | Some n \<Rightarrow> if f = WOk \<and> n \<noteq> FDir then (Inr (), drop_node q fs1) else (Inl (PathError ErrIO p), fs1)))"

section \<open>Lemmas on paths and nodes\<close>

lemma Split_nonempty [simp]: "Split s c \<noteq> []"
  by (cases s) (auto split: list.splits)

lemma Split_append: "c \<notin> set x \<Longrightarrow> Split (x @ r) c = (x @ hd (Split r c)) # tl (Split r c)"
  by (induction x) (auto split: list.splits)

definition clean_name :: "string \<Rightarrow> bool" where
  "clean_name c \<longleftrightarrow> c \<noteq> [] \<and> c \<noteq> ''.'' \<and> c \<noteq> ''..'' \<and> CHR ''/'' \<notin> set c"

lemma Split_concat: "list_all clean_name cs \<Longrightarrow> Split (concat (map (\<lambda>c. CHR ''/'' # c) cs)) CHR ''/'' = [] # cs"
  by (induction cs) (auto simp: Split_append clean_name_def)

lemma clean_comps_clean: "list_all clean_name cs \<Longrightarrow> clean_comps acc cs = rev acc @ cs"
  by (induction cs arbitrary: acc) (auto simp: clean_name_def)

lemma path_comps_path: "list_all clean_name cs \<Longrightarrow> path_comps (comps_path cs) = cs"
  by (cases "cs = []")
    (simp_all add: path_comps_def comps_path_def Split_concat clean_comps_clean)

lemma comps_path_snoc: "comps_path (cs @ [b]) @ x = comps_path (cs @ [b @ x])"
  by (simp add: comps_path_def)

lemma map_of_filter_key: "map_of (filter (\<lambda>(q, _). q \<noteq> p) m) r = (if r = p then None else map_of m r)"
  by (induction m) auto

lemma node_at_put: "p \<noteq> [] \<Longrightarrow> node_at (put_node p n fs) r = (if r = p then Some n else node_at fs r)"
  by (simp add: node_at_def put_node_def map_of_filter_key)

lemma node_at_drop: "p \<noteq> [] \<Longrightarrow> node_at (drop_node p fs) r = (if r = p then None else node_at fs r)"
  by (simp add: node_at_def drop_node_def map_of_filter_key)

lemma node_at_faults [simp]: "node_at (fs\<lparr>fs_faults := f\<rparr>) p = node_at fs p"
  by (simp add: node_at_def)

text \<open>A directory reached without links.\<close>

definition plain_dir :: "fsys \<Rightarrow> string list \<Rightarrow> bool" where
  "plain_dir fs d \<longleftrightarrow> list_all clean_name d \<and> length d < 4000
     \<and> (\<forall>k \<le> length d. node_at fs (take k d) = Some FDir)"

lemma walk_dirs:
  "\<forall>k \<le> length cs. node_at fs (dir @ take k cs) = Some FDir \<Longrightarrow> list_all clean_name cs \<Longrightarrow> length cs < n \<Longrightarrow>
     walk fs n dir cs = Some (dir @ cs)"
proof (induction cs arbitrary: dir n)
  case Nil
  then show ?case by (cases n) auto
next
  case (Cons c cs)
  then obtain m where n: "n = Suc m" and m: "length cs < m" by (cases n) auto
  from Cons.prems(1) have c: "node_at fs (dir @ [c]) = Some FDir" by (auto dest: spec [of _ 1])
  have "node_at fs ((dir @ [c]) @ take k cs) = Some FDir" if "k \<le> length cs" for k
    using Cons.prems(1) [rule_format, of "Suc k"] that by simp
  with Cons.IH [of "dir @ [c]" m] Cons.prems(2) m have "walk fs m (dir @ [c]) cs = Some (dir @ c # cs)" by simp
  with n c Cons.prems(2) show ?case by (simp add: clean_name_def)
qed

lemma walk_file:
  "\<forall>k \<le> length cs. node_at fs (dir @ take k cs) = Some FDir \<Longrightarrow> list_all clean_name (cs @ [b]) \<Longrightarrow> Suc (length cs) < n \<Longrightarrow>
     \<forall>t. node_at fs (dir @ cs @ [b]) \<noteq> Some (FLink t) \<Longrightarrow>
     walk fs n dir (cs @ [b]) = (if node_at fs (dir @ cs @ [b]) = None then None else Some (dir @ cs @ [b]))"
proof (induction cs arbitrary: dir n)
  case Nil
  then obtain m where "n = Suc (Suc m)" by (cases n; cases "n - 1") auto
  with Nil show ?case by (auto simp: clean_name_def split: option.splits fnode.splits)
next
  case (Cons c cs)
  then obtain m where n: "n = Suc m" and m: "Suc (length cs) < m" by (cases n) auto
  from Cons.prems(1) have c: "node_at fs (dir @ [c]) = Some FDir" by (auto dest: spec [of _ 1])
  have "node_at fs ((dir @ [c]) @ take k cs) = Some FDir" if "k \<le> length cs" for k
    using Cons.prems(1) [rule_format, of "Suc k"] that by simp
  with Cons.IH [of "dir @ [c]" m] Cons.prems(2,4) m have "walk fs m (dir @ [c]) (cs @ [b]) =
      (if node_at fs (dir @ c # cs @ [b]) = None then None else Some (dir @ c # cs @ [b]))" by simp
  with n c Cons.prems(2) show ?case by (simp add: clean_name_def)
qed

lemma plain_walk: "plain_dir fs d \<Longrightarrow> walk fs 4096 [] d = Some d"
  unfolding plain_dir_def by (subst walk_dirs) auto

lemma plain_target:
  "plain_dir fs d \<Longrightarrow> path_comps p = d @ [b] \<Longrightarrow> target_of fs p = Some (d @ [b])"
  using plain_walk [of fs d] by (auto simp: target_of_def plain_dir_def)

lemma plain_resolve:
  assumes "plain_dir fs d" and "path_comps p = d @ [b]" and "clean_name b" and "\<forall>t. node_at fs (d @ [b]) \<noteq> Some (FLink t)"
  shows "resolve fs p = (if node_at fs (d @ [b]) = None then None else Some (d @ [b]))"
  using walk_file [of d fs "[]" b 4096] assms by (simp add: resolve_def plain_dir_def)

lemma plain_put:
  "plain_dir fs d \<Longrightarrow> plain_dir (put_node (d @ [b]) n fs) d"
  by (auto simp: plain_dir_def node_at_put dest: arg_cong [where f = length])

lemma plain_drop:
  "plain_dir fs d \<Longrightarrow> plain_dir (drop_node (d @ [b]) fs) d"
  by (auto simp: plain_dir_def node_at_drop dest: arg_cong [where f = length])

lemma plain_faults [simp]: "plain_dir (fs\<lparr>fs_faults := f\<rparr>) d = plain_dir fs d"
  by (simp add: plain_dir_def)

lemma mkdirs_plain:
  "\<forall>k \<le> length dir + length cs. node_at fs (take k (dir @ cs)) = Some FDir \<Longrightarrow> list_all clean_name (dir @ cs) \<Longrightarrow>
     length (dir @ cs) < 4000 \<Longrightarrow> mkdirs dir cs fs = Some fs"
proof (induction cs arbitrary: dir)
  case (Cons c cs)
  have "node_at fs ([] @ take k (dir @ [c])) = Some FDir" if "k \<le> length (dir @ [c])" for k
  proof -
    from that have "take k (dir @ [c]) = take k ((dir @ [c]) @ cs)" by (simp only: take_append) simp
    with Cons.prems(1) [rule_format, of k] that show ?thesis by simp
  qed
  then have "walk fs 4096 [] (dir @ [c]) = Some (dir @ [c])"
    using walk_dirs [of "dir @ [c]" fs "[]" 4096] Cons.prems(2,3) by simp
  moreover have "node_at fs (dir @ [c]) = Some FDir"
    using Cons.prems(1) [rule_format, of "Suc (length dir)"] by simp
  moreover have "mkdirs (dir @ [c]) cs fs = Some fs"
    using Cons.IH [of "dir @ [c]"] Cons.prems by simp
  ultimately show ?case by simp
qed simp

end
