(* ===== verification/Store_Model.thy ===== *)
theory Store_Model
  imports Driver_Types Go_OS
begin

text \<open>
  \<^verbatim>\<open>internal/driver/store.go\<close>: the node's record of prepared devices and reserved addresses,
  kept in memory and written to a state file after every change (written to a temporary file,
  then renamed).  Each method runs under the store's mutex, so each is one atomic step here.
  The JSON text of the state is an argument (\<open>codec\<close>); the file system is that of \<^verbatim>\<open>Go_OS\<close>.
\<close>

section \<open>State\<close>

record State =
  st_Pods :: "(uid \<times> PodConfig) list option"
  st_IPAllocations :: "(uid \<times> IPAllocation) list option"

record Store =
  store_path :: string
  store_State :: State

text \<open>
  \<open>cUnmarshalState\<close> decodes into the given state in place and reports an error or none;
  \<open>cUnmarshalLegacy\<close> decodes the older layout, a bare map of pods.
\<close>

record codec =
  cMarshal :: "State \<Rightarrow> goerr + string"
  cUnmarshalState :: "string \<Rightarrow> State \<Rightarrow> goerr option \<times> State"
  cUnmarshalLegacy :: "string \<Rightarrow> goerr + (uid \<times> PodConfig) list option"

definition pods :: "Store \<Rightarrow> (uid \<times> PodConfig) list" where
  "pods s = (case st_Pods (store_State s) of Some ps \<Rightarrow> ps | None \<Rightarrow> [])"

definition ip_allocations :: "Store \<Rightarrow> (uid \<times> IPAllocation) list" where
  "ip_allocations s = (case st_IPAllocations (store_State s) of Some ps \<Rightarrow> ps | None \<Rightarrow> [])"

definition set_pods :: "(uid \<times> PodConfig) list \<Rightarrow> Store \<Rightarrow> Store" where
  "set_pods ps s = s\<lparr>store_State := (store_State s)\<lparr>st_Pods := Some ps\<rparr>\<rparr>"

definition set_allocations :: "(uid \<times> IPAllocation) list \<Rightarrow> Store \<Rightarrow> Store" where
  "set_allocations as s = s\<lparr>store_State := (store_State s)\<lparr>st_IPAllocations := Some as\<rparr>\<rparr>"

text \<open>Deleting a key of a Go map.\<close>

definition gdel :: "'k \<Rightarrow> ('k \<times> 'v) list \<Rightarrow> ('k \<times> 'v) list" where
  "gdel k m = filter (\<lambda>(k', _). k' \<noteq> k) m"

section \<open>The file\<close>

definition tmp_path :: "string \<Rightarrow> string" where
  "tmp_path p = p @ ''.tmp''"

definition persistLocked :: "codec \<Rightarrow> Store \<Rightarrow> unit io" where
  "persistLocked J s =
     (if store_path s = [] then ok ()
      else andThen (MkdirAll (filepath_Dir (store_path s))) (\<lambda>_.
        case cMarshal J (store_State s) of
          Inl err \<Rightarrow> fail err
        | Inr data \<Rightarrow>
            andThen (WriteFile (tmp_path (store_path s)) data) (\<lambda>_.
              Rename (tmp_path (store_path s)) (store_path s))))"

definition deviceStoreKey :: "uid \<Rightarrow> string \<Rightarrow> string option \<Rightarrow> string" where
  "deviceStoreKey claimUID deviceName shareID =
     claimUID @ ''/'' @ deviceName @
       (case shareID of Some s \<Rightarrow> if s \<noteq> [] then ''/'' @ s else [] | None \<Rightarrow> [])"

definition migratedKey :: "string \<Rightarrow> DeviceConfig \<Rightarrow> string" where
  "migratedKey oldKey cfg =
     (if dev_ClaimUID cfg \<noteq> [] \<and> dev_DeviceName cfg \<noteq> []
      then deviceStoreKey (dev_ClaimUID cfg) (dev_DeviceName cfg) (dev_ShareID cfg) else oldKey)"

fun migrateDevices :: "(string \<times> DeviceConfig) list \<Rightarrow> (string \<times> DeviceConfig) list \<Rightarrow> bool
    \<Rightarrow> (string \<times> DeviceConfig) list \<times> bool" where
  "migrateDevices [] devices changed = (devices, changed)"
| "migrateDevices ((oldKey, cfg) # rest) devices changed =
     (let key = migratedKey oldKey cfg
      in migrateDevices rest (gput key cfg devices) (changed \<or> key \<noteq> oldKey))"

fun migratePods :: "(uid \<times> PodConfig) list \<Rightarrow> bool \<Rightarrow> (uid \<times> PodConfig) list \<times> bool" where
  "migratePods [] changed = ([], changed)"
| "migratePods ((podUID, pod) # rest) changed =
     (let (devices, changed1) = migrateDevices (pod_devices pod) [] changed;
          (rest1, changed2) = migratePods rest changed1
      in ((podUID, pod\<lparr>pcf_Devices := Some devices\<rparr>) # rest1, changed2))"

definition migrateDeviceKeys :: "Store \<Rightarrow> Store \<times> bool" where
  "migrateDeviceKeys s = (let (ps, changed) = migratePods (pods s) False in (set_pods ps s, changed))"

definition empty_store :: "string \<Rightarrow> Store" where
  "empty_store path = \<lparr>store_path = path, store_State = \<lparr>st_Pods = Some [], st_IPAllocations = Some []\<rparr>\<rparr>"

text \<open>The decoding of a non-empty state file, with the fall-backs to the older layout.\<close>

definition decodeState :: "codec \<Rightarrow> string \<Rightarrow> State \<Rightarrow> goerr + State" where
  "decodeState J data st0 =
     (case cUnmarshalState J data st0 of
        (Some err, st) \<Rightarrow>
          (case cUnmarshalLegacy J data of
             Inl _ \<Rightarrow> Inl err
           | Inr legacy \<Rightarrow> Inr (st\<lparr>st_Pods := legacy\<rparr>))
      | (None, st) \<Rightarrow> Inr st)"

definition decodeLegacy :: "codec \<Rightarrow> string \<Rightarrow> State \<Rightarrow> State" where
  "decodeLegacy J data st =
     (if st_Pods st = None then
        (case cUnmarshalLegacy J data of
           Inr (Some (p # ps)) \<Rightarrow> st\<lparr>st_Pods := Some (p # ps)\<rparr>
         | _ \<Rightarrow> st)
      else st)"

definition withMaps :: "State \<Rightarrow> State" where
  "withMaps st =
     st\<lparr>st_Pods := (case st_Pods st of None \<Rightarrow> Some [] | x \<Rightarrow> x),
        st_IPAllocations := (case st_IPAllocations st of None \<Rightarrow> Some [] | x \<Rightarrow> x)\<rparr>"

definition finishStore :: "codec \<Rightarrow> Store \<Rightarrow> Store io" where
  "finishStore J s =
     (let (s1, changed) = migrateDeviceKeys s in
      if changed \<and> store_path s1 \<noteq> [] then andThen (persistLocked J s1) (\<lambda>_. ok s1) else ok s1)"

definition NewStore :: "codec \<Rightarrow> string \<Rightarrow> Store io" where
  "NewStore J path fs =
     (if path = [] then (Inr (empty_store path), fs)
      else
        (case os_ReadFile fs path of
           Inl err \<Rightarrow> if errors_Is_NotExist err then (Inr (empty_store path), fs) else (Inl err, fs)
         | Inr data \<Rightarrow>
             (case (if data \<noteq> [] then map_sum id (decodeLegacy J data) (decodeState J data (store_State (empty_store path)))
                    else Inr (store_State (empty_store path))) of
                Inl err \<Rightarrow> (Inl err, fs)
              | Inr st \<Rightarrow> finishStore J \<lparr>store_path = path, store_State = withMaps st\<rparr> fs)))"

section \<open>Operations\<close>

text \<open>A method changes the store in memory and then writes it out; the change stays when the write fails.\<close>

definition commit :: "codec \<Rightarrow> Store \<Rightarrow> fsys \<Rightarrow> (goerr + unit) \<times> Store \<times> fsys" where
  "commit J s fs = (case persistLocked J s fs of (r, fs1) \<Rightarrow> (r, s, fs1))"

definition putDevice :: "uid \<Rightarrow> string \<Rightarrow> DeviceConfig \<Rightarrow> Store \<Rightarrow> Store" where
  "putDevice podUID deviceName cfg s =
     (let pod = (case map_of (pods s) podUID of Some p \<Rightarrow> p | None \<Rightarrow> no_pod);
          pod1 = (if pcf_Devices pod = None then pod\<lparr>pcf_PodUID := podUID, pcf_Devices := Some []\<rparr> else pod)
      in set_pods (gput podUID (pod1\<lparr>pcf_Devices := Some (gput deviceName cfg (pod_devices pod1))\<rparr>) (pods s)) s)"

definition SetDevice :: "codec \<Rightarrow> uid \<Rightarrow> string \<Rightarrow> DeviceConfig \<Rightarrow> Store \<Rightarrow> fsys \<Rightarrow> (goerr + unit) \<times> Store \<times> fsys" where
  "SetDevice J podUID deviceName cfg s = commit J (putDevice podUID deviceName cfg s)"

definition putNetNS :: "uid \<Rightarrow> string \<Rightarrow> Store \<Rightarrow> Store" where
  "putNetNS podUID netns s =
     (let pod = (case map_of (pods s) podUID of Some p \<Rightarrow> p | None \<Rightarrow> no_pod)
      in set_pods (gput podUID (pod\<lparr>pcf_PodUID := podUID, pcf_NetNS := netns\<rparr>) (pods s)) s)"

definition SetNetNS :: "codec \<Rightarrow> uid \<Rightarrow> string \<Rightarrow> Store \<Rightarrow> fsys \<Rightarrow> (goerr + unit) \<times> Store \<times> fsys" where
  "SetNetNS J podUID netns s = commit J (putNetNS podUID netns s)"

definition GetPod :: "uid \<Rightarrow> Store \<Rightarrow> PodConfig option" where
  "GetPod podUID s = map_of (pods s) podUID"

definition PodConfigs :: "Store \<Rightarrow> (uid \<times> PodConfig) list" where
  "PodConfigs s = pods s"

definition DeletePod :: "codec \<Rightarrow> uid \<Rightarrow> Store \<Rightarrow> fsys \<Rightarrow> (goerr + unit) \<times> Store \<times> fsys" where
  "DeletePod J podUID s = commit J (set_pods (gdel podUID (pods s)) s)"

text \<open>The loop of \<^verbatim>\<open>DeleteClaim\<close> over the pods: devices of the claim go, then pods without devices.\<close>

fun dropClaim :: "uid \<Rightarrow> (uid \<times> PodConfig) list \<Rightarrow> (uid \<times> PodConfig) list" where
  "dropClaim claimUID [] = []"
| "dropClaim claimUID ((podUID, pod) # rest) =
     (let devices = filter (\<lambda>(_, cfg). dev_ClaimUID cfg \<noteq> claimUID) (pod_devices pod)
      in if devices = [] then dropClaim claimUID rest
         else (podUID, pod\<lparr>pcf_Devices := Some devices\<rparr>) # dropClaim claimUID rest)"

definition forgetClaim :: "uid \<Rightarrow> Store \<Rightarrow> Store" where
  "forgetClaim claimUID s =
     set_allocations (gdel claimUID (ip_allocations s)) (set_pods (dropClaim claimUID (pods s)) s)"

definition DeleteClaim :: "codec \<Rightarrow> uid \<Rightarrow> Store \<Rightarrow> fsys \<Rightarrow> (goerr + unit) \<times> Store \<times> fsys" where
  "DeleteClaim J claimUID s = commit J (forgetClaim claimUID s)"

definition ReserveIP ::
  "codec \<Rightarrow> string \<Rightarrow> string \<Rightarrow> uid \<Rightarrow> uid \<Rightarrow> Store \<Rightarrow> fsys \<Rightarrow> (goerr + unit) \<times> Store \<times> fsys" where
  "ReserveIP J pool address claimUID podUID s fs =
     (case map_of (ip_allocations s) claimUID of
        Some current \<Rightarrow>
          if ia_Pool current = pool \<and> ia_Address current = address then (Inr (), s, fs)
          else (Inl (Errorf ''claim already has a different IP allocation'' []), s, fs)
      | None \<Rightarrow>
          commit J (set_allocations (gput claimUID
            \<lparr>ia_Pool = pool, ia_Address = address, ia_ClaimUID = claimUID, ia_PodUID = podUID\<rparr> (ip_allocations s)) s) fs)"

definition AllocationForClaim :: "uid \<Rightarrow> Store \<Rightarrow> IPAllocation option" where
  "AllocationForClaim claimUID s = map_of (ip_allocations s) claimUID"

end
