(* ===== verification/Store_Props.thy ===== *)
theory Store_Props
  imports Store_Model
begin

text \<open>
  What the store promises: devices are found under the key they were stored with, a deleted
  claim leaves nothing behind and takes nothing else with it, keys of different devices differ,
  the state file is never left half-written, and a restart finds the store as it was.
\<close>

section \<open>Well-formed stores\<close>

definition wf_pod :: "PodConfig \<Rightarrow> bool" where
  "wf_pod pod \<longleftrightarrow> distinct (map fst (pod_devices pod)) \<and> (\<forall>(k, cfg)\<in>set (pod_devices pod). migratedKey k cfg = k)"

definition wf_store :: "Store \<Rightarrow> bool" where
  "wf_store s \<longleftrightarrow> distinct (map fst (pods s)) \<and> st_Pods (store_State s) \<noteq> None \<and> st_IPAllocations (store_State s) \<noteq> None
     \<and> distinct (map fst (ip_allocations s))
     \<and> (\<forall>(u, pod)\<in>set (pods s). pcf_PodUID pod = u \<and> wf_pod pod)
     \<and> (\<forall>(u, a)\<in>set (ip_allocations s). ia_ClaimUID a = u)"

definition lookupDevice :: "Store \<Rightarrow> uid \<Rightarrow> string \<Rightarrow> DeviceConfig option" where
  "lookupDevice s podUID key = (case GetPod podUID s of None \<Rightarrow> None | Some pod \<Rightarrow> map_of (pod_devices pod) key)"

lemma pods_set [simp]: "pods (set_pods ps s) = ps" "ip_allocations (set_pods ps s) = ip_allocations s"
  "pods (set_allocations as s) = pods s" "ip_allocations (set_allocations as s) = as"
  by (simp_all add: pods_def set_pods_def ip_allocations_def set_allocations_def)

lemma store_path_set [simp]: "store_path (set_pods ps s) = store_path s" "store_path (set_allocations as s) = store_path s"
  by (simp_all add: set_pods_def set_allocations_def)

lemma State_set [simp]:
  "st_Pods (store_State (set_pods ps s)) = Some ps"
  "st_IPAllocations (store_State (set_pods ps s)) = st_IPAllocations (store_State s)"
  "st_Pods (store_State (set_allocations as s)) = st_Pods (store_State s)"
  "st_IPAllocations (store_State (set_allocations as s)) = Some as"
  by (simp_all add: set_pods_def set_allocations_def)

lemma gdel_map_of [simp]: "map_of (gdel k m) = (map_of m)(k := None)"
  by (induction m) (auto simp: gdel_def fun_eq_iff)

lemma gdel_distinct [simp]: "distinct (map fst m) \<Longrightarrow> distinct (map fst (gdel k m))"
  by (simp add: gdel_def distinct_map_filter)

lemma gdel_subset: "set (gdel k m) \<subseteq> set m"
  by (auto simp: gdel_def)

lemma set_gput: "set (gput k v m) \<subseteq> insert (k, v) (set m)"
  by (induction k v m rule: gput.induct) auto

lemma pod_devices_upd [simp]: "pod_devices (pod\<lparr>pcf_Devices := Some ds\<rparr>) = ds"
  "pod_devices (pod\<lparr>pcf_PodUID := u\<rparr>) = pod_devices pod" "pod_devices (pod\<lparr>pcf_NetNS := n\<rparr>) = pod_devices pod"
  by (simp_all add: pod_devices_def)

lemma pod_devices_no_pod [simp]: "pod_devices no_pod = []"
  by (simp add: pod_devices_def no_pod_def)

section \<open>Each operation on the data\<close>

lemma lookup_putDevice:
  "lookupDevice (putDevice p k cfg s) p' k' = (if p' = p \<and> k' = k then Some cfg else lookupDevice s p' k')"
  by (auto simp: lookupDevice_def putDevice_def GetPod_def Let_def pod_devices_def no_pod_def
      split: option.splits)

lemma map_of_filter_snd:
  "distinct (map fst m) \<Longrightarrow>
     map_of (filter (\<lambda>(_, v). P v) m) k = (case map_of m k of Some v \<Rightarrow> if P v then Some v else None | None \<Rightarrow> None)"
  by (induction m) (auto split: option.splits if_splits simp: map_of_eq_None_iff)

definition dropPod :: "uid \<Rightarrow> PodConfig \<Rightarrow> PodConfig" where
  "dropPod u pod = pod\<lparr>pcf_Devices := Some (filter (\<lambda>(_, cfg). dev_ClaimUID cfg \<noteq> u) (pod_devices pod))\<rparr>"

lemma pod_devices_dropPod [simp]:
  "pod_devices (dropPod u pod) = filter (\<lambda>(_, cfg). dev_ClaimUID cfg \<noteq> u) (pod_devices pod)"
  by (simp add: dropPod_def)

lemma dropClaim_eq:
  "dropClaim u ps = filter (\<lambda>(p, pod). pod_devices pod \<noteq> []) (map (\<lambda>(p, pod). (p, dropPod u pod)) ps)"
  by (induction u ps rule: dropClaim.induct) (simp_all add: Let_def dropPod_def)

lemma dropClaim_fst: "fst ` set (dropClaim u ps) \<subseteq> fst ` set ps"
  by (force simp: dropClaim_eq)

lemma dropClaim_distinct: "distinct (map fst ps) \<Longrightarrow> distinct (map fst (dropClaim u ps))"
proof (induction ps)
  case (Cons x rest)
  with dropClaim_fst [of u rest] show ?case by (cases x) (auto simp: Let_def)
qed simp

lemma map_of_dropClaim:
  "distinct (map fst ps) \<Longrightarrow>
     map_of (dropClaim u ps) p =
       (case map_of ps p of
          None \<Rightarrow> None
        | Some pod \<Rightarrow>
            let ds = filter (\<lambda>(_, cfg). dev_ClaimUID cfg \<noteq> u) (pod_devices pod)
            in if ds = [] then None else Some (pod\<lparr>pcf_Devices := Some ds\<rparr>))"
proof (induction ps)
  case (Cons x rest)
  obtain q pod where x: "x = (q, pod)" by fastforce
  with Cons.prems have "q \<notin> fst ` set (dropClaim u rest)" using dropClaim_fst [of u rest] by auto
  then have "map_of (dropClaim u rest) q = None" by (simp add: map_of_eq_None_iff)
  with Cons x show ?case by (simp add: Let_def)
qed simp

lemma dropClaim_mem:
  "(p, pod') \<in> set (dropClaim u ps) \<Longrightarrow> \<exists>pod. (p, pod) \<in> set ps \<and> pod' = dropPod u pod \<and> pod_devices pod' \<noteq> []"
  by (auto simp: dropClaim_eq simp del: pod_devices_dropPod)

lemma pods_forget [simp]: "pods (forgetClaim u s) = dropClaim u (pods s)"
  "ip_allocations (forgetClaim u s) = gdel u (ip_allocations s)" "store_path (forgetClaim u s) = store_path s"
  by (simp_all add: forgetClaim_def)

lemma lookup_forgetClaim:
  assumes "wf_store s"
  shows "lookupDevice (forgetClaim u s) p k =
    (case lookupDevice s p k of Some cfg \<Rightarrow> if dev_ClaimUID cfg \<noteq> u then Some cfg else None | None \<Rightarrow> None)"
proof (cases "map_of (pods s) p")
  case None
  with assms show ?thesis by (simp add: lookupDevice_def GetPod_def map_of_dropClaim wf_store_def)
next
  case (Some pod)
  with assms have "wf_pod pod" by (auto simp: wf_store_def dest: map_of_SomeD)
  then have d: "distinct (map fst (pod_devices pod))" by (simp add: wf_pod_def)
  let ?ds = "filter (\<lambda>(_, cfg). dev_ClaimUID cfg \<noteq> u) (pod_devices pod)"
  have "lookupDevice (forgetClaim u s) p k = map_of ?ds k"
    using assms Some by (simp add: lookupDevice_def GetPod_def map_of_dropClaim wf_store_def Let_def)
  with map_of_filter_snd [OF d, of "\<lambda>cfg. dev_ClaimUID cfg \<noteq> u"] Some show ?thesis
    by (simp add: lookupDevice_def GetPod_def)
qed

section \<open>Well-formedness is kept\<close>

lemma wf_pod_put:
  "wf_pod pod \<Longrightarrow> migratedKey k cfg = k \<Longrightarrow> wf_pod (pod\<lparr>pcf_Devices := Some (gput k cfg (pod_devices pod))\<rparr>)"
  using set_gput [of k cfg "pod_devices pod"] by (fastforce simp: wf_pod_def)

lemma wf_no_pod [simp]: "wf_pod no_pod"
  by (simp add: wf_pod_def)

lemma wf_store_put_pod:
  assumes "wf_store s" and "wf_pod pod" and "pcf_PodUID pod = u"
  shows "wf_store (set_pods (gput u pod (pods s)) s)"
  using assms set_gput [of u pod "pods s"] by (fastforce simp: wf_store_def)

lemma wf_store_pod: "wf_store s \<Longrightarrow> map_of (pods s) u = Some pod \<Longrightarrow> wf_pod pod \<and> pcf_PodUID pod = u"
  by (auto simp: wf_store_def dest: map_of_SomeD)

lemma wf_putDevice:
  assumes "wf_store s" and "migratedKey k cfg = k"
  shows "wf_store (putDevice u k cfg s)"
proof (cases "map_of (pods s) u")
  case None
  have "wf_pod (no_pod\<lparr>pcf_PodUID := u, pcf_Devices := Some [(k, cfg)]\<rparr>)"
    using assms(2) by (simp add: wf_pod_def)
  from wf_store_put_pod [OF assms(1) this, of u] None show ?thesis
    by (simp add: putDevice_def Let_def no_pod_def pod_devices_def)
next
  case (Some pod)
  note p = wf_store_pod [OF assms(1) Some]
  have "wf_pod ((if pcf_Devices pod = None then pod\<lparr>pcf_PodUID := u, pcf_Devices := Some []\<rparr> else pod)
      \<lparr>pcf_Devices := Some (gput k cfg (pod_devices pod))\<rparr>)"
    using wf_pod_put [of pod k cfg] p assms(2) by (auto simp: wf_pod_def)
  moreover have "pod_devices pod = []" if "pcf_Devices pod = None" using that by (simp add: pod_devices_def)
  ultimately show ?thesis
    using wf_store_put_pod [OF assms(1)] p Some by (auto simp: putDevice_def Let_def)
qed

lemma wf_putNetNS:
  assumes "wf_store s"
  shows "wf_store (putNetNS u ns s)"
proof -
  let ?pod = "case map_of (pods s) u of Some p \<Rightarrow> p | None \<Rightarrow> no_pod"
  have "wf_pod ?pod" using wf_store_pod [OF assms] by (auto split: option.splits)
  then have "wf_pod (?pod\<lparr>pcf_PodUID := u, pcf_NetNS := ns\<rparr>)" by (simp add: wf_pod_def)
  from wf_store_put_pod [OF assms this, of u] show ?thesis by (simp add: putNetNS_def Let_def)
qed

lemma wf_forgetClaim:
  assumes "wf_store s"
  shows "wf_store (forgetClaim u s)"
proof -
  have "wf_pod pod \<and> pcf_PodUID pod = p" if m: "(p, pod) \<in> set (dropClaim u (pods s))" for p pod
  proof -
    from dropClaim_mem [OF m] obtain q where q: "(p, q) \<in> set (pods s)"
      and pod: "pod = dropPod u q" by blast
    from assms q have "wf_pod q" "pcf_PodUID q = p" by (auto simp: wf_store_def)
    then show ?thesis by (auto simp: pod dropPod_def wf_pod_def distinct_map_filter)
  qed
  then show ?thesis
    using assms gdel_subset [of u "ip_allocations s"]
    by (fastforce simp: wf_store_def dropClaim_distinct forgetClaim_def)
qed

lemma wf_reserve:
  assumes "wf_store s" and "ia_ClaimUID a = u"
  shows "wf_store (set_allocations (gput u a (ip_allocations s)) s)"
  using assms set_gput [of u a "ip_allocations s"] by (fastforce simp: wf_store_def)

lemma wf_deletePod: "wf_store s \<Longrightarrow> wf_store (set_pods (gdel u (pods s)) s)"
  using gdel_subset [of u "pods s"] by (fastforce simp: wf_store_def)

lemma wf_empty_store [simp]: "wf_store (empty_store p)"
  by (simp add: wf_store_def empty_store_def pods_def ip_allocations_def)

section \<open>The state file\<close>

text \<open>A place for a state file: a directory reached without links, where the file and its temporary
  sibling are regular files or do not exist.\<close>

definition plain_file :: "fsys \<Rightarrow> string list \<Rightarrow> bool" where
  "plain_file fs p \<longleftrightarrow> (case node_at fs p of None \<Rightarrow> True | Some (FFile _) \<Rightarrow> True | _ \<Rightarrow> False)"

definition state_file :: "fsys \<Rightarrow> string \<Rightarrow> string list \<Rightarrow> string \<Rightarrow> bool" where
  "state_file fs path d b \<longleftrightarrow> path = comps_path (d @ [b]) \<and> plain_dir fs d \<and> clean_name b
     \<and> plain_file fs (d @ [b]) \<and> plain_file fs (d @ [b @ ''.tmp''])"

lemma state_file_paths:
  assumes "state_file fs path d b"
  shows "path \<noteq> []" "path_comps path = d @ [b]" "path_comps (tmp_path path) = d @ [b @ ''.tmp'']"
    "path_comps (filepath_Dir path) = d"
proof -
  from assms have c: "list_all clean_name (d @ [b])" "list_all clean_name (d @ [b @ ''.tmp''])" "list_all clean_name d"
    and p: "path = comps_path (d @ [b])"
    by (auto simp: state_file_def plain_dir_def clean_name_def append_eq_Cons_conv)
  show "path \<noteq> []" by (simp add: p comps_path_def)
  show comps: "path_comps path = d @ [b]" unfolding p using c(1) by (rule path_comps_path)
  show "path_comps (tmp_path path) = d @ [b @ ''.tmp'']"
    unfolding p tmp_path_def comps_path_snoc using c(2) by (rule path_comps_path)
  show "path_comps (filepath_Dir path) = d"
    unfolding filepath_Dir_def comps using c(3) by (simp add: path_comps_path)
qed

lemma state_file_faults [simp]: "state_file (fs\<lparr>fs_faults := f\<rparr>) path d b = state_file fs path d b"
  by (simp add: state_file_def plain_file_def)

lemma next_wfault_eq: "next_wfault fs = (f, fs1) \<Longrightarrow> fs1 = fs \<or> fs1 = fs\<lparr>fs_faults := tl (fs_faults fs)\<rparr>"
  by (auto simp: next_wfault_def split: list.splits)

lemma next_wfault_state:
  assumes "next_wfault fs = (f, fs1)"
  shows "state_file fs1 path d b = state_file fs path d b" "node_at fs1 p = node_at fs p"
  using next_wfault_eq [OF assms] by auto

lemma tmp_differs [simp]: "d @ [b @ ''.tmp''] \<noteq> d @ [b]" "d @ [b] \<noteq> d @ [b @ ''.tmp'']"
  by auto

lemma MkdirAll_state:
  assumes "state_file fs path d b" and "MkdirAll (filepath_Dir path) fs = (r, fs')"
  shows "state_file fs' path d b \<and> node_at fs' = node_at fs"
proof -
  obtain f fs1 where f: "next_wfault fs = (f, fs1)" by fastforce
  note n = next_wfault_state [OF f]
  from assms(1) have "state_file fs1 path d b" by (simp only: n(1))
  then have "plain_dir fs1 d" by (simp add: state_file_def)
  then have "mkdirs [] d fs1 = Some fs1" using mkdirs_plain [of "[]" d fs1] by (simp add: plain_dir_def)
  with assms(2) f state_file_paths(4) [OF assms(1)] have "fs' = fs1"
    by (auto simp: MkdirAll_def split: if_splits)
  with n assms(1) show ?thesis by auto
qed

lemma WriteFile_state:
  assumes "state_file fs path d b" and "WriteFile (tmp_path path) data fs = (r, fs')"
  shows "state_file fs' path d b \<and> node_at fs' (d @ [b]) = node_at fs (d @ [b])
    \<and> (r = Inr u \<longrightarrow> node_at fs' (d @ [b @ ''.tmp'']) = Some (FFile data))"
proof -
  let ?q = "d @ [b @ ''.tmp'']"
  obtain f fs1 where f: "next_wfault fs = (f, fs1)" by fastforce
  note n = next_wfault_state [OF f]
  note sp = state_file_paths [OF assms(1)]
  from assms(1) n have pd: "plain_dir fs1 d" and pf: "plain_file fs1 ?q" and cb: "clean_name (b @ ''.tmp'')"
    by (auto simp: state_file_def plain_file_def clean_name_def append_eq_Cons_conv)
  have "(case resolve fs1 (tmp_path path) of Some q \<Rightarrow> Some q | None \<Rightarrow> target_of fs1 (tmp_path path)) = Some ?q"
    using plain_resolve [OF pd sp(3) cb] plain_target [OF pd sp(3)] pf
    by (auto simp: plain_file_def split: option.splits fnode.splits)
  moreover have "node_at fs1 ?q \<noteq> Some FDir" using pf by (auto simp: plain_file_def)
  ultimately obtain x where x: "fs' = put_node ?q (FFile x) fs1" and "r = Inr u \<longrightarrow> x = data"
    using assms(2) f by (auto simp: WriteFile_def split: wfault.splits)
  moreover have "state_file (put_node ?q (FFile x) fs1) path d b"
    using assms(1) n plain_put [OF pd] by (auto simp: state_file_def plain_file_def node_at_put)
  ultimately show ?thesis using n by (simp add: node_at_put)
qed

lemma Rename_state:
  assumes "state_file fs path d b" and "Rename (tmp_path path) path fs = (r, fs')"
  shows "state_file fs' path d b \<and> (r = Inr u \<longrightarrow> node_at fs' (d @ [b]) = node_at fs (d @ [b @ ''.tmp'']))
    \<and> (\<forall>e. r = Inl e \<longrightarrow> node_at fs' (d @ [b]) = node_at fs (d @ [b]))"
proof -
  let ?q = "d @ [b @ ''.tmp'']" and ?p = "d @ [b]"
  obtain f fs1 where f: "next_wfault fs = (f, fs1)" by fastforce
  note n = next_wfault_state [OF f]
  note sp = state_file_paths [OF assms(1)]
  from assms(1) n have pd: "plain_dir fs1 d" and pf: "plain_file fs1 ?q" "plain_file fs1 ?p"
    by (auto simp: state_file_def plain_file_def)
  have t: "target_of fs1 (tmp_path path) = Some ?q" "target_of fs1 path = Some ?p"
    using plain_target [OF pd] sp(2,3) by blast+
  have "(\<exists>e. r = Inl e) \<and> fs' = fs1
      \<or> (\<exists>x. node_at fs1 ?q = Some (FFile x) \<and> fs' = put_node ?p (FFile x) (drop_node ?q fs1)) \<and> r = Inr u"
    using assms(2) f t pf by (auto simp: Rename_def plain_file_def split: wfault.splits option.splits fnode.splits)
  then show ?thesis
  proof
    assume "(\<exists>e. r = Inl e) \<and> fs' = fs1"
    with n assms(1) show ?thesis by auto
  next
    assume "(\<exists>x. node_at fs1 ?q = Some (FFile x) \<and> fs' = put_node ?p (FFile x) (drop_node ?q fs1)) \<and> r = Inr u"
    then obtain x where x: "node_at fs1 ?q = Some (FFile x)" "fs' = put_node ?p (FFile x) (drop_node ?q fs1)" "r = Inr u"
      by blast
    have "state_file fs' path d b"
      using assms(1) plain_put [OF plain_drop [OF pd]] by (auto simp: x state_file_def plain_file_def node_at_put node_at_drop)
    with x n show ?thesis by (simp add: node_at_put node_at_drop)
  qed
qed

lemma persist_result:
  assumes "state_file fs (store_path s) d b" and "persistLocked J s fs = (r, fs')"
  shows "state_file fs' (store_path s) d b
    \<and> (case r of Inl e \<Rightarrow> node_at fs' (d @ [b]) = node_at fs (d @ [b])
       | Inr _ \<Rightarrow> \<exists>data. cMarshal J (store_State s) = Inr data \<and> node_at fs' (d @ [b]) = Some (FFile data))"
proof -
  let ?p = "store_path s"
  obtain r1 fs1 where m: "MkdirAll (filepath_Dir ?p) fs = (r1, fs1)" by fastforce
  note 1 = MkdirAll_state [OF assms(1) m]
  have ne: "?p \<noteq> []" using state_file_paths(1) [OF assms(1)] .
  show ?thesis
  proof (cases "(\<exists>e. r1 = Inl e) \<or> (\<exists>e. cMarshal J (store_State s) = Inl e)")
    case True
    with m assms(2) ne have "fs' = fs1" "\<exists>e. r = Inl e"
      by (auto simp: persistLocked_def andThen_def split: sum.splits)
    with 1 show ?thesis by auto
  next
    case False
    then obtain data where d: "cMarshal J (store_State s) = Inr data" "r1 = Inr ()"
      by (metis old.unit.exhaust sum.exhaust)
    obtain r2 fs2 where w: "WriteFile (tmp_path ?p) data fs1 = (r2, fs2)" by fastforce
    from 1 have "state_file fs1 ?p d b" by simp
    note 2 = WriteFile_state [OF this w, of "()"]
    show ?thesis
    proof (cases r2)
      case (Inl e)
      with m w d assms(2) ne have "fs' = fs2" "r = Inl e" by (auto simp: persistLocked_def andThen_def)
      with 1 2 show ?thesis by auto
    next
      case (Inr u)
      with m w d assms(2) ne have rn: "Rename (tmp_path ?p) ?p fs2 = (r, fs')"
        by (auto simp: persistLocked_def andThen_def)
      from 2 have "state_file fs2 ?p d b" by simp
      note 3 = Rename_state [OF this rn, of "()"]
      from 1 2 3 Inr d show ?thesis by (cases r) auto
    qed
  qed
qed

section \<open>Keys\<close>

lemma append_sep_inj:
  "c \<notin> set x \<Longrightarrow> c \<notin> set y \<Longrightarrow> x @ c # r = y @ c # t \<Longrightarrow> x = y \<and> r = t"
proof (induction x arbitrary: y)
  case Nil
  then show ?case by (cases y) auto
next
  case (Cons a x)
  then show ?case by (cases y) auto
qed

lemma append_sep_end: "c \<notin> set y \<Longrightarrow> x @ c # r \<noteq> y"
  by auto

text \<open>A nil share ID and an empty one are the same to the key.\<close>

definition share_text :: "string option \<Rightarrow> string" where
  "share_text sh = (case sh of Some x \<Rightarrow> x | None \<Rightarrow> [])"

lemma deviceStoreKey_share:
  "deviceStoreKey c d sh = c @ CHR ''/'' # d @ (if share_text sh = [] then [] else CHR ''/'' # share_text sh)"
  by (simp add: deviceStoreKey_def share_text_def split: option.splits)

lemma migratedKey_idem [simp]: "migratedKey (migratedKey k cfg) cfg = migratedKey k cfg"
  by (simp add: migratedKey_def)

lemma migrateDevices_keys:
  "(\<forall>(k, cfg)\<in>set acc. migratedKey k cfg = k) \<Longrightarrow> distinct (map fst acc) \<Longrightarrow> migrateDevices ds acc ch = (ds', ch') \<Longrightarrow>
     (\<forall>(k, cfg)\<in>set ds'. migratedKey k cfg = k) \<and> distinct (map fst ds')"
proof (induction ds arbitrary: acc ch)
  case (Cons x ds)
  obtain k cfg where x: "x = (k, cfg)" by fastforce
  from Cons.prems(1) have "\<forall>(k', c)\<in>set (gput (migratedKey k cfg) cfg acc). migratedKey k' c = k'"
    using set_gput [of "migratedKey k cfg" cfg acc] by fastforce
  with Cons x show ?case by (simp add: Let_def)
qed simp

lemma migratePods_keys:
  "migratePods ps ch = (ps', ch') \<Longrightarrow> (u, pod) \<in> set ps' \<Longrightarrow> wf_pod pod"
proof (induction ps arbitrary: ch ps' ch')
  case (Cons x ps)
  obtain q pd where x: "x = (q, pd)" by fastforce
  obtain ds c1 where d: "migrateDevices (pod_devices pd) [] ch = (ds, c1)" by fastforce
  obtain rest c2 where r: "migratePods ps c1 = (rest, c2)" by fastforce
  from Cons.prems x d r have "ps' = (q, pd\<lparr>pcf_Devices := Some ds\<rparr>) # rest" by simp
  with Cons.prems(2) Cons.IH [OF r] migrateDevices_keys [OF _ _ d] show ?case by (auto simp: wf_pod_def)
qed simp

section \<open>The device registry\<close>

text \<open>The interface on which the handlers rely: devices by pod and key, and claims that can be forgotten.\<close>

locale device_registry =
  fixes inv :: "'s \<Rightarrow> bool" and lookup :: "'s \<Rightarrow> uid \<Rightarrow> string \<Rightarrow> DeviceConfig option"
    and put :: "uid \<Rightarrow> string \<Rightarrow> DeviceConfig \<Rightarrow> 's \<Rightarrow> 's" and forget :: "uid \<Rightarrow> 's \<Rightarrow> 's"
  assumes inv_put: "inv s \<Longrightarrow> migratedKey k cfg = k \<Longrightarrow> inv (put p k cfg s)"
    and inv_forget: "inv s \<Longrightarrow> inv (forget u s)"
    and lookup_put: "lookup (put p k cfg s) p' k' = (if p' = p \<and> k' = k then Some cfg else lookup s p' k')"
    and lookup_forget: "inv s \<Longrightarrow> lookup (forget u s) p k =
      (case lookup s p k of Some cfg \<Rightarrow> if dev_ClaimUID cfg \<noteq> u then Some cfg else None | None \<Rightarrow> None)"
begin

text \<open>Devices prepared one after the other, each under its own key.\<close>

fun put_all :: "uid \<Rightarrow> (string \<times> DeviceConfig) list \<Rightarrow> 's \<Rightarrow> 's" where
  "put_all p [] s = s"
| "put_all p ((k, cfg) # ds) s = put_all p ds (put p k cfg s)"

lemma inv_put_all: "inv s \<Longrightarrow> \<forall>(k, cfg)\<in>set ds. migratedKey k cfg = k \<Longrightarrow> inv (put_all p ds s)"
  by (induction p ds s rule: put_all.induct) (auto simp: inv_put)

lemma lookup_put_all: "lookup (put_all p ds s) q k =
    (if q = p \<and> map_of (rev ds) k \<noteq> None then map_of (rev ds) k else lookup s q k)"
  by (induction p ds s rule: put_all.induct) (auto simp: lookup_put map_add_def split: option.splits)

text \<open>Preparing a claim's devices and then forgetting the claim leaves, of the devices that were there
  before, exactly those of other claims that were not overwritten.\<close>

lemma forget_put_all:
  assumes "inv s" and "\<forall>(k, cfg)\<in>set ds. migratedKey k cfg = k \<and> dev_ClaimUID cfg = u"
  shows "lookup (forget u (put_all p ds s)) q k =
    (if q = p \<and> k \<in> fst ` set ds then None else lookup (forget u s) q k)"
proof -
  from assms have i: "inv (put_all p ds s)" using inv_put_all [of s ds p] by fastforce
  show ?thesis
  proof (cases "q = p \<and> k \<in> fst ` set ds")
    case True
    then obtain cfg where c: "map_of (rev ds) k = Some cfg" by (cases "map_of (rev ds) k") (auto simp: map_of_eq_None_iff)
    then have "(k, cfg) \<in> set ds" by (auto dest: map_of_SomeD)
    with assms(2) have "dev_ClaimUID cfg = u" by auto
    with True c show ?thesis by (simp add: lookup_forget [OF i] lookup_put_all)
  next
    case False
    then have "q \<noteq> p \<or> map_of (rev ds) k = None" by (auto simp: map_of_eq_None_iff)
    with False show ?thesis by (auto simp: lookup_forget [OF i] lookup_forget [OF assms(1)] lookup_put_all)
  qed
qed

end

interpretation reg: device_registry wf_store lookupDevice putDevice forgetClaim
  by unfold_locales (simp_all add: wf_putDevice wf_forgetClaim lookup_putDevice lookup_forgetClaim)

section \<open>Sample data\<close>

definition sample_device :: DeviceConfig where
  "sample_device = \<lparr>dev_Claim = \<lparr>nn_Namespace = ''default'', nn_Name = ''net-a''\<rparr>, dev_ClaimUID = ''uid-a'',
     dev_DriverName = ''linux-net.dra.infinitydon.com'', dev_PoolName = ''node-1'', dev_DeviceName = ''eth1'',
     dev_ShareID = None, dev_ParentName = ''eth1'', dev_AllocationPolicy = ''shared'', dev_Identity = no_identity,
     dev_HostDevice = None, dev_DPDK = None,
     dev_Network = no_network\<lparr>nc_Type := ''macvlan'', nc_Mode := ''bridge'', nc_InterfaceName := ''net1''\<rparr>,
     dev_AttachedIf = [], dev_HardwareAddress = [], dev_LifecycleState = ''Prepared''\<rparr>"

definition sample_fs :: "wfault list \<Rightarrow> fsys" where
  "sample_fs faults = \<lparr>fs_nodes = [([''run''], FDir)], fs_faults = faults, fs_temp = 0\<rparr>"

definition const_codec :: codec where
  "const_codec = \<lparr>cMarshal = (\<lambda>_. Inr ''{}''), cUnmarshalState = (\<lambda>_ st. (None, st)), cUnmarshalLegacy = (\<lambda>_. Inr None)\<rparr>"

lemma sample_state_file: "state_file (sample_fs f) ''/run/state'' [''run''] ''state''"
  by (auto simp: state_file_def comps_path_def plain_dir_def clean_name_def plain_file_def sample_fs_def node_at_def
      take_Cons' le_Suc_eq)

section \<open>Properties\<close>

text \<open>C26: the state file is replaced in one step.  Whatever operation fails, and wherever the process stops
  (after the directory, after a partly written temporary file, after the rename), the state file holds either
  what it held before or the complete new state; when the write reports success it holds the new state, and when
  it reports an error the old content is untouched.\<close>

theorem persist_atomic:
  assumes "state_file fs (store_path s) d b" and "cMarshal J (store_State s) = Inr data"
    and "fs1 = snd (MkdirAll (filepath_Dir (store_path s)) fs)"
    and "fs2 = snd (WriteFile (tmp_path (store_path s)) data fs1)"
    and "persistLocked J s fs = (r, fs3)"
  shows "node_at fs1 (d @ [b]) = node_at fs (d @ [b]) \<and> node_at fs2 (d @ [b]) = node_at fs (d @ [b])
    \<and> node_at fs3 (d @ [b]) = (case r of Inl _ \<Rightarrow> node_at fs (d @ [b]) | Inr _ \<Rightarrow> Some (FFile data))"
proof -
  from MkdirAll_state [OF assms(1) prod.collapse [symmetric]] assms(3)
  have 1: "state_file fs1 (store_path s) d b" "node_at fs1 (d @ [b]) = node_at fs (d @ [b])" by simp_all
  from WriteFile_state [OF 1(1) prod.collapse [symmetric]] assms(4) 1(2)
  have 2: "node_at fs2 (d @ [b]) = node_at fs (d @ [b])" by simp
  from persist_result [OF assms(1,5)] assms(2) 1 2 show ?thesis by (auto split: sum.splits)
qed

theorem persist_atomic_witness:
  "node_at (snd (persistLocked const_codec (empty_store ''/run/state'') (sample_fs []))) [''run'', ''state''] = Some (FFile ''{}'')
   \<and> node_at (snd (persistLocked const_codec (empty_store ''/run/state'') (sample_fs [WOk, WFail 1]))) [''run'', ''state''] = None"
proof -
  have s: "state_file (sample_fs f) (store_path (empty_store ''/run/state'')) [''run''] ''state''" for f
    using sample_state_file by (simp add: empty_store_def)
  have m: "cMarshal const_codec (store_State (empty_store ''/run/state'')) = Inr ''{}''" by (simp add: const_codec_def)
  have p: "path_comps ''/run'' = [''run'']" "path_comps ''/run/state'' = [''run'', ''state'']"
    "path_comps ''/run/state.tmp'' = [''run'', ''state.tmp'']"
    by (simp_all add: path_comps_def)
  have "fst (persistLocked const_codec (empty_store ''/run/state'') (sample_fs [])) = Inr ()"
    and "\<exists>e. fst (persistLocked const_codec (empty_store ''/run/state'') (sample_fs [WOk, WFail 1])) = Inl e"
    by (simp_all add: persistLocked_def empty_store_def const_codec_def andThen_def filepath_Dir_def p comps_path_def
        MkdirAll_def WriteFile_def Rename_def next_wfault_def sample_fs_def node_at_def tmp_path_def resolve_def
        target_of_def put_node_def numeral_eq_Suc)
  moreover have "node_at (sample_fs f) [''run'', ''state''] = None" for f by (simp add: sample_fs_def node_at_def)
  ultimately show ?thesis
    using persist_atomic [OF s m refl refl prod.collapse [symmetric]] by (auto split: sum.splits)
qed

text \<open>Two devices get the same store key only when claim, device and share agree, for claim UIDs and device
  names without a slash (which Kubernetes names cannot contain).\<close>

theorem deviceStoreKey_injective:
  assumes "CHR ''/'' \<notin> set c" and "CHR ''/'' \<notin> set d" and "CHR ''/'' \<notin> set c'" and "CHR ''/'' \<notin> set d'"
  shows "deviceStoreKey c d sh = deviceStoreKey c' d' sh' \<longleftrightarrow> c = c' \<and> d = d' \<and> share_text sh = share_text sh'"
proof
  let ?t = "\<lambda>sh. if share_text sh = [] then [] else CHR ''/'' # share_text sh"
  assume "deviceStoreKey c d sh = deviceStoreKey c' d' sh'"
  then have "c = c' \<and> d @ ?t sh = d' @ ?t sh'"
    unfolding deviceStoreKey_share using append_sep_inj [OF assms(1,3)] by blast
  moreover have "d = d' \<and> share_text sh = share_text sh'" if "d @ ?t sh = d' @ ?t sh'"
    using that append_sep_inj [OF assms(2,4), of "share_text sh" "share_text sh'"]
      append_sep_end [OF assms(4), of d "share_text sh"] append_sep_end [OF assms(2), of d' "share_text sh'"]
    by (auto split: if_splits)
  ultimately show "c = c' \<and> d = d' \<and> share_text sh = share_text sh'" by blast
qed (simp add: deviceStoreKey_share)

theorem deviceStoreKey_injective_witness:
  "deviceStoreKey ''uid-a'' ''eth1'' None \<noteq> deviceStoreKey ''uid-a'' ''eth1'' (Some ''s1'')"
  using deviceStoreKey_injective [of "''uid-a''" "''eth1''" "''uid-a''" "''eth1''" None "Some ''s1''"]
  by (simp add: share_text_def)

text \<open>Deleting a claim removes every device of the claim from every pod and its reserved address, keeps every
  other device and every other reservation, and leaves a well-formed store, whether or not the state file could be
  written.\<close>

theorem DeleteClaim_exact:
  assumes "wf_store s" and "DeleteClaim J u s fs = (r, s', fs')"
  shows "wf_store s' \<and> AllocationForClaim u s' = None \<and> (\<forall>v. v = u \<or> AllocationForClaim v s' = AllocationForClaim v s)
    \<and> (\<forall>p k. lookupDevice s' p k =
         (case lookupDevice s p k of Some cfg \<Rightarrow> if dev_ClaimUID cfg \<noteq> u then Some cfg else None | None \<Rightarrow> None))"
proof -
  from assms(2) have "s' = forgetClaim u s" by (simp add: DeleteClaim_def commit_def split: prod.splits)
  then show ?thesis
    using assms(1) by (simp add: wf_forgetClaim reg.lookup_forget AllocationForClaim_def)
qed

theorem DeleteClaim_exact_witness:
  "\<exists>s' fs'. DeleteClaim const_codec ''uid-a'' (putDevice ''pod-1'' ''uid-a/eth1'' sample_device (empty_store [])) (sample_fs [])
      = (Inr (), s', fs') \<and> lookupDevice s' ''pod-1'' ''uid-a/eth1'' = None"
proof -
  let ?s = "putDevice ''pod-1'' ''uid-a/eth1'' sample_device (empty_store [])"
  have "migratedKey ''uid-a/eth1'' sample_device = ''uid-a/eth1''"
    by (simp add: migratedKey_def deviceStoreKey_def sample_device_def)
  then have w: "wf_store ?s" by (simp add: wf_putDevice)
  have "store_path (forgetClaim ''uid-a'' ?s) = []"
    by (simp add: putDevice_def Let_def) (simp add: empty_store_def)
  then obtain s' fs' where d: "DeleteClaim const_codec ''uid-a'' ?s (sample_fs []) = (Inr (), s', fs')"
    by (auto simp: DeleteClaim_def commit_def persistLocked_def ok_def)
  have "lookupDevice ?s ''pod-1'' ''uid-a/eth1'' = Some sample_device" by (simp add: lookup_putDevice)
  with DeleteClaim_exact [OF w d] d show ?thesis by (auto simp: sample_device_def)
qed

text \<open>A claim holds at most one address in the store: reserving the same address again succeeds and changes
  nothing, reserving another is refused and changes nothing, and the first reservation records pool, address,
  claim and pod without touching other claims or any device.\<close>

theorem ReserveIP_contract:
  "(case AllocationForClaim u s of
      Some cur \<Rightarrow> ReserveIP J pool address u podUID s fs =
        ((if ia_Pool cur = pool \<and> ia_Address cur = address then Inr ()
          else Inl (Errorf ''claim already has a different IP allocation'' [])), s, fs)
    | None \<Rightarrow> (let s' = fst (snd (ReserveIP J pool address u podUID s fs)) in
        AllocationForClaim u s' = Some \<lparr>ia_Pool = pool, ia_Address = address, ia_ClaimUID = u, ia_PodUID = podUID\<rparr>
        \<and> (\<forall>v. v = u \<or> AllocationForClaim v s' = AllocationForClaim v s) \<and> pods s' = pods s))"
  by (simp add: AllocationForClaim_def ReserveIP_def commit_def Let_def split: option.splits prod.splits)

text \<open>C34: whatever a state file holds and however it is decoded, in the store that is opened every device that
  knows its claim and name stands under its own key, and no key occurs twice in a pod.\<close>

theorem NewStore_keys:
  assumes "NewStore J path fs = (Inr s, fs')" and "GetPod u s = Some pod"
  shows "wf_pod pod"
proof (cases "pods s = []")
  case True
  with assms(2) show ?thesis by (simp add: GetPod_def)
next
  case False
  with assms(1) obtain s0 where f: "finishStore J s0 fs = (Inr s, fs')"
    by (auto simp: NewStore_def empty_store_def pods_def split: go_split)
  then have "s = fst (migrateDeviceKeys s0)"
    by (auto simp: finishStore_def Let_def andThen_Inr split: prod.splits if_splits)
  then obtain ch where "migratePods (pods s0) False = (pods s, ch)"
    by (auto simp: migrateDeviceKeys_def split: prod.splits)
  from migratePods_keys [OF this] assms(2) show ?thesis by (auto simp: GetPod_def dest: map_of_SomeD)
qed

text \<open>A state file of the older layout, which keyed devices by their name only.\<close>

definition old_codec :: codec where
  "old_codec = const_codec\<lparr>cUnmarshalState := (\<lambda>_ st. (None, st\<lparr>st_Pods :=
     Some [(''pod-1'', \<lparr>pcf_PodUID = ''pod-1'', pcf_NetNS = [], pcf_Devices = Some [(''eth1'', sample_device)]\<rparr>)]\<rparr>))\<rparr>"

theorem NewStore_keys_witness:
  "\<exists>s fs' pod. NewStore old_codec ''/run/state'' (put_node [''run'', ''state''] (FFile ''x'') (sample_fs [])) = (Inr s, fs')
     \<and> GetPod ''pod-1'' s = Some pod \<and> pod_devices pod = [(''uid-a/eth1'', sample_device)] \<and> wf_pod pod"
proof -
  let ?pod = "\<lparr>pcf_PodUID = ''pod-1'', pcf_NetNS = [], pcf_Devices = Some [(''uid-a/eth1'', sample_device)]\<rparr>"
  let ?fs = "put_node [''run'', ''state''] (FFile ''x'') (sample_fs [])"
  have k: "migratedKey ''eth1'' sample_device = ''uid-a/eth1''"
    by (simp add: migratedKey_def deviceStoreKey_def sample_device_def)
  have p: "path_comps ''/run'' = [''run'']" "path_comps ''/run/state'' = [''run'', ''state'']"
    "path_comps ''/run/state.tmp'' = [''run'', ''state.tmp'']"
    by (simp_all add: path_comps_def)
  let ?s = "\<lparr>store_path = ''/run/state'', store_State = \<lparr>st_Pods = Some [(''pod-1'', ?pod)], st_IPAllocations = Some []\<rparr>\<rparr>"
  have "os_ReadFile ?fs ''/run/state'' = Inr ''x''"
    by (simp add: os_ReadFile_def resolve_def p put_node_def sample_fs_def node_at_def numeral_eq_Suc)
  moreover have "migrateDeviceKeys (?s\<lparr>store_State := \<lparr>st_Pods = Some [(''pod-1'', ?pod\<lparr>pcf_Devices :=
      Some [(''eth1'', sample_device)]\<rparr>)], st_IPAllocations = Some []\<rparr>\<rparr>) = (?s, True)"
    by (simp add: migrateDeviceKeys_def pods_def pod_devices_def k set_pods_def)
  moreover have "\<exists>fs'. persistLocked old_codec ?s ?fs = (Inr (), fs')"
    by (simp add: persistLocked_def old_codec_def const_codec_def andThen_def filepath_Dir_def p comps_path_def
        MkdirAll_def WriteFile_def Rename_def next_wfault_def sample_fs_def node_at_def tmp_path_def resolve_def
        target_of_def put_node_def numeral_eq_Suc)
  ultimately obtain fs' where n: "NewStore old_codec ''/run/state'' ?fs = (Inr ?s, fs')"
    by (auto simp: NewStore_def decodeState_def old_codec_def empty_store_def decodeLegacy_def withMaps_def
        finishStore_def andThen_def)
  have g: "GetPod ''pod-1'' ?s = Some ?pod" by (simp add: GetPod_def pods_def)
  from NewStore_keys [OF n g] n g show ?thesis by (intro exI [of _ ?s] exI [of _ fs'] exI [of _ ?pod]) (simp add: pod_devices_def)
qed

end
