(* ===== verification/Effects.thy ===== *)
theory Effects
  imports Go_Prelude
begin

text \<open>
  The rest of the effect combinators with which the handlers of the driver are written, and a small
  logic for them: for a reflexive and transitive relation between the state before and after, every
  handler built from steps that respect it respects it (\<open>keepsR\<close>).  The rules are collected in
  \<open>keeps_rules\<close>, so that a handler's proof follows its text.
\<close>

section \<open>Combinators\<close>

text \<open>A pure result, a read of the state, a change of it.\<close>

definition liftE :: "goerr + 'a \<Rightarrow> ('s, 'a) eff" where
  "liftE x s = (x, s)"

definition getsE :: "('s \<Rightarrow> 'a) \<Rightarrow> ('s, 'a) eff" where
  "getsE f s = (Inr (f s), s)"

definition modifyE :: "('s \<Rightarrow> 's) \<Rightarrow> ('s, unit) eff" where
  "modifyE f s = (Inr (), f s)"

text \<open>\<^verbatim>\<open>x, err := m\<close> with the error inspected by what follows.\<close>

definition attempt :: "('s, 'a) eff \<Rightarrow> ('s, goerr + 'a) eff" where
  "attempt m s = (case m s of (r, s') \<Rightarrow> (Inr r, s'))"

text \<open>\<^verbatim>\<open>_ = m\<close>, and calls whose error is only logged.\<close>

definition ignoreErr :: "('s, 'a) eff \<Rightarrow> ('s, unit) eff" where
  "ignoreErr m s = (Inr (), snd (m s))"

text \<open>\<^verbatim>\<open>defer\<close> of a call whose error is dropped, and such a call on the error path only.\<close>

definition deferE :: "('s, 'b) eff \<Rightarrow> ('s, 'a) eff \<Rightarrow> ('s, 'a) eff" where
  "deferE c m s = (case m s of (r, s1) \<Rightarrow> (r, snd (c s1)))"

definition onError :: "('s, 'b) eff \<Rightarrow> ('s, 'a) eff \<Rightarrow> ('s, 'a) eff" where
  "onError c m s = (case m s of (Inl e, s1) \<Rightarrow> (Inl e, snd (c s1)) | (Inr x, s1) \<Rightarrow> (Inr x, s1))"

abbreviation seqE :: "('s, 'a) eff \<Rightarrow> ('s, 'b) eff \<Rightarrow> ('s, 'b) eff" where
  "seqE m n \<equiv> andThen m (\<lambda>_. n)"

text \<open>A loop that returns at the first error, one that collects the values of its rounds, and one that goes on and collects the errors.\<close>

fun forE :: "('a \<Rightarrow> ('s, unit) eff) \<Rightarrow> 'a list \<Rightarrow> ('s, unit) eff" where
  "forE f [] = ok ()"
| "forE f (x # xs) = seqE (f x) (forE f xs)"

fun mapE :: "('a \<Rightarrow> ('s, 'b list) eff) \<Rightarrow> 'a list \<Rightarrow> ('s, 'b list) eff" where
  "mapE f [] = ok []"
| "mapE f (x # xs) = andThen (f x) (\<lambda>ys. andThen (mapE f xs) (\<lambda>zs. ok (ys @ zs)))"

fun collectE :: "('a \<Rightarrow> ('s, unit) eff) \<Rightarrow> 'a list \<Rightarrow> ('s, goerr list) eff" where
  "collectE f [] = ok []"
| "collectE f (x # xs) =
     andThen (attempt (f x)) (\<lambda>r. andThen (collectE f xs) (\<lambda>es. ok (case r of Inl e \<Rightarrow> e # es | Inr _ \<Rightarrow> es)))"

lemma ignoreErr_eq [simp]: "ignoreErr m s = (r, s') \<longleftrightarrow> r = Inr () \<and> s' = snd (m s)"
  by (auto simp: ignoreErr_def)

lemma liftE_eq [simp]: "liftE x s = (r, s') \<longleftrightarrow> r = x \<and> s' = s"
  by (auto simp: liftE_def)

lemma getsE_eq [simp]: "getsE f s = (r, s') \<longleftrightarrow> r = Inr (f s) \<and> s' = s"
  by (auto simp: getsE_def)

lemma modifyE_eq [simp]: "modifyE f s = (r, s') \<longleftrightarrow> r = Inr () \<and> s' = f s"
  by (auto simp: modifyE_def)

lemma attempt_Inl [simp]: "attempt m s \<noteq> (Inl e, s')"
  by (simp add: attempt_def split: prod.splits)

lemma attempt_Inr [simp]: "attempt m s = (Inr r, s') \<longleftrightarrow> m s = (r, s')"
  by (auto simp: attempt_def split: prod.splits)

section \<open>Respecting a relation\<close>

named_theorems keeps \<open>rules for programs that respect a relation\<close>

definition keepsR :: "('s \<Rightarrow> 's \<Rightarrow> bool) \<Rightarrow> ('s, 'a) eff \<Rightarrow> bool" where
  "keepsR R m \<longleftrightarrow> (\<forall>s. R s (snd (m s)))"

lemma keepsRI: "(\<And>s r s'. m s = (r, s') \<Longrightarrow> R s s') \<Longrightarrow> keepsR R m"
  unfolding keepsR_def by (metis prod.collapse)

lemma keepsRD: "keepsR R m \<Longrightarrow> m s = (r, s') \<Longrightarrow> R s s'"
  unfolding keepsR_def by (metis snd_conv)

text \<open>A locale for the relations: preorders on the state.\<close>

locale state_order =
  fixes R :: "'s \<Rightarrow> 's \<Rightarrow> bool"
  assumes refl_state: "R s s"
    and trans_state: "R s t \<Longrightarrow> R t u \<Longrightarrow> R s u"
begin

lemma keeps_ok: "keepsR R (ok x)"
  by (simp add: keepsR_def ok_def refl_state)

lemma keeps_fail: "keepsR R (fail e)"
  by (simp add: keepsR_def fail_def refl_state)

lemma keeps_liftE: "keepsR R (liftE x)"
  by (simp add: keepsR_def liftE_def refl_state)

lemma keeps_getsE: "keepsR R (getsE f)"
  by (simp add: keepsR_def getsE_def refl_state)

lemma keeps_andThen:
  assumes m: "keepsR R m" and f: "\<And>x. keepsR R (f x)"
  shows "keepsR R (andThen m f)"
proof (rule keepsRI)
  fix s r s'
  assume a: "andThen m f s = (r, s')"
  obtain x s1 where x: "m s = (x, s1)" by fastforce
  have 1: "R s s1" using keepsRD [OF m x] .
  show "R s s'"
  proof (cases x)
    case (Inl e)
    with a x 1 show ?thesis by (simp add: andThen_def)
  next
    case (Inr y)
    with a x have "f y s1 = (r, s')" by (simp add: andThen_def)
    from trans_state [OF 1 keepsRD [OF f this]] show ?thesis .
  qed
qed

lemma keeps_mapErr: "keepsR R m \<Longrightarrow> keepsR R (mapErr h m)"
  unfolding keepsR_def mapErr_def by (auto split: prod.splits sum.splits) (metis snd_conv)+

lemma keeps_attempt: "keepsR R m \<Longrightarrow> keepsR R (attempt m)"
  unfolding keepsR_def attempt_def by (auto split: prod.splits) (metis snd_conv)

lemma keeps_ignoreErr: "keepsR R m \<Longrightarrow> keepsR R (ignoreErr m)"
  by (simp add: keepsR_def ignoreErr_def)

lemma keeps_deferE: "keepsR R c \<Longrightarrow> keepsR R m \<Longrightarrow> keepsR R (deferE c m)"
  unfolding keepsR_def deferE_def by (auto split: prod.splits) (metis snd_conv trans_state)

lemma keeps_onError: "keepsR R c \<Longrightarrow> keepsR R m \<Longrightarrow> keepsR R (onError c m)"
  unfolding keepsR_def onError_def by (auto split: prod.splits sum.splits) (metis snd_conv trans_state)+

lemma keeps_forE: "(\<And>x. x \<in> set xs \<Longrightarrow> keepsR R (f x)) \<Longrightarrow> keepsR R (forE f xs)"
  by (induction xs) (auto intro: keeps_ok keeps_andThen)

lemma keeps_mapE: "(\<And>x. x \<in> set xs \<Longrightarrow> keepsR R (f x)) \<Longrightarrow> keepsR R (mapE f xs)"
  by (induction xs) (auto intro!: keeps_ok keeps_andThen)

lemma keeps_collectE: "(\<And>x. x \<in> set xs \<Longrightarrow> keepsR R (f x)) \<Longrightarrow> keepsR R (collectE f xs)"
  by (induction xs) (auto intro!: keeps_ok keeps_andThen keeps_attempt)

lemma keeps_modifyE: "(\<And>s. R s (f s)) \<Longrightarrow> keepsR R (modifyE f)"
  by (simp add: keepsR_def modifyE_def)

lemma keeps_if: "(b \<Longrightarrow> keepsR R m) \<Longrightarrow> (\<not> b \<Longrightarrow> keepsR R n) \<Longrightarrow> keepsR R (if b then m else n)"
  by simp

lemma keeps_sum: "(\<And>e. x = Inl e \<Longrightarrow> keepsR R (f e)) \<Longrightarrow> (\<And>y. x = Inr y \<Longrightarrow> keepsR R (g y)) \<Longrightarrow> keepsR R (case_sum f g x)"
  by (cases x) simp_all

lemma keeps_option: "(x = None \<Longrightarrow> keepsR R m) \<Longrightarrow> (\<And>y. x = Some y \<Longrightarrow> keepsR R (f y)) \<Longrightarrow> keepsR R (case_option m f x)"
  by (cases x) simp_all

lemma keeps_list: "(xs = [] \<Longrightarrow> keepsR R m) \<Longrightarrow> (\<And>y ys. xs = y # ys \<Longrightarrow> keepsR R (f y ys)) \<Longrightarrow> keepsR R (case_list m f xs)"
  by (cases xs) simp_all

lemma keeps_prod: "(\<And>y z. p = (y, z) \<Longrightarrow> keepsR R (f y z)) \<Longrightarrow> keepsR R (case_prod f p)"
  by (cases p) simp_all

lemma keeps_let: "keepsR R (f x) \<Longrightarrow> keepsR R (Let x f)"
  by simp

lemmas keeps_rules = keeps_ok keeps_fail keeps_liftE keeps_getsE keeps_andThen keeps_mapErr keeps_attempt
  keeps_ignoreErr keeps_deferE keeps_onError keeps_forE keeps_mapE keeps_collectE keeps_if keeps_sum keeps_option keeps_list keeps_prod keeps_let

end

text \<open>Two such relations: a part of the state that does not change, and an invariant.\<close>

interpretation unchanged: state_order "\<lambda>s t. f t = f s" for f
  by unfold_locales auto

interpretation invariant: state_order "\<lambda>s t. P s \<longrightarrow> P t" for P
  by unfold_locales auto

end
