(* ===== verification/Driver_State.thy ===== *)
theory Driver_State
  imports Store_Props Ipam_Allocation Effects
begin

text \<open>
  The state a driver process works on: its store, the node's file system, the cluster and the
  node's network (one abstract world \<open>'w\<close>, reached only through the calls of \<^verbatim>\<open>Kube_API\<close> and
  of the network library), and the caches it refreshes.  What \<^verbatim>\<open>Start\<close> sets once is the
  record \<open>drv\<close>.  \<open>onW\<close> and \<open>onStore\<close> run a call on its part of the state.
\<close>

record dpdkDevice =
  dd_Name :: string
  dd_State :: DPDKDeviceState

record drv =
  drv_nodeName :: string
  drv_driverName :: string
  drv_cfg :: Config
  drv_devices :: "(string \<times> InterfaceConfig) list"

record 'w sys =
  sys_store :: Store
  sys_fs :: fsys
  sys_w :: 'w
  sys_ipPools :: "(string \<times> IPPool) list"
  sys_dpdk :: "(string \<times> dpdkDevice) list"

definition onW :: "('w, 'a) eff \<Rightarrow> ('w sys, 'a) eff" where
  "onW m s = (case m (sys_w s) of (r, w) \<Rightarrow> (r, s\<lparr>sys_w := w\<rparr>))"

definition onStore :: "(Store \<Rightarrow> fsys \<Rightarrow> (goerr + 'a) \<times> Store \<times> fsys) \<Rightarrow> ('w sys, 'a) eff" where
  "onStore m s = (case m (sys_store s) (sys_fs s) of (r, st, fs) \<Rightarrow> (r, s\<lparr>sys_store := st, sys_fs := fs\<rparr>))"

definition onFs :: "'a io \<Rightarrow> ('w sys, 'a) eff" where
  "onFs m s = (case m (sys_fs s) of (r, fs) \<Rightarrow> (r, s\<lparr>sys_fs := fs\<rparr>))"

lemma onW_eq: "onW m s = (r, s') \<longleftrightarrow> (\<exists>w. m (sys_w s) = (r, w) \<and> s' = s\<lparr>sys_w := w\<rparr>)"
  by (auto simp: onW_def split: prod.splits)

lemma onStore_eq:
  "onStore m s = (r, s') \<longleftrightarrow>
     (\<exists>st fs. m (sys_store s) (sys_fs s) = (r, st, fs) \<and> s' = s\<lparr>sys_store := st, sys_fs := fs\<rparr>)"
  by (auto simp: onStore_def split: prod.splits)

lemma onFs_eq: "onFs m s = (r, s') \<longleftrightarrow> (\<exists>fs. m (sys_fs s) = (r, fs) \<and> s' = s\<lparr>sys_fs := fs\<rparr>)"
  by (auto simp: onFs_def split: prod.splits)

text \<open>A step on a part of the state respects a relation when the part's step does.\<close>

lemma keeps_onW: "(\<And>s w. Rw (sys_w s) w \<Longrightarrow> R s (s\<lparr>sys_w := w\<rparr>)) \<Longrightarrow> keepsR Rw m \<Longrightarrow> keepsR R (onW m)"
  by (rule keepsRI) (auto simp: onW_eq dest: keepsRD)

lemma keeps_onStore:
  "(\<And>s r st fs. m (sys_store s) (sys_fs s) = (r, st, fs) \<Longrightarrow> R s (s\<lparr>sys_store := st, sys_fs := fs\<rparr>)) \<Longrightarrow> keepsR R (onStore m)"
  by (rule keepsRI) (auto simp: onStore_eq)

lemma keeps_onFs: "(\<And>s fs. R s (s\<lparr>sys_fs := fs\<rparr>)) \<Longrightarrow> keepsR R (onFs m)"
  by (rule keepsRI) (auto simp: onFs_eq)

end
