(* ===== verification/Go_Net.thy ===== *)
theory Go_Net
  imports Go_Prelude
begin

unbundle bit_operations_syntax

text \<open>
  The parts of Go's \<^verbatim>\<open>net\<close>, \<^verbatim>\<open>net/netip\<close> and \<^verbatim>\<open>encoding/binary\<close> packages that the address
  management uses.  A \<^verbatim>\<open>net.IP\<close> is its byte slice: 4 or 16 bytes, the empty list for
  \<^verbatim>\<open>nil\<close>.  The textual parsers follow the standard library's own loops, IPv6 forms
  included, because \<^verbatim>\<open>To4\<close> also accepts the IPv4-mapped IPv6 spelling of an address.
\<close>

section \<open>Addresses\<close>

type_synonym ip = "u8 list"

definition v4InV6Prefix :: "u8 list" where
  "v4InV6Prefix = replicate 10 0 @ [0xff, 0xff]"

definition To4 :: "ip \<Rightarrow> ip" where
  "To4 ip = (if length ip = 4 then ip
             else if length ip = 16 \<and> take 12 ip = v4InV6Prefix then drop 12 ip
             else [])"

text \<open>\<^verbatim>\<open>binary.BigEndian.Uint32\<close>: reading fewer than four bytes panics, here \<^const>\<open>None\<close>.\<close>

fun be_uint32 :: "u8 list \<Rightarrow> u32 option" where
  "be_uint32 (a # b # c # d # _) =
     Some (push_bit 24 (ucast a) OR push_bit 16 (ucast b) OR push_bit 8 (ucast c) OR ucast d)"
| "be_uint32 _ = None"

definition be_put_uint32 :: "u32 \<Rightarrow> u8 list" where
  "be_put_uint32 v = [ucast (drop_bit 24 v), ucast (drop_bit 16 v), ucast (drop_bit 8 v), ucast v]"

section \<open>Parsing (netip.ParseAddr)\<close>

datatype addr = Addr4 "u8 list" | Addr16 "u8 list"

text \<open>
  The loop of \<^verbatim>\<open>parseIPv4Fields\<close>: \<open>prev\<close> is the previous byte (\<^const>\<open>None\<close> at the start),
  \<open>val\<close> and \<open>digLen\<close> the octet read so far, \<open>fields\<close> the octets already stored.
\<close>

fun parseIPv4Fields :: "char option \<Rightarrow> nat \<Rightarrow> nat \<Rightarrow> u8 list \<Rightarrow> string \<Rightarrow> u8 list option" where
  "parseIPv4Fields prev val digLen fields [] =
     (if length fields < 3 then None else Some (fields @ [of_nat val]))"
| "parseIPv4Fields prev val digLen fields (c # cs) =
     (if is_digit c then
        (if digLen = 1 \<and> val = 0 then None
         else if val * 10 + digit_value c > 255 then None
         else parseIPv4Fields (Some c) (val * 10 + digit_value c) (digLen + 1) fields cs)
      else if c = CHR ''.'' then
        (if prev = None \<or> cs = [] \<or> prev = Some (CHR ''.'') then None
         else if length fields = 3 then None
         else parseIPv4Fields (Some c) 0 0 (fields @ [of_nat val]) cs)
      else None)"

definition is_hex :: "char \<Rightarrow> bool" where
  "is_hex c \<longleftrightarrow> is_digit c \<or> (97 \<le> (of_char c :: nat) \<and> (of_char c :: nat) \<le> 102)
     \<or> (65 \<le> (of_char c :: nat) \<and> (of_char c :: nat) \<le> 70)"

definition hex_value :: "char \<Rightarrow> nat" where
  "hex_value c = (let n = (of_char c :: nat) in
     if is_digit c then n - 48 else if 97 \<le> n then n - 87 else n - 55)"

definition hex_number :: "string \<Rightarrow> nat" where
  "hex_number s = foldl (\<lambda>v c. v * 16 + hex_value c) 0 s"

text \<open>
  The group loop of \<^verbatim>\<open>parseIPv6\<close>: \<open>acc\<close> holds the bytes stored so far, \<open>ell\<close> the position
  of the ellipsis.  The result is the bytes, the ellipsis and the unread rest.
\<close>

function parseIPv6Groups ::
  "u8 list \<Rightarrow> nat option \<Rightarrow> string \<Rightarrow> (u8 list \<times> nat option \<times> string) option" where
  "parseIPv6Groups acc ell s =
     (if 16 \<le> length acc then Some (acc, ell, s)
      else
        let g = takeWhile is_hex s; rest = dropWhile is_hex s in
        if length g > 4 \<or> g = [] then None
        else if rest \<noteq> [] \<and> hd rest = CHR ''.'' then
          (if ell = None \<and> length acc \<noteq> 12 then None
           else if length acc + 4 > 16 then None
           else (case parseIPv4Fields None 0 0 [] s of
                   None \<Rightarrow> None
                 | Some f \<Rightarrow> Some (acc @ f, ell, [])))
        else
          let acc' = acc @ [of_nat (hex_number g div 256), of_nat (hex_number g mod 256)] in
          if rest = [] then Some (acc', ell, [])
          else if hd rest \<noteq> CHR '':'' \<or> tl rest = [] then None
          else if hd (tl rest) = CHR '':'' then
            (if ell \<noteq> None then None
             else if tl (tl rest) = [] then Some (acc', Some (length acc'), [])
             else parseIPv6Groups acc' (Some (length acc')) (tl (tl rest)))
          else parseIPv6Groups acc' ell (tl rest))"
  by pat_completeness auto
termination
  by (relation "measure (\<lambda>(acc, ell, s). 16 - length acc)") (auto simp: Let_def)

declare parseIPv6Groups.simps [simp del]

text \<open>
  \<^verbatim>\<open>parseIPv6\<close> without a zone: an address with a zone (a \<^verbatim>\<open>%\<close>) is refused by both callers,
  \<^verbatim>\<open>net.ParseIP\<close> and \<^verbatim>\<open>net.ParseCIDR\<close>.
\<close>

definition parseIPv6 :: "string \<Rightarrow> u8 list option" where
  "parseIPv6 s0 =
     (if List.member s0 (CHR ''%'') then None
      else
        let lead = HasPrefix s0 ''::''; s = (if lead then drop 2 s0 else s0) in
        if lead \<and> s = [] then Some (replicate 16 0)
        else (case parseIPv6Groups [] (if lead then Some 0 else None) s of
            None \<Rightarrow> None
          | Some (acc, ell, rest) \<Rightarrow>
              if rest \<noteq> [] then None
              else if length acc < 16 then
                (case ell of None \<Rightarrow> None
                 | Some e \<Rightarrow> Some (take e acc @ replicate (16 - length acc) 0 @ drop e acc))
              else if ell \<noteq> None then None
              else Some acc))"

text \<open>\<^verbatim>\<open>netip.ParseAddr\<close>: the first of \<^verbatim>\<open>.\<close>, \<^verbatim>\<open>:\<close> and \<^verbatim>\<open>%\<close> decides the form.\<close>

definition ParseAddr :: "string \<Rightarrow> addr option" where
  "ParseAddr s =
     (case dropWhile (\<lambda>c. c \<noteq> CHR ''.'' \<and> c \<noteq> CHR '':'' \<and> c \<noteq> CHR ''%'') s of
        [] \<Rightarrow> None
      | c # _ \<Rightarrow>
          if c = CHR ''.'' then map_option Addr4 (parseIPv4Fields None 0 0 [] s)
          else if c = CHR '':'' then map_option Addr16 (parseIPv6 s)
          else None)"

fun As16 :: "addr \<Rightarrow> ip" where
  "As16 (Addr4 b) = v4InV6Prefix @ b"
| "As16 (Addr16 b) = b"

fun BitLen :: "addr \<Rightarrow> nat" where
  "BitLen (Addr4 _) = 32"
| "BitLen (Addr16 _) = 128"

definition ParseIP :: "string \<Rightarrow> ip" where
  "ParseIP s = (case ParseAddr s of None \<Rightarrow> [] | Some a \<Rightarrow> As16 a)"

section \<open>Masks and networks\<close>

text \<open>Byte \<open>i\<close> of \<^verbatim>\<open>net.CIDRMask(ones, bits)\<close>.\<close>

definition mask_byte :: "nat \<Rightarrow> u8" where
  "mask_byte n = (if 8 \<le> n then 0xff else NOT (drop_bit n 0xff))"

fun CIDRMask_bytes :: "nat \<Rightarrow> nat \<Rightarrow> u8 list" where
  "CIDRMask_bytes n 0 = []"
| "CIDRMask_bytes n (Suc l) = mask_byte n # CIDRMask_bytes (n - 8) l"

definition CIDRMask :: "nat \<Rightarrow> nat \<Rightarrow> u8 list" where
  "CIDRMask ones bits = CIDRMask_bytes ones (bits div 8)"

text \<open>Leading one bits of a byte, and what the shifts leave of it (\<^verbatim>\<open>simpleMaskLength\<close>).\<close>

fun byte_ones :: "nat \<Rightarrow> u8 \<Rightarrow> nat \<times> u8" where
  "byte_ones 0 v = (0, v)"
| "byte_ones (Suc f) v =
     (if v AND 0x80 \<noteq> 0 then (case byte_ones f (push_bit 1 v) of (n, r) \<Rightarrow> (Suc n, r)) else (0, v))"

fun simpleMaskLength :: "u8 list \<Rightarrow> nat option" where
  "simpleMaskLength [] = Some 0"
| "simpleMaskLength (v # vs) =
     (if v = 0xff then map_option ((+) 8) (simpleMaskLength vs)
      else (case byte_ones 8 v of (n, r) \<Rightarrow>
              if r \<noteq> 0 \<or> list_ex (\<lambda>x. x \<noteq> 0) vs then None else Some n))"

text \<open>\<^verbatim>\<open>IPMask.Size\<close>, first result.\<close>

definition Mask_ones :: "u8 list \<Rightarrow> nat" where
  "Mask_ones m = (case simpleMaskLength m of None \<Rightarrow> 0 | Some n \<Rightarrow> n)"

record ipnet =
  net_IP :: ip
  net_Mask :: "u8 list"

definition IP_Mask :: "ip \<Rightarrow> u8 list \<Rightarrow> ip" where
  "IP_Mask ip0 mask0 =
     (let msk = (if length mask0 = 16 \<and> length ip0 = 4 \<and> take 12 mask0 = replicate 12 0xff
                  then drop 12 mask0 else mask0);
          ip = (if length msk = 4 \<and> length ip0 = 16 \<and> take 12 ip0 = v4InV6Prefix
                then drop 12 ip0 else ip0)
      in if length ip \<noteq> length msk then [] else map2 (AND) ip msk)"

text \<open>\<^verbatim>\<open>dtoi\<close>: the digits up to the first other byte; fails at \<^verbatim>\<open>0xFFFFFF\<close> and with no digit.\<close>

definition parse_prefix_len :: "string \<Rightarrow> nat option" where
  "parse_prefix_len m =
     (if m = [] \<or> \<not> list_all is_digit m \<or> dec_value m \<ge> 0xFFFFFF then None
      else Some (dec_value m))"

definition ParseCIDR :: "string \<Rightarrow> (ip \<times> ipnet) option" where
  "ParseCIDR s =
     (case dropWhile (\<lambda>c. c \<noteq> CHR ''/'') s of
        [] \<Rightarrow> None
      | _ # msk \<Rightarrow>
          (case ParseAddr (takeWhile (\<lambda>c. c \<noteq> CHR ''/'') s) of
             None \<Rightarrow> None
           | Some a \<Rightarrow>
               (case parse_prefix_len msk of
                  None \<Rightarrow> None
                | Some n \<Rightarrow>
                    if n > BitLen a then None
                    else let m = CIDRMask n (BitLen a) in
                      Some (As16 a, \<lparr>net_IP = IP_Mask (As16 a) m, net_Mask = m\<rparr>))))"

text \<open>\<^verbatim>\<open>networkNumberAndMask\<close>: \<^const>\<open>None\<close> for the nil pair.\<close>

definition networkNumberAndMask :: "ipnet \<Rightarrow> (ip \<times> u8 list) option" where
  "networkNumberAndMask n =
     (let ip = (if To4 (net_IP n) = [] then net_IP n else To4 (net_IP n)); m = net_Mask n in
      if To4 (net_IP n) = [] \<and> length ip \<noteq> 16 then None
      else if length m = 4 then (if length ip \<noteq> 4 then None else Some (ip, m))
      else if length m = 16 then Some (ip, if length ip = 4 then drop 12 m else m)
      else None)"

definition IPNet_Contains :: "ipnet \<Rightarrow> ip \<Rightarrow> bool" where
  "IPNet_Contains n ip0 =
     (let ip = (if To4 ip0 = [] then ip0 else To4 ip0) in
      case networkNumberAndMask n of
        None \<Rightarrow> ip = []
      | Some (nn, m) \<Rightarrow>
          length ip = length nn \<and> map2 (AND) nn m = map2 (AND) ip m)"

section \<open>Printing\<close>

definition dotted :: "u8 list \<Rightarrow> string" where
  "dotted bs = Join (map (\<lambda>b. utoa (unat b)) bs) ''.''"

fun hex_digits :: "nat \<Rightarrow> string" where
  "hex_digits n =
     (let d = (\<lambda>k. if k < 10 then char_of (48 + k) else char_of (87 + k)) in
      if n < 16 then [d n] else hex_digits (n div 16) @ [d (n mod 16)])"

declare hex_digits.simps [simp del]

fun ip_groups :: "u8 list \<Rightarrow> nat list" where
  "ip_groups (a # b # r) = (unat a * 256 + unat b) # ip_groups r"
| "ip_groups _ = []"

definition zero_run :: "nat list \<Rightarrow> nat \<Rightarrow> nat" where
  "zero_run gs i = length (takeWhile (\<lambda>g. g = 0) (drop i gs))"

text \<open>The first longest run of at least two zero groups, as (start, length).\<close>

definition longest_zero_run :: "nat list \<Rightarrow> (nat \<times> nat) option" where
  "longest_zero_run gs =
     foldl (\<lambda>best i. let l = zero_run gs i in
              if l \<ge> 2 \<and> l > (case best of None \<Rightarrow> 0 | Some (_, m) \<Rightarrow> m) then Some (i, l) else best)
       None [0..<8]"

definition ipv6_text :: "u8 list \<Rightarrow> string" where
  "ipv6_text bs =
     (let gs = ip_groups bs; t = (\<lambda>xs. Join (map hex_digits xs) '':'') in
      case longest_zero_run gs of
        None \<Rightarrow> t gs
      | Some (i, l) \<Rightarrow> t (take i gs) @ ''::'' @ t (drop (i + l) gs))"

definition IP_String :: "ip \<Rightarrow> string" where
  "IP_String ip = (if ip = [] then ''<nil>''
     else if To4 ip \<noteq> [] then dotted (To4 ip)
     else ipv6_text ip)"

definition IPNet_String :: "ipnet \<Rightarrow> string" where
  "IPNet_String n = (case networkNumberAndMask n of
      None \<Rightarrow> ''<nil>''
    | Some (nn, m) \<Rightarrow> IP_String nn @ ''/'' @ utoa (Mask_ones m))"

section \<open>Facts about addresses\<close>

lemma u8_bit_beyond [simp]: "8 \<le> n \<Longrightarrow> \<not> bit (a :: u8) n"
  using bit_imp_le_length [of a n] by auto

lemma be_uint32_put [simp]: "be_uint32 (be_put_uint32 v) = Some v"
proof -
  have "push_bit 24 (ucast (ucast (drop_bit 24 v) :: u8) :: u32)
      OR push_bit 16 (ucast (ucast (drop_bit 16 v) :: u8))
      OR push_bit 8 (ucast (ucast (drop_bit 8 v) :: u8)) OR ucast (ucast v :: u8) = v"
  proof (rule bit_eqI)
    fix n :: nat
    consider "n < 8" | "8 \<le> n" "n < 16" | "16 \<le> n" "n < 24" | "24 \<le> n" by linarith
    then show "bit (push_bit 24 (ucast (ucast (drop_bit 24 v) :: u8) :: u32)
      OR push_bit 16 (ucast (ucast (drop_bit 16 v) :: u8))
      OR push_bit 8 (ucast (ucast (drop_bit 8 v) :: u8)) OR ucast (ucast v :: u8)) n = bit v n"
      by cases (auto simp: bit_simps dest: bit_imp_le_length)
  qed
  then show ?thesis by (simp add: be_put_uint32_def)
qed

lemma be_put_uint32_be:
  "be_uint32 [a, b, c, d] = Some v \<Longrightarrow> be_put_uint32 v = [a, b, c, d]"
  by (auto simp: be_put_uint32_def intro!: bit_eqI simp: bit_simps)

lemma length_be_put_uint32 [simp]: "length (be_put_uint32 v) = 4"
  by (simp add: be_put_uint32_def)

lemma length_4_conv: "length xs = 4 \<longleftrightarrow> (\<exists>a b c d. xs = [a, b, c, d])"
  by (auto simp: length_Suc_conv numeral_eq_Suc)

lemma be_uint32_length4: "length ip = 4 \<Longrightarrow> \<exists>v. be_uint32 ip = Some v \<and> be_put_uint32 v = ip"
  using be_put_uint32_be by (auto simp: length_4_conv)

lemma To4_length: "length (To4 ip) = 4 \<or> To4 ip = []"
  by (auto simp: To4_def v4InV6Prefix_def)

lemma To4_nonempty: "To4 ip \<noteq> [] \<Longrightarrow> length (To4 ip) = 4"
  using To4_length by blast

lemma To4_id [simp]: "length ip = 4 \<Longrightarrow> To4 ip = ip"
  by (simp add: To4_def)

lemma length_v4InV6Prefix [simp]: "length v4InV6Prefix = 12"
  by (simp add: v4InV6Prefix_def)

lemma To4_As16_Addr4 [simp]: "length b = 4 \<Longrightarrow> To4 (As16 (Addr4 b)) = b"
  by (simp add: To4_def)

lemma parseIPv4Fields_length:
  "parseIPv4Fields prev val dl fs s = Some r \<Longrightarrow> length fs \<le> 3 \<Longrightarrow> length r = 4"
proof (induction prev val dl fs s rule: parseIPv4Fields.induct)
  case (1 prev val dl fs)
  then show ?case by (auto split: if_splits)
next
  case (2 prev val dl fs c cs)
  then show ?case by (auto split: if_splits)
qed

lemma not_digit_dot [simp]: "\<not> is_digit (CHR ''.'')"
  by (simp add: is_digit_def)

text \<open>Reading back an octet that was printed: no leading zero, never above 255.\<close>

lemma foldl_dec_mono: "v \<le> foldl (\<lambda>v c. v * 10 + digit_value c) v ds"
proof (induction ds arbitrary: v)
  case (Cons c ds)
  have "v \<le> v * 10 + digit_value c" by simp
  also have "\<dots> \<le> foldl (\<lambda>v c. v * 10 + digit_value c) (v * 10 + digit_value c) ds"
    by (rule Cons.IH)
  finally show ?case by simp
qed simp

lemma parse_octet_digits:
  "list_all is_digit ds \<Longrightarrow> 0 < val \<Longrightarrow>
     foldl (\<lambda>v c. v * 10 + digit_value c) val ds \<le> 255 \<Longrightarrow>
     parseIPv4Fields prev val dl fs (ds @ s)
       = parseIPv4Fields (if ds = [] then prev else Some (last ds))
           (foldl (\<lambda>v c. v * 10 + digit_value c) val ds) (dl + length ds) fs s"
proof (induction ds arbitrary: val prev dl)
  case Nil
  then show ?case by simp
next
  case (Cons c ds)
  let ?v = "val * 10 + digit_value c"
  have "?v \<le> foldl (\<lambda>v c. v * 10 + digit_value c) ?v ds" by (rule foldl_dec_mono)
  with Cons.prems have "?v \<le> 255" and pos: "0 < ?v" by auto
  with Cons.prems have step: "parseIPv4Fields prev val dl fs (c # ds @ s)
      = parseIPv4Fields (Some c) ?v (Suc dl) fs (ds @ s)"
    by simp
  from Cons.prems pos
  have "parseIPv4Fields (Some c) ?v (Suc dl) fs (ds @ s)
      = parseIPv4Fields (if ds = [] then Some c else Some (last ds))
          (foldl (\<lambda>v c. v * 10 + digit_value c) ?v ds) (Suc dl + length ds) fs s"
    by (intro Cons.IH) auto
  with step show ?case by (simp del: parseIPv4Fields.simps)
qed

lemma utoa_head:
  "0 < n \<Longrightarrow> \<exists>c cs. utoa n = c # cs \<and> is_digit c \<and> 0 < digit_value c"
proof (induction n rule: utoa.induct)
  case (1 n)
  show ?case
  proof (cases "n < 10")
    case True
    with "1.prems" show ?thesis by (subst utoa.simps) simp
  next
    case False
    then have "0 < n div 10" by simp
    with "1.IH" False obtain c cs where "utoa (n div 10) = c # cs" "is_digit c" "0 < digit_value c"
      by auto
    with False show ?thesis by (subst utoa.simps) simp
  qed
qed

lemma parse_octet_utoa:
  assumes "n \<le> 255"
  shows "\<exists>p dl. parseIPv4Fields prev 0 0 fs (utoa n @ s) = parseIPv4Fields (Some p) n dl fs s
    \<and> p \<noteq> CHR ''.''"
proof (cases "n = 0")
  case True
  then have "utoa n = ''0''" by (simp add: utoa.simps digit_char_def char_of_eq_iff)
  with True show ?thesis
    by (intro exI [of _ "CHR ''0''"] exI [of _ 1]) (simp add: is_digit_def digit_value_def)
next
  case False
  then obtain c cs where u: "utoa n = c # cs" and c: "is_digit c" "0 < digit_value c"
    using utoa_head [of n] by auto
  have ds: "list_all is_digit cs" and val: "foldl (\<lambda>v c. v * 10 + digit_value c) (digit_value c) cs = n"
    using utoa_digits [of n] dec_value_utoa [of n] u by (simp_all add: dec_value_def)
  with assms foldl_dec_mono [of "digit_value c" cs] have "digit_value c \<le> 255" by simp
  with c u have "parseIPv4Fields prev 0 0 fs (utoa n @ s)
      = parseIPv4Fields (Some c) (digit_value c) (Suc 0) fs (cs @ s)"
    by simp
  also have "\<dots> = parseIPv4Fields (Some (last (c # cs))) n (Suc 0 + length cs) fs s"
    using parse_octet_digits [OF ds c(2), of "Some c" "Suc 0" fs s] val assms by (simp split: if_splits)
  finally have "parseIPv4Fields prev 0 0 fs (utoa n @ s)
      = parseIPv4Fields (Some (last (c # cs))) n (Suc 0 + length cs) fs s" .
  moreover have "is_digit (last (c # cs))"
    using c ds by (cases cs rule: rev_cases) (auto simp: list_all_append)
  then have "last (c # cs) \<noteq> CHR ''.''" by auto
  ultimately show ?thesis by blast
qed

lemma unat_u8_le [simp]: "unat (b :: u8) \<le> 255"
proof -
  have "unat b < 2 ^ LENGTH(8)" by (rule unsigned_less)
  then show ?thesis by simp
qed

lemma parse_octet_dot:
  "length fs < 3 \<Longrightarrow> s \<noteq> [] \<Longrightarrow>
     parseIPv4Fields prev 0 0 fs (utoa (unat (b :: u8)) @ CHR ''.'' # s)
       = parseIPv4Fields (Some (CHR ''.'')) 0 0 (fs @ [b]) s"
  using parse_octet_utoa [of "unat b" prev fs "CHR ''.'' # s"] by auto

lemma parse_octet_end:
  "length fs = 3 \<Longrightarrow> parseIPv4Fields prev 0 0 fs (utoa (unat (b :: u8))) = Some (fs @ [b])"
  using parse_octet_utoa [of "unat b" prev fs "[]"] by auto

lemma parseIPv4_dotted:
  "length bs = 4 \<Longrightarrow> parseIPv4Fields None 0 0 [] (dotted bs) = Some bs"
  by (auto simp: length_4_conv dotted_def parse_octet_dot parse_octet_end simp del: parseIPv4Fields.simps)

lemma dropWhile_digits:
  "list_all is_digit ds \<Longrightarrow>
   dropWhile (\<lambda>c. c \<noteq> CHR ''.'' \<and> c \<noteq> CHR '':'' \<and> c \<noteq> CHR ''%'') (ds @ CHR ''.'' # s) = CHR ''.'' # s"
  by (induction ds) (auto simp: is_digit_def)

lemma ParseAddr_dotted: "length bs = 4 \<Longrightarrow> ParseAddr (dotted bs) = Some (Addr4 bs)"
  using parseIPv4_dotted [of bs]
  by (auto simp: length_4_conv ParseAddr_def dotted_def dropWhile_digits utoa_digits)

theorem ParseIP_dotted: "length bs = 4 \<Longrightarrow> To4 (ParseIP (dotted bs)) = bs"
  using To4_As16_Addr4 [of bs] by (simp add: ParseIP_def ParseAddr_dotted del: To4_As16_Addr4)

section \<open>Facts about networks\<close>

lemma byte_ones_mask_byte: "n < 8 \<Longrightarrow> byte_ones 8 (mask_byte n) = (n, 0) \<and> mask_byte n \<noteq> 0xff"
proof -
  assume "n < 8"
  moreover have "list_all (\<lambda>n. byte_ones 8 (mask_byte n) = (n, 0) \<and> mask_byte n \<noteq> 0xff) [0..<8]"
    by code_simp
  ultimately show ?thesis by (simp add: list_all_iff)
qed

lemma mask_byte_0 [simp]: "mask_byte 0 = 0"
  by (simp add: mask_byte_def)

lemma CIDRMask_bytes_0: "CIDRMask_bytes 0 l = replicate l 0"
  by (induction l) auto

lemma simpleMaskLength_CIDRMask: "n \<le> 8 * l \<Longrightarrow> simpleMaskLength (CIDRMask_bytes n l) = Some n"
proof (induction n l rule: CIDRMask_bytes.induct)
  case (1 n)
  then show ?case by simp
next
  case (2 n l)
  show ?case
  proof (cases "8 \<le> n")
    case True
    with 2 show ?thesis by (simp add: mask_byte_def)
  next
    case False
    then have "n < 8" and z: "n - 8 = 0" by auto
    with byte_ones_mask_byte [of n] show ?thesis
      by (simp add: z CIDRMask_bytes_0 list_ex_iff)
  qed
qed

lemma length_CIDRMask_bytes [simp]: "length (CIDRMask_bytes n l) = l"
  by (induction n l rule: CIDRMask_bytes.induct) auto

lemma Mask_ones_CIDRMask: "n \<le> bits \<Longrightarrow> 8 dvd bits \<Longrightarrow> Mask_ones (CIDRMask n bits) = n"
  by (auto simp: Mask_ones_def CIDRMask_def simpleMaskLength_CIDRMask)

lemma IPNet_Contains_To4: "To4 ip \<noteq> [] \<Longrightarrow> IPNet_Contains n (To4 ip) = IPNet_Contains n ip"
  using To4_nonempty [of ip] by (simp add: IPNet_Contains_def)

lemma BitLen_cases: "BitLen a = 32 \<or> BitLen a = 128"
  by (cases a) auto

lemma ParseCIDR_mask:
  assumes "ParseCIDR s = Some (ip, n)"
  shows "\<exists>k bits. net_Mask n = CIDRMask k bits \<and> k \<le> bits \<and> bits \<in> {32, 128} \<and> Mask_ones (net_Mask n) = k"
proof -
  from assms obtain a k where "net_Mask n = CIDRMask k (BitLen a)" and "k \<le> BitLen a"
    by (auto simp: ParseCIDR_def Let_def split: list.splits option.splits if_splits)
  then show ?thesis
    using BitLen_cases [of a] Mask_ones_CIDRMask [of k "BitLen a"] by auto
qed

text \<open>Printing an IPv4 address with a prefix length and parsing it back.\<close>

lemma takeWhile_no_slash:
  "CHR ''/'' \<notin> set s \<Longrightarrow> takeWhile (\<lambda>c. c \<noteq> CHR ''/'') (s @ CHR ''/'' # t) = s
     \<and> dropWhile (\<lambda>c. c \<noteq> CHR ''/'') (s @ CHR ''/'' # t) = CHR ''/'' # t"
  by (induction s) auto

lemma slash_not_digit [simp]: "\<not> is_digit (CHR ''/'')"
  by (simp add: is_digit_def)

lemma utoa_no_slash [simp]: "CHR ''/'' \<notin> set (utoa n)"
  using utoa_digits [of n] by (auto simp: list_all_iff)

lemma dotted_no_slash: "length bs = 4 \<Longrightarrow> CHR ''/'' \<notin> set (dotted bs)"
  by (auto simp: length_4_conv dotted_def)

lemma parse_prefix_len_utoa: "n < 0xFFFFFF \<Longrightarrow> parse_prefix_len (utoa n) = Some n"
  by (simp add: parse_prefix_len_def utoa_digits)

lemma ParseCIDR_dotted:
  assumes "length bs = 4" and "n \<le> 32"
  shows "ParseCIDR (dotted bs @ ''/'' @ utoa n)
    = Some (v4InV6Prefix @ bs, \<lparr>net_IP = IP_Mask (v4InV6Prefix @ bs) (CIDRMask n 32), net_Mask = CIDRMask n 32\<rparr>)"
  using assms takeWhile_no_slash [OF dotted_no_slash [OF assms(1)], of "utoa n"]
  by (simp add: ParseCIDR_def ParseAddr_dotted parse_prefix_len_utoa Let_def)

end
