(* ===== verification/Ip_Ranges.thy ===== *)
theory Ip_Ranges
  imports Config_Model Go_Net
begin

unbundle bit_operations_syntax

text \<open>
  The address arithmetic of \<^verbatim>\<open>internal/driver/ipam.go\<close>: ranges of a pool on 32-bit words, with
  the wrap-around at the stop address written out.  A read of fewer than four bytes, where Go
  panics, is \<^const>\<open>None\<close>.
\<close>

definition ipToUint32 :: "ip \<Rightarrow> u32 option" where
  "ipToUint32 ip = be_uint32 (To4 ip)"

definition uint32ToIP :: "u32 \<Rightarrow> ip" where
  "uint32ToIP v = be_put_uint32 v"

text \<open>\<^verbatim>\<open>net.ParseIP(s).To4()\<close>, empty for nil.\<close>

abbreviation parse4 :: "string \<Rightarrow> ip" where
  "parse4 s \<equiv> To4 (ParseIP s)"

section \<open>Validation\<close>

fun validateAddresses :: "string \<Rightarrow> ipnet \<Rightarrow> string \<Rightarrow> nat \<Rightarrow> string list \<Rightarrow> goerr + unit" where
  "validateAddresses poolName subnet kind i [] = Inr ()"
| "validateAddresses poolName subnet kind i (address # rest) =
     (if parse4 address = [] then
        Inl (Errorf ''pool %s %s[%d] address %s must be IPv4'' [poolName, kind, utoa i, address])
      else if \<not> IPNet_Contains subnet (parse4 address) then
        Inl (Errorf ''pool %s %s[%d] address %s is outside subnet %s''
          [poolName, kind, utoa i, address, IPNet_String subnet])
      else validateAddresses poolName subnet kind i rest)"

definition validateRange :: "string \<Rightarrow> ipnet \<Rightarrow> string \<Rightarrow> nat \<Rightarrow> IPRange \<Rightarrow> goerr + unit" where
  "validateRange poolName subnet kind i r =
     (case validateAddresses poolName subnet kind i (r_Addresses r) of
        Inl err \<Rightarrow> Inl err
      | Inr _ \<Rightarrow>
          if r_RangeStart r = [] \<and> r_RangeEnd r = [] then Inr ()
          else
            let start = parse4 (r_RangeStart r); stop = parse4 (r_RangeEnd r) in
            if start = [] \<or> stop = [] then Inl (Errorf ''pool %s %s[%d] range must be IPv4'' [poolName, kind, utoa i])
            else if \<not> IPNet_Contains subnet start \<or> \<not> IPNet_Contains subnet stop then
              Inl (Errorf ''pool %s %s[%d] range %s-%s is outside subnet %s''
                [poolName, kind, utoa i, r_RangeStart r, r_RangeEnd r, IPNet_String subnet])
            else (case (ipToUint32 start, ipToUint32 stop) of
                    (Some a, Some b) \<Rightarrow>
                      if a > b then Inl (Errorf ''pool %s %s[%d] rangeStart must be <= rangeEnd'' [poolName, kind, utoa i])
                      else Inr ()
                  | _ \<Rightarrow> Inl (Errorf ''panic: index out of range'' [])))"

fun validateFrom :: "string \<Rightarrow> ipnet \<Rightarrow> string \<Rightarrow> nat \<Rightarrow> IPRange list \<Rightarrow> goerr + unit" where
  "validateFrom poolName subnet kind i [] = Inr ()"
| "validateFrom poolName subnet kind i (r # rs) =
     (case validateRange poolName subnet kind i r of
        Inl err \<Rightarrow> Inl err
      | Inr _ \<Rightarrow> validateFrom poolName subnet kind (i + 1) rs)"

definition validateIPRanges :: "string \<Rightarrow> ipnet \<Rightarrow> string \<Rightarrow> IPRange list \<Rightarrow> goerr + unit" where
  "validateIPRanges poolName subnet kind ranges = validateFrom poolName subnet kind 0 ranges"

section \<open>Membership and enumeration\<close>

definition range_bounds :: "IPRange \<Rightarrow> (u32 \<times> u32) option" where
  "range_bounds r =
     (if r_RangeStart r = [] \<or> r_RangeEnd r = [] then None
      else (case (ipToUint32 (parse4 (r_RangeStart r)), ipToUint32 (parse4 (r_RangeEnd r))) of
              (Some a, Some b) \<Rightarrow> Some (a, b) | _ \<Rightarrow> None))"

definition inRange :: "u32 \<Rightarrow> IPRange \<Rightarrow> bool" where
  "inRange value r \<longleftrightarrow>
     list_ex (\<lambda>address. parse4 address \<noteq> [] \<and> ipToUint32 (parse4 address) = Some value) (r_Addresses r)
     \<or> (case range_bounds r of Some (a, b) \<Rightarrow> a \<le> value \<and> value \<le> b | None \<Rightarrow> False)"

definition ipInRanges :: "ip \<Rightarrow> IPRange list \<Rightarrow> bool option" where
  "ipInRanges ip ranges =
     (case ipToUint32 ip of None \<Rightarrow> None | Some value \<Rightarrow> Some (list_ex (inRange value) ranges))"

text \<open>The counting loop of \<^verbatim>\<open>expandIPRange\<close>, which stops before the counter would wrap around.\<close>

lemma unat_plus_one: "(x :: u32) \<noteq> - 1 \<Longrightarrow> unat (x + 1) = unat x + 1"
  using unatSuc [of x] by (simp add: add.commute add_eq_0_iff)

function countUp :: "u32 \<Rightarrow> u32 \<Rightarrow> u32 list" where
  "countUp current stop =
     (if current \<le> stop then current # (if current = - 1 then [] else countUp (current + 1) stop) else [])"
  by pat_completeness auto
termination
proof (relation "measure (\<lambda>(current, stop). unat stop + 1 - unat current)", goal_cases)
  case (2 current stop)
  then have "unat (current + 1) = unat current + 1" by (simp add: unat_plus_one)
  with 2(1) show ?case by (simp add: word_le_nat_alt)
qed simp

declare countUp.simps [simp del]

definition expandIPRange :: "IPRange \<Rightarrow> ip list" where
  "expandIPRange r =
     filter (\<lambda>ip. ip \<noteq> []) (map parse4 (r_Addresses r)) @
     (case range_bounds r of Some (a, b) \<Rightarrow> map uint32ToIP (countUp a b) | None \<Rightarrow> [])"

definition normalizeRequestedAddress :: "IPPool \<Rightarrow> ipnet \<Rightarrow> string \<Rightarrow> goerr + string" where
  "normalizeRequestedAddress pool subnet address =
     (case ParseCIDR address of
        None \<Rightarrow> Inl (Wrapf ''parse requested address %q'' [address] (Errorf ''invalid CIDR address'' [address]))
      | Some (ip, ipNet) \<Rightarrow>
          if To4 ip = [] then Inl (Errorf ''requested address %s must be IPv4'' [address])
          else if \<not> IPNet_Contains subnet (To4 ip) then
            Inl (Errorf ''requested address %s is outside pool %s subnet %s'' [address, p_Name pool, p_Subnet pool])
          else if Mask_ones (net_Mask subnet) \<noteq> Mask_ones (net_Mask ipNet) then
            Inl (Errorf ''requested address %s prefix must match pool %s subnet %s'' [address, p_Name pool, p_Subnet pool])
          else Inr (IP_String (To4 ip) @ ''/'' @ utoa (Mask_ones (net_Mask subnet))))"

section \<open>Lemmas\<close>

lemma ipToUint32_put [simp]: "ipToUint32 (uint32ToIP v) = Some v"
  by (simp add: ipToUint32_def uint32ToIP_def)

lemma uint32ToIP_length [simp]: "length (uint32ToIP v) = 4"
  by (simp add: uint32ToIP_def)

lemma ipToUint32_parse4: "ip \<noteq> [] \<Longrightarrow> ip = parse4 s \<Longrightarrow> \<exists>v. ipToUint32 ip = Some v \<and> uint32ToIP v = ip"
  using To4_nonempty [of "ParseIP s"] be_uint32_length4 [of ip] by (simp add: ipToUint32_def uint32ToIP_def)

lemma max_word_le: "(- 1 :: u32) \<le> x \<longleftrightarrow> x = - 1"
  by (metis word_order.extremum word_order.extremum_unique)

lemma set_countUp: "set (countUp a b) = {a..b}"
proof (induction a b rule: countUp.induct)
  case (1 a b)
  show ?case
  proof (cases "a \<le> b \<and> a \<noteq> - 1")
    case True
    then have "{a..b} = insert a {a + 1..b}"
      by (auto simp: word_le_nat_alt unat_plus_one word_unat_eq_iff)
    with True 1 show ?thesis by (subst countUp.simps) simp
  next
    case False
    then consider "\<not> a \<le> b" | "a = - 1" "b = - 1" using max_word_le by auto
    then show ?thesis by cases (subst countUp.simps, simp)+
  qed
qed

section \<open>Networks are intervals\<close>

text \<open>The bytes of an address as one word.\<close>

definition word4 :: "ip \<Rightarrow> u32" where
  "word4 ip = (case be_uint32 ip of Some v \<Rightarrow> v | None \<Rightarrow> 0)"

lemma word4_some: "length ip = 4 \<Longrightarrow> be_uint32 ip = Some (word4 ip)"
  using be_uint32_length4 [of ip] by (auto simp: word4_def)

lemma put_word4: "length ip = 4 \<Longrightarrow> be_put_uint32 (word4 ip) = ip"
  using be_uint32_length4 [of ip] by (auto simp: word4_def)

lemma word4_inj: "length x = 4 \<Longrightarrow> length y = 4 \<Longrightarrow> word4 x = word4 y \<longleftrightarrow> x = y"
  by (metis put_word4)

lemma bit_word4:
  "n < 32 \<Longrightarrow> bit (word4 [a, b, c, d]) n =
     (if n < 8 then bit d n else if n < 16 then bit c (n - 8) else if n < 24 then bit b (n - 16) else bit a (n - 24))"
  by (cases "n < 8"; cases "n < 16"; cases "n < 24") (auto simp: word4_def bit_simps)

lemma be_uint32_and:
  "word4 [a AND m1, b AND m2, c AND m3, d AND m4] = word4 [a, b, c, d] AND word4 [m1, m2, m3, m4]"
  by (rule bit_word_eqI) (simp add: bit_word4 bit_and_iff)

lemma word4_and: "length x = 4 \<Longrightarrow> length m = 4 \<Longrightarrow> word4 (map2 (AND) x m) = word4 x AND word4 m"
  by (auto simp: length_4_conv be_uint32_and)

lemma mask_words: "list_all (\<lambda>k. word4 (CIDRMask_bytes k 4) = NOT (mask (32 - k))) [0..<33]"
  by code_simp

lemma word4_mask: "k \<le> 32 \<Longrightarrow> word4 (CIDRMask_bytes k 4) = NOT (mask (32 - k))"
  using mask_words by (auto simp: list_all_iff)

lemma and_prefix_eq: "(x :: u32) AND NOT (mask n) = y AND NOT (mask n) \<longleftrightarrow> drop_bit n x = drop_bit n y"
proof
  assume e: "x AND NOT (mask n) = y AND NOT (mask n)"
  show "drop_bit n x = drop_bit n y"
  proof (rule bit_word_eqI)
    fix i
    show "bit (drop_bit n x) i = bit (drop_bit n y) i"
    proof (cases "n + i < 32")
      case True
      from e have "bit (x AND NOT (mask n)) (n + i) = bit (y AND NOT (mask n)) (n + i)" by simp
      with True show ?thesis by (simp add: bit_simps)
    next
      case False
      then have "\<not> bit z (n + i)" for z :: u32 by (auto dest: bit_imp_le_length)
      then show ?thesis by (simp add: bit_simps)
    qed
  qed
next
  assume e: "drop_bit n x = drop_bit n y"
  show "x AND NOT (mask n) = y AND NOT (mask n)"
  proof (rule bit_word_eqI)
    fix i
    assume "i < LENGTH(32)"
    show "bit (x AND NOT (mask n)) i = bit (y AND NOT (mask n)) i"
    proof (cases "i < n")
      case False
      with e have "bit (drop_bit n x) (i - n) = bit (drop_bit n y) (i - n)" by simp
      with False show ?thesis by (simp add: bit_simps)
    qed (simp add: bit_simps)
  qed
qed

lemma drop_bit_between:
  assumes "drop_bit n a = c" and "drop_bit n b = c" and "a \<le> x" and "x \<le> (b :: u32)"
  shows "drop_bit n x = c"
proof -
  have "unat a div 2 ^ n \<le> unat x div 2 ^ n" "unat x div 2 ^ n \<le> unat b div 2 ^ n"
    using assms(3,4) by (simp_all add: word_le_nat_alt div_le_mono)
  then have "unat (drop_bit n x) = unat c"
    using arg_cong [OF assms(1), of unat] arg_cong [OF assms(2), of unat]
    by (simp add: unat_drop_bit_eq drop_bit_eq_div [of _ "unat _"])
  then show ?thesis by (simp add: word_unat_eq_iff)
qed

lemma Contains_prefix:
  assumes "networkNumberAndMask n = Some (nn, m)" and "length ip = 4" and "length nn = 4" and "m = CIDRMask_bytes k 4" and "k \<le> 32"
  shows "IPNet_Contains n ip \<longleftrightarrow> drop_bit (32 - k) (word4 ip) = drop_bit (32 - k) (word4 nn)"
proof -
  have l: "length m = 4" by (simp add: assms(4))
  have "map2 (AND) nn m = map2 (AND) ip m \<longleftrightarrow> word4 nn AND word4 m = word4 ip AND word4 m"
    using assms(2,3) l word4_inj [of "map2 (AND) nn m" "map2 (AND) ip m"] by (simp add: word4_and)
  then show ?thesis
    using assms by (auto simp: IPNet_Contains_def Let_def word4_mask and_prefix_eq)
qed

lemma word4_uint32ToIP [simp]: "word4 (uint32ToIP v) = v"
  by (simp add: word4_def uint32ToIP_def)

lemma drop_CIDRMask: "drop j (CIDRMask_bytes n l) = CIDRMask_bytes (n - 8 * j) (l - j)"
proof (induction j arbitrary: n l)
  case (Suc j)
  show ?case
  proof (cases l)
    case (Suc l')
    have "drop j (CIDRMask_bytes (n - 8) l') = CIDRMask_bytes (n - 8 - 8 * j) (l' - j)" by (rule Suc.IH)
    with Suc show ?thesis by (simp add: algebra_simps)
  qed simp
qed simp

lemma networkNumberAndMask_Some:
  assumes "networkNumberAndMask n = Some (nn, m)"
  shows "if length (net_Mask n) = 4 then m = net_Mask n
    else length (net_Mask n) = 16 \<and> m = (if length nn = 4 then drop 12 (net_Mask n) else net_Mask n)"
proof -
  have shape: "if length k = 4 then m = k else length k = 16 \<and> m = (if length nn = 4 then drop 12 k else k)"
    if "(if t then None else if length k = 4 then (if length ip \<noteq> 4 then None else Some (ip, k))
       else if length k = 16 then Some (ip, if length ip = 4 then drop 12 k else k) else None) = Some (nn, m)"
    for t and ip :: ip and k
    using that by (auto split: if_splits)
  show ?thesis using assms unfolding networkNumberAndMask_def Let_def by (rule shape)
qed

text \<open>The network number and mask of a parsed subnet, when it can contain IPv4 addresses.\<close>

lemma subnet_shape:
  assumes "ParseCIDR s = Some (ip0, n)" and "networkNumberAndMask (n\<lparr>net_IP := ip0\<rparr>) = Some (nn, m)" and "length nn = 4"
  shows "\<exists>k. k \<le> 32 \<and> m = CIDRMask_bytes k 4"
proof -
  from ParseCIDR_mask [OF assms(1)] obtain k bits where
      k: "net_Mask n = CIDRMask_bytes k (bits div 8)" "k \<le> bits" "bits = 32 \<or> bits = 128"
    by (auto simp: CIDRMask_def)
  from k(3) show ?thesis
  proof
    assume b: "bits = 32"
    then have "length (net_Mask n) = 4" by (simp add: k(1))
    with networkNumberAndMask_Some [OF assms(2)] have "m = net_Mask n" by simp
    with b k(1,2) show ?thesis by (intro exI [of _ k]) simp
  next
    assume b: "bits = 128"
    then have "length (net_Mask n) = 16" by (simp add: k(1))
    with networkNumberAndMask_Some [OF assms(2)] assms(3) have "m = drop 12 (net_Mask n)" by simp
    with b k(1,2) show ?thesis by (intro exI [of _ "k - 96"]) (simp add: drop_CIDRMask)
  qed
qed

lemma Contains_nn:
  assumes "IPNet_Contains n ip" and "length ip = 4"
  shows "\<exists>nn m. networkNumberAndMask n = Some (nn, m) \<and> length nn = 4"
proof -
  have "ip \<noteq> []" "To4 ip = ip" using assms(2) by auto
  with assms show ?thesis by (auto simp: IPNet_Contains_def Let_def split: option.splits)
qed

text \<open>A subnet that contains two addresses contains every address between them.\<close>

lemma Contains_between:
  assumes "ParseCIDR s = Some (ip0, n)" and "length a = 4" and "length b = 4" and "length x = 4"
    and "IPNet_Contains (n\<lparr>net_IP := ip0\<rparr>) a" and "IPNet_Contains (n\<lparr>net_IP := ip0\<rparr>) b"
    and "word4 a \<le> word4 x" and "word4 x \<le> word4 b"
  shows "IPNet_Contains (n\<lparr>net_IP := ip0\<rparr>) x"
proof -
  from Contains_nn [OF assms(5,2)] obtain nn m where
      nm: "networkNumberAndMask (n\<lparr>net_IP := ip0\<rparr>) = Some (nn, m)" and l: "length nn = 4" by blast
  from subnet_shape [OF assms(1) nm l] obtain k where k: "k \<le> 32" "m = CIDRMask_bytes k 4" by blast
  note c = Contains_prefix [OF nm _ l k(2,1)]
  from assms(5,6) c assms(2,3) have "drop_bit (32 - k) (word4 a) = drop_bit (32 - k) (word4 nn)"
    "drop_bit (32 - k) (word4 b) = drop_bit (32 - k) (word4 nn)" by auto
  from drop_bit_between [OF this assms(7,8)] c assms(4) show ?thesis by auto
qed

section \<open>What validation gives\<close>

lemma validateAddresses_Inr:
  "validateAddresses p n kind i as = Inr () \<Longrightarrow> a \<in> set as \<Longrightarrow> parse4 a \<noteq> [] \<and> IPNet_Contains n (parse4 a)"
  by (induction as) (auto split: if_splits)

lemma ipToUint32_len4: "length ip = 4 \<Longrightarrow> ipToUint32 ip = Some (word4 ip)"
  by (simp add: ipToUint32_def word4_some)

lemma parse4_length: "parse4 s \<noteq> [] \<Longrightarrow> length (parse4 s) = 4"
  by (rule To4_nonempty)

lemma validateFrom_Inr:
  "validateFrom p n kind i rs = Inr () \<Longrightarrow> r \<in> set rs \<Longrightarrow> \<exists>j. validateRange p n kind j r = Inr ()"
  by (induction rs arbitrary: i) (auto split: sum.splits)

lemma validateRange_Inr:
  assumes "validateRange p n kind i r = Inr ()"
  shows "\<forall>a\<in>set (r_Addresses r). parse4 a \<noteq> [] \<and> IPNet_Contains n (parse4 a)"
    and "range_bounds r = Some (a, b) \<Longrightarrow>
      a \<le> b \<and> IPNet_Contains n (uint32ToIP a) \<and> IPNet_Contains n (uint32ToIP b)"
proof -
  from assms have v: "validateAddresses p n kind i (r_Addresses r) = Inr ()"
    by (auto simp: validateRange_def split: sum.splits)
  then show "\<forall>a\<in>set (r_Addresses r). parse4 a \<noteq> [] \<and> IPNet_Contains n (parse4 a)"
    using validateAddresses_Inr by blast
  assume "range_bounds r = Some (a, b)"
  then have ne: "r_RangeStart r \<noteq> []" "r_RangeEnd r \<noteq> []"
    and a: "ipToUint32 (parse4 (r_RangeStart r)) = Some a" and b: "ipToUint32 (parse4 (r_RangeEnd r)) = Some b"
    by (auto simp: range_bounds_def split: if_splits option.splits)
  from assms v ne a b have c: "parse4 (r_RangeStart r) \<noteq> []" "parse4 (r_RangeEnd r) \<noteq> []"
    "IPNet_Contains n (parse4 (r_RangeStart r))" "IPNet_Contains n (parse4 (r_RangeEnd r))" "a \<le> b"
    by (auto simp: validateRange_def Let_def not_less split: if_splits)
  have "uint32ToIP a = parse4 (r_RangeStart r)" "uint32ToIP b = parse4 (r_RangeEnd r)"
    using a b ipToUint32_parse4 [OF c(1) refl] ipToUint32_parse4 [OF c(2) refl] by auto
  with c show "a \<le> b \<and> IPNet_Contains n (uint32ToIP a) \<and> IPNet_Contains n (uint32ToIP b)" by simp
qed

lemma inRange_cases:
  assumes "inRange v r"
  obtains address where "address \<in> set (r_Addresses r)" "parse4 address = uint32ToIP v"
  | a b where "range_bounds r = Some (a, b)" "a \<le> v" "v \<le> b"
proof -
  from assms consider address where "address \<in> set (r_Addresses r)" "parse4 address \<noteq> []"
      "ipToUint32 (parse4 address) = Some v"
    | a b where "range_bounds r = Some (a, b)" "a \<le> v" "v \<le> b"
    by (auto simp: inRange_def list_ex_iff split: option.splits)
  then show thesis
  proof cases
    case 1
    with ipToUint32_parse4 [OF 1(2) refl] have "parse4 address = uint32ToIP v" by auto
    with 1(1) show thesis by (rule that(1))
  next
    case 2
    then show thesis by (rule that(2))
  qed
qed

lemma expand_length: "ip \<in> set (expandIPRange r) \<Longrightarrow> length ip = 4"
  by (auto simp: expandIPRange_def parse4_length split: option.splits)

lemma uint32ToIP_inj [simp]: "uint32ToIP x = uint32ToIP y \<longleftrightarrow> x = y"
  by (metis ipToUint32_put option.inject)

lemma expand_inRange: "uint32ToIP v \<in> set (expandIPRange r) \<longleftrightarrow> inRange v r"
proof
  assume "uint32ToIP v \<in> set (expandIPRange r)"
  then consider address where "address \<in> set (r_Addresses r)" "parse4 address = uint32ToIP v"
    | a b where "range_bounds r = Some (a, b)" "v \<in> {a..b}"
    by (force simp: expandIPRange_def set_countUp split: option.splits)
  then show "inRange v r"
  proof cases
    case 1
    then have "parse4 address \<noteq> []" "ipToUint32 (parse4 address) = Some v"
      using uint32ToIP_length [of v] by (auto simp del: uint32ToIP_length)
    with 1(1) show ?thesis by (auto simp: inRange_def list_ex_iff)
  next
    case 2
    then show ?thesis by (simp add: inRange_def)
  qed
next
  assume "inRange v r"
  then show "uint32ToIP v \<in> set (expandIPRange r)"
  proof (cases rule: inRange_cases)
    case (1 address)
    then have "parse4 address \<noteq> []" using uint32ToIP_length [of v] by (auto simp del: uint32ToIP_length)
    with 1 show ?thesis by (force simp: expandIPRange_def)
  next
    case (2 a b)
    then show ?thesis by (simp add: expandIPRange_def set_countUp)
  qed
qed

lemma validated_in_subnet:
  assumes "ParseCIDR s = Some (ip0, n)" and "validateIPRanges p (n\<lparr>net_IP := ip0\<rparr>) kind rs = Inr ()"
    and "r \<in> set rs" and "inRange v r"
  shows "IPNet_Contains (n\<lparr>net_IP := ip0\<rparr>) (uint32ToIP v)"
proof -
  from validateFrom_Inr [of p _ kind 0 rs r] assms(2,3) obtain j where
      v: "validateRange p (n\<lparr>net_IP := ip0\<rparr>) kind j r = Inr ()"
    by (auto simp: validateIPRanges_def)
  from assms(4) show ?thesis
  proof (cases rule: inRange_cases)
    case (1 address)
    with validateRange_Inr(1) [OF v] show ?thesis by metis
  next
    case (2 a b)
    from validateRange_Inr(2) [OF v 2(1)] Contains_between [OF assms(1), of "uint32ToIP a" "uint32ToIP b" "uint32ToIP v"] 2
    show ?thesis by simp
  qed
qed

end
