(* ===== verification/Driver_Ipam.thy ===== *)
theory Driver_Ipam
  imports Driver_State Ip_Ranges
begin

text \<open>
  Address management of the driver: \<^verbatim>\<open>applyIPAM\<close> and what it calls in
  \<^verbatim>\<open>internal/driver/ipam.go\<close>, and the pools it reads from the cluster
  (\<^verbatim>\<open>reloadIPPools\<close> in \<^verbatim>\<open>internal/driver/driver.go\<close>).
\<close>

section \<open>Pools\<close>

text \<open>\<^verbatim>\<open>if value, ok, _ := NestedString(m, k); ok\<close>: the value, or the zero value that was there.\<close>

definition stringField :: "'z unstr_scheme \<Rightarrow> gmap \<Rightarrow> string \<Rightarrow> string" where
  "stringField U m k = (case uNestedString U m [k] of (v, found) \<Rightarrow> if found then v else [])"

definition ipRangeOf :: "'z unstr_scheme \<Rightarrow> gmap \<Rightarrow> IPRange" where
  "ipRangeOf U rangeMap =
     \<lparr>r_Name = stringField U rangeMap ''name'',
      r_Addresses = (case uNestedStringSlice U rangeMap [''addresses''] of (vs, found) \<Rightarrow> if found then vs else []),
      r_RangeStart = stringField U rangeMap ''rangeStart'',
      r_RangeEnd = stringField U rangeMap ''rangeEnd''\<rparr>"

fun gmaps_of :: "gval list \<Rightarrow> gmap list" where
  "gmaps_of [] = []"
| "gmaps_of (GMap m # vs) = m # gmaps_of vs"
| "gmaps_of (_ # vs) = gmaps_of vs"

definition ipRangesFromSpec :: "'z unstr_scheme \<Rightarrow> gmap \<Rightarrow> string \<Rightarrow> IPRange list" where
  "ipRangesFromSpec U spec field =
     (case uNestedSlice U spec [field] of (rawRanges, found) \<Rightarrow>
        if \<not> found then [] else map (ipRangeOf U) (gmaps_of rawRanges))"

definition ipPoolFromUnstructured :: "'z unstr_scheme \<Rightarrow> gmap \<Rightarrow> goerr + IPPool" where
  "ipPoolFromUnstructured U obj =
     (case map_of obj ''spec'' of
        Some (GMap spec) \<Rightarrow>
          let pool = \<lparr>p_Name = uGetName U obj, p_Subnet = stringField U spec ''subnet'', p_RangeStart = [], p_RangeEnd = [],
                p_Allocations = ipRangesFromSpec U spec ''allocations'',
                p_Reservations = ipRangesFromSpec U spec ''reservations'',
                p_Gateway = stringField U spec ''gateway'',
                p_Routes = (case uNestedSlice U spec [''routes''] of (rawRoutes, found) \<Rightarrow>
                  if found then map (\<lambda>m. \<lparr>cr_Destination = stringField U m ''destination'',
                                        cr_Gateway = stringField U m ''gateway''\<rparr>) (gmaps_of rawRoutes)
                  else [])\<rparr>
          in if p_Subnet pool = [] then Inl (Errorf ''spec.subnet is required'' [])
             else if p_Allocations pool = [] then Inl (Errorf ''spec.allocations is required'' [])
             else Inr pool
      | _ \<Rightarrow> Inl (Errorf ''spec is required'' []))"

fun putPools :: "'z unstr_scheme \<Rightarrow> gmap list \<Rightarrow> (string \<times> IPPool) list \<Rightarrow> (string \<times> IPPool) list" where
  "putPools U [] ps = ps"
| "putPools U (obj # objs) ps =
     (case ipPoolFromUnstructured U obj of
        Inl _ \<Rightarrow> putPools U objs ps
      | Inr pool \<Rightarrow> putPools U objs (gput (p_Name pool) pool ps))"

definition configuredPools :: "drv \<Rightarrow> (string \<times> IPPool) list" where
  "configuredPools d = fold (\<lambda>pool ps. gput (p_Name pool) pool ps) (cfg_IPPools (drv_cfg d)) []"

text \<open>The dynamic client is always there: \<^verbatim>\<open>Start\<close> refuses to run without one.\<close>

definition reloadIPPools :: "('w, 'z) kube_scheme \<Rightarrow> drv \<Rightarrow> 'w sys \<Rightarrow> 'w sys" where
  "reloadIPPools K d s =
     (case kList K IPPoolGVR (sys_w s) of
        (Inl _, w) \<Rightarrow> s\<lparr>sys_w := w, sys_ipPools := configuredPools d\<rparr>
      | (Inr items, w) \<Rightarrow> s\<lparr>sys_w := w, sys_ipPools := putPools K items (configuredPools d)\<rparr>)"

section \<open>Allocation\<close>

definition reserveClusterAddress ::
  "('w, 'z) kube_scheme \<Rightarrow> drv \<Rightarrow> string \<Rightarrow> string \<Rightarrow> string \<Rightarrow> ResourceClaim \<Rightarrow> Pod \<Rightarrow> ('w, unit) eff" where
  "reserveClusterAddress K d pool address allocationType claim pod w =
     (case Reserve K \<lparr>al_Name = [], al_Pool = pool, al_Address = address, al_AllocationType = allocationType,
             al_Claim = \<lparr>or_Namespace = rc_Namespace claim, or_Name = rc_Name claim, or_UID = rc_UID claim\<rparr>,
             al_Pod = \<lparr>or_Namespace = pod_Namespace pod, or_Name = pod_Name pod, or_UID = pod_UID pod\<rparr>,
             al_NodeName = drv_nodeName d\<rparr> w of
        (Inl err, w1) \<Rightarrow> (Inl err, w1)
      | (Inr _, w1) \<Rightarrow> (Inr (), w1))"

text \<open>The inner loop over the addresses of one range: the address reserved, or none when the range is exhausted.\<close>

fun tryAddresses :: "('w, 'z) kube_scheme \<Rightarrow> drv \<Rightarrow> IPPool \<Rightarrow> nat \<Rightarrow> ResourceClaim \<Rightarrow> Pod \<Rightarrow> ip list
    \<Rightarrow> ('w, string option) eff" where
  "tryAddresses K d pool ones claim pod [] w = (Inr None, w)"
| "tryAddresses K d pool ones claim pod (ip # ips) w =
     (case ipInRanges ip (p_Reservations pool) of
        None \<Rightarrow> (Inl (Errorf ''panic: index out of range'' []), w)
      | Some True \<Rightarrow> tryAddresses K d pool ones claim pod ips w
      | Some False \<Rightarrow>
          (let address = IP_String ip @ ''/'' @ utoa ones in
           case reserveClusterAddress K d (p_Name pool) address ''Dynamic'' claim pod w of
             (Inr _, w1) \<Rightarrow> (Inr (Some address), w1)
           | (Inl err, w1) \<Rightarrow>
               if \<not> IsAlreadyExists err then (Inl (Wrapf ''reserve dynamic address %s'' [address] err), w1)
               else if ipToUint32 ip = Some (- 1) then (Inr None, w1)
               else tryAddresses K d pool ones claim pod ips w1))"

fun tryRanges :: "('w, 'z) kube_scheme \<Rightarrow> drv \<Rightarrow> IPPool \<Rightarrow> nat \<Rightarrow> ResourceClaim \<Rightarrow> Pod \<Rightarrow> IPRange list
    \<Rightarrow> ('w, string) eff" where
  "tryRanges K d pool ones claim pod [] w =
     (Inl (Errorf ''pool %s has no free addresses'' [p_Name pool]), w)"
| "tryRanges K d pool ones claim pod (r # rs) w =
     (case tryAddresses K d pool ones claim pod (expandIPRange r) w of
        (Inl err, w1) \<Rightarrow> (Inl err, w1)
      | (Inr (Some address), w1) \<Rightarrow> (Inr address, w1)
      | (Inr None, w1) \<Rightarrow> tryRanges K d pool ones claim pod rs w1)"

definition reserveDynamicAddress ::
  "('w, 'z) kube_scheme \<Rightarrow> drv \<Rightarrow> IPPool \<Rightarrow> ipnet \<Rightarrow> ResourceClaim \<Rightarrow> Pod \<Rightarrow> ('w, string) eff" where
  "reserveDynamicAddress K d pool subnet claim pod =
     tryRanges K d pool (Mask_ones (net_Mask subnet)) claim pod (p_Allocations pool)"

definition reserveStaticAddress ::
  "('w, 'z) kube_scheme \<Rightarrow> drv \<Rightarrow> IPPool \<Rightarrow> ipnet \<Rightarrow> string \<Rightarrow> ResourceClaim \<Rightarrow> Pod \<Rightarrow> ('w, string) eff" where
  "reserveStaticAddress K d pool subnet requested claim pod w =
     (case normalizeRequestedAddress pool subnet requested of
        Inl err \<Rightarrow> (Inl err, w)
      | Inr address \<Rightarrow>
          (let ip = (case ParseCIDR address of Some (ip, _) \<Rightarrow> ip | None \<Rightarrow> []) in
           case ipInRanges (To4 ip) (p_Reservations pool) of
             None \<Rightarrow> (Inl (Errorf ''panic: index out of range'' []), w)
           | Some False \<Rightarrow>
               (Inl (Errorf ''requested static address %s is not reserved in pool %s'' [address, p_Name pool]), w)
           | Some True \<Rightarrow>
               (case reserveClusterAddress K d (p_Name pool) address ''Static'' claim pod w of
                  (Inl err, w1) \<Rightarrow>
                    if IsAlreadyExists err then (Inl (Errorf ''static address %s is already allocated'' [address]), w1)
                    else (Inl (Wrapf ''reserve static address %s'' [address] err), w1)
                | (Inr _, w1) \<Rightarrow> (Inr address, w1))))"

text \<open>A claim that asks for no address gets a dynamic one.\<close>

definition obtainAddress ::
  "('w, 'z) kube_scheme \<Rightarrow> drv \<Rightarrow> IPPool \<Rightarrow> ipnet \<Rightarrow> NetworkConfig \<Rightarrow> ResourceClaim \<Rightarrow> Pod \<Rightarrow> ('w, string) eff" where
  "obtainAddress K d pool subnet netCfg claim pod =
     (if nc_Address netCfg = [] then reserveDynamicAddress K d pool subnet claim pod
      else reserveStaticAddress K d pool subnet (nc_Address netCfg) claim pod)"

definition applyPoolRoutes :: "NetworkConfig \<Rightarrow> IPPool \<Rightarrow> NetworkConfig" where
  "applyPoolRoutes netCfg pool =
     (if nc_Routes netCfg = []
      then netCfg\<lparr>nc_Routes := map (\<lambda>route. \<lparr>rt_Destination = cr_Destination route, rt_Gateway = cr_Gateway route\<rparr>) (p_Routes pool)\<rparr>
      else netCfg)"

text \<open>The pool's subnet and ranges, checked: the subnet with its host address put back.\<close>

definition checkPool :: "IPPool \<Rightarrow> goerr + ipnet" where
  "checkPool pool =
     (case ParseCIDR (p_Subnet pool) of
        None \<Rightarrow> Inl (Wrapf ''parse pool %s subnet %q'' [p_Name pool, p_Subnet pool] (Errorf ''invalid CIDR address'' [p_Subnet pool]))
      | Some (subnetIP, net) \<Rightarrow>
          let subnet = net\<lparr>net_IP := subnetIP\<rparr> in
          (case validateIPRanges (p_Name pool) subnet ''allocation'' (p_Allocations pool) of
             Inl err \<Rightarrow> Inl err
           | Inr _ \<Rightarrow>
               (case validateIPRanges (p_Name pool) subnet ''reservation'' (p_Reservations pool) of
                  Inl err \<Rightarrow> Inl err
                | Inr _ \<Rightarrow> Inr subnet)))"

definition withAddress :: "NetworkConfig \<Rightarrow> string \<Rightarrow> IPPool \<Rightarrow> NetworkConfig" where
  "withAddress netCfg address pool = applyPoolRoutes (netCfg\<lparr>nc_Address := address, nc_Addresses := [address]\<rparr>) pool"

definition applyIPAM ::
  "('w, 'z) kube_scheme \<Rightarrow> codec \<Rightarrow> drv \<Rightarrow> NetworkConfig \<Rightarrow> ResourceClaim \<Rightarrow> Pod \<Rightarrow> ('w sys, NetworkConfig) eff" where
  "applyIPAM K J d netCfg claim pod s0 =
     (if nc_IPPool netCfg = [] then (Inr netCfg, s0)
      else
        let s = reloadIPPools K d s0 in
        case map_of (sys_ipPools s) (nc_IPPool netCfg) of
          None \<Rightarrow> (Inl (Errorf ''unknown IP pool %q'' [nc_IPPool netCfg]), s)
        | Some pool \<Rightarrow>
            (case checkPool pool of
               Inl err \<Rightarrow> (Inl err, s)
             | Inr subnet \<Rightarrow>
                 (case onW (FindForClaim K (rc_UID claim)) s of
                    (Inl err, s1) \<Rightarrow>
                      (Inl (Wrapf ''find allocation for claim %s/%s'' [rc_Namespace claim, rc_Name claim] err), s1)
                  | (Inr (Some allocation), s1) \<Rightarrow>
                      if al_Pool allocation \<noteq> p_Name pool then
                        (Inl (Errorf ''claim %s/%s already has an allocation from pool %s''
                           [rc_Namespace claim, rc_Name claim, al_Pool allocation]), s1)
                      else
                        (case onStore (ReserveIP J (p_Name pool) (al_Address allocation) (rc_UID claim) (pod_UID pod)) s1 of
                           (Inl err, s2) \<Rightarrow> (Inl err, s2)
                         | (Inr _, s2) \<Rightarrow> (Inr (withAddress netCfg (al_Address allocation) pool), s2))
                  | (Inr None, s1) \<Rightarrow>
                      (case onW (obtainAddress K d pool subnet netCfg claim pod) s1 of
                         (Inl err, s2) \<Rightarrow> (Inl err, s2)
                       | (Inr address, s2) \<Rightarrow>
                           (case onStore (ReserveIP J (p_Name pool) address (rc_UID claim) (pod_UID pod)) s2 of
                              (Inl err, s3) \<Rightarrow> (Inl (Wrapf ''reserve %s from pool %s'' [address, p_Name pool] err), s3)
                            | (Inr _, s3) \<Rightarrow> (Inr (withAddress netCfg address pool), s3))))))"

section \<open>Lemmas\<close>

lemma TrimSpace_Nil: "TrimSpace s = [] \<longleftrightarrow> list_all is_space s"
proof -
  have d: "dropWhile is_space t = [] \<longleftrightarrow> list_all is_space t" for t
    by (auto simp: dropWhile_eq_Nil_conv list_all_iff)
  have "list_all is_space (dropWhile is_space s) \<longleftrightarrow> list_all is_space s" for s
    by (induction s) auto
  with d show ?thesis by (simp add: TrimSpace_def list_all_rev)
qed

lemma address_not_blank: "TrimSpace (x @ ''/'' @ y) \<noteq> []"
  by (auto simp: TrimSpace_Nil is_space_def)

text \<open>Pools are kept under their names.\<close>

definition named_pools :: "(string \<times> IPPool) list \<Rightarrow> bool" where
  "named_pools ps \<longleftrightarrow> (\<forall>k p. map_of ps k = Some p \<longrightarrow> p_Name p = k)"

lemma named_gput: "named_pools ps \<Longrightarrow> named_pools (gput (p_Name p) p ps)"
  by (simp add: named_pools_def)

lemma named_putPools: "named_pools ps \<Longrightarrow> named_pools (putPools U objs ps)"
  by (induction objs arbitrary: ps) (simp_all add: named_gput split: sum.split)

lemma named_configured: "named_pools (configuredPools d)"
proof -
  have "named_pools ps \<Longrightarrow> named_pools (fold (\<lambda>pool ps. gput (p_Name pool) pool ps) qs ps)" for qs ps
    by (induction qs arbitrary: ps) (simp_all add: named_gput)
  moreover have "named_pools []" by (simp add: named_pools_def)
  ultimately show ?thesis unfolding configuredPools_def by blast
qed

lemma reloadIPPools_named: "map_of (sys_ipPools (reloadIPPools K d s)) k = Some p \<Longrightarrow> p_Name p = k"
proof -
  have "named_pools (sys_ipPools (reloadIPPools K d s))"
    by (simp add: reloadIPPools_def named_configured named_putPools split: prod.splits sum.splits)
  then show "map_of (sys_ipPools (reloadIPPools K d s)) k = Some p \<Longrightarrow> p_Name p = k"
    by (simp add: named_pools_def)
qed

lemma reloadIPPools_store [simp]:
  "sys_store (reloadIPPools K d s) = sys_store s" "sys_fs (reloadIPPools K d s) = sys_fs s"
  "sys_w (reloadIPPools K d s) = snd (kList K IPPoolGVR (sys_w s))"
  by (simp_all add: reloadIPPools_def split: prod.splits sum.splits)

lemma checkPool_Inr:
  assumes "checkPool pool = Inr subnet"
  obtains ip0 n where "ParseCIDR (p_Subnet pool) = Some (ip0, n)" "subnet = n\<lparr>net_IP := ip0\<rparr>"
    "validateIPRanges (p_Name pool) subnet ''allocation'' (p_Allocations pool) = Inr ()"
    "validateIPRanges (p_Name pool) subnet ''reservation'' (p_Reservations pool) = Inr ()"
  using assms by (auto simp: checkPool_def Let_def split: option.splits sum.splits)

lemma expand_word:
  assumes "ip \<in> set (expandIPRange r)"
  obtains v where "ip = uint32ToIP v" "inRange v r" "ipToUint32 ip = Some v"
proof -
  have l: "length ip = 4" using assms by (rule expand_length)
  then have "ip = uint32ToIP (word4 ip)" by (simp add: uint32ToIP_def put_word4)
  with assms expand_inRange [of "word4 ip" r] ipToUint32_put [of "word4 ip"] that show thesis by metis
qed

abbreviation reserved :: "IPPool \<Rightarrow> u32 \<Rightarrow> bool" where
  "reserved pool v \<equiv> list_ex (inRange v) (p_Reservations pool)"

definition cidr_text :: "u32 \<Rightarrow> nat \<Rightarrow> string" where
  "cidr_text v ones = IP_String (uint32ToIP v) @ ''/'' @ utoa ones"

lemma ipInRanges_word: "ipInRanges (uint32ToIP v) rs = Some (list_ex (inRange v) rs)"
  by (simp add: ipInRanges_def)

text \<open>A pass over words instead of byte lists, with the two stops of the loop.\<close>

lemma tryAddresses_step:
  "tryAddresses K d pool ones claim pod (uint32ToIP v # ips) w =
     (if reserved pool v then tryAddresses K d pool ones claim pod ips w
      else (case reserveClusterAddress K d (p_Name pool) (cidr_text v ones) ''Dynamic'' claim pod w of
             (Inr _, w1) \<Rightarrow> (Inr (Some (cidr_text v ones)), w1)
           | (Inl err, w1) \<Rightarrow>
               if \<not> IsAlreadyExists err then (Inl (Wrapf ''reserve dynamic address %s'' [cidr_text v ones] err), w1)
               else if v = - 1 then (Inr None, w1)
               else tryAddresses K d pool ones claim pod ips w1))"
  by (simp add: ipInRanges_word Let_def cidr_text_def split: bool.split prod.split sum.split)

definition words :: "ip list \<Rightarrow> bool" where
  "words ips \<longleftrightarrow> (\<forall>ip\<in>set ips. \<exists>v. ip = uint32ToIP v)"

lemma words_expand: "words (expandIPRange r)"
  by (auto simp: words_def elim: expand_word)

lemma tryAddresses_Some:
  "tryAddresses K d pool ones claim pod ips w = (Inr (Some address), w') \<Longrightarrow> words ips \<Longrightarrow>
     \<exists>v w1. uint32ToIP v \<in> set ips \<and> \<not> reserved pool v \<and> address = cidr_text v ones
       \<and> reserveClusterAddress K d (p_Name pool) address ''Dynamic'' claim pod w1 = (Inr (), w')"
proof (induction ips arbitrary: w)
  case (Cons ip ips)
  then obtain v where v: "ip = uint32ToIP v" and ws: "words ips" by (auto simp: words_def)
  from Cons.prems(1) [unfolded v tryAddresses_step] show ?case
    using Cons.IH [OF _ ws] v by (fastforce split: if_splits prod.splits sum.splits)
qed simp

lemma tryRanges_Inr:
  "tryRanges K d pool ones claim pod rs w = (Inr address, w') \<Longrightarrow>
     \<exists>r v w1. r \<in> set rs \<and> inRange v r \<and> \<not> reserved pool v \<and> address = cidr_text v ones
       \<and> reserveClusterAddress K d (p_Name pool) address ''Dynamic'' claim pod w1 = (Inr (), w')"
proof (induction rs arbitrary: w)
  case (Cons r rs)
  from Cons.prems consider w1 where "tryAddresses K d pool ones claim pod (expandIPRange r) w = (Inr None, w1)"
      "tryRanges K d pool ones claim pod rs w1 = (Inr address, w')"
    | "tryAddresses K d pool ones claim pod (expandIPRange r) w = (Inr (Some address), w')"
    by (auto split: prod.splits sum.splits option.splits)
  then show ?case
  proof cases
    case 1
    from Cons.IH [OF 1(2)] show ?thesis by auto
  next
    case 2
    from tryAddresses_Some [OF 2 words_expand] show ?thesis using expand_inRange by fastforce
  qed
qed simp

lemma reserveDynamic_Inr:
  assumes "reserveDynamicAddress K d pool subnet claim pod w = (Inr address, w')"
  shows "\<exists>r v w1. r \<in> set (p_Allocations pool) \<and> inRange v r \<and> \<not> reserved pool v
    \<and> address = cidr_text v (Mask_ones (net_Mask subnet))
    \<and> reserveClusterAddress K d (p_Name pool) address ''Dynamic'' claim pod w1 = (Inr (), w')"
  by (rule tryRanges_Inr [OF assms [unfolded reserveDynamicAddress_def]])

lemma normalize_Inr:
  assumes "normalizeRequestedAddress pool subnet requested = Inr address"
  shows "\<exists>v ip n. ParseCIDR requested = Some (ip, n) \<and> To4 ip = uint32ToIP v \<and> IPNet_Contains subnet (uint32ToIP v)
    \<and> Mask_ones (net_Mask n) = Mask_ones (net_Mask subnet) \<and> address = cidr_text v (Mask_ones (net_Mask subnet))"
proof -
  from assms obtain ip n where p: "ParseCIDR requested = Some (ip, n)" "To4 ip \<noteq> []" "IPNet_Contains subnet (To4 ip)"
      "Mask_ones (net_Mask n) = Mask_ones (net_Mask subnet)"
      "address = IP_String (To4 ip) @ ''/'' @ utoa (Mask_ones (net_Mask subnet))"
    by (auto simp: normalizeRequestedAddress_def split: option.splits if_splits)
  have "To4 ip = uint32ToIP (word4 (To4 ip))"
    using To4_nonempty [OF p(2)] by (simp add: uint32ToIP_def put_word4)
  with p show ?thesis unfolding cidr_text_def by metis
qed

lemma withAddress_sel [simp]:
  "nc_Address (withAddress netCfg a pool) = a" "nc_Addresses (withAddress netCfg a pool) = [a]"
  by (simp_all add: withAddress_def applyPoolRoutes_def)

lemma applyIPAM_Inr:
  assumes "applyIPAM K J d netCfg claim pod s = (Inr cfg, s')" and "nc_IPPool netCfg \<noteq> []"
  obtains (found) pool al where "p_Name pool = nc_IPPool netCfg"
      "FindForClaim K (rc_UID claim) (sys_w (reloadIPPools K d s)) = (Inr (Some al), sys_w s')"
      "al_Pool al = nc_IPPool netCfg" "al_Address al = nc_Address cfg" "cfg = withAddress netCfg (nc_Address cfg) pool"
      "map_of (sys_ipPools (reloadIPPools K d s)) (nc_IPPool netCfg) = Some pool"
      "ReserveIP J (p_Name pool) (nc_Address cfg) (rc_UID claim) (pod_UID pod) (sys_store s) (sys_fs s)
         = (Inr (), sys_store s', sys_fs s')"
  | (fresh) pool subnet w1 where "p_Name pool = nc_IPPool netCfg" "checkPool pool = Inr subnet"
      "FindForClaim K (rc_UID claim) (sys_w (reloadIPPools K d s)) = (Inr None, w1)"
      "obtainAddress K d pool subnet netCfg claim pod w1 = (Inr (nc_Address cfg), sys_w s')"
      "cfg = withAddress netCfg (nc_Address cfg) pool"
      "map_of (sys_ipPools (reloadIPPools K d s)) (nc_IPPool netCfg) = Some pool"
      "ReserveIP J (p_Name pool) (nc_Address cfg) (rc_UID claim) (pod_UID pod) (sys_store s) (sys_fs s)
         = (Inr (), sys_store s', sys_fs s')"
proof -
  let ?s = "reloadIPPools K d s"
  from assms obtain pool subnet f w1 where p: "map_of (sys_ipPools ?s) (nc_IPPool netCfg) = Some pool"
    and c: "checkPool pool = Inr subnet" and f: "FindForClaim K (rc_UID claim) (sys_w ?s) = (Inr f, w1)"
    by (auto simp: applyIPAM_def Let_def onW_def split: option.splits sum.splits prod.splits)
  note n = reloadIPPools_named [OF p]
  show thesis
  proof (cases f)
    case (Some al)
    obtain r st fs where rv: "ReserveIP J (p_Name pool) (al_Address al) (rc_UID claim) (pod_UID pod) (sys_store s) (sys_fs s)
        = (r, st, fs)" by (metis prod_cases3)
    from assms p c f Some rv have "al_Pool al = p_Name pool" "r = Inr ()" "cfg = withAddress netCfg (al_Address al) pool"
        "s' = ?s\<lparr>sys_w := w1, sys_store := st, sys_fs := fs\<rparr>"
      by (auto simp: applyIPAM_def Let_def onW_def onStore_def split: sum.splits if_splits)
    with found [of pool al] n f Some p rv show thesis by simp
  next
    case None
    from assms p c f None obtain address w2 where oa: "obtainAddress K d pool subnet netCfg claim pod w1 = (Inr address, w2)"
      by (auto simp: applyIPAM_def Let_def onW_def split: sum.splits prod.splits)
    obtain r st fs where rv: "ReserveIP J (p_Name pool) address (rc_UID claim) (pod_UID pod) (sys_store s) (sys_fs s)
        = (r, st, fs)" by (metis prod_cases3)
    from assms p c f None oa rv have "r = Inr ()" "cfg = withAddress netCfg address pool"
        "s' = ?s\<lparr>sys_w := w2, sys_store := st, sys_fs := fs\<rparr>"
      by (auto simp: applyIPAM_def Let_def onW_def onStore_def split: sum.splits)
    with fresh [of pool subnet w1] n f None p c oa rv show thesis by simp
  qed
qed

text \<open>Where the world can be after \<open>applyIPAM\<close>, whatever its outcome.\<close>

lemma applyIPAM_world:
  assumes "applyIPAM K J d netCfg claim pod s = (r, s')"
    and "FindForClaim K (rc_UID claim) (sys_w (reloadIPPools K d s)) = (f, w1)"
  shows "sys_w s' = sys_w s \<or> sys_w s' = sys_w (reloadIPPools K d s) \<or> sys_w s' = w1
    \<or> (\<exists>pool subnet. sys_w s' = snd (obtainAddress K d pool subnet netCfg claim pod w1))"
proof (cases "nc_IPPool netCfg = []")
  case True
  with assms show ?thesis by (simp add: applyIPAM_def)
next
  case ne: False
  let ?s = "reloadIPPools K d s"
  show ?thesis
  proof (cases "map_of (sys_ipPools ?s) (nc_IPPool netCfg)")
    case None
    with assms ne show ?thesis by (auto simp: applyIPAM_def Let_def)
  next
    case (Some pool)
    show ?thesis
    proof (cases "checkPool pool")
      case (Inl e)
      with assms ne Some show ?thesis by (auto simp: applyIPAM_def Let_def)
    next
      case (Inr subnet)
      obtain r2 w2 where oa: "obtainAddress K d pool subnet netCfg claim pod w1 = (r2, w2)" by fastforce
      from assms ne Some Inr oa have "sys_w s' = w1 \<or> sys_w s' = w2"
        by (auto simp: applyIPAM_def Let_def onW_def onStore_def split: sum.splits option.splits prod.splits if_splits)
      with oa show ?thesis by (metis snd_conv)
    qed
  qed
qed

end
