(* ===== verification/Ipam_Props.thy ===== *)
theory Ipam_Props
  imports Driver_Ipam Reconciler
begin

text \<open>
  Promises of the driver's address management: what \<^verbatim>\<open>applyIPAM\<close> hands to a claim lies in the
  pool, is owned by that claim alone and is recorded in the store; a pool is reported full only
  when it is.
\<close>

section \<open>Over any server\<close>

context cluster_api
begin

lemma reserveCluster_steps:
  assumes "reserveClusterAddress K d pool address ty claim pod w = (r, w')"
  shows "table_steps K (tab w) (tab w')"
proof -
  from assms obtain a r' where "Reserve K a w = (r', w')"
    by (fastforce simp: reserveClusterAddress_def split: prod.splits sum.splits)
  then show ?thesis by (rule Reserve_steps)
qed

lemma reserveCluster_owner:
  assumes "reserveClusterAddress K d pool address ty claim pod w = (Inr u, w')" and "wf_table K (tab w)"
    and "TrimSpace pool \<noteq> []" and "TrimSpace address \<noteq> []" and "rc_UID claim \<noteq> []"
  shows "owners K (tab w') pool address = {rc_UID claim}"
proof -
  let ?a = "\<lparr>al_Name = [], al_Pool = pool, al_Address = address, al_AllocationType = ty,
             al_Claim = \<lparr>or_Namespace = rc_Namespace claim, or_Name = rc_Name claim, or_UID = rc_UID claim\<rparr>,
             al_Pod = \<lparr>or_Namespace = pod_Namespace pod, or_Name = pod_Name pod, or_UID = pod_UID pod\<rparr>,
             al_NodeName = drv_nodeName d\<rparr>"
  from assms(1) obtain obj where r: "Reserve K ?a w = (Inr obj, w')"
    by (auto simp: reserveClusterAddress_def split: prod.splits sum.splits)
  have v: "valid_request ?a" using assms(3-5) by (simp add: valid_request_def)
  from Reserve_Inr [OF r v] obtain n p where "tab w' n = Some obj" "ParseAllocation K obj = Inr p"
      "al_Pool p = pool" "al_Address p = address" "or_UID (al_Claim p) = rc_UID claim" by auto
  then have "rc_UID claim \<in> owners K (tab w') pool address" unfolding owners_def by blast
  moreover have "wf_table K (tab w')" using table_steps_wf [OF reserveCluster_steps [OF assms(1)] assms(2)] .
  ultimately show ?thesis using owners_unique by blast
qed

lemma tryAddresses_steps:
  "tryAddresses K d pool ones claim pod ips w = (r, w') \<Longrightarrow> table_steps K (tab w) (tab w')"
proof (induction ips arbitrary: w)
  case (Cons ip ips)
  let ?c = "reserveClusterAddress K d (p_Name pool) (IP_String ip @ ''/'' @ utoa ones) ''Dynamic'' claim pod w"
  obtain x w1 where c: "?c = (x, w1)" by fastforce
  note 1 = reserveCluster_steps [OF c]
  from Cons.prems c consider "w' = w" | "w' = w1" | "tryAddresses K d pool ones claim pod ips w = (r, w')"
    | "tryAddresses K d pool ones claim pod ips w1 = (r, w')"
    by (auto simp: Let_def split: option.splits bool.splits sum.splits if_splits)
  then show ?case using 1 Cons.IH by cases (auto intro: rtranclp_trans)
qed simp

lemma tryRanges_steps:
  "tryRanges K d pool ones claim pod rs w = (r, w') \<Longrightarrow> table_steps K (tab w) (tab w')"
proof (induction rs arbitrary: w)
  case (Cons rg rs)
  obtain x w1 where c: "tryAddresses K d pool ones claim pod (expandIPRange rg) w = (x, w1)" by fastforce
  note 1 = tryAddresses_steps [OF c]
  from Cons.prems c consider "w' = w1" | "tryRanges K d pool ones claim pod rs w1 = (r, w')"
    by (auto split: option.splits sum.splits)
  then show ?case using 1 Cons.IH by cases (auto intro: rtranclp_trans)
qed simp

lemma static_cases:
  assumes "reserveStaticAddress K d pool subnet req claim pod w = (r, w')"
  obtains "w' = w" "\<exists>e. r = Inl e"
  | address x where "normalizeRequestedAddress pool subnet req = Inr address"
      "ipInRanges (To4 (case ParseCIDR address of Some (ip, _) \<Rightarrow> ip | None \<Rightarrow> [])) (p_Reservations pool) = Some True"
      "reserveClusterAddress K d (p_Name pool) address ''Static'' claim pod w = (x, w')"
      "(\<exists>u. x = Inr u \<and> r = Inr address) \<or> (\<exists>e e'. x = Inl e \<and> r = Inl e')"
proof (cases "normalizeRequestedAddress pool subnet req")
  case (Inl e)
  with assms have "w' = w" "r = Inl e" by (simp_all add: reserveStaticAddress_def)
  with that(1) show thesis by blast
next
  case (Inr address)
  obtain x w1 where c: "reserveClusterAddress K d (p_Name pool) address ''Static'' claim pod w = (x, w1)" by fastforce
  show thesis
  proof (cases "ipInRanges (To4 (case ParseCIDR address of Some (ip, _) \<Rightarrow> ip | None \<Rightarrow> [])) (p_Reservations pool) = Some True")
    case True
    with assms Inr c have "w1 = w'" "(\<exists>u. x = Inr u \<and> r = Inr address) \<or> (\<exists>e e'. x = Inl e \<and> r = Inl e')"
      by (auto simp: reserveStaticAddress_def Let_def split: sum.splits if_splits)
    with that(2) Inr True c show thesis by blast
  next
    case False
    with assms Inr that(1) show thesis
      by (auto simp: reserveStaticAddress_def Let_def split: option.splits bool.splits)
  qed
qed

lemma static_steps:
  assumes "reserveStaticAddress K d pool subnet req claim pod w = (r, w')"
  shows "table_steps K (tab w) (tab w')"
  using assms by (cases rule: static_cases) (auto intro: reserveCluster_steps)

lemma tryAddresses_reserves:
  "tryAddresses K d pool ones claim pod ips w = (Inr (Some address), w') \<Longrightarrow> \<exists>ty w1.
     reserveClusterAddress K d (p_Name pool) address ty claim pod w1 = (Inr (), w')
     \<and> table_steps K (tab w) (tab w1) \<and> TrimSpace address \<noteq> []"
proof (induction ips arbitrary: w)
  case (Cons ip ips)
  let ?a = "IP_String ip @ ''/'' @ utoa ones"
  obtain x w1 where c: "reserveClusterAddress K d (p_Name pool) ?a ''Dynamic'' claim pod w = (x, w1)" by fastforce
  from Cons.prems c consider "w1 = w'" "x = Inr ()" "address = ?a"
    | "tryAddresses K d pool ones claim pod ips w = (Inr (Some address), w')"
    | "tryAddresses K d pool ones claim pod ips w1 = (Inr (Some address), w')"
    by (auto simp: Let_def split: option.splits bool.splits sum.splits if_splits)
  then show ?case
  proof cases
    case 1
    with c address_not_blank [of "IP_String ip" "utoa ones"] show ?thesis by blast
  next
    case 2
    then show ?thesis by (rule Cons.IH)
  next
    case 3
    from Cons.IH [OF 3] reserveCluster_steps [OF c] show ?thesis by (meson rtranclp_trans)
  qed
qed simp

lemma tryRanges_reserves:
  "tryRanges K d pool ones claim pod rs w = (Inr address, w') \<Longrightarrow> \<exists>ty w1.
     reserveClusterAddress K d (p_Name pool) address ty claim pod w1 = (Inr (), w')
     \<and> table_steps K (tab w) (tab w1) \<and> TrimSpace address \<noteq> []"
proof (induction rs arbitrary: w)
  case (Cons rg rs)
  obtain x w1 where c: "tryAddresses K d pool ones claim pod (expandIPRange rg) w = (x, w1)" by fastforce
  from Cons.prems c consider "x = Inr (Some address)" "w1 = w'" | "tryRanges K d pool ones claim pod rs w1 = (Inr address, w')"
    by (auto split: option.splits sum.splits)
  then show ?case
  proof cases
    case 1
    with c tryAddresses_reserves show ?thesis by blast
  next
    case 2
    from Cons.IH [OF 2] tryAddresses_steps [OF c] show ?thesis by (meson rtranclp_trans)
  qed
qed simp

lemma obtain_reserves:
  assumes "obtainAddress K d pool subnet netCfg claim pod w = (Inr address, w')"
  shows "\<exists>ty w1. reserveClusterAddress K d (p_Name pool) address ty claim pod w1 = (Inr (), w')
    \<and> table_steps K (tab w) (tab w1) \<and> TrimSpace address \<noteq> []"
proof (cases "nc_Address netCfg = []")
  case True
  with assms show ?thesis by (intro tryRanges_reserves) (simp add: obtainAddress_def reserveDynamicAddress_def)
next
  case False
  with assms have "reserveStaticAddress K d pool subnet (nc_Address netCfg) claim pod w = (Inr address, w')"
    by (simp add: obtainAddress_def)
  then show ?thesis
  proof (cases rule: static_cases)
    case (2 a x)
    from normalize_Inr [OF 2(1)] have "TrimSpace a \<noteq> []" by (auto simp: cidr_text_def address_not_blank simp del: append.simps)
    moreover from 2(4) have "x = Inr ()" "a = address" by auto
    ultimately show ?thesis using 2(3) by blast
  qed simp
qed

lemma obtain_steps: "obtainAddress K d pool subnet netCfg claim pod w = (r, w') \<Longrightarrow> table_steps K (tab w) (tab w')"
  by (auto simp: obtainAddress_def reserveDynamicAddress_def split: if_splits intro: tryRanges_steps static_steps)

lemma reload_steps: "table_steps K (tab (sys_w s)) (tab (sys_w (reloadIPPools K d s)))"
  using listPools_tab [OF prod.collapse [symmetric]] rely_steps by (metis reloadIPPools_store(3))

lemma applyIPAM_owner:
  assumes "applyIPAM K J d netCfg claim pod s = (Inr cfg, s')" and "wf_table K (tab (sys_w s))"
    and "TrimSpace (nc_IPPool netCfg) \<noteq> []" and "rc_UID claim \<noteq> []"
  shows "owners K (tab (sys_w s')) (nc_IPPool netCfg) (nc_Address cfg) = {rc_UID claim}"
proof -
  let ?u = "rc_UID claim" and ?w = "sys_w (reloadIPPools K d s)"
  have ne: "nc_IPPool netCfg \<noteq> []" using assms(3) by (auto simp: TrimSpace_def)
  note wf = table_steps_wf [OF reload_steps assms(2), of d]
  from assms(1) ne show ?thesis
  proof (cases rule: applyIPAM_Inr)
    case (found pool al)
    from FindForClaim_Some [OF found(2)] found have "?u \<in> owners K (tab (sys_w s')) (nc_IPPool netCfg) (nc_Address cfg)"
      by simp
    moreover have "wf_table K (tab (sys_w s'))" using table_steps_wf [OF FindForClaim_steps [OF found(2)] wf] .
    ultimately show ?thesis using owners_unique by blast
  next
    case (fresh pool subnet w1)
    have w1: "wf_table K (tab w1)" using table_steps_wf [OF FindForClaim_steps [OF fresh(3)] wf] .
    from obtain_reserves [OF fresh(4)] obtain ty w2 where
        r: "reserveClusterAddress K d (p_Name pool) (nc_Address cfg) ty claim pod w2 = (Inr (), sys_w s')"
      and st: "table_steps K (tab w1) (tab w2)" and ns: "TrimSpace (nc_Address cfg) \<noteq> []" by blast
    from reserveCluster_owner [OF r table_steps_wf [OF st w1] _ ns assms(4)] assms(3) fresh(1) show ?thesis by simp
  qed
qed

lemma applyIPAM_steps:
  assumes "applyIPAM K J d netCfg claim pod s = (r, s')"
  shows "table_steps K (tab (sys_w s)) (tab (sys_w s'))"
proof -
  let ?s = "reloadIPPools K d s"
  obtain f w1 where f: "FindForClaim K (rc_UID claim) (sys_w ?s) = (f, w1)" by fastforce
  have 1: "table_steps K (tab (sys_w s)) (tab w1)"
    using reload_steps FindForClaim_steps [OF f] by (rule rtranclp_trans)
  have 2: "table_steps K (tab (sys_w s)) (tab (snd (obtainAddress K d pool subnet netCfg claim pod w1)))" for pool subnet
    using 1 obtain_steps [OF prod.collapse [symmetric]] by (rule rtranclp_trans)
  from applyIPAM_world [OF assms f] 1 2 reload_steps [of s d] show ?thesis by (metis rtranclp.rtrancl_refl)
qed

end

section \<open>Exhaustion\<close>

context quiet_alloc_api
begin

lemma reserveCluster_refused:
  assumes "reserveClusterAddress K d pool address ty claim pod w = (Inl e, w')" and "IsAlreadyExists e"
  shows "tab w' = tab w \<and> tab w (AllocationName pool address) \<noteq> None"
proof -
  from assms(1) obtain a where "Reserve K a w = (Inl e, w')" and "al_Pool a = pool" "al_Address a = address"
    by (fastforce simp: reserveClusterAddress_def split: prod.splits sum.splits)
  with Reserve_quiet_refused [of a w e w'] assms(2) show ?thesis by auto
qed

lemma tryAddresses_full:
  "tryAddresses K d pool ones claim pod ips w = (Inr None, w') \<Longrightarrow> words ips \<Longrightarrow> uint32ToIP (- 1) \<notin> set ips \<Longrightarrow>
     tab w' = tab w \<and> (\<forall>v. uint32ToIP v \<in> set ips \<longrightarrow> \<not> reserved pool v \<longrightarrow>
        tab w (AllocationName (p_Name pool) (cidr_text v ones)) \<noteq> None)"
proof (induction ips arbitrary: w)
  case (Cons ip ips)
  then obtain v where v: "ip = uint32ToIP v" and ws: "words ips" by (auto simp: words_def)
  with Cons.prems(3) have vm: "v \<noteq> - 1" and rest: "uint32ToIP (- 1) \<notin> set ips" by auto
  show ?case
  proof (cases "reserved pool v")
    case True
    with Cons.prems(1) v have "tryAddresses K d pool ones claim pod ips w = (Inr None, w')"
      by (simp only: tryAddresses_step if_True)
    from Cons.IH [OF this ws rest] True v show ?thesis by auto
  next
    case False
    obtain x w1 where c: "reserveClusterAddress K d (p_Name pool) (cidr_text v ones) ''Dynamic'' claim pod w = (x, w1)"
      by fastforce
    from Cons.prems(1) [unfolded v tryAddresses_step] False c vm obtain e where
        e: "x = Inl e" "IsAlreadyExists e" and r: "tryAddresses K d pool ones claim pod ips w1 = (Inr None, w')"
      by (auto split: sum.splits if_splits)
    from c e have q: "tab w1 = tab w" "tab w (AllocationName (p_Name pool) (cidr_text v ones)) \<noteq> None"
      using reserveCluster_refused by auto
    with Cons.IH [OF r ws rest] v show ?thesis by auto
  qed
qed simp

lemma tryAddresses_err:
  "tryAddresses K d pool ones claim pod ips w = (Inl e, w') \<Longrightarrow> words ips \<Longrightarrow> \<exists>a b c. e = Wrapf a b c"
proof (induction ips arbitrary: w)
  case (Cons ip ips)
  then obtain v where v: "ip = uint32ToIP v" and ws: "words ips" by (auto simp: words_def)
  from Cons.prems(1) [unfolded v tryAddresses_step] show ?case
    using Cons.IH [OF _ ws] by (auto split: if_splits prod.splits sum.splits)
qed simp

lemma tryRanges_full:
  "tryRanges K d pool ones claim pod rs w = (Inl (Errorf f xs), w') \<Longrightarrow> (\<forall>r\<in>set rs. \<not> inRange (- 1) r) \<Longrightarrow>
     r \<in> set rs \<Longrightarrow> inRange v r \<Longrightarrow> \<not> reserved pool v \<Longrightarrow>
     tab w (AllocationName (p_Name pool) (cidr_text v ones)) \<noteq> None"
proof (induction rs arbitrary: w)
  case (Cons rg rs)
  obtain x w1 where c: "tryAddresses K d pool ones claim pod (expandIPRange rg) w = (x, w1)" by fastforce
  have x: "x = Inr None" and rest: "tryRanges K d pool ones claim pod rs w1 = (Inl (Errorf f xs), w')"
    using Cons.prems(1) c tryAddresses_err [OF _ words_expand, of d pool ones claim pod rg w]
    by (auto split: sum.splits option.splits)
  have m: "uint32ToIP (- 1) \<notin> set (expandIPRange rg)" using Cons.prems(2) expand_inRange by auto
  note full = tryAddresses_full [OF c [unfolded x] words_expand m]
  show ?case
  proof (cases "r = rg")
    case True
    with full Cons.prems(4,5) show ?thesis by (simp add: expand_inRange)
  next
    case False
    with Cons.IH [OF rest] Cons.prems full show ?thesis by auto
  qed
qed simp

end

section \<open>Records and addresses\<close>


lemma parse_prefix_utoa_cases: "parse_prefix_len (utoa n) = None \<or> parse_prefix_len (utoa n) = Some n"
  by (simp add: parse_prefix_len_def)

lemma ParseCIDR_long: "length bs = 4 \<Longrightarrow> 32 < n \<Longrightarrow> ParseCIDR (dotted bs @ ''/'' @ utoa n) = None"
  using takeWhile_no_slash [OF dotted_no_slash, of bs "utoa n"] parse_prefix_utoa_cases [of n]
  by (auto simp: ParseCIDR_def ParseAddr_dotted Let_def)

lemma ParseCIDR_text:
  "To4 (case ParseCIDR (cidr_text v ones) of Some (ip, _) \<Rightarrow> ip | None \<Rightarrow> []) = (if ones \<le> 32 then uint32ToIP v else [])"
proof -
  have t: "cidr_text v ones = dotted (uint32ToIP v) @ ''/'' @ utoa ones"
    using uint32ToIP_length [of v] by (auto simp: cidr_text_def IP_String_def simp del: uint32ToIP_length)
  show ?thesis
  proof (cases "ones \<le> 32")
    case True
    then show ?thesis unfolding t using ParseCIDR_dotted [OF uint32ToIP_length True, of v]
      To4_As16_Addr4 [of "uint32ToIP v"] by simp
  next
    case False
    then show ?thesis unfolding t using ParseCIDR_long [OF uint32ToIP_length, of ones v] by (simp add: To4_def)
  qed
qed


lemma ReserveIP_records:
  assumes "ReserveIP J pool address u p st fs = (Inr (), st', fs')"
  shows "\<exists>al. AllocationForClaim u st' = Some al \<and> ia_Pool al = pool \<and> ia_Address al = address"
  using assms by (auto simp: ReserveIP_def AllocationForClaim_def commit_def split: option.splits if_splits prod.splits)

lemma applyIPAM_records:
  assumes "applyIPAM K J d netCfg claim pod s = (Inr cfg, s')" and "nc_IPPool netCfg \<noteq> []"
  shows "\<exists>al. AllocationForClaim (rc_UID claim) (sys_store s') = Some al \<and> ia_Pool al = nc_IPPool netCfg
    \<and> ia_Address al = nc_Address cfg"
    and "nc_Addresses cfg = [nc_Address cfg]"
    and "AllocationForClaim (rc_UID claim) (sys_store s) = Some al \<Longrightarrow>
      ia_Pool al = nc_IPPool netCfg \<and> ia_Address al = nc_Address cfg"
proof -
  from assms obtain pool where n: "p_Name pool = nc_IPPool netCfg"
    and r: "ReserveIP J (p_Name pool) (nc_Address cfg) (rc_UID claim) (pod_UID pod) (sys_store s) (sys_fs s)
      = (Inr (), sys_store s', sys_fs s')" and c: "cfg = withAddress netCfg (nc_Address cfg) pool"
    by (cases rule: applyIPAM_Inr) blast+
  from ReserveIP_records [OF r] n show "\<exists>al. AllocationForClaim (rc_UID claim) (sys_store s') = Some al
      \<and> ia_Pool al = nc_IPPool netCfg \<and> ia_Address al = nc_Address cfg" by simp
  show "nc_Addresses cfg = [nc_Address cfg]" using withAddress_sel(2) c by metis
  show "ia_Pool al = nc_IPPool netCfg \<and> ia_Address al = nc_Address cfg"
    if "AllocationForClaim (rc_UID claim) (sys_store s) = Some al"
    using that r n by (simp add: ReserveIP_def AllocationForClaim_def split: if_splits)
qed

section \<open>A sample node\<close>

definition sample_ip_pool :: IPPool where
  "sample_ip_pool = \<lparr>p_Name = ''lan'', p_Subnet = ''10.0.0.0/24'', p_RangeStart = [], p_RangeEnd = [],
     p_Allocations = [\<lparr>r_Name = [], r_Addresses = [], r_RangeStart = ''10.0.0.5'', r_RangeEnd = ''10.0.0.6''\<rparr>],
     p_Reservations = [\<lparr>r_Name = [], r_Addresses = [''10.0.0.5''], r_RangeStart = [], r_RangeEnd = []\<rparr>],
     p_Gateway = [], p_Routes = []\<rparr>"

definition sample_drv :: drv where
  "sample_drv = \<lparr>drv_nodeName = ''node-1'', drv_driverName = DefaultDriverName,
     drv_cfg = sample_config\<lparr>cfg_IPPools := [sample_ip_pool]\<rparr>, drv_devices = []\<rparr>"

definition sample_pod :: Pod where
  "sample_pod = \<lparr>pod_Namespace = ''default'', pod_Name = ''pod-a'', pod_UID = ''pod-a-uid'', pod_Annotations = [],
     pod_ReadinessGates = [], pod_Conditions = []\<rparr>"

definition sample_request :: "string \<Rightarrow> NetworkConfig" where
  "sample_request address = no_network\<lparr>nc_Type := ''macvlan'', nc_IPPool := ''lan'', nc_Address := address\<rparr>"

definition sample_subnet :: ipnet where
  "sample_subnet = \<lparr>net_IP = v4InV6Prefix @ [10, 0, 0, 0], net_Mask = [255, 255, 255, 0]\<rparr>"

lemma sample_cidr: "ParseCIDR ''10.0.0.0/24'' = Some (v4InV6Prefix @ [10, 0, 0, 0],
    \<lparr>net_IP = IP_Mask (v4InV6Prefix @ [10, 0, 0, 0]) (CIDRMask 24 32), net_Mask = CIDRMask 24 32\<rparr>)"
proof -
  have t: "''10.0.0.0/24'' = dotted [10, 0, 0, 0] @ ''/'' @ utoa 24" by code_simp
  show ?thesis unfolding t by (rule ParseCIDR_dotted) simp_all
qed

lemma sample_validate:
  "validateIPRanges ''lan'' sample_subnet ''allocation'' (p_Allocations sample_ip_pool) = Inr ()"
  "validateIPRanges ''lan'' sample_subnet ''reservation'' (p_Reservations sample_ip_pool) = Inr ()"
  by code_simp+

lemma ip_pool_sel [simp]: "p_Name sample_ip_pool = ''lan''" "p_Subnet sample_ip_pool = ''10.0.0.0/24''"
  by (simp_all add: sample_ip_pool_def)

lemma sample_mask: "CIDRMask 24 32 = [255, 255, 255, 0]"
  by code_simp

lemma sample_check: "checkPool sample_ip_pool = Inr sample_subnet"
proof -
  have "\<lparr>net_IP = v4InV6Prefix @ [10, 0, 0, 0], net_Mask = CIDRMask 24 32\<rparr> = sample_subnet"
    by (simp add: sample_subnet_def sample_mask)
  then show ?thesis using sample_validate by (simp add: checkPool_def sample_cidr)
qed

lemma sample_expand: "expandIPRange (hd (p_Allocations sample_ip_pool)) = [uint32ToIP 0x0A000005, uint32ToIP 0x0A000006]"
  by code_simp

lemma sample_reserved: "reserved sample_ip_pool 0x0A000005" "\<not> reserved sample_ip_pool 0x0A000006"
  by code_simp+

lemma sample_text: "cidr_text 0x0A000006 24 = ''10.0.0.6/24''" "Mask_ones (net_Mask sample_subnet) = 24"
  by code_simp+

lemma sample_ranges: "p_Allocations sample_ip_pool = [hd (p_Allocations sample_ip_pool)]"
  by (simp add: sample_ip_pool_def)

lemma sample_dynamic:
  assumes "reserveClusterAddress K d ''lan'' ''10.0.0.6/24'' ''Dynamic'' claim pod w = (Inr (), w')"
  shows "reserveDynamicAddress K d sample_ip_pool sample_subnet claim pod w = (Inr ''10.0.0.6/24'', w')"
  unfolding reserveDynamicAddress_def sample_text
  by (subst sample_ranges) (simp add: sample_expand tryAddresses_step sample_reserved sample_text assms del: tryAddresses.simps(2))

lemma sample_claimed: "\<exists>w'. reserveClusterAddress (server_kube id) sample_drv ''lan'' ''10.0.0.6/24'' ty sample_claim sample_pod empty_server = (Inr (), w')"
  by (simp add: reserveClusterAddress_def Reserve_def Let_def serve_calm sv_create_def)

definition sample_node :: "Store \<Rightarrow> server sys" where
  "sample_node st = \<lparr>sys_store = st, sys_fs = sample_fs [], sys_w = empty_server, sys_ipPools = [], sys_dpdk = []\<rparr>"

lemma sample_apply:
  assumes "ReserveIP const_codec ''lan'' ''10.0.0.6/24'' (rc_UID sample_claim) (pod_UID sample_pod) st (sample_fs []) = (Inr (), st', fs')"
  shows "\<exists>cfg s'. applyIPAM (server_kube id) const_codec sample_drv (sample_request []) sample_claim sample_pod (sample_node st)
     = (Inr cfg, s') \<and> nc_Address cfg = ''10.0.0.6/24'' \<and> sys_store s' = st'"
proof -
  let ?K = "server_kube id" and ?s = "reloadIPPools (server_kube id) sample_drv (sample_node st)"
  obtain w' where w': "reserveClusterAddress ?K sample_drv ''lan'' ''10.0.0.6/24'' ''Dynamic'' sample_claim sample_pod empty_server = (Inr (), w')"
    using sample_claimed by blast
  have s: "sys_w ?s = empty_server" "sys_store ?s = st" "sys_fs ?s = sample_fs []"
    "map_of (sys_ipPools ?s) ''lan'' = Some sample_ip_pool"
    by (simp_all add: sample_node_def reloadIPPools_def serve_calm empty_server_def uniq_def configuredPools_def sample_drv_def)
  have f: "FindForClaim ?K (rc_UID sample_claim) empty_server = (Inr None, empty_server)"
    by (simp add: FindForClaim_def serve_calm sv_list_def uniq_def)
  have r: "nc_IPPool (sample_request []) = ''lan''" "nc_Address (sample_request []) = []"
    by (simp_all add: sample_request_def no_network_def)
  show ?thesis
    using sample_dynamic [OF w'] sample_check s f r assms
    by (simp add: applyIPAM_def Let_def onW_def onStore_def obtainAddress_def del: reloadIPPools_store)
qed

definition fresh_node :: "server sys" where
  "fresh_node = sample_node (empty_store [])"

lemma sample_apply_fresh:
  "\<exists>cfg s'. applyIPAM (server_kube id) const_codec sample_drv (sample_request []) sample_claim sample_pod fresh_node
     = (Inr cfg, s') \<and> nc_Address cfg = ''10.0.0.6/24''"
proof -
  have "\<exists>st' fs'. ReserveIP const_codec ''lan'' ''10.0.0.6/24'' (rc_UID sample_claim) (pod_UID sample_pod) (empty_store []) (sample_fs [])
      = (Inr (), st', fs')"
    by (simp add: ReserveIP_def empty_store_def ip_allocations_def commit_def persistLocked_def set_allocations_def ok_def)
  with sample_apply show ?thesis unfolding fresh_node_def by metis
qed

section \<open>Properties\<close>

text \<open>C10: when address management succeeds for a claim, that claim is the one and only owner of the address in
  the cluster, the node's store records the same pool and address for it, and the address is what the interface
  will be given.\<close>

theorem applyIPAM_sole_owner:
  assumes "cluster_api K tab rely" and "wf_table K (tab (sys_w s))" and "TrimSpace (nc_IPPool netCfg) \<noteq> []"
    and "rc_UID claim \<noteq> []" and "applyIPAM K J d netCfg claim pod s = (Inr cfg, s')"
  shows "owners K (tab (sys_w s')) (nc_IPPool netCfg) (nc_Address cfg) = {rc_UID claim}
    \<and> nc_Addresses cfg = [nc_Address cfg]
    \<and> (\<exists>al. AllocationForClaim (rc_UID claim) (sys_store s') = Some al \<and> ia_Pool al = nc_IPPool netCfg
         \<and> ia_Address al = nc_Address cfg)"
proof -
  from assms(3) have "nc_IPPool netCfg \<noteq> []" by (auto simp: TrimSpace_def)
  from cluster_api.applyIPAM_owner [OF assms(1,5,2,3,4)] applyIPAM_records(1,2) [OF assms(5) this] show ?thesis by blast
qed

theorem applyIPAM_sole_owner_witness:
  "\<exists>cfg s'. applyIPAM (server_kube id) const_codec sample_drv (sample_request []) sample_claim sample_pod fresh_node
     = (Inr cfg, s') \<and> owners (server_kube id) (sv_tab (sys_w s')) ''lan'' ''10.0.0.6/24'' = {''uid-a''}
     \<and> nc_Addresses cfg = [''10.0.0.6/24'']"
proof -
  obtain cfg s' where a: "applyIPAM (server_kube id) const_codec sample_drv (sample_request []) sample_claim sample_pod
      fresh_node = (Inr cfg, s')" "nc_Address cfg = ''10.0.0.6/24''" using sample_apply_fresh by blast
  have h: "wf_table (server_kube id) (sv_tab (sys_w fresh_node))" "nc_IPPool (sample_request []) = ''lan''"
    "TrimSpace (nc_IPPool (sample_request [])) \<noteq> []" "rc_UID sample_claim = ''uid-a''"
    by (simp_all add: fresh_node_def sample_node_def sample_request_def no_network_def TrimSpace_def is_space_def sample_claim_def)
  from applyIPAM_sole_owner [OF calm.cluster.cluster_api_axioms h(1,3) _ a(1)] a h(2,4) show ?thesis by auto
qed

text \<open>On every outcome of address management and whatever the rest of the cluster does between its calls,
  every address keeps at most one owner.\<close>

theorem applyIPAM_one_owner:
  assumes "cluster_api K tab rely" and "wf_table K (tab (sys_w s))" and "applyIPAM K J d netCfg claim pod s = (r, s')"
    and "x \<in> owners K (tab (sys_w s')) pool address" and "y \<in> owners K (tab (sys_w s')) pool address"
  shows "x = y"
  using owners_unique [OF table_steps_wf [OF cluster_api.applyIPAM_steps [OF assms(1,3)] assms(2)] assms(4,5)] .

theorem applyIPAM_one_owner_witness:
  "\<exists>u. owners (server_kube interfere) (sv_tab (sys_w (snd (applyIPAM (server_kube interfere) const_codec
       sample_drv (sample_request []) sample_claim sample_pod (fresh_node\<lparr>sys_w := contested_server\<rparr>))))) ''lan'' ''10.0.0.6/24'' \<subseteq> {u}"
proof -
  have w: "wf_table (server_kube interfere) (sv_tab (sys_w (fresh_node\<lparr>sys_w := contested_server\<rparr>)))"
    by simp
  note one = applyIPAM_one_owner [OF busy.cluster.cluster_api_axioms w prod.collapse [symmetric]]
  show ?thesis using one by (metis singletonI subsetI)
qed

text \<open>C30: a dynamic address is an address of one of the pool's allocation ranges, outside every reservation,
  inside the pool's subnet, written with the subnet's prefix length.\<close>

theorem dynamic_address_in_pool:
  assumes "checkPool pool = Inr subnet"
    and "reserveDynamicAddress K d pool subnet claim pod w = (Inr address, w')"
  shows "\<exists>v. address = IP_String (uint32ToIP v) @ ''/'' @ utoa (Mask_ones (net_Mask subnet))
    \<and> IPNet_Contains subnet (uint32ToIP v) \<and> ipInRanges (uint32ToIP v) (p_Allocations pool) = Some True
    \<and> ipInRanges (uint32ToIP v) (p_Reservations pool) = Some False"
proof -
  from reserveDynamic_Inr [OF assms(2)] obtain r v where r: "r \<in> set (p_Allocations pool)" "inRange v r"
      "\<not> reserved pool v" "address = cidr_text v (Mask_ones (net_Mask subnet))" by blast
  from assms(1) have "IPNet_Contains subnet (uint32ToIP v)"
  proof (cases rule: checkPool_Inr)
    case (1 ip0 n)
    with validated_in_subnet [of "p_Subnet pool" ip0 n] r(1,2) show ?thesis by metis
  qed
  with r show ?thesis by (auto simp: cidr_text_def ipInRanges_word list_ex_iff)
qed

theorem dynamic_address_in_pool_witness:
  "checkPool sample_ip_pool = Inr sample_subnet \<and>
   (\<exists>w'. reserveDynamicAddress (server_kube id) sample_drv sample_ip_pool sample_subnet sample_claim sample_pod empty_server
       = (Inr ''10.0.0.6/24'', w')) \<and>
   (\<exists>v. ''10.0.0.6/24'' = IP_String (uint32ToIP v) @ ''/'' @ utoa 24 \<and> IPNet_Contains sample_subnet (uint32ToIP v))"
proof -
  obtain w' where "reserveDynamicAddress (server_kube id) sample_drv sample_ip_pool sample_subnet sample_claim sample_pod empty_server
      = (Inr ''10.0.0.6/24'', w')" using sample_dynamic sample_claimed by metis
  with dynamic_address_in_pool [OF sample_check this] sample_check show ?thesis by (auto simp: sample_text)
qed

text \<open>C31: a static address that is granted is the requested one, in canonical form; it lies in the pool's subnet and
  in one of its reservations, so dynamic allocation never hands it out.\<close>

theorem static_address_reserved:
  assumes "reserveStaticAddress K d pool subnet requested claim pod w = (Inr address, w')"
  shows "\<exists>v ip n. ParseCIDR requested = Some (ip, n) \<and> To4 ip = uint32ToIP v
    \<and> address = IP_String (uint32ToIP v) @ ''/'' @ utoa (Mask_ones (net_Mask subnet))
    \<and> Mask_ones (net_Mask n) = Mask_ones (net_Mask subnet)
    \<and> IPNet_Contains subnet (uint32ToIP v) \<and> ipInRanges (uint32ToIP v) (p_Reservations pool) = Some True"
proof -
  from assms obtain a where a: "normalizeRequestedAddress pool subnet requested = Inr a" "a = address"
    and r: "ipInRanges (To4 (case ParseCIDR a of Some (ip, _) \<Rightarrow> ip | None \<Rightarrow> [])) (p_Reservations pool) = Some True"
    by (auto simp: reserveStaticAddress_def Let_def split: sum.splits option.splits bool.splits prod.splits if_splits)
  from normalize_Inr [OF a(1)] obtain v ip n where v: "ParseCIDR requested = Some (ip, n)" "To4 ip = uint32ToIP v"
      "IPNet_Contains subnet (uint32ToIP v)" "Mask_ones (net_Mask n) = Mask_ones (net_Mask subnet)"
      "a = cidr_text v (Mask_ones (net_Mask subnet))" by blast
  with r ParseCIDR_text [of v "Mask_ones (net_Mask subnet)"] have "ipInRanges (uint32ToIP v) (p_Reservations pool) = Some True"
    by (simp split: if_splits) (simp add: ipInRanges_def ipToUint32_def To4_def)
  with v a(2) show ?thesis by (auto simp: cidr_text_def)
qed

lemma sample_static_cidr: "ParseCIDR ''10.0.0.5/24'' = Some (v4InV6Prefix @ [10, 0, 0, 5],
    \<lparr>net_IP = IP_Mask (v4InV6Prefix @ [10, 0, 0, 5]) (CIDRMask 24 32), net_Mask = CIDRMask 24 32\<rparr>)"
proof -
  have t: "''10.0.0.5/24'' = dotted [10, 0, 0, 5] @ ''/'' @ utoa 24" by code_simp
  show ?thesis unfolding t by (rule ParseCIDR_dotted) simp_all
qed

lemma sample_static_parts:
  "To4 (v4InV6Prefix @ [10, 0, 0, 5]) = [10, 0, 0, 5]" "IPNet_Contains sample_subnet [10, 0, 0, 5]"
  "IP_String [10, 0, 0, 5] @ ''/'' @ utoa 24 = ''10.0.0.5/24''" "Mask_ones (CIDRMask 24 32) = 24"
  "ipInRanges [10, 0, 0, 5] (p_Reservations sample_ip_pool) = Some True"
  by code_simp+

lemma sample_normalize: "normalizeRequestedAddress sample_ip_pool sample_subnet ''10.0.0.5/24'' = Inr ''10.0.0.5/24''"
  using sample_static_cidr sample_static_parts(1,2,4) sample_text(2)
  by (simp add: normalizeRequestedAddress_def sample_static_parts(3) del: append.simps)

theorem static_address_reserved_witness:
  "\<exists>w'. reserveStaticAddress (server_kube id) sample_drv sample_ip_pool sample_subnet ''10.0.0.5/24'' sample_claim sample_pod empty_server
      = (Inr ''10.0.0.5/24'', w')
    \<and> (\<exists>v. ''10.0.0.5/24'' = IP_String (uint32ToIP v) @ ''/'' @ utoa 24
         \<and> ipInRanges (uint32ToIP v) (p_Reservations sample_ip_pool) = Some True)"
proof -
  obtain w' where w': "reserveClusterAddress (server_kube id) sample_drv ''lan'' ''10.0.0.5/24'' ''Static'' sample_claim sample_pod
      empty_server = (Inr (), w')"
    by (auto simp: reserveClusterAddress_def Reserve_def Let_def serve_calm sv_create_def)
  have r: "reserveStaticAddress (server_kube id) sample_drv sample_ip_pool sample_subnet ''10.0.0.5/24'' sample_claim sample_pod empty_server
      = (Inr ''10.0.0.5/24'', w')"
    by (simp add: reserveStaticAddress_def sample_normalize sample_static_cidr sample_static_parts w')
  from static_address_reserved [OF r] r show ?thesis by (auto simp: sample_text)
qed


definition full_server :: server where
  "full_server = snd (Reserve (server_kube id) (sample_alloc\<lparr>al_Address := ''10.0.0.6/24''\<rparr>) empty_server)"

definition other_claim :: ResourceClaim where
  "other_claim = sample_claim\<lparr>rc_Name := ''net-b'', rc_UID := ''uid-b''\<rparr>"

lemma full_refuses:
  "\<exists>e w'. reserveClusterAddress (server_kube id) sample_drv ''lan'' ''10.0.0.6/24'' ''Dynamic'' other_claim sample_pod full_server
     = (Inl e, w') \<and> IsAlreadyExists e"
  by (simp add: full_server_def other_claim_def reserveClusterAddress_def Reserve_def Let_def serve_calm sv_create_def sv_get_def
      sv_tab_def by_name_def svu.Parse_New IsAlreadyExists_def)
    (simp add: sample_alloc_def sample_claim_def valid_request_def TrimSpace_def is_space_def)

lemma full_pool:
  "\<exists>w'. reserveDynamicAddress (server_kube id) sample_drv sample_ip_pool sample_subnet other_claim sample_pod full_server
     = (Inl (Errorf ''pool %s has no free addresses'' [''lan'']), w')"
proof -
  obtain e w' where r: "reserveClusterAddress (server_kube id) sample_drv ''lan'' ''10.0.0.6/24'' ''Dynamic'' other_claim sample_pod
      full_server = (Inl e, w')" "IsAlreadyExists e" using full_refuses by blast
  show ?thesis unfolding reserveDynamicAddress_def sample_text
    by (subst sample_ranges) (simp add: sample_expand tryAddresses_step sample_reserved sample_text r del: tryAddresses.simps(2))
qed

lemma sample_not_max: "\<forall>r\<in>set (p_Allocations sample_ip_pool). \<not> inRange (- 1) r"
  by code_simp

lemma sample_inRange: "inRange 0x0A000006 (hd (p_Allocations sample_ip_pool))"
  "ipInRanges (uint32ToIP 0x0A000006) (p_Reservations sample_ip_pool) = Some False"
  by code_simp+


text \<open>C33: enumeration and membership agree on every range: the addresses that are tried are the four-byte addresses
  the membership test accepts, also when the range ends at 255.255.255.255, where the counter would wrap around.\<close>

theorem expandIPRange_exact:
  "ip \<in> set (expandIPRange r) \<longleftrightarrow> length ip = 4 \<and> ipInRanges ip [r] = Some True"
proof
  assume "ip \<in> set (expandIPRange r)"
  then show "length ip = 4 \<and> ipInRanges ip [r] = Some True"
    by (auto simp: expand_length ipInRanges_word elim!: expand_word)
next
  assume l: "length ip = 4 \<and> ipInRanges ip [r] = Some True"
  then have "ip = uint32ToIP (word4 ip)" by (simp add: uint32ToIP_def put_word4)
  with l show "ip \<in> set (expandIPRange r)" using expand_inRange [of "word4 ip" r] ipInRanges_word [of "word4 ip" "[r]"] by simp
qed

text \<open>Preparing a claim again, at any later time, with any state of the cluster and any requested address, never
  gives it another address while the node's store still knows the first one.\<close>

theorem applyIPAM_same_address:
  assumes "applyIPAM K J d netCfg claim pod s = (Inr cfg, s1)" and "nc_IPPool netCfg \<noteq> []"
    and "sys_store s2 = sys_store s1" and "rc_UID claim2 = rc_UID claim" and "nc_IPPool netCfg2 \<noteq> []"
    and "applyIPAM K2 J2 d2 netCfg2 claim2 pod2 s2 = (Inr cfg2, s3)"
  shows "nc_IPPool netCfg2 = nc_IPPool netCfg \<and> nc_Address cfg2 = nc_Address cfg"
  using applyIPAM_records(1) [OF assms(1,2)] applyIPAM_records(3) [OF assms(6,5)] assms(3,4) by fastforce

theorem applyIPAM_same_address_witness:
  "\<exists>cfg s1 cfg2 s3. applyIPAM (server_kube id) const_codec sample_drv (sample_request []) sample_claim sample_pod fresh_node = (Inr cfg, s1)
    \<and> applyIPAM (server_kube id) const_codec sample_drv (sample_request []) sample_claim sample_pod (sample_node (sys_store s1)) = (Inr cfg2, s3)
    \<and> nc_Address cfg2 = nc_Address cfg"
proof -
  obtain cfg s1 where a: "applyIPAM (server_kube id) const_codec sample_drv (sample_request []) sample_claim sample_pod fresh_node
      = (Inr cfg, s1)" "nc_Address cfg = ''10.0.0.6/24''" using sample_apply_fresh by blast
  have ne: "nc_IPPool (sample_request []) \<noteq> []" "nc_IPPool (sample_request []) = ''lan''"
    by (simp_all add: sample_request_def no_network_def)
  from applyIPAM_records(1) [OF a(1) ne(1)] a(2) ne(2) have
      "ReserveIP const_codec ''lan'' ''10.0.0.6/24'' (rc_UID sample_claim) (pod_UID sample_pod) (sys_store s1) (sample_fs [])
        = (Inr (), sys_store s1, sample_fs [])" by (auto simp: ReserveIP_def AllocationForClaim_def)
  from sample_apply [OF this] obtain cfg2 s3 where b: "applyIPAM (server_kube id) const_codec sample_drv (sample_request []) sample_claim
      sample_pod (sample_node (sys_store s1)) = (Inr cfg2, s3)" by blast
  have "sys_store (sample_node (sys_store s1)) = sys_store s1" by (simp add: sample_node_def)
  from applyIPAM_same_address [OF a(1) ne(1) this refl ne(1) b] a(1) b show ?thesis by blast
qed
end
