(* ===== verification/Ip_Loops.thy ===== *)
theory Ip_Loops
  imports Ip_Ranges
begin

text \<open>
  The loop over an address range of \<^verbatim>\<open>expandIPRange\<close>, round by round: the counter is an unsigned 32-bit
  integer, and the range may end at the largest one, where the increment wraps around and the condition of
  the loop never fails.
\<close>

fun rangeLoop :: "nat \<Rightarrow> u32 \<Rightarrow> u32 \<Rightarrow> u32 list \<Rightarrow> u32 list option" where
  "rangeLoop 0 current stop ips = None"
| "rangeLoop (Suc fuel) current stop ips =
     (if current \<le> stop then
        (if current = - 1 then Some (ips @ [current]) else rangeLoop fuel (current + 1) stop (ips @ [current]))
      else Some ips)"

lemma countUp_length: "length (countUp a b) = unat b + 1 - unat a"
proof (induction a b rule: countUp.induct)
  case (1 a b)
  show ?case
  proof (cases "a \<le> b \<and> a \<noteq> - 1")
    case True
    then have "unat (a + 1) = unat a + 1" "unat a \<le> unat b" by (simp_all add: unat_plus_one word_le_nat_alt)
    with True 1 show ?thesis by (subst countUp.simps) simp
  next
    case False
    then consider "\<not> a \<le> b" | "a = - 1" "b = - 1" using max_word_le by auto
    then show ?thesis
    proof cases
      case 1
      then show ?thesis by (subst countUp.simps) (simp add: word_le_nat_alt)
    next
      case 2
      then show ?thesis by (subst countUp.simps) simp
    qed
  qed
qed

lemma rangeLoop_enough: "unat b + 1 - unat a < fuel \<Longrightarrow> rangeLoop fuel a b acc = Some (acc @ countUp a b)"
proof (induction fuel arbitrary: a acc)
  case (Suc fuel)
  show ?case
  proof (cases "a \<le> b \<and> a \<noteq> - 1")
    case True
    then have "unat (a + 1) = unat a + 1" "unat a \<le> unat b" by (simp_all add: unat_plus_one word_le_nat_alt)
    with True Suc.IH [of "a + 1"] Suc.prems show ?thesis by (subst countUp.simps) simp
  next
    case False
    then show ?thesis by (subst countUp.simps) auto
  qed
qed simp

text \<open>C40: the loop ends: after as many rounds as the range has addresses, and one more test, it has produced exactly the addresses from
  the first to the last in order, also for a range that ends at 255.255.255.255.\<close>

theorem rangeLoop_terminates:
  "rangeLoop (Suc (unat b + 1 - unat a)) a b [] = Some (countUp a b) \<and> length (countUp a b) = unat b + 1 - unat a"
  using rangeLoop_enough [of b a "Suc (unat b + 1 - unat a)" "[]"] by (simp add: countUp_length)

end
