(* ===== verification/Pod_Network.thy ===== *)
theory Pod_Network
  imports Store_Props Sha256
begin

text \<open>
  How \<^verbatim>\<open>internal/driver/driver.go\<close> settles the configuration of a requested interface: the
  operator's defaults merged with the claim's parameters, the interface name inside the pod, a static
  address from the pod's annotations, and the checks against what the operator allows.
\<close>

section \<open>Configuration\<close>

text \<open>Reading a key of a Go map of strings: the empty string when it is absent.\<close>

definition gget :: "string \<Rightarrow> (string \<times> string) list \<Rightarrow> string" where
  "gget k m = (case map_of m k of Some v \<Rightarrow> v | None \<Rightarrow> [])"

definition mergeConfig :: "NetworkConfig \<Rightarrow> NetworkConfig \<Rightarrow> NetworkConfig" where
  "mergeConfig dst src =
     dst\<lparr>nc_Type := (if nc_Type src \<noteq> [] then nc_Type src else nc_Type dst),
         nc_Mode := (if nc_Mode src \<noteq> [] then nc_Mode src else nc_Mode dst),
         nc_InterfaceName := (if nc_InterfaceName src \<noteq> [] then nc_InterfaceName src else nc_InterfaceName dst),
         nc_MTU := (if nc_MTU src > 0 then nc_MTU src else nc_MTU dst),
         nc_IPPool := (if nc_IPPool src \<noteq> [] then nc_IPPool src else nc_IPPool dst),
         nc_Address := (if nc_Address src \<noteq> [] then nc_Address src else nc_Address dst),
         nc_Addresses := (if nc_Addresses src \<noteq> [] then nc_Addresses src else nc_Addresses dst),
         nc_Gateway := (if nc_Gateway src \<noteq> [] then nc_Gateway src else nc_Gateway dst),
         nc_Routes := (if nc_Routes src \<noteq> [] then nc_Routes src else nc_Routes dst)\<rparr>"

definition validateConfig :: "InterfaceConfig \<Rightarrow> NetworkConfig \<Rightarrow> goerr + unit" where
  "validateConfig ifc cfg =
     (if \<not> Contains (ic_Types ifc) (nc_Type cfg) then
        Inl (Errorf ''interface %s does not allow type %q'' [ic_Name ifc, nc_Type cfg])
      else if nc_Type cfg = ''macvlan'' then
        if \<not> Contains (ic_MacvlanModes ifc) (nc_Mode cfg)
        then Inl (Errorf ''interface %s does not allow macvlan mode %q'' [ic_Name ifc, nc_Mode cfg]) else Inr ()
      else if nc_Type cfg = ''ipvlan'' then
        if \<not> Contains (ic_IPvlanModes ifc) (nc_Mode cfg)
        then Inl (Errorf ''interface %s does not allow ipvlan mode %q'' [ic_Name ifc, nc_Mode cfg]) else Inr ()
      else if nc_Type cfg = ''host-device'' then
        if ic_AllocationPolicy ifc \<noteq> ''exclusive''
        then Inl (Errorf ''interface %s host-device requires exclusive allocation policy'' [ic_Name ifc])
        else if nc_Mode cfg \<noteq> [] then Inl (Errorf ''host-device does not support mode %q'' [nc_Mode cfg]) else Inr ()
      else Inr ())"

text \<open>The first opaque configuration of this driver for the request; \<open>unmarshal\<close> is the JSON decoder.\<close>

fun configItems :: "(string \<Rightarrow> goerr + NetworkConfig) \<Rightarrow> string \<Rightarrow> ResourceClaim \<Rightarrow> string \<Rightarrow> DeviceConfiguration list
    \<Rightarrow> goerr + NetworkConfig" where
  "configItems unmarshal driverName claim request [] = Inr no_network"
| "configItems unmarshal driverName claim request (item # items) =
     (case dcf_Opaque item of
        None \<Rightarrow> configItems unmarshal driverName claim request items
      | Some (driver, raw) \<Rightarrow>
          if driver \<noteq> driverName then configItems unmarshal driverName claim request items
          else if dcf_Requests item \<noteq> [] \<and> \<not> Contains (dcf_Requests item) request
          then configItems unmarshal driverName claim request items
          else if raw = [] then configItems unmarshal driverName claim request items
          else (case unmarshal raw of
                  Inl err \<Rightarrow> Inl (Wrapf ''decode claim config for %s/%s request %s'' [rc_Namespace claim, rc_Name claim, request] err)
                | Inr cfg \<Rightarrow> Inr cfg))"

definition configForRequest :: "(string \<Rightarrow> goerr + NetworkConfig) \<Rightarrow> string \<Rightarrow> ResourceClaim \<Rightarrow> string \<Rightarrow> goerr + NetworkConfig" where
  "configForRequest unmarshal driverName claim request = configItems unmarshal driverName claim request (rc_Config claim)"

section \<open>Static addresses\<close>

fun staticFromBases :: "(string \<times> string) list \<Rightarrow> string \<Rightarrow> string list \<Rightarrow> goerr + string" where
  "staticFromBases annotations expectedPool [] = Inr []"
| "staticFromBases annotations expectedPool (base # bases) =
     (let address = TrimSpace (gget (base @ ''.address'') annotations);
          pool = TrimSpace (gget (base @ ''.ip-pool'') annotations)
      in if address = [] \<and> pool = [] then staticFromBases annotations expectedPool bases
         else if address = [] \<or> pool = [] then
           Inl (Errorf ''pod static network annotations %s.address and %s.ip-pool must be set together'' [base, base])
         else if expectedPool = [] then
           Inl (Errorf ''pod static network annotation %s.address requires ipPool in the ResourceClaim configuration'' [base])
         else if pool \<noteq> expectedPool then
           Inl (Errorf ''pod static network annotation %s.ip-pool=%q does not match ResourceClaim ipPool=%q'' [base, pool, expectedPool])
         else Inr address)"

definition podStaticAddress :: "(string \<times> string) list \<Rightarrow> string \<Rightarrow> string \<Rightarrow> string \<Rightarrow> goerr + string" where
  "podStaticAddress annotations request interfaceName expectedPool =
     (if annotations = [] then Inr []
      else staticFromBases annotations expectedPool [AttrPrefix @ ''/'' @ request, AttrPrefix @ ''/'' @ interfaceName])"

section \<open>Interface names\<close>

definition validatePodInterfaceName :: "string \<Rightarrow> goerr + unit" where
  "validatePodInterfaceName name =
     (if name = [] \<or> length name > 15 then Inl (Errorf ''interface name %q must contain 1 to 15 bytes'' [name])
      else if name = ''.'' \<or> name = ''..'' \<or> ContainsAny name (''/: '' @ [CHR 0x09, CHR 0x0D, CHR 0x0A]) then
        Inl (Errorf ''interface name %q contains unsupported characters'' [name])
      else Inr ())"

text \<open>The set of names the pod's devices have.\<close>

definition usedNames :: "Store \<Rightarrow> uid \<Rightarrow> string list" where
  "usedNames s podUID =
     (case GetPod podUID s of
        None \<Rightarrow> []
      | Some existingPod \<Rightarrow> filter (\<lambda>n. n \<noteq> []) (map (\<lambda>(_, existing). nc_InterfaceName (dev_Network existing)) (pod_devices existingPod)))"

text \<open>The loop over the annotation keys: an override, an error, or nothing.\<close>

fun overrideName :: "(string \<times> string) list \<Rightarrow> string list \<Rightarrow> string list \<Rightarrow> goerr + string option" where
  "overrideName annotations used [] = Inr None"
| "overrideName annotations used (reference # references) =
     (if reference = [] then overrideName annotations used references
      else
        let key = AttrPrefix @ ''/'' @ reference @ ''.interface-name'';
            override = TrimSpace (gget key annotations)
        in if override = [] then overrideName annotations used references
           else (case validatePodInterfaceName override of
                   Inl err \<Rightarrow> Inl (Wrapf ''pod annotation %s'' [key] err)
                 | Inr _ \<Rightarrow>
                     if Contains used override then
                       Inl (Errorf ''pod annotation %s requests interface name %q which is already in use'' [key, override])
                     else Inr (Some override)))"

text \<open>The search for the next free number, up to \<^verbatim>\<open>net9999\<close>.\<close>

function nextName :: "string list \<Rightarrow> int \<Rightarrow> string option" where
  "nextName used index =
     (if index < 10000 then
        let candidate = ''net'' @ Itoa index in
        if \<not> Contains used candidate then Some candidate else nextName used (index + 1)
      else None)"
  by pat_completeness auto
termination
  by (relation "measure (\<lambda>(used, index). nat (10000 - index))") auto

declare nextName.simps [simp del]

definition incrementName :: "string list \<Rightarrow> string \<Rightarrow> goerr + string" where
  "incrementName used configured =
     (if \<not> HasPrefix configured ''net'' then
        Inl (Errorf ''pod interface name %q is already in use; set a claim-specific .interface-name annotation'' [configured])
      else (case Atoi (TrimPrefix configured ''net'') of
              None \<Rightarrow> Inl (Errorf ''pod interface name %q is already in use; set a claim-specific .interface-name annotation'' [configured])
            | Some start \<Rightarrow>
                if start < 1 then
                  Inl (Errorf ''pod interface name %q is already in use; set a claim-specific .interface-name annotation'' [configured])
                else (case nextName used (start + 1) of
                        Some candidate \<Rightarrow> Inr candidate
                      | None \<Rightarrow> Inl (Errorf ''no available incremental interface name after %q'' [configured]))))"

definition recordedName :: "Store \<Rightarrow> uid \<Rightarrow> string \<Rightarrow> string" where
  "recordedName s podUID storageKey =
     (case GetPod podUID s of
        None \<Rightarrow> []
      | Some existingPod \<Rightarrow>
          (case map_of (pod_devices existingPod) storageKey of
             None \<Rightarrow> [] | Some existing \<Rightarrow> nc_InterfaceName (dev_Network existing)))"

definition podInterfaceName :: "Store \<Rightarrow> Pod \<Rightarrow> ResourceClaim \<Rightarrow> string \<Rightarrow> string \<Rightarrow> string \<Rightarrow> goerr + string" where
  "podInterfaceName s pod claim request storageKey configured0 =
     (if recordedName s (pod_UID pod) storageKey \<noteq> [] then Inr (recordedName s (pod_UID pod) storageKey)
      else
        let used = usedNames s (pod_UID pod);
            podClaimName = TrimSpace (gget PodClaimNameAnnotation (rc_Annotations claim))
        in case overrideName (pod_Annotations pod) used [podClaimName, request] of
             Inl err \<Rightarrow> Inl err
           | Inr (Some override) \<Rightarrow> Inr override
           | Inr None \<Rightarrow>
               (let configured = (if configured0 = [] then ''net1'' else configured0) in
                case validatePodInterfaceName configured of
                  Inl err \<Rightarrow> Inl err
                | Inr _ \<Rightarrow> if \<not> Contains used configured then Inr configured else incrementName used configured))"

definition deviceName :: "string \<Rightarrow> string" where
  "deviceName ifName = ReplaceAll ifName CHR ''.'' ''-''"

definition hostChildName :: "DeviceConfig \<Rightarrow> string" where
  "hostChildName cfg = take 12 (''lnd'' @ ReplaceAll (dev_ClaimUID cfg) CHR ''-'' [])"

section \<open>Link modes\<close>

datatype MacvlanMode = MACVLAN_MODE_PRIVATE | MACVLAN_MODE_VEPA | MACVLAN_MODE_PASSTHRU | MACVLAN_MODE_BRIDGE

datatype IPVlanMode = IPVLAN_MODE_L2 | IPVLAN_MODE_L3 | IPVLAN_MODE_L3S

definition macvlanMode :: "string \<Rightarrow> MacvlanMode" where
  "macvlanMode mode =
     (if mode = ''private'' then MACVLAN_MODE_PRIVATE else if mode = ''vepa'' then MACVLAN_MODE_VEPA
      else if mode = ''passthru'' then MACVLAN_MODE_PASSTHRU else MACVLAN_MODE_BRIDGE)"

definition ipvlanMode :: "string \<Rightarrow> IPVlanMode" where
  "ipvlanMode mode =
     (if mode = ''l3'' then IPVLAN_MODE_L3 else if mode = ''l3s'' then IPVLAN_MODE_L3S else IPVLAN_MODE_L2)"

section \<open>Pod sandboxes\<close>

text \<open>What the container runtime says of a pod: its namespaces by type and path, \<^const>\<open>None\<close> when it names none.\<close>

record PodSandbox =
  sb_Uid :: uid
  sb_Namespace :: string
  sb_Name :: string
  sb_Namespaces :: "(string \<times> string) list option"

definition networkNamespace :: "PodSandbox \<Rightarrow> string" where
  "networkNamespace pod = (case sb_Namespaces pod of None \<Rightarrow> [] | Some nss \<Rightarrow> gget ''network'' nss)"

section \<open>Lemmas\<close>

lemma nextName_Some:
  "nextName used i = Some c \<Longrightarrow> 0 \<le> i \<Longrightarrow> c \<notin> set used \<and> (\<exists>k. i \<le> k \<and> k < 10000 \<and> c = ''net'' @ Itoa k)"
proof (induction used i rule: nextName.induct)
  case (1 used i)
  show ?case
  proof (cases "i < 10000 \<and> ''net'' @ Itoa i \<in> set used")
    case True
    with 1(2) have "nextName used (i + 1) = Some c" by (subst (asm) nextName.simps) (simp add: Let_def)
    with 1(1) [of "''net'' @ Itoa i"] True 1(3) obtain k where "c \<notin> set used" "i + 1 \<le> k" "k < 10000" "c = ''net'' @ Itoa k"
      by auto
    then show ?thesis by (intro conjI exI [of _ k]) simp_all
  next
    case False
    with 1(2) have "i < 10000" "c = ''net'' @ Itoa i" by (subst (asm) nextName.simps, simp add: Let_def split: if_splits)+
    with False show ?thesis by blast
  qed
qed

lemma nextName_None:
  "nextName used i = None \<Longrightarrow> i \<le> k \<Longrightarrow> k < 10000 \<Longrightarrow> ''net'' @ Itoa k \<in> set used"
proof (induction used i rule: nextName.induct)
  case (1 used i)
  from 1(2-4) have "''net'' @ Itoa i \<in> set used" "nextName used (i + 1) = None"
    by (subst (asm) nextName.simps, simp add: Let_def split: if_splits)+
  with 1 show ?case by (cases "k = i") auto
qed

lemma utoa_length4: "n < 10000 \<Longrightarrow> length (utoa n) \<le> 4"
proof -
  have 1: "length (utoa n) = 1" if "n < 10" for n using that by (subst utoa.simps) simp
  have 2: "length (utoa n) \<le> 2" if "n < 100" for n
    using that 1 [of n] 1 [of "n div 10"] by (cases "n < 10") (simp, subst utoa.simps, simp)
  have 3: "length (utoa n) \<le> 3" if "n < 1000" for n
    using that 1 [of n] 2 [of "n div 10"] by (cases "n < 10") (simp, subst utoa.simps, simp)
  show "n < 10000 \<Longrightarrow> length (utoa n) \<le> 4"
    using 1 [of n] 3 [of "n div 10"] by (cases "n < 10") (simp, subst utoa.simps, simp)
qed

lemma validName_iff:
  "validatePodInterfaceName n = Inr u \<longleftrightarrow> n \<noteq> [] \<and> length n \<le> 15 \<and> n \<noteq> ''.'' \<and> n \<noteq> ''..''
     \<and> set n \<inter> set (''/: '' @ [CHR 0x09, CHR 0x0D, CHR 0x0A]) = {}"
  by (auto simp: validatePodInterfaceName_def ContainsAny_def list_ex_iff)

lemma digit_not_special: "is_digit c \<Longrightarrow> c \<notin> set (''/: '' @ [CHR 0x09, CHR 0x0D, CHR 0x0A])"
  by (auto simp: is_digit_def)

lemma valid_net: "0 \<le> k \<Longrightarrow> k < 10000 \<Longrightarrow> validatePodInterfaceName (''net'' @ Itoa k) = Inr ()"
proof -
  assume k: "0 \<le> k" "k < 10000"
  then have t: "Itoa k = utoa (nat k)" by (simp add: Itoa_def)
  have l: "length (utoa (nat k)) \<le> 4" using k by (intro utoa_length4) simp
  have "set (utoa (nat k)) \<inter> set (''/: '' @ [CHR 0x09, CHR 0x0D, CHR 0x0A]) = {}"
    using utoa_digits [of "nat k"] digit_not_special unfolding list_all_iff by blast
  with l show ?thesis unfolding t validName_iff by auto
qed

lemma overrideName_Some:
  "overrideName ann used refs = Inr (Some n) \<Longrightarrow> validatePodInterfaceName n = Inr () \<and> n \<notin> set used"
  by (induction ann used refs rule: overrideName.induct)
    (auto simp: Let_def split: if_splits sum.splits)

lemma incrementName_Inr:
  assumes "incrementName used c = Inr n"
  shows "validatePodInterfaceName n = Inr () \<and> n \<notin> set used"
proof -
  from assms obtain start where "nextName used (start + 1) = Some n" "1 \<le> start"
    by (auto simp: incrementName_def split: if_splits option.splits)
  then obtain k where k: "n = ''net'' @ Itoa k" "start + 1 \<le> k" "k < 10000" "n \<notin> set used"
    using nextName_Some [of used "start + 1" n] by auto
  with \<open>1 \<le> start\<close> valid_net [of k] show ?thesis by (simp del: append.simps)
qed

lemma Itoa_inj: "0 \<le> i \<Longrightarrow> 0 \<le> j \<Longrightarrow> Itoa i = Itoa j \<longleftrightarrow> i = j"
  by (auto simp: Itoa_def)

lemma nextName_pigeon:
  assumes "0 \<le> i" and "int (length used) < 10000 - i"
  shows "\<exists>c. nextName used i = Some c"
proof (rule ccontr)
  assume "\<not> ?thesis"
  then have n: "nextName used i = None" by auto
  let ?f = "\<lambda>k. ''net'' @ Itoa k"
  have "?f ` {i..<10000} \<subseteq> set used" using nextName_None [OF n] by auto
  moreover have "inj_on ?f {i..<10000}" using assms(1) Itoa_inj by (auto simp: inj_on_def)
  ultimately have "card {i..<10000} \<le> card (set used)"
    by (metis card_image card_mono finite_set)
  with assms(2) card_length [of used] show False by simp
qed

section \<open>Sample data\<close>

definition named_pod :: Pod where
  "named_pod = \<lparr>pod_Namespace = ''default'', pod_Name = ''pod-a'', pod_UID = ''pod-a-uid'', pod_Annotations = [],
     pod_ReadinessGates = [], pod_Conditions = []\<rparr>"

definition bare_claim :: ResourceClaim where
  "bare_claim = \<lparr>rc_Namespace = ''default'', rc_Name = ''net-b'', rc_UID = ''uid-b'', rc_Generation = 1,
     rc_Annotations = [], rc_ReservedFor = [], rc_Results = [], rc_Config = [], rc_Devices = []\<rparr>"

text \<open>The pod already has the device \<open>sample_device\<close>, attached as \<^verbatim>\<open>net1\<close>.\<close>

definition one_device :: Store where
  "one_device = putDevice ''pod-a-uid'' ''uid-a/eth1'' sample_device (empty_store [])"

lemma one_device_lookup: "lookupDevice one_device ''pod-a-uid'' k = (if k = ''uid-a/eth1'' then Some sample_device else None)"
  by (simp add: one_device_def lookup_putDevice) (simp add: lookupDevice_def GetPod_def empty_store_def pods_def)

lemma second_name: "podInterfaceName one_device named_pod bare_claim ''req'' ''uid-b/eth1'' ''net1'' = Inr ''net2''"
  by code_simp

section \<open>Properties\<close>



text \<open>Once a device is recorded, its interface name never changes: whatever the annotations, the claim and the
  configuration say on a later call, the recorded name is returned.\<close>

theorem podInterfaceName_stable:
  assumes "nc_InterfaceName (dev_Network cfg) \<noteq> []"
  shows "podInterfaceName (putDevice (pod_UID pod) key cfg s) pod claim request key configured
    = Inr (nc_InterfaceName (dev_Network cfg))"
proof -
  have "lookupDevice (putDevice (pod_UID pod) key cfg s) (pod_UID pod) key = Some cfg" by (simp add: lookup_putDevice)
  then have "recordedName (putDevice (pod_UID pod) key cfg s) (pod_UID pod) key = nc_InterfaceName (dev_Network cfg)"
    by (auto simp: recordedName_def lookupDevice_def GetPod_def split: option.splits)
  with assms show ?thesis by (simp add: podInterfaceName_def)
qed

theorem podInterfaceName_stable_witness:
  "podInterfaceName (putDevice (pod_UID named_pod) ''uid-a/eth1'' sample_device (empty_store [])) named_pod bare_claim
     ''other'' ''uid-a/eth1'' ''net7'' = Inr ''net1''"
proof -
  have n: "nc_InterfaceName (dev_Network sample_device) = ''net1''" by code_simp
  then show ?thesis using podInterfaceName_stable [of sample_device named_pod] by simp
qed

text \<open>C36: the search for a name terminates with one: a pod without an override annotation and with fewer than 9998
  named interfaces always gets a name for a device that asks for none.\<close>

theorem podInterfaceName_available:
  assumes "overrideName (pod_Annotations pod) (usedNames s (pod_UID pod))
      [TrimSpace (gget PodClaimNameAnnotation (rc_Annotations claim)), request] = Inr None"
    and "length (usedNames s (pod_UID pod)) < 9998"
  shows "\<exists>name. podInterfaceName s pod claim request key [] = Inr name"
proof -
  let ?used = "usedNames s (pod_UID pod)"
  have a: "Atoi (TrimPrefix ''net1'' ''net'') = Some 1" by code_simp
  from nextName_pigeon [of 2 ?used] assms(2) obtain c where "nextName ?used 2 = Some c" by auto
  then have "incrementName ?used ''net1'' = Inr c"
    using a by (simp add: incrementName_def HasPrefix_def)
  then show ?thesis using assms(1)
    by (auto simp: podInterfaceName_def Let_def validatePodInterfaceName_def ContainsAny_def simp del: overrideName.simps)
qed

theorem podInterfaceName_available_witness:
  "\<exists>name. podInterfaceName one_device named_pod bare_claim ''req'' ''uid-b/eth1'' [] = Inr name"
proof -
  have u: "usedNames one_device (pod_UID named_pod) = [''net1'']" by code_simp
  have o: "overrideName (pod_Annotations named_pod) (usedNames one_device (pod_UID named_pod))
      [TrimSpace (gget PodClaimNameAnnotation (rc_Annotations bare_claim)), ''req''] = Inr None" by code_simp
  from podInterfaceName_available [OF o] u show ?thesis by simp
qed

text \<open>Layering configurations is associative, and an empty layer changes nothing: the order in which defaults
  and overrides are folded together does not matter.\<close>

theorem mergeConfig_monoid:
  "mergeConfig (mergeConfig a b) c = mergeConfig a (mergeConfig b c) \<and> mergeConfig a no_network = a"
  by (simp add: mergeConfig_def no_network_def)

text \<open>A static address annotation is honoured only together with a pool annotation that names the pool of the
  claim's configuration.\<close>

theorem podStaticAddress_pool:
  assumes "podStaticAddress ann request ifName pool = Inr address" and "address \<noteq> []"
  shows "pool \<noteq> [] \<and> (\<exists>base. base \<in> {AttrPrefix @ ''/'' @ request, AttrPrefix @ ''/'' @ ifName}
    \<and> TrimSpace (gget (base @ ''.address'') ann) = address \<and> TrimSpace (gget (base @ ''.ip-pool'') ann) = pool)"
  using assms by (auto simp: podStaticAddress_def Let_def split: if_splits)

theorem podStaticAddress_pool_witness:
  "podStaticAddress [(''linux-net.dra.infinitydon.com/req.address'', ''10.0.0.5/24''),
       (''linux-net.dra.infinitydon.com/req.ip-pool'', '' lan '')] ''req'' ''net1'' ''lan'' = Inr ''10.0.0.5/24''
   \<and> (\<exists>base. TrimSpace (gget (base @ ''.ip-pool'') [(''linux-net.dra.infinitydon.com/req.address'', ''10.0.0.5/24''),
       (''linux-net.dra.infinitydon.com/req.ip-pool'', '' lan '')]) = ''lan'')"
proof -
  have p: "podStaticAddress [(''linux-net.dra.infinitydon.com/req.address'', ''10.0.0.5/24''),
      (''linux-net.dra.infinitydon.com/req.ip-pool'', '' lan '')] ''req'' ''net1'' ''lan'' = Inr ''10.0.0.5/24''"
    by code_simp
  from podStaticAddress_pool [OF p] p show ?thesis by auto
qed

text \<open>The name under which a child link is created on the host is a legal interface name for every claim UID
  made of letters, digits and hyphens.\<close>

theorem hostChildName_legal:
  assumes "list_all (\<lambda>c. lower_alnum c \<or> c = CHR ''-'') (dev_ClaimUID cfg)"
  shows "validatePodInterfaceName (hostChildName cfg) = Inr () \<and> length (hostChildName cfg) \<le> 12"
proof -
  have "set (hostChildName cfg) \<subseteq> set (''lnd'' @ ReplaceAll (dev_ClaimUID cfg) CHR ''-'' [])"
    unfolding hostChildName_def by (rule set_take_subset)
  also have "\<dots> \<subseteq> set ''lnd'' \<union> {c. lower_alnum c}" using assms by (auto simp: ReplaceAll_def list_all_iff)
  finally have "set (hostChildName cfg) \<inter> set (''/: '' @ [CHR 0x09, CHR 0x0D, CHR 0x0A]) = {}"
    by (auto simp: lower_alnum_def is_digit_def)
  moreover have "length (hostChildName cfg) \<le> 12" "HasPrefix (hostChildName cfg) ''lnd''"
    by (simp_all add: hostChildName_def HasPrefix_def)
  ultimately show ?thesis by (auto simp: validName_iff HasPrefix_def)
qed

theorem hostChildName_legal_witness:
  "validatePodInterfaceName (hostChildName (sample_device\<lparr>dev_ClaimUID := ''5f0a2c9e-7d41-4c0b-9a55-0d1e2f3a4b5c''\<rparr>)) = Inr ()"
proof -
  have "list_all (\<lambda>c. lower_alnum c \<or> c = CHR ''-'')
      (dev_ClaimUID (sample_device\<lparr>dev_ClaimUID := ''5f0a2c9e-7d41-4c0b-9a55-0d1e2f3a4b5c''\<rparr>))" by code_simp
  from hostChildName_legal [OF this] show ?thesis by blast
qed

text \<open>C37: the default mode given to an interface is \<^verbatim>\<open>bridge\<close> whatever its default type, so a claim that leaves
  type and mode to the defaults of an interface offering only \<^verbatim>\<open>ipvlan\<close> is always refused.\<close>

theorem ipvlan_default_refused:
  assumes "loadInterface i ifc = Inr ifc'" and "ic_Types ifc = [''ipvlan'']" and "ic_IPvlanModes ifc = []"
    and "ic_DefaultType ifc = []" and "ic_DefaultMode ifc = []"
  shows "\<exists>err. validateConfig ifc' (no_network\<lparr>nc_Type := ic_DefaultType ifc', nc_Mode := ic_DefaultMode ifc'\<rparr>) = Inl err"
proof -
  from assms(1) obtain policy where "ifc' = interfaceDefaults policy ifc"
    by (rule loadInterface_Inr)
  then have "ic_Types ifc' = [''ipvlan'']" "ic_DefaultType ifc' = ''ipvlan''" "ic_DefaultMode ifc' = ''bridge''"
      "ic_IPvlanModes ifc' = [''l2'', ''l3'', ''l3s'']"
    using assms(2-) by (simp_all add: interfaceDefaults_def typesOrDefault_def or_default_def Let_def)
  then show ?thesis by (simp add: validateConfig_def)
qed

theorem ipvlan_default_refused_witness:
  "\<exists>ifc' err. loadInterface 0 (sample_interface\<lparr>ic_Types := [''ipvlan''], ic_IPvlanModes := [], ic_DefaultType := [],
       ic_DefaultMode := []\<rparr>) = Inr ifc'
     \<and> validateConfig ifc' (no_network\<lparr>nc_Type := ic_DefaultType ifc', nc_Mode := ic_DefaultMode ifc'\<rparr>) = Inl err"
proof -
  let ?i = "sample_interface\<lparr>ic_Types := [''ipvlan''], ic_IPvlanModes := [], ic_DefaultType := [], ic_DefaultMode := []\<rparr>"
  have "loadInterface 0 ?i = Inr (interfaceDefaults ''shared'' ?i)" by code_simp
  from ipvlan_default_refused [OF this] this show ?thesis by auto
qed

end
