(* ===== verification/Net_API.thy ===== *)
theory Net_API
  imports Kube_API Pod_Network Go_Net
begin

text \<open>
  The node's side of the program: the netlink and network-namespace libraries and the kubelet
  helper and the runtime's plugin interface, none of which is part of the repository.  They are parameters, fields of the record
  \<open>host\<close> which extends the record of the API calls, and act on the same abstract world \<open>'w\<close>
  (the namespace a thread is in is part of that world).  A \<open>Link\<close> is the attributes as the
  library returned them: later calls do not change it.  \<open>eText\<close> is the text of an error
  (\<^verbatim>\<open>err.Error()\<close>), which for errors of the API server and the kernel is theirs to choose.  Closing a namespace handle has no
  effect here.
\<close>

section \<open>Hardware addresses\<close>

text \<open>\<^verbatim>\<open>HardwareAddr.String\<close> and \<^verbatim>\<open>net.ParseMAC\<close>.\<close>

definition hex_byte :: "u8 \<Rightarrow> string" where
  "hex_byte b = map (\<lambda>d. if d < 10 then char_of (48 + d) else char_of (87 + d)) [unat b div 16, unat b mod 16]"

definition HardwareAddr_String :: "u8 list \<Rightarrow> string" where
  "HardwareAddr_String hw = Join (map hex_byte hw) '':''"

fun macPairs :: "char \<Rightarrow> string \<Rightarrow> u8 list option" where
  "macPairs sep [a, b] = (if is_hex a \<and> is_hex b then Some [of_nat (hex_number [a, b])] else None)"
| "macPairs sep (a # b # c # rest) =
     (if is_hex a \<and> is_hex b \<and> c = sep then map_option ((#) (of_nat (hex_number [a, b]))) (macPairs sep rest) else None)"
| "macPairs sep _ = None"

fun macQuads :: "string \<Rightarrow> u8 list option" where
  "macQuads [a, b, c, d] =
     (if list_all is_hex [a, b, c, d] then Some [of_nat (hex_number [a, b]), of_nat (hex_number [c, d])] else None)"
| "macQuads (a # b # c # d # e # rest) =
     (if list_all is_hex [a, b, c, d] \<and> e = CHR ''.''
      then map_option (\<lambda>hw. of_nat (hex_number [a, b]) # of_nat (hex_number [c, d]) # hw) (macQuads rest) else None)"
| "macQuads _ = None"

definition ParseMAC :: "string \<Rightarrow> u8 list option" where
  "ParseMAC s =
     (if length s < 14 then None
      else
        let hw = (if s ! 2 = CHR '':'' \<or> s ! 2 = CHR ''-'' then macPairs (s ! 2) s
                  else if s ! 4 = CHR ''.'' then macQuads s else None)
        in case hw of
             None \<Rightarrow> None
           | Some bs \<Rightarrow> if length bs = 6 \<or> length bs = 8 \<or> length bs = 20 then Some bs else None)"

text \<open>\<^verbatim>\<open>strings.EqualFold\<close> on ASCII text.\<close>

definition EqualFold :: "string \<Rightarrow> string \<Rightarrow> bool" where
  "EqualFold a b \<longleftrightarrow> ToLower a = ToLower b"

section \<open>Links, addresses and routes\<close>

record Link =
  lk_Index :: int
  lk_Name :: string
  lk_HardwareAddr :: "u8 list"
  lk_MTU :: int
  lk_Up :: bool
  lk_OperState :: string
  lk_MasterIndex :: int

datatype LinkKind = Macvlan MacvlanMode | IPVlan IPVlanMode

text \<open>A link to be created; an MTU of 0 leaves the choice to the kernel.\<close>

record LinkSpec =
  ls_Name :: string
  ls_ParentIndex :: int
  ls_MTU :: int
  ls_Kind :: LinkKind

record Addr =
  ad_IPNet :: "ipnet option"
  ad_Label :: string
  ad_Flags :: int
  ad_Scope :: int
  ad_Peer :: "ipnet option"
  ad_Broadcast :: ip
  ad_PreferedLft :: int
  ad_ValidLft :: int

record NetRoute =
  nr_LinkIndex :: int
  nr_Dst :: "ipnet option"
  nr_Gw :: ip

section \<open>Published devices\<close>

datatype DeviceAttribute = StringValue string | BoolValue bool | IntValue int

record PublishedDevice =
  pd_Name :: string
  pd_Attributes :: "(string \<times> DeviceAttribute) list"
  pd_AllowMultipleAllocations :: bool

section \<open>Calls\<close>

type_synonym nshandle = nat

record 'w host = "'w kube" +
  nLinkByName :: "string \<Rightarrow> ('w, Link) eff"
  nLinkList :: "('w, Link list) eff"
  nLinkAdd :: "LinkSpec \<Rightarrow> ('w, Link) eff"
  nLinkDel :: "Link \<Rightarrow> ('w, unit) eff"
  nLinkSetNsFd :: "Link \<Rightarrow> nshandle \<Rightarrow> ('w, unit) eff"
  nLinkSetName :: "Link \<Rightarrow> string \<Rightarrow> ('w, unit) eff"
  nLinkSetUp :: "Link \<Rightarrow> ('w, unit) eff"
  nLinkSetDown :: "Link \<Rightarrow> ('w, unit) eff"
  nLinkSetMTU :: "Link \<Rightarrow> int \<Rightarrow> ('w, unit) eff"
  nLinkSetHardwareAddr :: "Link \<Rightarrow> u8 list \<Rightarrow> ('w, unit) eff"
  nAddrList :: "Link \<Rightarrow> ('w, Addr list) eff"
  nAddrAdd :: "Link \<Rightarrow> Addr \<Rightarrow> ('w, unit) eff"
  nAddrDel :: "Link \<Rightarrow> Addr \<Rightarrow> ('w, unit) eff"
  nRouteAdd :: "NetRoute \<Rightarrow> ('w, unit) eff"
  nRouteList :: "Link \<Rightarrow> ('w, NetRoute list) eff"
  nNsGet :: "('w, nshandle) eff"
  nNsGetFromPath :: "string \<Rightarrow> ('w, nshandle) eff"
  nNsSet :: "nshandle \<Rightarrow> ('w, unit) eff"
  nParseAddr :: "string \<Rightarrow> goerr + Addr"
  nParseIPNet :: "string \<Rightarrow> goerr + ipnet"
  eText :: "goerr \<Rightarrow> string"
  hKubeletPluginsDir :: string
  hKubeletRegistryDir :: string
  hStartPlugin :: "string \<Rightarrow> string \<Rightarrow> string \<Rightarrow> string \<Rightarrow> ('w, unit) eff"
  hStopPlugin :: "('w, unit) eff"
  hNewStub :: "string \<Rightarrow> string \<Rightarrow> ('w, unit) eff"
  hPublishResources :: "(string \<times> PublishedDevice list) list \<Rightarrow> ('w, unit) eff"

section \<open>Lemmas\<close>

lemma hex_byte_parse: "hex_byte b = [x, y] \<Longrightarrow> is_hex x \<and> is_hex y \<and> of_nat (hex_number [x, y]) = b"
proof -
  have d: "is_hex c \<and> hex_value c = d" if "c = (if d < 10 then char_of (48 + d) else char_of (87 + d))" "d < 16" for c :: char and d :: nat
    using that by (auto simp: is_hex_def is_digit_def hex_value_def Let_def)
  assume h: "hex_byte b = [x, y]"
  have u: "unat b < 256" using unat_u8_le [of b] by linarith
  from h d [of x "unat b div 16"] d [of y "unat b mod 16"] u show ?thesis
    by (auto simp: hex_byte_def hex_number_def)
qed

lemma macPairs_String:
  "hw \<noteq> [] \<Longrightarrow> macPairs CHR '':'' (HardwareAddr_String hw) = Some hw"
proof (induction hw)
  case (Cons b hw)
  obtain x y where xy: "hex_byte b = [x, y]" by (simp add: hex_byte_def)
  note p = hex_byte_parse [OF xy]
  show ?case
  proof (cases hw)
    case Nil
    with xy p show ?thesis by (simp add: HardwareAddr_String_def)
  next
    case (Cons c cs)
    obtain u v where uv: "hex_byte c = [u, v]" by (simp add: hex_byte_def)
    have "macPairs CHR '':'' (HardwareAddr_String hw) = Some hw" using Cons.IH Cons by simp
    with xy p Cons show ?thesis by (simp add: HardwareAddr_String_def)
  qed
qed simp

end
