(* ===== verification/Attributes.thy ===== *)
theory Attributes
  imports Net_API Driver_State
begin

text \<open>
  The attributes under which a device is published (\<^verbatim>\<open>deviceAttributes\<close>, \<^verbatim>\<open>storedDeviceAttributes\<close> and
  \<^verbatim>\<open>deviceAttributesFromValues\<close> in \<^verbatim>\<open>driver.go\<close>, \<^verbatim>\<open>dpdkDeviceAttributes\<close> in \<^verbatim>\<open>dpdk.go\<close>): a Go map
  from qualified names to values.
\<close>

type_synonym attrs = "(string \<times> DeviceAttribute) list"

definition setString :: "string \<Rightarrow> string \<Rightarrow> attrs \<Rightarrow> attrs" where
  "setString name value attrs = gput name (StringValue value) attrs"

definition setBoolAttribute :: "string \<Rightarrow> bool \<Rightarrow> attrs \<Rightarrow> attrs" where
  "setBoolAttribute name value attrs = gput name (BoolValue value) attrs"

definition setInt :: "string \<Rightarrow> int \<Rightarrow> attrs \<Rightarrow> attrs" where
  "setInt name value attrs = gput name (IntValue value) attrs"

text \<open>An empty string is not published.\<close>

definition setStringAttribute :: "string \<Rightarrow> string \<Rightarrow> attrs \<Rightarrow> attrs" where
  "setStringAttribute name value attrs = (if value \<noteq> [] then gput name (StringValue value) attrs else attrs)"

text \<open>A sequence of statements on the map.\<close>

definition setAll :: "(attrs \<Rightarrow> attrs) list \<Rightarrow> attrs \<Rightarrow> attrs" where
  "setAll fs attrs = fold (\<lambda>f. f) fs attrs"

definition setIdentityAttributes :: "InterfaceIdentity \<Rightarrow> attrs \<Rightarrow> attrs" where
  "setIdentityAttributes identity = setAll
     [setStringAttribute AttrKernelDriver (ii_KernelDriver identity),
      setStringAttribute AttrBusType (ii_BusType identity),
      setStringAttribute AttrPCIAddress (ii_PCIAddress identity),
      setStringAttribute AttrStandardPCIBusID (ii_PCIAddress identity),
      setStringAttribute AttrStandardPCIeRoot (ii_PCIeRoot identity),
      setStringAttribute AttrPCIVendorID (ii_PCIVendorID identity),
      setStringAttribute AttrPCIDeviceID (ii_PCIDeviceID identity)]"

definition adminState :: "Link \<Rightarrow> string" where
  "adminState link = (if lk_Up link then ''up'' else ''down'')"

definition deviceAttributes :: "InterfaceConfig \<Rightarrow> Link \<Rightarrow> InterfaceIdentity \<Rightarrow> attrs" where
  "deviceAttributes ifc link identity = setAll
     [setString AttrInterface (ic_Name ifc),
      setString AttrMAC (HardwareAddr_String (lk_HardwareAddr link)),
      setString AttrTypes (Join (ic_Types ifc) '',''),
      setString AttrMacvlanModes (Join (ic_MacvlanModes ifc) '',''),
      setString AttrIPvlanModes (Join (ic_IPvlanModes ifc) '',''),
      setBoolAttribute AttrMacvlan (Contains (ic_Types ifc) ''macvlan''),
      setBoolAttribute AttrIPvlan (Contains (ic_Types ifc) ''ipvlan''),
      setBoolAttribute AttrHostDevice (Contains (ic_Types ifc) ''host-device''),
      setBoolAttribute AttrDPDK False,
      setBoolAttribute AttrDefault (ic_Default ifc),
      setInt AttrMTU (lk_MTU link),
      setString AttrPolicy (ic_AllocationPolicy ifc),
      setString AttrAdminState (adminState link),
      setString AttrOperState (ToLower (lk_OperState link)),
      setIdentityAttributes identity] []"

definition deviceAttributesFromValues :: "InterfaceConfig \<Rightarrow> string \<Rightarrow> int \<Rightarrow> InterfaceIdentity \<Rightarrow> attrs" where
  "deviceAttributesFromValues ifc mac mtu identity = setAll
     [setStringAttribute AttrInterface (ic_Name ifc),
      setStringAttribute AttrMAC mac,
      setStringAttribute AttrTypes (Join (ic_Types ifc) '',''),
      setStringAttribute AttrMacvlanModes (Join (ic_MacvlanModes ifc) '',''),
      setStringAttribute AttrIPvlanModes (Join (ic_IPvlanModes ifc) '',''),
      setStringAttribute AttrPolicy (ic_AllocationPolicy ifc),
      setBoolAttribute AttrMacvlan (Contains (ic_Types ifc) ''macvlan''),
      setBoolAttribute AttrIPvlan (Contains (ic_Types ifc) ''ipvlan''),
      setBoolAttribute AttrHostDevice (Contains (ic_Types ifc) ''host-device''),
      setBoolAttribute AttrDPDK False,
      setBoolAttribute AttrDefault (ic_Default ifc),
      setInt AttrMTU mtu,
      setIdentityAttributes identity] []"

text \<open>The device record is one with a host-device state: \<^verbatim>\<open>storedInterface\<close> returns no other.\<close>

definition storedDeviceAttributes :: "InterfaceConfig \<Rightarrow> DeviceConfig \<Rightarrow> HostDeviceState \<Rightarrow> attrs" where
  "storedDeviceAttributes ifc cfg hs =
     setString AttrOperState ''allocated''
       (deviceAttributesFromValues ifc (hd_OriginalMAC hs) (hd_OriginalMTU hs) (dev_Identity cfg))"

definition attributeString :: "string \<Rightarrow> string" where
  "attributeString value = (if length value > 64 then take 64 value else value)"

definition dpdkDeviceAttributes :: "dpdkDevice \<Rightarrow> attrs" where
  "dpdkDeviceAttributes device =
     (let st = dd_State device in setAll
       [setBoolAttribute AttrDPDK True,
        setBoolAttribute AttrMacvlan False,
        setBoolAttribute AttrIPvlan False,
        setBoolAttribute AttrHostDevice False,
        setStringAttribute AttrTypes ''dpdk'',
        setStringAttribute AttrPolicy ''exclusive'',
        setStringAttribute AttrBusType ''pci'',
        setStringAttribute AttrPCIAddress (ds_PCIAddress st),
        setStringAttribute AttrStandardPCIBusID (ds_PCIAddress st),
        setStringAttribute AttrStandardPCIeRoot (ds_PCIeRoot st),
        setStringAttribute AttrPCIClass (ds_PCIClass st),
        setStringAttribute AttrPCIVendorID (ds_VendorID st),
        setStringAttribute AttrPCIDeviceID (ds_DeviceID st),
        setStringAttribute AttrVendorName (attributeString (ds_VendorName st)),
        setStringAttribute AttrDeviceName (attributeString (ds_DeviceName st)),
        setStringAttribute AttrSubsystemVendorID (ds_SubsystemVendorID st),
        setStringAttribute AttrSubsystemDeviceID (ds_SubsystemDeviceID st),
        setStringAttribute AttrKernelDriver (ds_CurrentDriver st),
        setStringAttribute AttrCompatibleDriver (Join (ds_CompatibleKernelDrivers st) '',''),
        setStringAttribute AttrIOMMUGroup (ds_IOMMUGroup st),
        setStringAttribute AttrIOMMUMode (ds_IOMMUMode st),
        setStringAttribute AttrNUMANode (Itoa (ds_NUMANode st))] [])"

section \<open>Lemmas\<close>

lemma setAll_simps [simp]: "setAll [] a = a" "setAll (f # fs) a = setAll fs (f a)"
  by (simp_all add: setAll_def)

lemmas set_attribute_defs = setString_def setBoolAttribute_def setInt_def setStringAttribute_def

text \<open>Every statement sets keys of its own: reading a key back.\<close>

lemma map_of_setters [simp]:
  "map_of (setString n v a) = (map_of a)(n \<mapsto> StringValue v)"
  "map_of (setBoolAttribute n b a) = (map_of a)(n \<mapsto> BoolValue b)"
  "map_of (setInt n i a) = (map_of a)(n \<mapsto> IntValue i)"
  "map_of (setStringAttribute n v a) = (if v \<noteq> [] then (map_of a)(n \<mapsto> StringValue v) else map_of a)"
  by (simp_all add: set_attribute_defs)

end
