(* ===== verification/Inventory.thy ===== *)
theory Inventory
  imports Driver_Types Go_OS Go_Net
begin

text \<open>
  \<^verbatim>\<open>internal/driver/inventory.go\<close>: what the driver reads about an interface from the kernel's
  device tree.  All functions only read the file system.  The snapshot of a link is in \<^verbatim>\<open>Host_Device\<close>.
\<close>

section \<open>Reading\<close>

text \<open>\<^verbatim>\<open>bufio.Scanner\<close> over lines: a carriage return before the newline goes, an empty last line is not
  delivered.  The scanner's limit of 64 KiB for a line is not modelled.\<close>

definition dropCR :: "string \<Rightarrow> string" where
  "dropCR s = (if s \<noteq> [] \<and> last s = CHR 0x0D then butlast s else s)"

definition scanLines :: "string \<Rightarrow> string list" where
  "scanLines s = (let ls = Split s CHR 0x0A in map dropCR (if last ls = [] then butlast ls else ls))"

text \<open>\<^verbatim>\<open>strings.Cut\<close> at a separator of one byte.\<close>

definition Cut :: "string \<Rightarrow> char \<Rightarrow> (string \<times> string) option" where
  "Cut s sep =
     (case dropWhile (\<lambda>c. c \<noteq> sep) s of [] \<Rightarrow> None | _ # after \<Rightarrow> Some (takeWhile (\<lambda>c. c \<noteq> sep) s, after))"

definition readLines :: "fsys \<Rightarrow> string \<Rightarrow> string list" where
  "readLines fs p = (case os_ReadFile fs p of Inl _ \<Rightarrow> [] | Inr data \<Rightarrow> scanLines data)"

fun ueventValues :: "string list \<Rightarrow> (string \<times> string) list \<Rightarrow> (string \<times> string) list" where
  "ueventValues [] values = values"
| "ueventValues (line # ls) values =
     (case Cut line CHR ''='' of
        Some (key, value) \<Rightarrow> ueventValues ls (gput key value values)
      | None \<Rightarrow> ueventValues ls values)"

definition readUevent :: "fsys \<Rightarrow> string \<Rightarrow> (string \<times> string) list" where
  "readUevent fs p = ueventValues (readLines fs p) []"

definition trimHexFile :: "fsys \<Rightarrow> string \<Rightarrow> string" where
  "trimHexFile fs p =
     (case os_ReadFile fs p of Inl _ \<Rightarrow> [] | Inr data \<Rightarrow> TrimPrefix (ToLower (TrimSpace data)) ''0x'')"

section \<open>PCI addresses\<close>

text \<open>The regular expressions: a template in which \<^verbatim>\<open>h\<close> stands for a hexadecimal digit.\<close>

fun matchTemplate :: "(char option) list \<Rightarrow> string \<Rightarrow> bool" where
  "matchTemplate [] [] = True"
| "matchTemplate (None # ts) (c # cs) = (is_hex c \<and> matchTemplate ts cs)"
| "matchTemplate (Some l # ts) (c # cs) = (c = l \<and> matchTemplate ts cs)"
| "matchTemplate _ _ = False"

definition pciAddressPattern :: "string \<Rightarrow> bool" where
  "pciAddressPattern = matchTemplate
     [None, None, None, None, Some CHR '':'', None, None, Some CHR '':'', None, None, Some CHR ''.'', None]"

definition pcieRootPattern :: "string \<Rightarrow> bool" where
  "pcieRootPattern = matchTemplate
     [Some CHR ''p'', Some CHR ''c'', Some CHR ''i'', None, None, None, None, Some CHR '':'', None, None]"

text \<open>\<^verbatim>\<open>strings.FieldsFunc\<close> for slashes and backslashes, on the components of the cleaned path.\<close>

definition pathFields :: "string \<Rightarrow> string list" where
  "pathFields p = filter (\<lambda>c. c \<noteq> []) (concat (map (\<lambda>c. Split c CHR 0x5C) (path_comps p)))"

fun topologyFrom :: "string list \<Rightarrow> string \<Rightarrow> string \<Rightarrow> string \<times> string" where
  "topologyFrom [] address root = (address, root)"
| "topologyFrom (c # cs) address root =
     (if pcieRootPattern c \<and> root = [] then topologyFrom cs address (ToLower c)
      else if pciAddressPattern c then topologyFrom cs (ToLower c) root
      else topologyFrom cs address root)"

definition pciTopologyFromPath :: "string \<Rightarrow> string \<times> string" where
  "pciTopologyFromPath p = topologyFrom (pathFields p) [] []"

definition pciTopologyAt :: "fsys \<Rightarrow> string \<Rightarrow> string \<Rightarrow> string \<times> string" where
  "pciTopologyAt fs sysfsPath pciAddress =
     (case EvalSymlinks fs (filepath_Join [sysfsPath, ''bus'', ''pci'', ''devices'', pciAddress]) of
        Inl _ \<Rightarrow> (ToLower pciAddress, [])
      | Inr target \<Rightarrow>
          (case pciTopologyFromPath target of (address, root) \<Rightarrow>
             (if address = [] then ToLower pciAddress else address, root)))"

section \<open>Identity of an interface\<close>

definition busTypeOf :: "string \<Rightarrow> string" where
  "busTypeOf base = (if pciAddressPattern base then ''pci'' else if HasPrefix base ''virtio'' then ''virtio'' else ''platform'')"

text \<open>What the device's directory says, then what its \<^verbatim>\<open>uevent\<close> file says, then the ID files.\<close>

definition identityFromTree :: "fsys \<Rightarrow> string \<Rightarrow> InterfaceIdentity" where
  "identityFromTree fs devicePath =
     (let id1 = (case EvalSymlinks fs devicePath of
            Inl _ \<Rightarrow> no_identity
          | Inr target \<Rightarrow>
              (case pciTopologyFromPath target of (address, root) \<Rightarrow>
                 no_identity\<lparr>ii_PCIAddress := address, ii_PCIeRoot := root, ii_BusType := busTypeOf (filepath_Base target)\<rparr>))
      in case EvalSymlinks fs (filepath_Join [devicePath, ''driver'']) of
           Inl _ \<Rightarrow> id1
         | Inr target \<Rightarrow> id1\<lparr>ii_KernelDriver := filepath_Base target\<rparr>)"

definition uevent :: "(string \<times> string) list \<Rightarrow> string \<Rightarrow> string" where
  "uevent values k = (case map_of values k of Some v \<Rightarrow> v | None \<Rightarrow> [])"

definition identityFromUevent :: "(string \<times> string) list \<Rightarrow> InterfaceIdentity \<Rightarrow> InterfaceIdentity" where
  "identityFromUevent values id0 =
     (let id1 = (if uevent values ''DRIVER'' \<noteq> [] then id0\<lparr>ii_KernelDriver := uevent values ''DRIVER''\<rparr> else id0);
          id2 = (if uevent values ''PCI_SLOT_NAME'' \<noteq> []
                 then id1\<lparr>ii_BusType := ''pci'', ii_PCIAddress := uevent values ''PCI_SLOT_NAME''\<rparr> else id1)
      in case Split (uevent values ''PCI_ID'') CHR '':'' of
           [v, d] \<Rightarrow> id2\<lparr>ii_PCIVendorID := ToLower v, ii_PCIDeviceID := ToLower d\<rparr>
         | _ \<Rightarrow> id2)"

definition interfaceIdentityAt :: "fsys \<Rightarrow> string \<Rightarrow> string \<Rightarrow> InterfaceIdentity" where
  "interfaceIdentityAt fs sysClassNet name =
     (let devicePath = filepath_Join [sysClassNet, name, ''device''];
          values = readUevent fs (filepath_Join [devicePath, ''uevent'']);
          id1 = identityFromUevent values (identityFromTree fs devicePath);
          id2 = (if ii_PCIVendorID id1 = []
                 then id1\<lparr>ii_PCIVendorID := trimHexFile fs (filepath_Join [devicePath, ''vendor''])\<rparr> else id1)
      in if ii_PCIDeviceID id2 = []
         then id2\<lparr>ii_PCIDeviceID := trimHexFile fs (filepath_Join [devicePath, ''device''])\<rparr> else id2)"

definition interfaceIdentity :: "fsys \<Rightarrow> string \<Rightarrow> InterfaceIdentity" where
  "interfaceIdentity fs name = interfaceIdentityAt fs ''/sys/class/net'' name"

section \<open>Properties\<close>

lemma matchTemplate_length: "matchTemplate ts cs \<Longrightarrow> length cs = length ts"
  by (induction ts cs rule: matchTemplate.induct) auto

lemma root_not_address: "pcieRootPattern c \<Longrightarrow> \<not> pciAddressPattern c"
  unfolding pcieRootPattern_def pciAddressPattern_def by (auto dest!: matchTemplate_length)

definition first_lower :: "string list \<Rightarrow> string \<Rightarrow> string" where
  "first_lower cs d = (case cs of [] \<Rightarrow> d | c # _ \<Rightarrow> ToLower c)"

lemma ToLower_nonempty [simp]: "ToLower c = [] \<longleftrightarrow> c = []"
  by (simp add: ToLower_def)

lemma root_nonempty: "pcieRootPattern c \<Longrightarrow> c \<noteq> []"
  unfolding pcieRootPattern_def by (auto dest: matchTemplate_length)

lemma first_lower_snoc: "first_lower (xs @ [c]) d = first_lower xs (ToLower c)"
  by (simp add: first_lower_def split: list.splits)

lemma topologyFrom_spec:
  "topologyFrom cs address root =
     (first_lower (filter pciAddressPattern (rev cs)) address,
      if root = [] then first_lower (filter pcieRootPattern cs) [] else root)"
proof (induction cs arbitrary: address root)
  case (Cons c cs)
  then show ?case
    using root_not_address [of c] root_nonempty [of c]
    by (auto simp: first_lower_snoc) (auto simp: first_lower_def)
qed (simp add: first_lower_def)

text \<open>C38: the topology read from a device path is the last PCI address on the path (the device itself, below any
  bridges) and the first root complex on it, both in lower case; each is empty when there is none.\<close>

theorem pciTopologyFromPath_spec:
  "pciTopologyFromPath p =
     (first_lower (filter pciAddressPattern (rev (pathFields p))) [],
      first_lower (filter pcieRootPattern (pathFields p)) [])"
  by (simp add: pciTopologyFromPath_def topologyFrom_spec)

end
