(* ===== verification/Driver_Json.thy ===== *)
theory Driver_Json
  imports Store_Model
begin

text \<open>
  The documents the driver reads and writes as JSON besides its state file, and the record of
  the encoders and decoders (\<^verbatim>\<open>encoding/json\<close> on these types), which the handlers take as an
  argument.
\<close>

text \<open>\<^verbatim>\<open>podNetworkStatus\<close>, an entry of the network status annotation of a pod.\<close>

record podNetworkStatus =
  pns_InterfaceName :: string
  pns_IPs :: "string list"
  pns_HardwareAddress :: string
  pns_IPPool :: string
  pns_Gateway :: string
  pns_ParentInterface :: string
  pns_Type :: string
  pns_Mode :: string
  pns_ClaimNamespace :: string
  pns_ClaimName :: string
  pns_State :: string
  pns_KernelDriver :: string
  pns_BusType :: string
  pns_PCIAddress :: string
  pns_PCIeRoot :: string
  pns_PCIVendorID :: string
  pns_PCIDeviceID :: string
  pns_AllocationPolicy :: string
  pns_OriginalAdminState :: string
  pns_OriginalOperState :: string
  pns_VendorName :: string
  pns_DeviceName :: string
  pns_SubsystemVendorID :: string
  pns_SubsystemDeviceID :: string
  pns_CompatibleDrivers :: "string list"
  pns_IOMMUGroup :: string
  pns_IOMMUMode :: string
  pns_NUMANode :: int
  pns_DeviceNodes :: "string list"
  pns_CDIDeviceID :: string

text \<open>A CDI specification with its one device.\<close>

record cdiNode =
  cn_HostPath :: string
  cn_Path :: string
  cn_Permissions :: string

record cdiSpec =
  cs_CDIVersion :: string
  cs_Kind :: string
  cs_Name :: string
  cs_DeviceNodes :: "cdiNode list"
  cs_Env :: "string list"

record codecs =
  jStore :: codec
  jNetwork :: "string \<Rightarrow> goerr + NetworkConfig"
  jStatuses :: "string \<Rightarrow> goerr + podNetworkStatus list"
  jMarshalStatuses :: "podNetworkStatus list \<Rightarrow> goerr + string"
  jMarshalCDI :: "cdiSpec \<Rightarrow> goerr + string"

end
