(* ===== verification/Status_Model.thy ===== *)
theory Status_Model
  imports Driver_Json Driver_State "HOL-Library.Product_Lexorder"
begin

text \<open>
  \<^verbatim>\<open>internal/driver/status.go\<close>: what the driver reports about a device, in the status of the
  ResourceClaim, in the conditions and the network-status annotation of the pod, and as events.
  Every write is a read-modify-write under client-go's \<^verbatim>\<open>RetryOnConflict\<close>.

  The data of a device status is the JSON object itself; an empty list in it is written as null,
  which is what a nil slice gives.
\<close>

definition NetworkReadyCondition :: string where "NetworkReadyCondition = AttrPrefix @ ''/NetworkReady''"

definition NetworkStatusAnnotation :: string where "NetworkStatusAnnotation = AttrPrefix @ ''/network-status''"

section \<open>Texts\<close>

definition reportedAddresses :: "DeviceConfig \<Rightarrow> string list" where
  "reportedAddresses cfg =
     (if nc_Addresses (dev_Network cfg) \<noteq> [] then nc_Addresses (dev_Network cfg)
      else (case dev_HostDevice cfg of Some hs \<Rightarrow> hd_OriginalAddresses hs | None \<Rightarrow> []))"

definition networkLifecycleState :: "DeviceConfig \<Rightarrow> string" where
  "networkLifecycleState cfg = (if dev_LifecycleState cfg \<noteq> [] then dev_LifecycleState cfg else ''Attached'')"

definition originalAdminState :: "DeviceConfig \<Rightarrow> string" where
  "originalAdminState cfg =
     (case dev_HostDevice cfg of Some hs \<Rightarrow> if hd_OriginalAdminUp hs then ''up'' else ''down'' | None \<Rightarrow> ''down'')"

definition networkStatusMessage :: "DeviceConfig \<Rightarrow> string" where
  "networkStatusMessage cfg =
     Join ([nc_Type (dev_Network cfg) @ '' attached as '' @ nc_InterfaceName (dev_Network cfg)]
       @ (if reportedAddresses cfg \<noteq> [] then [''address '' @ Join (reportedAddresses cfg) '',''] else [])
       @ (if nc_IPPool (dev_Network cfg) \<noteq> [] then [''IPPool '' @ nc_IPPool (dev_Network cfg)] else [])
       @ [''parent '' @ dev_ParentName cfg]) '', ''"

definition networkRestoredMessage :: "DeviceConfig \<Rightarrow> string" where
  "networkRestoredMessage cfg =
     ''host device restored as '' @ dev_ParentName cfg @ '', driver '' @ ii_KernelDriver (dev_Identity cfg) @ '', PCI ''
       @ ii_PCIAddress (dev_Identity cfg) @ '', admin state '' @ originalAdminState cfg"

definition networkPreparedMessage :: "DeviceConfig \<Rightarrow> string" where
  "networkPreparedMessage cfg =
     Join ([nc_Type (dev_Network cfg) @ '' prepared for interface '' @ nc_InterfaceName (dev_Network cfg)]
       @ (if nc_Addresses (dev_Network cfg) \<noteq> [] then [''reserved address '' @ Join (nc_Addresses (dev_Network cfg)) '',''] else [])
       @ (if nc_IPPool (dev_Network cfg) \<noteq> [] then [''IPPool '' @ nc_IPPool (dev_Network cfg)] else [])
       @ [''waiting for Pod network attachment'']) '', ''"

section \<open>The status of a claim's device\<close>

definition shareIDsEqual :: "string option \<Rightarrow> string option \<Rightarrow> bool" where
  "shareIDsEqual left right = (case (left, right) of (Some l, Some r) \<Rightarrow> l = r | (None, None) \<Rightarrow> True | _ \<Rightarrow> False)"

definition sameDeviceStatusKey :: "AllocatedDeviceStatus \<Rightarrow> AllocatedDeviceStatus \<Rightarrow> bool" where
  "sameDeviceStatusKey left right \<longleftrightarrow>
     ads_Driver left = ads_Driver right \<and> ads_Pool left = ads_Pool right \<and> ads_Device left = ads_Device right
     \<and> shareIDsEqual (ads_ShareID left) (ads_ShareID right)"

definition gStrings :: "string list \<Rightarrow> gval" where
  "gStrings xs = (if xs = [] then GNil else GSlice (map GStr xs))"

definition gRoutes :: "Route list \<Rightarrow> gval" where
  "gRoutes rs = (if rs = [] then GNil else GSlice (map (\<lambda>r. GMap (filter (\<lambda>(_, v). v \<noteq> GStr [])
     [(''destination'', GStr (rt_Destination r)), (''gateway'', GStr (rt_Gateway r))])) rs))"

definition statusData :: "DeviceConfig \<Rightarrow> gmap" where
  "statusData cfg =
     [(''ipPool'', GStr (nc_IPPool (dev_Network cfg))), (''type'', GStr (nc_Type (dev_Network cfg))),
      (''mode'', GStr (nc_Mode (dev_Network cfg))), (''parentInterface'', GStr (dev_ParentName cfg)),
      (''gateway'', GStr (nc_Gateway (dev_Network cfg))), (''routes'', gRoutes (nc_Routes (dev_Network cfg))),
      (''kernelDriver'', GStr (ii_KernelDriver (dev_Identity cfg))), (''busType'', GStr (ii_BusType (dev_Identity cfg))),
      (''pciAddress'', GStr (ii_PCIAddress (dev_Identity cfg))), (''pcieRoot'', GStr (ii_PCIeRoot (dev_Identity cfg))),
      (''pciVendorID'', GStr (ii_PCIVendorID (dev_Identity cfg))), (''pciDeviceID'', GStr (ii_PCIDeviceID (dev_Identity cfg))),
      (''allocationPolicy'', GStr (dev_AllocationPolicy cfg)), (''hostInterfaceName'', GStr (dev_ParentName cfg)),
      (''lifecycleState'', GStr (networkLifecycleState cfg))]
     @ (case dev_HostDevice cfg of
          Some hs \<Rightarrow> [(''originalAdminState'', GStr (originalAdminState cfg)),
            (''originalOperState'', GStr (hd_OriginalOperState hs)), (''originalMTU'', GInt (hd_OriginalMTU hs))]
        | None \<Rightarrow> [])
     @ (case dev_DPDK cfg of
          Some ds \<Rightarrow> [(''pciClass'', GStr (ds_PCIClass ds)), (''vendorName'', GStr (ds_VendorName ds)),
            (''deviceName'', GStr (ds_DeviceName ds)), (''subsystemVendorID'', GStr (ds_SubsystemVendorID ds)),
            (''subsystemDeviceID'', GStr (ds_SubsystemDeviceID ds)),
            (''compatibleKernelDrivers'', gStrings (ds_CompatibleKernelDrivers ds)), (''iommuGroup'', GStr (ds_IOMMUGroup ds)),
            (''iommuMode'', GStr (ds_IOMMUMode ds)), (''numaNode'', GInt (ds_NUMANode ds)),
            (''deviceNodes'', gStrings (ds_DeviceNodes ds)), (''cdiDeviceID'', GStr (ds_CDIDeviceID ds))]
        | None \<Rightarrow> [])"

text \<open>The conditions the claim has for this device so far.\<close>

definition existingConditions :: "AllocatedDeviceStatus list \<Rightarrow> DeviceConfig \<Rightarrow> Condition list" where
  "existingConditions devices cfg =
     (case find (\<lambda>e. ads_Driver e = dev_DriverName cfg \<and> ads_Pool e = dev_PoolName cfg \<and> ads_Device e = dev_DeviceName cfg
             \<and> shareIDsEqual (ads_ShareID e) (dev_ShareID cfg)) devices of
        Some e \<Rightarrow> ads_Conditions e | None \<Rightarrow> [])"

definition allocatedDeviceStatus ::
  "('w, 'z) kube_scheme \<Rightarrow> ResourceClaim \<Rightarrow> DeviceConfig \<Rightarrow> bool \<Rightarrow> string \<Rightarrow> string \<Rightarrow> string \<Rightarrow> 'w \<Rightarrow> AllocatedDeviceStatus" where
  "allocatedDeviceStatus K claim cfg ready reason message hardwareAddress w =
     \<lparr>ads_Driver = dev_DriverName cfg, ads_Pool = dev_PoolName cfg, ads_Device = dev_DeviceName cfg, ads_ShareID = dev_ShareID cfg,
      ads_Conditions = kSetStatusCondition K (existingConditions (rc_Devices claim) cfg)
        \<lparr>cond_Type = ''Ready'', cond_Status = (if ready then ''True'' else ''False''), cond_ObservedGeneration = rc_Generation claim,
         cond_LastTransitionTime = [], cond_Reason = reason, cond_Message = message\<rparr> w,
      ads_Data = statusData cfg,
      ads_NetworkData = (if nc_Type (dev_Network cfg) \<noteq> ''dpdk''
        then Some \<lparr>nd_InterfaceName = nc_InterfaceName (dev_Network cfg), nd_IPs = reportedAddresses cfg, nd_HardwareAddress = hardwareAddress\<rparr>
        else None)\<rparr>"

text \<open>Replace the first status with the same key, or append.\<close>

fun putStatus :: "AllocatedDeviceStatus \<Rightarrow> AllocatedDeviceStatus list \<Rightarrow> AllocatedDeviceStatus list" where
  "putStatus status [] = [status]"
| "putStatus status (d # ds) = (if sameDeviceStatusKey d status then status # ds else d # putStatus status ds)"

definition setResourceClaimDeviceStatus ::
  "('w, 'z) kube_scheme \<Rightarrow> DeviceConfig \<Rightarrow> bool \<Rightarrow> string \<Rightarrow> string \<Rightarrow> string \<Rightarrow> ('w, unit) eff" where
  "setResourceClaimDeviceStatus K cfg ready reason message hardwareAddress =
     kRetryOnConflict K
       (andThen (kGetClaim K (nn_Namespace (dev_Claim cfg)) (nn_Name (dev_Claim cfg))) (\<lambda>claim.
        if rc_UID claim \<noteq> dev_ClaimUID cfg then
          fail (Errorf ''ResourceClaim %s/%s UID changed'' [nn_Namespace (dev_Claim cfg), nn_Name (dev_Claim cfg)])
        else
          andThen (getsE (allocatedDeviceStatus K claim cfg ready reason message hardwareAddress)) (\<lambda>status.
            kUpdateClaimStatus K (claim\<lparr>rc_Devices := putStatus status (rc_Devices claim)\<rparr>))))"

definition removeResourceClaimDeviceStatus :: "('w, 'z) kube_scheme \<Rightarrow> drv \<Rightarrow> NamespacedName \<Rightarrow> ('w, unit) eff" where
  "removeResourceClaimDeviceStatus K d claim =
     kRetryOnConflict K
       (andThen (attempt (kGetClaim K (nn_Namespace claim) (nn_Name claim))) (\<lambda>r.
        case r of
          Inl err \<Rightarrow> if IsNotFound err then ok () else fail err
        | Inr current \<Rightarrow>
            (let devices = filter (\<lambda>status. ads_Driver status \<noteq> drv_driverName d) (rc_Devices current) in
             if length devices = length (rc_Devices current) then ok ()
             else kUpdateClaimStatus K (current\<lparr>rc_Devices := devices\<rparr>))))"

section \<open>The status of the pod\<close>

definition podUsesNetworkReadinessGate :: "Pod \<Rightarrow> bool" where
  "podUsesNetworkReadinessGate pod = Contains (pod_ReadinessGates pod) NetworkReadyCondition"

fun setPodCondition :: "PodCondition list \<Rightarrow> PodCondition \<Rightarrow> PodCondition list" where
  "setPodCondition [] condition = [condition]"
| "setPodCondition (c # cs) condition =
     (if pc_Type c \<noteq> pc_Type condition then c # setPodCondition cs condition
      else (if pc_Status c = pc_Status condition then condition\<lparr>pc_LastTransitionTime := pc_LastTransitionTime c\<rparr> else condition) # cs)"

definition setPodNetworkCondition ::
  "('w, 'z) kube_scheme \<Rightarrow> string \<Rightarrow> string \<Rightarrow> uid \<Rightarrow> string \<Rightarrow> string \<Rightarrow> string \<Rightarrow> ('w, unit) eff" where
  "setPodNetworkCondition K namespace name uid status reason message =
     kRetryOnConflict K
       (andThen (kGetPod K namespace name) (\<lambda>pod.
        if pod_UID pod \<noteq> uid then fail (Errorf ''Pod %s/%s UID changed'' [namespace, name])
        else if \<not> podUsesNetworkReadinessGate pod then ok ()
        else
          andThen (getsE (kNow K)) (\<lambda>now.
            kUpdatePodStatus K (pod\<lparr>pod_Conditions := setPodCondition (pod_Conditions pod)
              \<lparr>pc_Type = NetworkReadyCondition, pc_Status = status, pc_LastProbeTime = now, pc_LastTransitionTime = now,
               pc_Reason = reason, pc_Message = message\<rparr>\<rparr>))))"

definition podStatusOf :: "DeviceConfig \<Rightarrow> podNetworkStatus" where
  "podStatusOf cfg =
     \<lparr>pns_InterfaceName = nc_InterfaceName (dev_Network cfg), pns_IPs = reportedAddresses cfg,
      pns_HardwareAddress = dev_HardwareAddress cfg, pns_IPPool = nc_IPPool (dev_Network cfg), pns_Gateway = nc_Gateway (dev_Network cfg),
      pns_ParentInterface = dev_ParentName cfg, pns_Type = nc_Type (dev_Network cfg), pns_Mode = nc_Mode (dev_Network cfg),
      pns_ClaimNamespace = nn_Namespace (dev_Claim cfg), pns_ClaimName = nn_Name (dev_Claim cfg),
      pns_State = networkLifecycleState cfg, pns_KernelDriver = ii_KernelDriver (dev_Identity cfg),
      pns_BusType = ii_BusType (dev_Identity cfg), pns_PCIAddress = ii_PCIAddress (dev_Identity cfg),
      pns_PCIeRoot = ii_PCIeRoot (dev_Identity cfg), pns_PCIVendorID = ii_PCIVendorID (dev_Identity cfg),
      pns_PCIDeviceID = ii_PCIDeviceID (dev_Identity cfg), pns_AllocationPolicy = dev_AllocationPolicy cfg,
      pns_OriginalAdminState = (case dev_HostDevice cfg of
        Some hs \<Rightarrow> if hd_OriginalAdminUp hs then ''up'' else ''down'' | None \<Rightarrow> []),
      pns_OriginalOperState = (case dev_HostDevice cfg of Some hs \<Rightarrow> hd_OriginalOperState hs | None \<Rightarrow> []),
      pns_VendorName = (case dev_DPDK cfg of Some ds \<Rightarrow> ds_VendorName ds | None \<Rightarrow> []),
      pns_DeviceName = (case dev_DPDK cfg of Some ds \<Rightarrow> ds_DeviceName ds | None \<Rightarrow> []),
      pns_SubsystemVendorID = (case dev_DPDK cfg of Some ds \<Rightarrow> ds_SubsystemVendorID ds | None \<Rightarrow> []),
      pns_SubsystemDeviceID = (case dev_DPDK cfg of Some ds \<Rightarrow> ds_SubsystemDeviceID ds | None \<Rightarrow> []),
      pns_CompatibleDrivers = (case dev_DPDK cfg of Some ds \<Rightarrow> ds_CompatibleKernelDrivers ds | None \<Rightarrow> []),
      pns_IOMMUGroup = (case dev_DPDK cfg of Some ds \<Rightarrow> ds_IOMMUGroup ds | None \<Rightarrow> []),
      pns_IOMMUMode = (case dev_DPDK cfg of Some ds \<Rightarrow> ds_IOMMUMode ds | None \<Rightarrow> []),
      pns_NUMANode = (case dev_DPDK cfg of Some ds \<Rightarrow> ds_NUMANode ds | None \<Rightarrow> 0),
      pns_DeviceNodes = (case dev_DPDK cfg of Some ds \<Rightarrow> ds_DeviceNodes ds | None \<Rightarrow> []),
      pns_CDIDeviceID = (case dev_DPDK cfg of Some ds \<Rightarrow> ds_CDIDeviceID ds | None \<Rightarrow> [])\<rparr>"

definition samePodStatus :: "podNetworkStatus \<Rightarrow> podNetworkStatus \<Rightarrow> bool" where
  "samePodStatus status old \<longleftrightarrow>
     pns_ClaimNamespace old = pns_ClaimNamespace status \<and> pns_ClaimName old = pns_ClaimName status
     \<and> pns_InterfaceName old = pns_InterfaceName status
     \<and> (pns_PCIAddress status = [] \<or> pns_PCIAddress old = pns_PCIAddress status)"

fun putPodStatus :: "podNetworkStatus \<Rightarrow> podNetworkStatus list \<Rightarrow> podNetworkStatus list" where
  "putPodStatus status [] = [status]"
| "putPodStatus status (d # ds) = (if samePodStatus status d then status # ds else d # putPodStatus status ds)"

text \<open>The order of the annotation; \<^verbatim>\<open>sort.Slice\<close> promises nothing about ties, here they keep their order.\<close>

definition podStatusKey :: "podNetworkStatus \<Rightarrow> string \<times> string \<times> string" where
  "podStatusKey s = (pns_InterfaceName s, pns_ClaimName s, pns_PCIAddress s)"

definition setPodNetworkStatus ::
  "('w, 'z) kube_scheme \<Rightarrow> codecs \<Rightarrow> string \<Rightarrow> string \<Rightarrow> uid \<Rightarrow> DeviceConfig \<Rightarrow> ('w, unit) eff" where
  "setPodNetworkStatus K J namespace name uid cfg =
     kRetryOnConflict K
       (andThen (kGetPod K namespace name) (\<lambda>pod.
        if pod_UID pod \<noteq> uid then fail (Errorf ''Pod %s/%s UID changed'' [namespace, name])
        else
          let raw = (case map_of (pod_Annotations pod) NetworkStatusAnnotation of Some v \<Rightarrow> v | None \<Rightarrow> []) in
          andThen (mapErr (Wrapf ''parse Pod network status annotation'' [])
            (liftE (if raw \<noteq> [] then jStatuses J raw else Inr []))) (\<lambda>statuses.
          andThen (liftE (jMarshalStatuses J (sort_key podStatusKey (putPodStatus (podStatusOf cfg) statuses)))) (\<lambda>out.
            kUpdatePod K (pod\<lparr>pod_Annotations := gput NetworkStatusAnnotation out (pod_Annotations pod)\<rparr>)))))"

definition emitPodEvent ::
  "('w, 'z) kube_scheme \<Rightarrow> drv \<Rightarrow> Pod \<Rightarrow> string \<Rightarrow> string \<Rightarrow> string \<Rightarrow> string \<Rightarrow> NamespacedName option \<Rightarrow> ('w, unit) eff" where
  "emitPodEvent K d pod eventType reason action note claim =
     andThen (getsE (kNow K)) (\<lambda>now.
       kCreateEvent K \<lparr>ev_Namespace = pod_Namespace pod, ev_GenerateName = pod_Name pod @ ''-'', ev_EventTime = now,
         ev_ReportingController = drv_driverName d, ev_ReportingInstance = drv_nodeName d, ev_Action = action, ev_Reason = reason,
         ev_Note = note, ev_Type = eventType, ev_Regarding = (pod_Namespace pod, pod_Name pod, pod_UID pod),
         ev_Related = map_option (\<lambda>c. (nn_Namespace c, nn_Name c)) claim\<rparr>)"

section \<open>Properties of the lists\<close>

lemma shareIDsEqual_eq [simp]: "shareIDsEqual a b \<longleftrightarrow> a = b"
  by (auto simp: shareIDsEqual_def split: option.splits)

definition statusKey :: "AllocatedDeviceStatus \<Rightarrow> string \<times> string \<times> string \<times> string option" where
  "statusKey s = (ads_Driver s, ads_Pool s, ads_Device s, ads_ShareID s)"

lemma sameKey_iff: "sameDeviceStatusKey a b \<longleftrightarrow> statusKey a = statusKey b"
  by (auto simp: sameDeviceStatusKey_def statusKey_def)

lemma putStatus_keys: "set (map statusKey (putStatus s ds)) = insert (statusKey s) (set (map statusKey ds))"
  by (induction ds) (auto simp: sameKey_iff)

lemma putStatus_distinct: "distinct (map statusKey ds) \<Longrightarrow> distinct (map statusKey (putStatus s ds))"
  using putStatus_keys by (induction ds) (auto simp: sameKey_iff image_iff)

lemma putStatus_get:
  "distinct (map statusKey ds) \<Longrightarrow> e \<in> set (putStatus s ds) \<longleftrightarrow> e = s \<or> (e \<in> set ds \<and> statusKey e \<noteq> statusKey s)"
proof (induction ds)
  case (Cons a ds)
  from Cons.prems have "statusKey a \<notin> statusKey ` set ds" by simp
  then have "\<forall>x\<in>set ds. statusKey x \<noteq> statusKey a" by (metis imageI)
  with Cons show ?case by (auto simp: sameKey_iff)
qed simp

end
