(* ===== verification/Dpdk.thy ===== *)
theory Dpdk
  imports Attributes Inventory Status_Model
begin

text \<open>
  \<^verbatim>\<open>internal/driver/dpdk.go\<close>: discovery of DPDK devices in the kernel's device tree, and the
  hand-over of a device to a pod by a CDI specification, a file the container runtime reads.
\<close>

section \<open>Texts and lists\<close>

definition symlinkBase :: "fsys \<Rightarrow> string \<Rightarrow> string" where
  "symlinkBase fs p = (case EvalSymlinks fs p of Inl _ \<Rightarrow> [] | Inr target \<Rightarrow> filepath_Base target)"

definition readFile :: "fsys \<Rightarrow> string \<Rightarrow> string" where
  "readFile fs p = (case os_ReadFile fs p of Inl _ \<Rightarrow> [] | Inr data \<Rightarrow> data)"

definition readInt :: "fsys \<Rightarrow> string \<Rightarrow> int \<Rightarrow> int" where
  "readInt fs p fallback = (case Atoi (TrimSpace (readFile fs p)) of None \<Rightarrow> fallback | Some v \<Rightarrow> v)"

definition dpdkDeviceName :: "string \<Rightarrow> string" where
  "dpdkDeviceName address = ''pci-'' @ ReplaceAll (ReplaceAll (ToLower address) CHR '':'' ''-'') CHR ''.'' ''-''"

text \<open>\<^verbatim>\<open>strings.Fields\<close>.\<close>

function Fields :: "string \<Rightarrow> string list" where
  "Fields s =
     (case dropWhile is_space s of
        [] \<Rightarrow> []
      | c # cs \<Rightarrow> takeWhile (\<lambda>x. \<not> is_space x) (c # cs) # Fields (dropWhile (\<lambda>x. \<not> is_space x) (c # cs)))"
  by pat_completeness auto
termination
proof (relation "measure length", goal_cases)
  case (2 s c cs)
  have "\<not> is_space c" using 2 hd_dropWhile [of is_space s] by auto
  then have "length (dropWhile (\<lambda>x. \<not> is_space x) (c # cs)) \<le> length cs" by (simp add: length_dropWhile_le)
  also have "\<dots> < length s" using length_dropWhile_le [of is_space s] 2 by simp
  finally show ?case by simp
qed simp

declare Fields.simps [simp del]

text \<open>The loop of \<^verbatim>\<open>uniqueSorted\<close>: \<open>seen\<close> are the values taken so far, in order.\<close>

fun uniqueLoop :: "string \<Rightarrow> string list \<Rightarrow> string list \<Rightarrow> string list" where
  "uniqueLoop excluded seen [] = seen"
| "uniqueLoop excluded seen (v # vs) =
     (let value = ToLower (TrimSpace v) in
      if value = [] \<or> value = ToLower excluded \<or> Contains seen value then uniqueLoop excluded seen vs
      else uniqueLoop excluded (seen @ [value]) vs)"

definition uniqueSorted :: "string list \<Rightarrow> string \<Rightarrow> string list" where
  "uniqueSorted values excluded = sort (uniqueLoop excluded [] values)"

text \<open>The state of \<^verbatim>\<open>loadPCIIDs\<close> is the current vendor and the map so far.\<close>

fun pciLines :: "string list \<Rightarrow> string \<Rightarrow> (string \<times> string) list \<Rightarrow> (string \<times> string) list" where
  "pciLines [] vendor result = result"
| "pciLines (line # ls) vendor result =
     (if line = [] \<or> HasPrefix line ''#'' \<or> HasPrefix line ''C '' then pciLines ls vendor result
      else if \<not> HasPrefix line [CHR 0x09] \<and> length line > 6 then
        let v = ToLower (TrimSpace (take 4 line)) in pciLines ls v (gput (''v:'' @ v) (TrimSpace (drop 4 line)) result)
      else if HasPrefix line [CHR 0x09] \<and> \<not> HasPrefix line [CHR 0x09, CHR 0x09] \<and> vendor \<noteq> [] then
        (case Fields line of
           f # g # rest \<Rightarrow>
             pciLines ls vendor (gput (''d:'' @ vendor @ '':'' @ ToLower f) (Join (g # rest) '' '') result)
         | _ \<Rightarrow> pciLines ls vendor result)
      else pciLines ls vendor result)"

definition loadPCIIDs :: "fsys \<Rightarrow> string \<Rightarrow> (string \<times> string) list" where
  "loadPCIIDs fs filePath = pciLines (readLines fs filePath) [] []"

section \<open>Discovery\<close>

definition selectorAllows :: "PCISelector \<Rightarrow> string \<Rightarrow> string \<Rightarrow> string \<Rightarrow> bool \<Rightarrow> bool" where
  "selectorAllows selector address vendor device emptyMatches =
     (if length (ps_PCIAddresses selector) + length (ps_Vendors selector) + length (ps_Devices selector) > 0 then
        (ps_PCIAddresses selector = [] \<or> Contains (ps_PCIAddresses selector) address)
        \<and> (ps_Vendors selector = [] \<or> Contains (ps_Vendors selector) vendor)
        \<and> (ps_Devices selector = [] \<or> Contains (ps_Devices selector) device)
      else emptyMatches)"

definition classAllowed :: "string \<Rightarrow> string list \<Rightarrow> bool" where
  "classAllowed cls classes \<longleftrightarrow> classes = [] \<or> list_ex (HasPrefix cls) classes"

definition deviceNodes :: "fsys \<Rightarrow> DPDKConfig \<Rightarrow> string \<Rightarrow> string \<Rightarrow> string \<Rightarrow> string \<times> string list" where
  "deviceNodes fs cfg devicePath driver grp =
     (if driver = ''vfio-pci'' then
        let control = filepath_Join [dc_CDIHostDevPath cfg, ''vfio/vfio''] in
        if \<not> fileExists fs (filepath_Join [dc_DevPath cfg, ''vfio/vfio'']) \<or> grp = [] then ([], [])
        else if fileExists fs (filepath_Join [dc_DevPath cfg, ''vfio'', grp]) then
          (''iommu'', [control, filepath_Join [dc_CDIHostDevPath cfg, ''vfio'', grp]])
        else if fileExists fs (filepath_Join [dc_DevPath cfg, ''vfio'', ''noiommu-'' @ grp]) then
          (''noiommu'', [control, filepath_Join [dc_CDIHostDevPath cfg, ''vfio'', ''noiommu-'' @ grp]])
        else ([], [])
      else if driver = ''uio_pci_generic'' \<or> driver = ''igb_uio'' then
        (case Glob fs (filepath_Join [devicePath, ''uio/uio*'']) of
           Inr [entry] \<Rightarrow>
             if fileExists fs (filepath_Join [dc_DevPath cfg, filepath_Base entry])
             then (''uio'', [filepath_Join [dc_CDIHostDevPath cfg, filepath_Base entry]]) else ([], [])
         | _ \<Rightarrow> ([], []))
      else ([], []))"

definition aliasMatches :: "string \<Rightarrow> string \<Rightarrow> string list" where
  "aliasMatches modalias line =
     (case Fields line of
        [a, pattern, module] \<Rightarrow>
          if a = ''alias'' \<and> path_Match (ToLower pattern) (ToLower modalias) = Some True
          then [ReplaceAll module CHR ''_'' ''-''] else []
      | _ \<Rightarrow> [])"

definition compatibleKernelDrivers :: "fsys \<Rightarrow> DPDKConfig \<Rightarrow> string \<Rightarrow> string \<Rightarrow> string \<Rightarrow> string \<Rightarrow> string list" where
  "compatibleKernelDrivers fs cfg devicePath vendor device current =
     (case map_of (dc_CompatibleDriverOverrides cfg) (vendor @ '':'' @ device) of
        Some (v # vs) \<Rightarrow> uniqueSorted (v # vs) current
      | _ \<Rightarrow>
          (let modalias = TrimSpace (readFile fs (filepath_Join [devicePath, ''modalias''])) in
           if modalias = [] then []
           else
             let files = (case Glob fs (filepath_Join [dc_ModulesPath cfg, ''*'', ''modules.alias'']) of Inr ps \<Rightarrow> ps | Inl _ \<Rightarrow> [])
             in uniqueSorted (concat (map (\<lambda>f. concat (map (aliasMatches modalias) (readLines fs f))) files)) current))"

text \<open>The body of the discovery loop: the device, when every check lets it through.\<close>

definition vfioIsolated :: "fsys \<Rightarrow> DPDKConfig \<Rightarrow> string \<Rightarrow> bool" where
  "vfioIsolated fs cfg grp \<longleftrightarrow>
     (case Glob fs (filepath_Join [dc_SysfsPath cfg, ''kernel/iommu_groups'', grp, ''devices/*'']) of
        Inr [_] \<Rightarrow> True | _ \<Rightarrow> False)"

definition dpdkClasses :: "DPDKConfig \<Rightarrow> string list" where
  "dpdkClasses cfg = (case dc_PCIClasses cfg of Some cs \<Rightarrow> cs | None \<Rightarrow> [])"

definition inspectDevice :: "fsys \<Rightarrow> DPDKConfig \<Rightarrow> (string \<times> string) list \<Rightarrow> string \<Rightarrow> dpdkDevice option" where
  "inspectDevice fs cfg names devicePath =
     (let address = ToLower (filepath_Base devicePath);
          vendor = trimHexFile fs (filepath_Join [devicePath, ''vendor'']);
          device = trimHexFile fs (filepath_Join [devicePath, ''device'']);
          cls = trimHexFile fs (filepath_Join [devicePath, ''class'']);
          driver = symlinkBase fs (filepath_Join [devicePath, ''driver''])
      in if \<not> Contains (dc_AllowedKernelDrivers cfg) (ToLower driver) \<or> \<not> classAllowed cls (dpdkClasses cfg) then None
         else if \<not> selectorAllows (dc_Include cfg) address vendor device True
              \<or> selectorAllows (dc_Exclude cfg) address vendor device False then None
         else
           let grp = symlinkBase fs (filepath_Join [devicePath, ''iommu_group'']);
               (mode, nodes) = deviceNodes fs cfg devicePath driver grp
           in if nodes = [] then None
              else if driver = ''vfio-pci''
                \<and> (\<not> vfioIsolated fs cfg grp \<or> mode = ''noiommu'' \<and> \<not> dc_AllowUnsafeNoIOMMU cfg) then None
              else Some \<lparr>dd_Name = dpdkDeviceName address, dd_State =
                \<lparr>ds_PCIAddress = address, ds_PCIeRoot = snd (pciTopologyAt fs (dc_SysfsPath cfg) address), ds_PCIClass = cls,
                 ds_VendorID = vendor, ds_VendorName = uevent names (''v:'' @ vendor), ds_DeviceID = device,
                 ds_DeviceName = uevent names (''d:'' @ vendor @ '':'' @ device),
                 ds_SubsystemVendorID = trimHexFile fs (filepath_Join [devicePath, ''subsystem_vendor'']),
                 ds_SubsystemDeviceID = trimHexFile fs (filepath_Join [devicePath, ''subsystem_device'']),
                 ds_CurrentDriver = driver,
                 ds_CompatibleKernelDrivers = compatibleKernelDrivers fs cfg devicePath vendor device driver,
                 ds_IOMMUGroup = grp, ds_IOMMUMode = mode,
                 ds_NUMANode = readInt fs (filepath_Join [devicePath, ''numa_node'']) (- 1), ds_DeviceNodes = nodes,
                 ds_CDIDeviceID = [], ds_CDISpecPath = []\<rparr>\<rparr>)"

fun inspectAll :: "fsys \<Rightarrow> DPDKConfig \<Rightarrow> (string \<times> string) list \<Rightarrow> string list \<Rightarrow> (string \<times> dpdkDevice) list
    \<Rightarrow> (string \<times> dpdkDevice) list" where
  "inspectAll fs cfg names [] devices = devices"
| "inspectAll fs cfg names (p # ps) devices =
     (case inspectDevice fs cfg names p of
        None \<Rightarrow> inspectAll fs cfg names ps devices
      | Some d \<Rightarrow> inspectAll fs cfg names ps (gput (dd_Name d) d devices))"

definition discoverDPDKDevices :: "fsys \<Rightarrow> DPDKConfig \<Rightarrow> goerr + (string \<times> dpdkDevice) list" where
  "discoverDPDKDevices fs cfg =
     (if \<not> dc_Enabled cfg then Inr []
      else (case Glob fs (filepath_Join [dc_SysfsPath cfg, ''bus/pci/devices/*'']) of
              Inl err \<Rightarrow> Inl err
            | Inr paths \<Rightarrow> Inr (inspectAll fs cfg (loadPCIIDs fs (dc_PCIIDPath cfg)) paths [])))"

section \<open>CDI specifications\<close>

definition cdiEnvSuffix :: "string \<Rightarrow> string" where
  "cdiEnvSuffix name =
     map (\<lambda>c. if (65 \<le> (of_char c :: nat) \<and> (of_char c :: nat) \<le> 90) \<or> is_digit c then c else CHR ''_'') (ToUpper name)"

definition cdiName :: "uid \<Rightarrow> string \<Rightarrow> string" where
  "cdiName claimUID devName = ToLower (ReplaceAll (claimUID @ ''-'' @ devName) CHR ''_'' ''-'')"

text \<open>\<^verbatim>\<open>strings.Contains(hostPath, "/vfio/noiommu-")\<close>.\<close>

definition noiommuPath :: "string \<Rightarrow> bool" where
  "noiommuPath p \<longleftrightarrow> list_ex (\<lambda>i. HasPrefix (drop i p) ''/vfio/noiommu-'') [0..<length p]"

definition cdiNodeOf :: "DPDKDeviceState \<Rightarrow> string \<Rightarrow> cdiNode" where
  "cdiNodeOf st hostPath =
     \<lparr>cn_HostPath = hostPath,
      cn_Path = (if ds_IOMMUMode st = ''noiommu'' \<and> noiommuPath hostPath
                 then filepath_Join [filepath_Dir hostPath, ds_IOMMUGroup st] else hostPath),
      cn_Permissions = ''rw''\<rparr>"

definition cdiSpecOf :: "string \<Rightarrow> uid \<Rightarrow> string \<Rightarrow> DPDKDeviceState \<Rightarrow> cdiSpec" where
  "cdiSpecOf driverName claimUID devName st =
     \<lparr>cs_CDIVersion = ''0.6.0'', cs_Kind = driverName @ ''/dpdk'', cs_Name = cdiName claimUID devName,
      cs_DeviceNodes = map (cdiNodeOf st) (ds_DeviceNodes st),
      cs_Env = [''LINUX_NET_DRA_PCI_ADDRESS='' @ ds_PCIAddress st, ''LINUX_NET_DRA_IOMMU_GROUP='' @ ds_IOMMUGroup st,
        ''LINUX_NET_DRA_PCI_ADDRESS_'' @ cdiEnvSuffix devName @ ''='' @ ds_PCIAddress st,
        ''LINUX_NET_DRA_IOMMU_GROUP_'' @ cdiEnvSuffix devName @ ''='' @ ds_IOMMUGroup st]\<rparr>"

text \<open>\<^verbatim>\<open>os.CreateTemp\<close>: a new file under a name nobody has; \<^verbatim>\<open>Chmod\<close> and \<^verbatim>\<open>Close\<close> can only fail.\<close>

definition tempName :: "nat \<Rightarrow> string" where
  "tempName n = ''.linux-net-dra-'' @ utoa n @ ''.tmp''"

definition CreateTemp :: "string \<Rightarrow> string io" where
  "CreateTemp dir fs =
     (let (f, fs1) = next_wfault fs in
      if f \<noteq> WOk then (Inl (PathError ErrIO dir), fs1)
      else (case find (\<lambda>n. case target_of fs1 (filepath_Join [dir, tempName n]) of
                            Some q \<Rightarrow> node_at fs1 q = None | None \<Rightarrow> False)
                  [fs_temp fs1 ..< fs_temp fs1 + length (fs_nodes fs1) + 1] of
              None \<Rightarrow> (Inl (PathError ErrNotExist dir), fs1)
            | Some n \<Rightarrow>
                (case target_of fs1 (filepath_Join [dir, tempName n]) of
                   Some q \<Rightarrow> (Inr (filepath_Join [dir, tempName n]), put_node q (FFile []) (fs1\<lparr>fs_temp := Suc n\<rparr>))
                 | None \<Rightarrow> (Inl (PathError ErrNotExist dir), fs1))))"

definition mayFail :: "string \<Rightarrow> unit io" where
  "mayFail p fs = (case next_wfault fs of (f, fs1) \<Rightarrow> if f = WOk then (Inr (), fs1) else (Inl (PathError ErrIO p), fs1))"

text \<open>The rename with its fall-back.\<close>

definition renameOver :: "string \<Rightarrow> string \<Rightarrow> unit io" where
  "renameOver tmpPath finalPath =
     andThen (attempt (Rename tmpPath finalPath)) (\<lambda>r.
       case r of
         Inr _ \<Rightarrow> ok ()
       | Inl err \<Rightarrow>
           andThen (attempt (os_Remove finalPath)) (\<lambda>removed.
             case removed of
               Inl removeErr \<Rightarrow> if \<not> os_IsNotExist removeErr then fail err else Rename tmpPath finalPath
             | Inr _ \<Rightarrow> Rename tmpPath finalPath))"

definition cdiPath :: "DPDKConfig \<Rightarrow> uid \<Rightarrow> string \<Rightarrow> string" where
  "cdiPath cfg claimUID devName = filepath_Join [dc_CDIPath cfg, ''linux-net-dra-'' @ cdiName claimUID devName @ ''.json'']"

definition writeCDISpec :: "codecs \<Rightarrow> DPDKConfig \<Rightarrow> string \<Rightarrow> uid \<Rightarrow> string \<Rightarrow> DPDKDeviceState \<Rightarrow> (string \<times> string) io" where
  "writeCDISpec J cfg driverName claimUID devName st =
     andThen (liftE (jMarshalCDI J (cdiSpecOf driverName claimUID devName st))) (\<lambda>data.
     seqE (MkdirAll (dc_CDIPath cfg))
       (andThen (CreateTemp (dc_CDIPath cfg)) (\<lambda>tmpPath.
        deferE (os_Remove tmpPath)
          (seqE (WriteFile tmpPath data)
            (seqE (mayFail tmpPath)
              (seqE (mayFail tmpPath)
                (seqE (renameOver tmpPath (cdiPath cfg claimUID devName))
                  (ok (driverName @ ''/dpdk='' @ cdiName claimUID devName, cdiPath cfg claimUID devName)))))))))"

definition removeIgnoring :: "string \<Rightarrow> unit io" where
  "removeIgnoring p =
     andThen (attempt (os_Remove p)) (\<lambda>r. case r of Inl err \<Rightarrow> if \<not> os_IsNotExist err then fail err else ok () | Inr _ \<Rightarrow> ok ())"

definition removeClaimCDISpecs :: "string \<Rightarrow> uid \<Rightarrow> unit io" where
  "removeClaimCDISpecs dir claimUID =
     andThen (\<lambda>fs. (Glob fs (filepath_Join [dir, ''linux-net-dra-'' @ ToLower claimUID @ ''-*.json'']), fs)) (forE removeIgnoring)"

section \<open>Preparing a device\<close>

definition validateDPDKConfig :: "NetworkConfig \<Rightarrow> goerr + unit" where
  "validateDPDKConfig cfg =
     (if nc_Type cfg \<noteq> [] \<and> nc_Type cfg \<noteq> ''dpdk'' then
        Inl (Errorf ''DPDK device requires type dpdk, got %q'' [nc_Type cfg])
      else if nc_Mode cfg \<noteq> [] \<or> nc_InterfaceName cfg \<noteq> [] \<or> nc_MTU cfg \<noteq> 0 \<or> nc_IPPool cfg \<noteq> [] \<or> nc_Address cfg \<noteq> []
        \<or> nc_Addresses cfg \<noteq> [] \<or> nc_Gateway cfg \<noteq> [] \<or> nc_Routes cfg \<noteq> [] then
        Inl (Errorf ''DPDK devices do not support interface, MTU, mode, or IPAM configuration'' [])
      else Inr ())"

definition dpdkPreparedMessage :: "DeviceConfig \<Rightarrow> string" where
  "dpdkPreparedMessage cfg =
     (case dev_DPDK cfg of
        None \<Rightarrow> ''DPDK device prepared''
      | Some ds \<Rightarrow> ''DPDK device '' @ ds_PCIAddress ds @ '' prepared through CDI, driver '' @ ds_CurrentDriver ds
          @ '', IOMMU mode '' @ ds_IOMMUMode ds @ '', group '' @ ds_IOMMUGroup ds)"

definition dpdkInjectedMessage :: "DeviceConfig \<Rightarrow> string" where
  "dpdkInjectedMessage cfg =
     (case dev_DPDK cfg of
        None \<Rightarrow> ''DPDK device injected''
      | Some ds \<Rightarrow> ''DPDK device '' @ ds_PCIAddress ds @ '' injected through CDI, driver '' @ ds_CurrentDriver ds
          @ '', IOMMU mode '' @ ds_IOMMUMode ds @ '', group '' @ ds_IOMMUGroup ds)"

text \<open>A prepared device as the kubelet learns of it.\<close>

record PreparedDevice =
  prd_Requests :: "string list"
  prd_PoolName :: string
  prd_DeviceName :: string
  prd_CDIDeviceIDs :: "string list"

definition dpdkConfigOf :: "ResourceClaim \<Rightarrow> AllocationResult \<Rightarrow> DPDKDeviceState \<Rightarrow> DeviceConfig" where
  "dpdkConfigOf claim allocation st =
     \<lparr>dev_Claim = \<lparr>nn_Namespace = rc_Namespace claim, nn_Name = rc_Name claim\<rparr>, dev_ClaimUID = rc_UID claim,
      dev_DriverName = ar_Driver allocation, dev_PoolName = ar_Pool allocation, dev_DeviceName = ar_Device allocation,
      dev_ShareID = None, dev_ParentName = ds_PCIAddress st, dev_AllocationPolicy = ''exclusive'',
      dev_Identity = \<lparr>ii_KernelDriver = ds_CurrentDriver st, ii_BusType = ''pci'', ii_PCIAddress = ds_PCIAddress st,
        ii_PCIeRoot = ds_PCIeRoot st, ii_PCIVendorID = ds_VendorID st, ii_PCIDeviceID = ds_DeviceID st\<rparr>,
      dev_HostDevice = None, dev_DPDK = Some st, dev_Network = no_network\<lparr>nc_Type := ''dpdk''\<rparr>,
      dev_AttachedIf = [], dev_HardwareAddress = [], dev_LifecycleState = ''Prepared''\<rparr>"

definition prepareDPDKDevice ::
  "('w, 'z) kube_scheme \<Rightarrow> codecs \<Rightarrow> drv \<Rightarrow> ResourceClaim \<Rightarrow> Pod \<Rightarrow> uid \<Rightarrow> string \<Rightarrow> AllocationResult \<Rightarrow> dpdkDevice
    \<Rightarrow> ('w sys, PreparedDevice) eff" where
  "prepareDPDKDevice K J d claim pod podUID storageKey allocation device =
     andThen (liftE (configForRequest (jNetwork J) (drv_driverName d) claim (ar_Request allocation))) (\<lambda>userCfg.
     seqE (mapErr (Wrapf ''request %s'' [ar_Request allocation]) (liftE (validateDPDKConfig userCfg)))
       (andThen (mapErr (Wrapf ''write CDI specification for %s'' [ds_PCIAddress (dd_State device)])
          (onFs (writeCDISpec J (cfg_DPDK (drv_cfg d)) (drv_driverName d) (rc_UID claim) (ar_Device allocation) (dd_State device))))
        (\<lambda>(cdiID, specPath).
        let cfg = dpdkConfigOf claim allocation ((dd_State device)\<lparr>ds_CDIDeviceID := cdiID, ds_CDISpecPath := specPath\<rparr>);
            message = dpdkPreparedMessage cfg
        in
        seqE (mapErr (Wrapf ''persist DPDK device'' [])
               (onError (onFs (os_Remove specPath)) (onStore (SetDevice (jStore J) podUID storageKey cfg))))
          (seqE (mapErr (Wrapf ''report DPDK device status'' [])
                  (onW (setResourceClaimDeviceStatus K cfg True ''DPDKPrepared'' message [])))
            (seqE (mapErr (Wrapf ''report Pod DPDK status'' [])
                    (onW (setPodNetworkStatus K J (pod_Namespace pod) (pod_Name pod) (pod_UID pod) cfg)))
              (seqE (ignoreErr (onW (emitPodEvent K d pod ''Normal'' ''LinuxDPDKDevicePrepared'' ''PrepareDPDKDevice'' message (Some (dev_Claim cfg)))))
                (ok \<lparr>prd_Requests = [ar_Request allocation], prd_PoolName = drv_nodeName d, prd_DeviceName = ar_Device allocation,
                    prd_CDIDeviceIDs = [cdiID]\<rparr>)))))))"

end
