(* ===== verification/Dpdk_Props.thy ===== *)
theory Dpdk_Props
  imports Dpdk
begin

text \<open>
  What the discovery of DPDK devices finds: exactly the PCI devices that pass every check, under names that
  tell them apart, with the list helpers against their mathematical definition.
\<close>

section \<open>Names\<close>

lemma dpdkDeviceName_map:
  "dpdkDeviceName a = ''pci-'' @ map (\<lambda>c. if c = CHR '':'' \<or> c = CHR ''.'' then CHR ''-'' else c) (ToLower a)"
proof -
  have "ReplaceAll (ReplaceAll s CHR '':'' ''-'') CHR ''.'' ''-'' = map (\<lambda>c. if c = CHR '':'' \<or> c = CHR ''.'' then CHR ''-'' else c) s" for s
    by (induction s) (auto simp: ReplaceAll_def)
  then show ?thesis by (simp add: dpdkDeviceName_def)
qed

lemma hex_lower_plain: "is_hex c \<Longrightarrow> lower_char c \<noteq> CHR '':'' \<and> lower_char c \<noteq> CHR ''.'' \<and> lower_char c \<noteq> CHR ''-''"
proof -
  have "\<forall>c. is_hex c \<longrightarrow> lower_char c \<noteq> CHR '':'' \<and> lower_char c \<noteq> CHR ''.'' \<and> lower_char c \<noteq> CHR ''-''" by code_simp
  then show "is_hex c \<Longrightarrow> lower_char c \<noteq> CHR '':'' \<and> lower_char c \<noteq> CHR ''.'' \<and> lower_char c \<noteq> CHR ''-''" by blast
qed

lemma template_name_inj:
  assumes "matchTemplate ts a" and "matchTemplate ts b"
    and "map (\<lambda>c. if c = CHR '':'' \<or> c = CHR ''.'' then CHR ''-'' else c) (ToLower a) =
      map (\<lambda>c. if c = CHR '':'' \<or> c = CHR ''.'' then CHR ''-'' else c) (ToLower b)"
  shows "ToLower a = ToLower b"
  using assms
proof (induction ts a arbitrary: b rule: matchTemplate.induct)
  case (2 ts c cs)
  then obtain c' cs' where "b = c' # cs'" "is_hex c'" by (cases b) auto
  with 2 hex_lower_plain [of c] hex_lower_plain [of c'] show ?case by (auto simp: ToLower_def)
next
  case (3 l ts c cs)
  then show ?case by (cases b) (auto simp: ToLower_def)
qed (auto elim: matchTemplate.elims)

section \<open>Discovery\<close>

lemma inspectDevice_name: "inspectDevice fs cfg names p = Some d \<Longrightarrow>
    dd_Name d = dpdkDeviceName (ToLower (filepath_Base p)) \<and> ds_PCIAddress (dd_State d) = ToLower (filepath_Base p)"
  by (auto simp: inspectDevice_def Let_def split: if_splits prod.splits)

lemma inspectAll_mem:
  "(k, d) \<in> set (inspectAll fs cfg names ps acc) \<Longrightarrow>
     (k, d) \<in> set acc \<or> (\<exists>p\<in>set ps. inspectDevice fs cfg names p = Some d \<and> k = dd_Name d)"
proof (induction ps arbitrary: acc)
  case (Cons p ps)
  show ?case
  proof (cases "inspectDevice fs cfg names p")
    case None
    with Cons show ?thesis by auto
  next
    case (Some e)
    with Cons.prems have "(k, d) \<in> set (inspectAll fs cfg names ps (gput (dd_Name e) e acc))" by simp
    from Cons.IH [OF this] set_gput [of "dd_Name e" e acc] Some show ?thesis by auto
  qed
qed simp

lemma inspectAll_keeps:
  assumes "map_of acc k = Some d" and "\<And>p e. p \<in> set ps \<Longrightarrow> inspectDevice fs cfg names p = Some e \<Longrightarrow> dd_Name e \<noteq> k"
  shows "map_of (inspectAll fs cfg names ps acc) k = Some d"
  using assms
proof (induction ps arbitrary: acc)
  case (Cons p ps)
  have rest: "dd_Name e \<noteq> k" if "q \<in> set ps" "inspectDevice fs cfg names q = Some e" for q e
    using Cons.prems(2) [of q e] that by simp
  show ?case
  proof (cases "inspectDevice fs cfg names p")
    case None
    with Cons.IH [OF Cons.prems(1) rest] show ?thesis by simp
  next
    case (Some e)
    with Cons.prems have "map_of (gput (dd_Name e) e acc) k = Some d" by auto
    from Cons.IH [OF this rest] Some show ?thesis by simp
  qed
qed simp

lemma inspectAll_found:
  assumes "p \<in> set ps" and "inspectDevice fs cfg names p = Some d"
    and "\<And>q e. q \<in> set ps \<Longrightarrow> inspectDevice fs cfg names q = Some e \<Longrightarrow> dd_Name e = dd_Name d \<Longrightarrow> q = p" and "distinct ps"
  shows "map_of (inspectAll fs cfg names ps acc) (dd_Name d) = Some d"
  using assms
proof (induction ps arbitrary: acc)
  case (Cons q qs)
  show ?case
  proof (cases "q = p")
    case True
    have "map_of (inspectAll fs cfg names qs (gput (dd_Name d) d acc)) (dd_Name d) = Some d"
    proof (rule inspectAll_keeps)
      show "dd_Name e \<noteq> dd_Name d" if "r \<in> set qs" "inspectDevice fs cfg names r = Some e" for r e
        using Cons.prems(3) [of r e] Cons.prems(4) True that by auto
    qed simp
    with True Cons.prems(2) show ?thesis by simp
  next
    case False
    with Cons.prems(1,4) have "p \<in> set qs" "distinct qs" by simp_all
    moreover have "r = p" if "r \<in> set qs" "inspectDevice fs cfg names r = Some e" "dd_Name e = dd_Name d" for r e
      using Cons.prems(3) [of r e] that by simp
    ultimately have "map_of (inspectAll fs cfg names qs acc') (dd_Name d) = Some d" for acc' using Cons.IH [OF _ Cons.prems(2)] by blast
    then show ?thesis by (simp split: option.split)
  qed
qed simp

lemma inspectAll_distinct: "distinct (map fst acc) \<Longrightarrow> distinct (map fst (inspectAll fs cfg names ps acc))"
  by (induction ps arbitrary: acc) (auto split: option.split)

section \<open>Lists of drivers\<close>

lemma uniqueLoop_set:
  "distinct seen \<Longrightarrow> distinct (uniqueLoop ex seen vs) \<and>
     set (uniqueLoop ex seen vs) = set seen \<union> ((\<lambda>v. ToLower (TrimSpace v)) ` set vs - {[], ToLower ex})"
proof (induction vs arbitrary: seen)
  case (Cons v vs)
  from Cons.IH [of seen] Cons.IH [of "seen @ [ToLower (TrimSpace v)]"] Cons.prems show ?case by (auto simp: Let_def)
qed auto

section \<open>Sample machine\<close>

text \<open>One network card bound to \<^verbatim>\<open>uio_pci_generic\<close>.\<close>

definition pci_fs :: fsys where
  "pci_fs = \<lparr>fs_nodes = [([''sys''], FDir), ([''sys'', ''bus''], FDir), ([''sys'', ''bus'', ''pci''], FDir), ([''sys'', ''bus'', ''pci'', ''devices''], FDir),
    ([''sys'', ''bus'', ''pci'', ''devices'', ''0000:03:00.0''], FDir),
    ([''sys'', ''bus'', ''pci'', ''devices'', ''0000:03:00.0'', ''vendor''], FFile ''0x8086''),
    ([''sys'', ''bus'', ''pci'', ''devices'', ''0000:03:00.0'', ''device''], FFile ''0x10fb''),
    ([''sys'', ''bus'', ''pci'', ''devices'', ''0000:03:00.0'', ''class''], FFile ''0x020000''),
    ([''sys'', ''bus'', ''pci'', ''devices'', ''0000:03:00.0'', ''driver''], FLink ''/sys/uio_pci_generic''), ([''sys'', ''uio_pci_generic''], FDir),
    ([''sys'', ''bus'', ''pci'', ''devices'', ''0000:03:00.0'', ''uio''], FDir),
    ([''sys'', ''bus'', ''pci'', ''devices'', ''0000:03:00.0'', ''uio'', ''uio0''], FDir), ([''dev''], FDir), ([''dev'', ''uio0''], FFile [])],
    fs_faults = [], fs_temp = 0\<rparr>"

definition pci_cfg :: DPDKConfig where
  "pci_cfg = sample_dpdk\<lparr>dc_Enabled := True, dc_SysfsPath := ''/sys'', dc_DevPath := ''/dev'', dc_CDIHostDevPath := ''/dev'',
     dc_AllowedKernelDrivers := [''uio_pci_generic'']\<rparr>"

lemma pci_discovered:
  "\<exists>ds d. discoverDPDKDevices pci_fs pci_cfg = Inr ds \<and> map_of ds ''pci-0000-03-00-0'' = Some d \<and> ds_CurrentDriver (dd_State d) = ''uio_pci_generic''"
proof -
  have "case discoverDPDKDevices pci_fs pci_cfg of Inl _ \<Rightarrow> False
      | Inr ds \<Rightarrow> map_option (\<lambda>d. ds_CurrentDriver (dd_State d)) (map_of ds ''pci-0000-03-00-0'') = Some ''uio_pci_generic''" by code_simp
  then show ?thesis by (auto split: sum.splits)
qed

lemma pci_glob: "Glob pci_fs (filepath_Join [dc_SysfsPath pci_cfg, ''bus/pci/devices/*'']) = Inr [''/sys/bus/pci/devices/0000:03:00.0'']"
  by code_simp

section \<open>Properties\<close>



text \<open>C15: nothing is lost: in a directory of PCI devices, discovery yields exactly the devices that pass the checks, each under its own
  name.  Two addresses never share a device name.\<close>

theorem discoverDPDKDevices_exact:
  assumes "discoverDPDKDevices fs cfg = Inr ds" and "dc_Enabled cfg"
    and "Glob fs (filepath_Join [dc_SysfsPath cfg, ''bus/pci/devices/*'']) = Inr paths"
    and "list_all (\<lambda>p. pciAddressPattern (filepath_Base p)) paths" and "distinct (map (\<lambda>p. ToLower (filepath_Base p)) paths)"
  shows "map_of ds k = Some d \<longleftrightarrow>
    (\<exists>p. List.member paths p \<and> inspectDevice fs cfg (loadPCIIDs fs (dc_PCIIDPath cfg)) p = Some d \<and> k = dd_Name d)"
proof -
  let ?names = "loadPCIIDs fs (dc_PCIIDPath cfg)"
  from assms(1-3) have ds: "ds = inspectAll fs cfg ?names paths []" by (simp add: discoverDPDKDevices_def)
  have dist: "distinct (map fst ds)" unfolding ds by (rule inspectAll_distinct) simp
  have one: "q = p" if "p \<in> set paths" "q \<in> set paths" "inspectDevice fs cfg ?names p = Some d1" "inspectDevice fs cfg ?names q = Some d2"
    "dd_Name d2 = dd_Name d1" for p q d1 d2
  proof -
    from assms(4) that(1,2) have "pciAddressPattern (filepath_Base p)" "pciAddressPattern (filepath_Base q)" by (simp_all add: list_all_iff)
    moreover from that inspectDevice_name have "dpdkDeviceName (filepath_Base q) = dpdkDeviceName (filepath_Base p)"
      by (fastforce simp: dpdkDeviceName_def)
    ultimately have "ToLower (filepath_Base q) = ToLower (filepath_Base p)"
      by (auto simp: dpdkDeviceName_map pciAddressPattern_def intro: template_name_inj)
    with assms(5) that(1,2) show ?thesis by (auto simp: distinct_map inj_on_def)
  qed
  show ?thesis
  proof
    assume "map_of ds k = Some d"
    then show "\<exists>p. List.member paths p \<and> inspectDevice fs cfg ?names p = Some d \<and> k = dd_Name d"
      unfolding ds using inspectAll_mem [of k d] by (fastforce dest: map_of_SomeD)
  next
    assume "\<exists>p. List.member paths p \<and> inspectDevice fs cfg ?names p = Some d \<and> k = dd_Name d"
    then obtain p where p: "p \<in> set paths" "inspectDevice fs cfg ?names p = Some d" "k = dd_Name d" by auto
    from assms(5) have "distinct paths" by (simp add: distinct_map)
    from inspectAll_found [OF p(1,2) _ this] one [OF p(1) _ p(2)] p(3) show "map_of ds k = Some d" unfolding ds by blast
  qed
qed

theorem discoverDPDKDevices_exact_witness:
  "\<exists>ds d. discoverDPDKDevices pci_fs pci_cfg = Inr ds \<and> map_of ds ''pci-0000-03-00-0'' = Some d
     \<and> inspectDevice pci_fs pci_cfg (loadPCIIDs pci_fs (dc_PCIIDPath pci_cfg)) ''/sys/bus/pci/devices/0000:03:00.0'' = Some d"
proof -
  obtain ds d where d: "discoverDPDKDevices pci_fs pci_cfg = Inr ds" "map_of ds ''pci-0000-03-00-0'' = Some d" using pci_discovered by blast
  have b: "pciAddressPattern (filepath_Base ''/sys/bus/pci/devices/0000:03:00.0'')" by code_simp
  have e: "dc_Enabled pci_cfg" by (simp add: pci_cfg_def)
  from discoverDPDKDevices_exact [OF d(1) e pci_glob, of "''pci-0000-03-00-0''" d] b d show ?thesis by auto
qed

text \<open>\<^const>\<open>uniqueSorted\<close> is the sorted list of the set of normalised values, without the empty one and the excluded one.\<close>

theorem uniqueSorted_reference:
  "uniqueSorted vs ex = sorted_list_of_set ((\<lambda>v. ToLower (TrimSpace v)) ` set vs - {[], ToLower ex})"
  using uniqueLoop_set [of "[]" ex vs]
  by (simp add: uniqueSorted_def) (metis distinct_remdups_id sorted_list_of_set_sort_remdups)

end
