(* ===== verification/Cdi_Files.thy ===== *)
theory Cdi_Files
  imports Dpdk Store_Props
begin

text \<open>
  The CDI specifications of \<^verbatim>\<open>dpdk.go\<close> on the file system: a specification that is written stands complete under its
  name and nothing else has changed, and the removal for a claim takes away the specifications of the claim and
  nothing else, through the pattern matching of \<^verbatim>\<open>filepath.Glob\<close>.
\<close>

section \<open>Patterns\<close>

lemma has_meta_append: "has_meta (x @ y) \<longleftrightarrow> has_meta x \<or> has_meta y"
  by (simp add: has_meta_def ContainsAny_def)

lemma has_meta_Cons: "has_meta (c # s) \<longleftrightarrow> c \<in> {CHR ''*'', CHR ''?'', CHR ''['', CHR 0x5C} \<or> has_meta s"
  by (auto simp: has_meta_def ContainsAny_def)

lemma parse_literal: "\<not> has_meta s \<Longrightarrow> parse_pattern (s @ t) = map_option (\<lambda>ps. map PLit s @ ps) (parse_pattern t)"
  by (induction s; cases "parse_pattern t") (auto simp: has_meta_Cons)

lemma match_literal: "match_pat (map PLit s @ ps) n \<longleftrightarrow> (\<exists>m. n = s @ m \<and> match_pat ps m)"
proof (induction s arbitrary: n)
  case (Cons c s)
  show ?case by (cases n) (use Cons in auto)
qed simp

lemma match_all_literal: "match_pat (map PLit s) n \<longleftrightarrow> n = s"
  using match_literal [of s "[]" n] by simp

lemma match_star: "match_pat (PStar # map PLit s) n \<longleftrightarrow> (\<exists>m. n = m @ s \<and> CHR ''/'' \<notin> set m)"
proof (induction n)
  case Nil
  then show ?case by (auto simp: match_all_literal)
next
  case (Cons c n)
  have "(\<exists>m. c # n = m @ s \<and> CHR ''/'' \<notin> set m) \<longleftrightarrow> c # n = s \<or> c \<noteq> CHR ''/'' \<and> (\<exists>m. n = m @ s \<and> CHR ''/'' \<notin> set m)"
    by (auto simp: Cons_eq_append_conv)
  with Cons show ?case by (simp add: match_all_literal)
qed

lemma match_prefix_star:
  assumes "\<not> has_meta pre" and "\<not> has_meta suf"
  shows "path_Match (pre @ ''*'' @ suf) n = Some True \<longleftrightarrow> (\<exists>m. n = pre @ m @ suf \<and> CHR ''/'' \<notin> set m)"
    and "parse_pattern (x @ pre @ ''*'' @ suf) \<noteq> None \<or> has_meta x"
proof -
  have suf: "parse_pattern suf = Some (map PLit suf)" using parse_literal [OF assms(2), of "[]"] by simp
  then show "path_Match (pre @ ''*'' @ suf) n = Some True \<longleftrightarrow> (\<exists>m. n = pre @ m @ suf \<and> CHR ''/'' \<notin> set m)"
    by (auto simp: path_Match_def parse_literal [OF assms(1)] match_literal match_star)
  show "parse_pattern (x @ pre @ ''*'' @ suf) \<noteq> None \<or> has_meta x"
    using suf assms(1) by (cases "has_meta x") (simp_all add: parse_literal)
qed

section \<open>Globbing in a directory\<close>

lemma set_dir_names: "set (dir_names fs d) = {n. node_at fs (d @ [n]) \<noteq> None}"
proof -
  have "n \<in> set (dir_names fs d) \<longleftrightarrow> (d @ [n]) \<in> fst ` set (fs_nodes fs)" for n
  proof
    assume "n \<in> set (dir_names fs d)"
    then obtain p where "p \<in> fst ` set (fs_nodes fs)" "p \<noteq> []" "butlast p = d" "n = last p" by (auto simp: dir_names_def)
    then show "d @ [n] \<in> fst ` set (fs_nodes fs)" using append_butlast_last_id [of p] by simp
  next
    assume "d @ [n] \<in> fst ` set (fs_nodes fs)"
    then show "n \<in> set (dir_names fs d)" by (force simp: dir_names_def)
  qed
  then show ?thesis by (auto simp: node_at_def map_of_eq_None_iff)
qed

lemma glob_literal: "list_all (\<lambda>c. \<not> has_meta c) cs \<Longrightarrow> glob_comps fs False pre (cs @ rest) = glob_comps fs False (pre @ cs) rest"
  by (induction cs arbitrary: pre) simp_all

lemma glob_last:
  assumes "plain_dir fs d" and "list_all (\<lambda>c. \<not> has_meta c) d" and "has_meta c"
  shows "glob_comps fs False [] (d @ [c]) = map (\<lambda>n. d @ [n]) (filter (\<lambda>n. path_Match c n = Some True) (dir_names fs d))"
proof -
  have d: "node_at fs d = Some FDir" using assms(1) by (auto simp: plain_dir_def)
  have "concat (map (\<lambda>n. if P n then [d @ [n]] else []) xs) = map (\<lambda>n. d @ [n]) (filter P xs)" for P xs
    by (induction xs) simp_all
  then show ?thesis using assms plain_walk [OF assms(1)] d by (simp add: glob_literal cong: if_cong)
qed

lemma join_clean:
  assumes "list_all clean_name d" and "clean_name n"
  shows "filepath_Join [comps_path d, n] = comps_path (d @ [n])"
proof -
  have "path_comps (comps_path d @ ''/'' @ n) = d @ [n]"
  proof (cases "d = []")
    case True
    with assms(2) show ?thesis
      using Split_append [of "CHR ''/''" n "[]"] by (auto simp: comps_path_def path_comps_def clean_name_def)
  next
    case False
    then have "comps_path d @ ''/'' @ n = comps_path (d @ [n])" by (simp add: comps_path_def)
    with assms show ?thesis by (simp add: path_comps_path)
  qed
  moreover have "comps_path d \<noteq> []" "n \<noteq> []" using assms(2) by (auto simp: comps_path_def clean_name_def)
  ultimately show ?thesis by (simp add: filepath_Join_def)
qed

section \<open>Removal\<close>

lemma plain_clean: "plain_dir fs d \<Longrightarrow> clean_name n \<Longrightarrow> path_comps (comps_path (d @ [n])) = d @ [n]"
  by (rule path_comps_path) (simp add: plain_dir_def)

lemma plain_same: "node_at fs1 = node_at fs \<Longrightarrow> plain_dir fs1 d = plain_dir fs d"
  by (simp add: plain_dir_def)

lemma next_wfault_node: "next_wfault fs = (f, fs1) \<Longrightarrow> node_at fs1 = node_at fs"
  by (rule ext) (rule next_wfault_state(2))

lemma os_Remove_plain:
  assumes "plain_dir fs d" and "clean_name n" and "os_Remove (comps_path (d @ [n])) fs = (r, fs')"
  shows "(r = Inr () \<or> node_at fs (d @ [n]) = None \<and> r = Inl (PathError ErrNotExist (comps_path (d @ [n])))) \<and> node_at fs' = (node_at fs)(d @ [n] := None)
      \<or> (\<exists>e. r = Inl e \<and> \<not> os_IsNotExist e) \<and> node_at fs' = node_at fs"
proof -
  obtain f fs1 where f: "next_wfault fs = (f, fs1)" by fastforce
  note n = next_wfault_node [OF f]
  have pd: "plain_dir fs1 d" using plain_same [OF n] assms(1) by blast
  note t = plain_target [OF pd plain_clean [OF assms(1,2)]]
  have gone: "node_at (drop_node (d @ [n]) fs1) = (node_at fs)(d @ [n] := None)" by (rule ext) (simp add: node_at_drop n)
  show ?thesis
  proof (cases "node_at fs (d @ [n])")
    case None
    with assms(3) f t n have "fs' = fs1" "r = Inl (PathError ErrNotExist (comps_path (d @ [n])))" by (simp_all add: os_Remove_def)
    with None n show ?thesis by (simp add: fun_upd_idem)
  next
    case (Some x)
    with assms(3) f t n have "(r, fs') = (if f = WOk \<and> x \<noteq> FDir then (Inr (), drop_node (d @ [n]) fs1) else (Inl (PathError ErrIO (comps_path (d @ [n]))), fs1))"
      by (simp add: os_Remove_def)
    then show ?thesis using gone n by (auto split: if_splits)
  qed
qed

lemma removeIgnoring_plain:
  assumes "plain_dir fs d" and "clean_name n" and "removeIgnoring (comps_path (d @ [n])) fs = (Inr u, fs')"
  shows "node_at fs' = (node_at fs)(d @ [n] := None)"
proof -
  obtain r fs1 where r: "os_Remove (comps_path (d @ [n])) fs = (r, fs1)" by fastforce
  with assms(3) have "fs' = fs1" "\<forall>e. r = Inl e \<longrightarrow> os_IsNotExist e"
    by (auto simp: removeIgnoring_def andThen_def attempt_def ok_def fail_def split: sum.splits if_splits)
  with os_Remove_plain [OF assms(1,2) r] show ?thesis by auto
qed

lemma plain_gone: "plain_dir fs d \<Longrightarrow> node_at fs' = (node_at fs)(d @ [n] := None) \<Longrightarrow> plain_dir fs' d"
  by (auto simp: plain_dir_def dest: arg_cong [where f = length])

lemma removeAll_plain:
  assumes "plain_dir fs d" and "list_all clean_name ns" and "forE removeIgnoring (map (\<lambda>n. comps_path (d @ [n])) ns) fs = (Inr u, fs')"
  shows "node_at fs' p = (if \<exists>n \<in> set ns. p = d @ [n] then None else node_at fs p)"
  using assms
proof (induction ns arbitrary: fs)
  case (Cons n ns)
  then obtain v fs1 where v: "removeIgnoring (comps_path (d @ [n])) fs = (Inr v, fs1)"
    and rest: "forE removeIgnoring (map (\<lambda>n. comps_path (d @ [n])) ns) fs1 = (Inr u, fs')"
    by (auto simp: andThen_def split: prod.splits sum.splits)
  from Cons.prems have n: "clean_name n" "list_all clean_name ns" by simp_all
  note g = removeIgnoring_plain [OF Cons.prems(1) n(1) v]
  from Cons.IH [OF plain_gone [OF Cons.prems(1) g] n(2) rest] show ?case by (simp add: g)
qed (simp add: ok_def)

text \<open>The files of a claim: the UID is one as the API server makes them, in lower case and without special bytes.\<close>

definition cdiPrefix :: "uid \<Rightarrow> string" where
  "cdiPrefix u = ''linux-net-dra-'' @ u @ ''-''"

definition plainUid :: "uid \<Rightarrow> bool" where
  "plainUid u \<longleftrightarrow> ToLower u = u \<and> \<not> has_meta u \<and> CHR ''/'' \<notin> set u \<and> CHR ''_'' \<notin> set u"

definition isCdiFile :: "uid \<Rightarrow> string \<Rightarrow> bool" where
  "isCdiFile u n \<longleftrightarrow> (\<exists>m. n = cdiPrefix u @ m @ ''.json'' \<and> CHR ''/'' \<notin> set m)"

lemma isCdiFile_clean: "plainUid u \<Longrightarrow> isCdiFile u n \<Longrightarrow> clean_name n"
  by (auto simp: isCdiFile_def clean_name_def cdiPrefix_def plainUid_def)

lemma claim_pattern:
  assumes "plainUid u"
  shows "path_Match (cdiPrefix u @ ''*'' @ ''.json'') n = Some True \<longleftrightarrow> isCdiFile u n" and "clean_name (cdiPrefix u @ ''*'' @ ''.json'')"
    and "has_meta (cdiPrefix u @ ''*'' @ ''.json'')" and "\<not> has_meta x \<Longrightarrow> parse_pattern (x @ cdiPrefix u @ ''*'' @ ''.json'') \<noteq> None"
proof -
  have p: "\<not> has_meta (cdiPrefix u)" "\<not> has_meta ''.json''"
    using assms by (simp_all add: plainUid_def cdiPrefix_def has_meta_append has_meta_Cons) (simp_all add: has_meta_def ContainsAny_def)
  show "path_Match (cdiPrefix u @ ''*'' @ ''.json'') n = Some True \<longleftrightarrow> isCdiFile u n"
    unfolding match_prefix_star(1) [OF p] isCdiFile_def ..
  show "clean_name (cdiPrefix u @ ''*'' @ ''.json'')" using assms by (simp add: clean_name_def cdiPrefix_def plainUid_def)
  show "has_meta (cdiPrefix u @ ''*'' @ ''.json'')" by (simp add: has_meta_append has_meta_Cons)
  show "\<not> has_meta x \<Longrightarrow> parse_pattern (x @ cdiPrefix u @ ''*'' @ ''.json'') \<noteq> None" using match_prefix_star(2) [OF p] by blast
qed

lemma Glob_claim:
  assumes "plain_dir fs d" and "list_all (\<lambda>c. \<not> has_meta c) d" and "plainUid u"
  shows "Glob fs (filepath_Join [comps_path d, ''linux-net-dra-'' @ ToLower u @ ''-*.json'']) =
    Inr (map (\<lambda>n. comps_path (d @ [n])) (filter (isCdiFile u) (dir_names fs d)))"
proof -
  let ?c = "cdiPrefix u @ ''*'' @ ''.json''"
  note pat = claim_pattern [OF assms(3)]
  have c: "''linux-net-dra-'' @ ToLower u @ ''-*.json'' = ?c" using assms(3) by (simp add: plainUid_def cdiPrefix_def)
  have dc: "list_all clean_name d" using assms(1) by (simp add: plain_dir_def)
  define x where "x = concat (map (\<lambda>c. CHR ''/'' # c) d) @ ''/''"
  have x: "comps_path (d @ [?c]) = x @ ?c" by (simp add: comps_path_def x_def)
  have "\<not> has_meta (concat (map (\<lambda>c. CHR ''/'' # c) d))" using assms(2)
    by (induction d) (simp_all add: has_meta_append has_meta_Cons, simp add: has_meta_def ContainsAny_def)
  then have nx: "\<not> has_meta x" by (simp add: x_def has_meta_append has_meta_Cons) (simp add: has_meta_def ContainsAny_def)
  have f: "(\<lambda>n. path_Match ?c n = Some True) = isCdiFile u" using pat(1) by blast
  show ?thesis
    unfolding c join_clean [OF dc pat(2)] Glob_def plain_clean [OF assms(1) pat(2)] glob_last [OF assms(1,2) pat(3)] f
    unfolding x using pat(4) [OF nx] pat(3) by (simp add: has_meta_append comp_def)
qed

lemma removeClaimCDISpecs_plain:
  assumes "plain_dir fs d" and "list_all (\<lambda>c. \<not> has_meta c) d" and "plainUid u" and "removeClaimCDISpecs (comps_path d) u fs = (Inr v, fs')"
  shows "node_at fs' p = (if \<exists>n. isCdiFile u n \<and> p = d @ [n] then None else node_at fs p)"
proof -
  let ?ns = "filter (isCdiFile u) (dir_names fs d)"
  have "forE removeIgnoring (map (\<lambda>n. comps_path (d @ [n])) ?ns) fs = (Inr v, fs')"
    using assms(4) unfolding removeClaimCDISpecs_def andThen_def Glob_claim [OF assms(1-3)] by simp
  moreover have "list_all clean_name ?ns" by (auto simp: list_all_iff intro: isCdiFile_clean [OF assms(3)])
  ultimately have "node_at fs' p = (if \<exists>n \<in> set ?ns. p = d @ [n] then None else node_at fs p)"
    using removeAll_plain [OF assms(1)] by blast
  then show ?thesis by (auto simp: set_dir_names)
qed

section \<open>Writing\<close>

lemma MkdirAll_plain:
  assumes "plain_dir fs d" and "MkdirAll (comps_path d) fs = (r, fs')"
  shows "node_at fs' = node_at fs"
proof -
  obtain f fs1 where f: "next_wfault fs = (f, fs1)" by fastforce
  note n = next_wfault_node [OF f]
  have pd: "plain_dir fs1 d" using plain_same [OF n] assms(1) by blast
  then have "mkdirs [] d fs1 = Some fs1" using mkdirs_plain [of "[]" d fs1] by (simp add: plain_dir_def)
  moreover have "path_comps (comps_path d) = d" using assms(1) by (intro path_comps_path) (simp add: plain_dir_def)
  ultimately have "fs' = fs1" using assms(2) f by (auto simp: MkdirAll_def split: if_splits)
  with n show ?thesis by simp
qed

lemma tempName_clean: "clean_name (tempName k)"
  by (simp add: clean_name_def tempName_def)

lemma CreateTemp_plain:
  assumes "plain_dir fs d" and "CreateTemp (comps_path d) fs = (Inr tmp, fs')"
  obtains k where "tmp = comps_path (d @ [tempName k])" and "node_at fs (d @ [tempName k]) = None"
    and "node_at fs' = (node_at fs)(d @ [tempName k] \<mapsto> FFile [])"
proof -
  obtain f fs1 where f: "next_wfault fs = (f, fs1)" by fastforce
  note n = next_wfault_node [OF f]
  have pd: "plain_dir fs1 d" using plain_same [OF n] assms(1) by blast
  have dc: "list_all clean_name d" using assms(1) by (simp add: plain_dir_def)
  note path = join_clean [OF dc tempName_clean]
  have t: "target_of fs1 (comps_path (d @ [tempName k])) = Some (d @ [tempName k])" for k
    by (rule plain_target [OF pd plain_clean [OF assms(1) tempName_clean]])
  from assms(2) obtain k where k: "find (\<lambda>n. node_at fs1 (d @ [tempName n]) = None) [fs_temp fs1 ..< fs_temp fs1 + length (fs_nodes fs1) + 1] = Some k"
    and tmp: "tmp = comps_path (d @ [tempName k])" and fs': "fs' = put_node (d @ [tempName k]) (FFile []) (fs1\<lparr>fs_temp := Suc k\<rparr>)"
    unfolding CreateTemp_def f path t Let_def by (auto split: if_splits option.splits simp: t)
  from k have "node_at fs1 (d @ [tempName k]) = None" by (auto simp: find_Some_iff)
  moreover have "node_at fs' = (node_at fs1)(d @ [tempName k] \<mapsto> FFile [])"
    by (rule ext) (simp add: fs' node_at_put, simp add: node_at_def)
  ultimately show thesis using that [OF tmp] n by simp
qed

lemma WriteFile_plain:
  assumes "plain_dir fs d" and "clean_name n" and "node_at fs (d @ [n]) = Some (FFile x)" and "WriteFile (comps_path (d @ [n])) data fs = (Inr u, fs')"
  shows "node_at fs' = (node_at fs)(d @ [n] \<mapsto> FFile data)"
proof -
  obtain f fs1 where f: "next_wfault fs = (f, fs1)" by fastforce
  note n = next_wfault_node [OF f]
  have pd: "plain_dir fs1 d" using plain_same [OF n] assms(1) by blast
  have "resolve fs1 (comps_path (d @ [n])) = Some (d @ [n])"
    using plain_resolve [OF pd plain_clean [OF assms(1,2)] assms(2)] assms(3) n by simp
  with assms(3,4) f n have "fs' = put_node (d @ [n]) (FFile data) fs1"
    by (auto simp: WriteFile_def split: wfault.splits)
  then show ?thesis by (simp add: fun_eq_iff node_at_put n)
qed

lemma Rename_plain:
  assumes "plain_dir fs d" and "clean_name a" and "clean_name b" and "a \<noteq> b" and "Rename (comps_path (d @ [a])) (comps_path (d @ [b])) fs = (r, fs')"
  shows "(\<exists>e. r = Inl e) \<and> node_at fs' = node_at fs \<or>
    (\<exists>x. node_at fs (d @ [a]) = Some (FFile x) \<and> node_at fs' = (node_at fs)(d @ [a] := None, d @ [b] \<mapsto> FFile x))"
proof -
  obtain f fs1 where f: "next_wfault fs = (f, fs1)" by fastforce
  note n = next_wfault_node [OF f]
  have pd: "plain_dir fs1 d" using plain_same [OF n] assms(1) by blast
  note t = plain_target [OF pd plain_clean [OF assms(1,2)]] plain_target [OF pd plain_clean [OF assms(1,3)]]
  have moved: "node_at (put_node (d @ [b]) (FFile x) (drop_node (d @ [a]) fs1)) = (node_at fs)(d @ [a] := None, d @ [b] \<mapsto> FFile x)" for x
    using assms(4) by (simp add: fun_eq_iff node_at_put node_at_drop n)
  have "(\<exists>e. r = Inl e \<and> fs' = fs1) \<or> (\<exists>x. node_at fs1 (d @ [a]) = Some (FFile x) \<and> fs' = put_node (d @ [b]) (FFile x) (drop_node (d @ [a]) fs1))"
    using assms(5) unfolding Rename_def f t Let_def prod.case option.case
    by (simp split: wfault.splits option.splits fnode.splits) blast+
  then show ?thesis using n moved by auto
qed

lemma mayFail_node: "mayFail p fs = (r, fs') \<Longrightarrow> node_at fs' = node_at fs"
  by (auto simp: mayFail_def split: prod.splits if_splits dest: next_wfault_node)

text \<open>A rename that reports an error has done nothing.\<close>

lemma Rename_error:
  assumes "Rename old new fs = (Inl e, fs')"
  shows "node_at fs' = node_at fs"
proof -
  obtain f fs1 where f: "next_wfault fs = (f, fs1)" by fastforce
  have "fs' = fs1" using assms unfolding Rename_def f Let_def prod.case
    by (simp split: option.splits prod.splits wfault.splits fnode.splits)
  with next_wfault_node [OF f] show ?thesis by simp
qed

lemma Rename_done:
  assumes "plain_dir fs d" and "clean_name a" and "clean_name b" and "a \<noteq> b" and "Rename (comps_path (d @ [a])) (comps_path (d @ [b])) fs = (Inr u, fs')"
  obtains x where "node_at fs (d @ [a]) = Some (FFile x)" and "node_at fs' = (node_at fs)(d @ [a] := None, d @ [b] \<mapsto> FFile x)"
  using Rename_plain [OF assms] by auto

lemma renameOver_plain:
  assumes "plain_dir fs d" and "clean_name a" and "clean_name b" and "a \<noteq> b" and "renameOver (comps_path (d @ [a])) (comps_path (d @ [b])) fs = (Inr u, fs')"
  obtains x where "node_at fs (d @ [a]) = Some (FFile x)" and "node_at fs' = (node_at fs)(d @ [a] := None, d @ [b] \<mapsto> FFile x)"
proof -
  let ?rename = "Rename (comps_path (d @ [a])) (comps_path (d @ [b]))"
  obtain r fs1 where r: "?rename fs = (r, fs1)" by fastforce
  show thesis
  proof (cases r)
    case (Inr v)
    with assms(5) r have "?rename fs = (Inr u, fs')" by (simp add: renameOver_def andThen_def attempt_def ok_def)
    from Rename_done [OF assms(1-4) this] that show thesis by blast
  next
    case (Inl e)
    with Rename_error r have n1: "node_at fs1 = node_at fs" by blast
    have pd1: "plain_dir fs1 d" using plain_same [OF n1] assms(1) by blast
    obtain q fs2 where q: "os_Remove (comps_path (d @ [b])) fs1 = (q, fs2)" by fastforce
    from assms(5) r Inl q have again: "?rename fs2 = (Inr u, fs')" and ne: "\<forall>e. q = Inl e \<longrightarrow> os_IsNotExist e"
      by (auto simp: renameOver_def andThen_def attempt_def fail_def split: sum.splits if_splits)
    from os_Remove_plain [OF pd1 assms(3) q] ne n1 have n2: "node_at fs2 = (node_at fs)(d @ [b] := None)" by auto
    from Rename_done [OF plain_gone [OF assms(1) n2] assms(2-4) again] obtain x
      where "node_at fs2 (d @ [a]) = Some (FFile x)" "node_at fs' = (node_at fs2)(d @ [a] := None, d @ [b] \<mapsto> FFile x)" .
    with n2 assms(4) show thesis by (intro that [of x]) (simp_all add: fun_upd_twist fun_eq_iff)
  qed
qed

abbreviation cdiFile :: "uid \<Rightarrow> string \<Rightarrow> string" where
  "cdiFile u dev \<equiv> ''linux-net-dra-'' @ cdiName u dev @ ''.json''"

lemma lower_slash: "lower_char c = CHR ''/'' \<longleftrightarrow> c = CHR ''/''"
  by (auto simp: lower_char_def dest!: arg_cong [where f = "of_char :: char \<Rightarrow> nat"])

lemma name_slash:
  "CHR ''/'' \<in> set (ToLower s) \<longleftrightarrow> CHR ''/'' \<in> set s" "CHR ''/'' \<in> set (ReplaceAll s CHR ''_'' ''-'') \<longleftrightarrow> CHR ''/'' \<in> set s"
proof -
  show "CHR ''/'' \<in> set (ToLower s) \<longleftrightarrow> CHR ''/'' \<in> set s"
    by (simp add: ToLower_def image_iff lower_slash eq_commute [of "CHR ''/''" "lower_char _"])
  show "CHR ''/'' \<in> set (ReplaceAll s CHR ''_'' ''-'') \<longleftrightarrow> CHR ''/'' \<in> set s"
    by (induction s) (auto simp: ReplaceAll_def)
qed

lemma cdiName_slash: "CHR ''/'' \<notin> set (u @ dev) \<Longrightarrow> CHR ''/'' \<notin> set (cdiName u dev)"
  by (simp add: cdiName_def name_slash)

lemma cdiFile_clean: "CHR ''/'' \<notin> set (u @ dev) \<Longrightarrow> clean_name (cdiFile u dev)"
  using cdiName_slash [of u dev] by (simp add: clean_name_def)

lemma cdiFile_of_claim:
  assumes "plainUid u" and "CHR ''/'' \<notin> set dev"
  shows "isCdiFile u (cdiFile u dev)"
proof -
  let ?m = "ToLower (ReplaceAll dev CHR ''_'' ''-'')"
  have r: "CHR ''_'' \<notin> set x \<Longrightarrow> concat (map (\<lambda>c. if c = CHR ''_'' then ''-'' else [c]) x) = x" for x :: string
    by (induction x) auto
  have "cdiFile u dev = cdiPrefix u @ ?m @ ''.json''"
    using assms(1) r [of u] by (simp add: cdiName_def cdiPrefix_def plainUid_def ReplaceAll_def ToLower_def) (simp add: lower_char_def)
  moreover have "CHR ''/'' \<notin> set ?m" using assms(2) by (simp add: name_slash)
  ultimately show ?thesis unfolding isCdiFile_def by blast
qed

lemma cdiBody_plain:
  assumes "plain_dir fs d" and "clean_name t" and "clean_name b" and "t \<noteq> b" and "node_at fs (d @ [t]) = Some (FFile y)"
    and "seqE (WriteFile (comps_path (d @ [t])) data) (seqE (mayFail p) (seqE (mayFail p)
        (seqE (renameOver (comps_path (d @ [t])) (comps_path (d @ [b]))) (ok v)))) fs = (Inr w, fs')"
  shows "w = v" and "node_at fs' = (node_at fs)(d @ [t] := None, d @ [b] \<mapsto> FFile data)"
proof -
  from assms(6) obtain u1 u2 u3 u4 fs1 fs2 fs3 where 1: "WriteFile (comps_path (d @ [t])) data fs = (Inr u1, fs1)" and 2: "mayFail p fs1 = (Inr u2, fs2)"
    and 3: "mayFail p fs2 = (Inr u3, fs3)" and 4: "renameOver (comps_path (d @ [t])) (comps_path (d @ [b])) fs3 = (Inr u4, fs')" and w: "w = v"
    unfolding andThen_Inr ok_eq by blast
  from w show "w = v" .
  have n: "node_at fs3 = (node_at fs)(d @ [t] \<mapsto> FFile data)"
    using WriteFile_plain [OF assms(1,2,5) 1] mayFail_node [OF 2] mayFail_node [OF 3] by simp
  have "plain_dir fs3 d" using assms(1) n by (auto simp: plain_dir_def dest: arg_cong [where f = length])
  from renameOver_plain [OF this assms(2-4) 4] obtain x where "node_at fs3 (d @ [t]) = Some (FFile x)"
    "node_at fs' = (node_at fs3)(d @ [t] := None, d @ [b] \<mapsto> FFile x)" .
  then show "node_at fs' = (node_at fs)(d @ [t] := None, d @ [b] \<mapsto> FFile data)" by (simp add: n)
qed

lemma writeCDISpec_plain:
  assumes "plain_dir fs d" and "dc_CDIPath cfg = comps_path d" and "CHR ''/'' \<notin> set (u @ dev)"
    and "writeCDISpec J cfg drv u dev st fs = (Inr (deviceID, path), fs')"
  obtains data where "jMarshalCDI J (cdiSpecOf drv u dev st) = Inr data" and "deviceID = drv @ ''/dpdk='' @ cdiName u dev"
    and "path = comps_path (d @ [cdiFile u dev])" and "node_at fs' = (node_at fs)(d @ [cdiFile u dev] \<mapsto> FFile data)"
proof -
  let ?b = "cdiFile u dev"
  have dc: "list_all clean_name d" using assms(1) by (simp add: plain_dir_def)
  note cb = cdiFile_clean [OF assms(3)]
  have fin: "cdiPath cfg u dev = comps_path (d @ [?b])" unfolding cdiPath_def assms(2) by (rule join_clean [OF dc cb])
  from assms(4) obtain data u1 fs1 tmp fs2 where j: "jMarshalCDI J (cdiSpecOf drv u dev st) = Inr data"
    and mk: "MkdirAll (comps_path d) fs = (Inr u1, fs1)" and ct: "CreateTemp (comps_path d) fs1 = (Inr tmp, fs2)"
    and body: "deferE (os_Remove tmp) (seqE (WriteFile tmp data) (seqE (mayFail tmp) (seqE (mayFail tmp)
        (seqE (renameOver tmp (comps_path (d @ [?b]))) (ok (drv @ ''/dpdk='' @ cdiName u dev, comps_path (d @ [?b])))))))
        fs2 = (Inr (deviceID, path), fs')"
    unfolding writeCDISpec_def assms(2) fin andThen_Inr liftE_def by auto
  have pd1: "plain_dir fs1 d" using plain_same [OF MkdirAll_plain [OF assms(1) mk]] assms(1) by blast
  from CreateTemp_plain [OF pd1 ct] obtain k where tmp: "tmp = comps_path (d @ [tempName k])" and free: "node_at fs1 (d @ [tempName k]) = None"
    and n2: "node_at fs2 = (node_at fs1)(d @ [tempName k] \<mapsto> FFile [])" .
  have pd2: "plain_dir fs2 d" using pd1 n2 by (auto simp: plain_dir_def dest: arg_cong [where f = length])
  have ne: "tempName k \<noteq> ?b" by (simp add: tempName_def)
  from body obtain fs3 where b: "seqE (WriteFile tmp data) (seqE (mayFail tmp) (seqE (mayFail tmp)
        (seqE (renameOver tmp (comps_path (d @ [?b]))) (ok (drv @ ''/dpdk='' @ cdiName u dev, comps_path (d @ [?b])))))) fs2 = (Inr (deviceID, path), fs3)"
    and fs': "fs' = snd (os_Remove tmp fs3)"
    unfolding deferE_def by (auto split: prod.splits)
  have y: "node_at fs2 (d @ [tempName k]) = Some (FFile [])" by (simp add: n2)
  note dn = cdiBody_plain [OF pd2 tempName_clean cb ne y b [unfolded tmp]]
  have n3: "node_at fs3 = (node_at fs)(d @ [?b] \<mapsto> FFile data)"
    using dn(2) free MkdirAll_plain [OF assms(1) mk] ne by (auto simp: n2 fun_eq_iff)
  have pd3: "plain_dir fs3 d" using assms(1) n3 by (auto simp: plain_dir_def dest: arg_cong [where f = length])
  have gone: "node_at fs3 (d @ [tempName k]) = None" using dn(2) ne by simp
  obtain r where "os_Remove (comps_path (d @ [tempName k])) fs3 = (r, fs')" using fs' tmp by (metis prod.collapse)
  from os_Remove_plain [OF pd3 tempName_clean this] gone have "node_at fs' = node_at fs3" by (auto simp: fun_upd_idem)
  with n3 dn(1) that [OF j] show thesis by simp
qed

section \<open>Properties\<close>

text \<open>C18: when a CDI specification has been written, the file under the claim's and the device's name holds the complete encoded specification, the identifier
  handed to the kubelet names it, and every other path is as it was: no temporary file is left, whichever step had to be tried again.\<close>

theorem writeCDISpec_exact:
  assumes "plain_dir fs d" and "dc_CDIPath cfg = comps_path d" and "CHR ''/'' \<notin> set (u @ dev)"
    and "writeCDISpec J cfg drv u dev st fs = (Inr (deviceID, path), fs')"
  shows "\<exists>data. jMarshalCDI J (cdiSpecOf drv u dev st) = Inr data \<and> deviceID = drv @ ''/dpdk='' @ cdiName u dev
    \<and> path = comps_path (d @ [''linux-net-dra-'' @ cdiName u dev @ ''.json''])
    \<and> node_at fs' = (node_at fs)(d @ [''linux-net-dra-'' @ cdiName u dev @ ''.json''] \<mapsto> FFile data)"
  using writeCDISpec_plain [OF assms] by blast


text \<open>A sample directory.\<close>

definition cdi_codecs :: codecs where
  "cdi_codecs = \<lparr>jStore = const_codec, jNetwork = (\<lambda>_. Inr no_network), jStatuses = (\<lambda>_. Inr []), jMarshalStatuses = (\<lambda>_. Inr ''[]''),
     jMarshalCDI = (\<lambda>_. Inr ''{}'')\<rparr>"

definition cdi_config :: DPDKConfig where
  "cdi_config = sample_dpdk\<lparr>dc_CDIPath := ''/run''\<rparr>"

lemma cdi_dir: "plain_dir (sample_fs []) [''run'']" "comps_path [''run''] = ''/run''"
  by (auto simp: plain_dir_def sample_fs_def node_at_def clean_name_def comps_path_def take_Cons')

abbreviation cdi_temp :: "string \<Rightarrow> fsys" where
  "cdi_temp x \<equiv> \<lparr>fs_nodes = [([''run'', ''.linux-net-dra-0.tmp''], FFile x), ([''run''], FDir)], fs_faults = [], fs_temp = 1\<rparr>"

abbreviation cdi_done :: fsys where
  "cdi_done \<equiv> \<lparr>fs_nodes = [([''run'', ''linux-net-dra-u1-p0.json''], FFile ''{}''), ([''run''], FDir)], fs_faults = [], fs_temp = 1\<rparr>"

lemma zero_digit: "digit_char 0 = CHR ''0''"
  by code_simp

lemma cdi_paths:
  "path_comps ''/run'' = [''run'']" "path_comps ''/run/.linux-net-dra-0.tmp'' = [''run'', ''.linux-net-dra-0.tmp'']"
  "path_comps ''/run/linux-net-dra-u1-p0.json'' = [''run'', ''linux-net-dra-u1-p0.json'']"
  "filepath_Join [''/run'', tempName 0] = ''/run/.linux-net-dra-0.tmp''" "cdiPath cdi_config ''u1'' ''p0'' = ''/run/linux-net-dra-u1-p0.json''"
  by (simp_all add: path_comps_def filepath_Join_def comps_path_def cdiPath_def cdi_config_def cdiName_def ToLower_def ReplaceAll_def
      lower_char_def tempName_def utoa.simps zero_digit)

lemma cdi_steps:
  "MkdirAll ''/run'' (sample_fs []) = (Inr (), sample_fs [])" "CreateTemp ''/run'' (sample_fs []) = (Inr ''/run/.linux-net-dra-0.tmp'', cdi_temp [])"
  "WriteFile ''/run/.linux-net-dra-0.tmp'' ''{}'' (cdi_temp []) = (Inr (), cdi_temp ''{}'')" "mayFail p (cdi_temp x) = (Inr (), cdi_temp x)"
  "Rename ''/run/.linux-net-dra-0.tmp'' ''/run/linux-net-dra-u1-p0.json'' (cdi_temp ''{}'') = (Inr (), cdi_done)"
  "snd (os_Remove ''/run/.linux-net-dra-0.tmp'' cdi_done) = cdi_done"
  "removeIgnoring ''/run/linux-net-dra-u1-p0.json'' cdi_done = (Inr (), (sample_fs [])\<lparr>fs_temp := 1\<rparr>)"
  by (simp_all add: MkdirAll_def CreateTemp_def WriteFile_def mayFail_def Rename_def os_Remove_def removeIgnoring_def andThen_def attempt_def ok_def
      next_wfault_def sample_fs_def cdi_paths numeral_eq_Suc node_at_def put_node_def drop_node_def target_of_def resolve_def)

lemma cdi_written: "writeCDISpec cdi_codecs cdi_config ''d'' ''u1'' ''p0'' st (sample_fs []) = (Inr (''d/dpdk=u1-p0'', ''/run/linux-net-dra-u1-p0.json''), cdi_done)"
proof -
  have c: "dc_CDIPath cdi_config = ''/run''" "jMarshalCDI cdi_codecs x = Inr ''{}''" "cdiName ''u1'' ''p0'' = ''u1-p0''" for x
    by (simp_all add: cdi_config_def cdi_codecs_def cdiName_def ToLower_def ReplaceAll_def lower_char_def)
  show ?thesis unfolding writeCDISpec_def renameOver_def andThen_def liftE_def deferE_def attempt_def ok_def c cdi_steps cdi_paths
    by (simp only: prod.case sum.case cdi_steps append.simps)
qed

lemma cdi_removed: "removeClaimCDISpecs ''/run'' ''u1'' cdi_done = (Inr (), (sample_fs [])\<lparr>fs_temp := 1\<rparr>)"
proof -
  have u: "plainUid ''u1''" by (simp add: plainUid_def ToLower_def lower_char_def has_meta_def ContainsAny_def)
  have pd: "plain_dir cdi_done [''run'']" by (auto simp: plain_dir_def node_at_def clean_name_def take_Cons')
  have m: "list_all (\<lambda>c. \<not> has_meta c) [''run'']" by (simp add: has_meta_def ContainsAny_def)
  have f: "isCdiFile ''u1'' ''linux-net-dra-u1-p0.json''"
    using cdiFile_of_claim [OF u, of "''p0''"] by (simp add: cdiName_def ToLower_def ReplaceAll_def lower_char_def)
  have d: "dir_names cdi_done [''run''] = [''linux-net-dra-u1-p0.json'']" by (simp add: dir_names_def)
  have p: "comps_path [''run'', ''linux-net-dra-u1-p0.json''] = ''/run/linux-net-dra-u1-p0.json''" by (simp add: comps_path_def)
  have "Glob cdi_done (filepath_Join [''/run'', ''linux-net-dra-'' @ ToLower ''u1'' @ ''-*.json'']) = Inr [''/run/linux-net-dra-u1-p0.json'']"
    using Glob_claim [OF pd m u] f by (simp only: d cdi_dir(2) filter.simps if_True list.map append.simps p)
  then show ?thesis
    unfolding removeClaimCDISpecs_def andThen_def by (simp only: prod.case sum.case forE.simps andThen_def cdi_steps ok_def)
qed

theorem writeCDISpec_exact_witness:
  "node_at cdi_done = (node_at (sample_fs []))([''run'', ''linux-net-dra-u1-p0.json''] \<mapsto> FFile ''{}'')"
proof -
  have c: "dc_CDIPath cdi_config = comps_path [''run'']" "jMarshalCDI cdi_codecs x = Inr ''{}''" "cdiName ''u1'' ''p0'' = ''u1-p0''" for x
    by (simp_all add: cdi_config_def cdi_codecs_def cdiName_def ToLower_def ReplaceAll_def lower_char_def comps_path_def)
  have n: "CHR ''/'' \<notin> set (''u1'' @ ''p0'')" by simp
  from writeCDISpec_exact [OF cdi_dir(1) c(1) n cdi_written] show ?thesis by (simp add: c)
qed


end
