(* ===== verification/Host_Device.thy ===== *)
theory Host_Device
  imports Net_API Inventory Driver_State
begin

text \<open>
  Links on the node: \<^verbatim>\<open>internal/driver/hostdevice.go\<close> (moving a host device into a pod and
  back), the snapshot of \<^verbatim>\<open>inventory.go\<close> and the creation of child links in \<^verbatim>\<open>driver.go\<close>
  (\<^verbatim>\<open>attachLink\<close>, \<^verbatim>\<open>addRoute\<close>, \<^verbatim>\<open>inNetNS\<close>).

  The functions that change the device record through a pointer return the new record; where
  the caller sees the change although an error is returned, the record is part of the result.
\<close>

section \<open>Namespaces and routes\<close>

definition inNetNS :: "('w, 'z) host_scheme \<Rightarrow> nshandle \<Rightarrow> ('w, 'a) eff \<Rightarrow> ('w, 'a) eff" where
  "inNetNS N target fn =
     andThen (nNsGet N) (\<lambda>current. seqE (nNsSet N target) (deferE (nNsSet N current) fn))"

definition addRoute :: "('w, 'z) host_scheme \<Rightarrow> Link \<Rightarrow> string \<Rightarrow> string \<Rightarrow> ('w, unit) eff" where
  "addRoute N link dst gw =
     andThen (if dst = [] then ok None
              else (case ParseCIDR dst of
                      None \<Rightarrow> fail (Errorf ''invalid CIDR address'' [dst])
                    | Some (_, ipnet) \<Rightarrow> ok (Some ipnet)))
       (\<lambda>dest. nRouteAdd N \<lparr>nr_LinkIndex = lk_Index link, nr_Dst = dest, nr_Gw = (if gw \<noteq> [] then ParseIP gw else [])\<rparr>)"

text \<open>\<^verbatim>\<open>AddrAdd\<close> of a parsed address, where an address that is already there is no error.\<close>

definition addrEnsure :: "('w, 'z) host_scheme \<Rightarrow> Link \<Rightarrow> Addr \<Rightarrow> ('w, unit) eff" where
  "addrEnsure N link addr =
     andThen (attempt (nAddrAdd N link addr)) (\<lambda>r.
       case r of Inl err \<Rightarrow> if \<not> os_IsExist err then fail err else ok () | Inr _ \<Rightarrow> ok ())"

definition addAddress :: "('w, 'z) host_scheme \<Rightarrow> Link \<Rightarrow> string \<Rightarrow> ('w, unit) eff" where
  "addAddress N link address = andThen (liftE (nParseAddr N address)) (addrEnsure N link)"

text \<open>Renaming a link when its name differs; the renamed link is looked up again.\<close>

definition ensureName :: "('w, 'z) host_scheme \<Rightarrow> (goerr \<Rightarrow> goerr) \<Rightarrow> Link \<Rightarrow> string \<Rightarrow> ('w, Link) eff" where
  "ensureName N wrap link name =
     (if lk_Name link \<noteq> name then seqE (mapErr wrap (nLinkSetName N link name)) (nLinkByName N name) else ok link)"

section \<open>Child links\<close>

definition configureChild :: "('w, 'z) host_scheme \<Rightarrow> string \<Rightarrow> NetworkConfig \<Rightarrow> ('w, string) eff" where
  "configureChild N name net =
     andThen (nLinkByName N name) (\<lambda>link0.
     andThen (if nc_InterfaceName net \<noteq> [] \<and> nc_InterfaceName net \<noteq> name
              then seqE (nLinkSetName N link0 (nc_InterfaceName net)) (nLinkByName N (nc_InterfaceName net))
              else ok link0) (\<lambda>link.
     seqE (forE (addAddress N link) (nc_Addresses net))
       (seqE (nLinkSetUp N link)
         (seqE (if nc_Gateway net \<noteq> [] then addRoute N link ''0.0.0.0/0'' (nc_Gateway net) else ok ())
           (seqE (forE (\<lambda>route. addRoute N link (rt_Destination route) (rt_Gateway route)) (nc_Routes net))
             (ok (HardwareAddr_String (lk_HardwareAddr link))))))))"

definition childSpec :: "Link \<Rightarrow> DeviceConfig \<Rightarrow> LinkKind \<Rightarrow> LinkSpec" where
  "childSpec parent cfg kind =
     \<lparr>ls_Name = hostChildName cfg, ls_ParentIndex = lk_Index parent,
      ls_MTU = (if nc_MTU (dev_Network cfg) > 0 then nc_MTU (dev_Network cfg) else 0), ls_Kind = kind\<rparr>"

definition childKind :: "NetworkConfig \<Rightarrow> goerr + LinkKind" where
  "childKind net =
     (if nc_Type net = ''macvlan'' then Inr (Macvlan (macvlanMode (nc_Mode net)))
      else if nc_Type net = ''ipvlan'' then Inr (IPVlan (ipvlanMode (nc_Mode net)))
      else Inl (Errorf ''unsupported link type %q'' [nc_Type net]))"

definition attachLink :: "('w, 'z) host_scheme \<Rightarrow> string \<Rightarrow> DeviceConfig \<Rightarrow> ('w, string) eff" where
  "attachLink N nsPath cfg =
     andThen (nLinkByName N (dev_ParentName cfg)) (\<lambda>parent.
     andThen (liftE (childKind (dev_Network cfg))) (\<lambda>kind.
     let name = hostChildName cfg in
     andThen (attempt (nLinkByName N name)) (\<lambda>old.
     seqE (case old of Inr l \<Rightarrow> ignoreErr (nLinkDel N l) | Inl _ \<Rightarrow> ok ())
       (andThen (nLinkAdd N (childSpec parent cfg kind)) (\<lambda>child.
        andThen (onError (nLinkDel N child) (nNsGetFromPath N nsPath)) (\<lambda>target.
        seqE (onError (nLinkDel N child) (nLinkSetNsFd N child target))
          (inNetNS N target (configureChild N name (dev_Network cfg)))))))))"

section \<open>Host devices\<close>

definition addressStateOf :: "Addr \<Rightarrow> ipnet \<Rightarrow> HostAddressState" where
  "addressStateOf address net =
     \<lparr>ha_CIDR = IPNet_String net, ha_Label = ad_Label address, ha_Flags = ad_Flags address, ha_Scope = ad_Scope address,
      ha_Peer = (case ad_Peer address of Some peer \<Rightarrow> IPNet_String peer | None \<Rightarrow> []),
      ha_Broadcast = (if ad_Broadcast address \<noteq> [] then IP_String (ad_Broadcast address) else []),
      ha_PreferredLft = ad_PreferedLft address, ha_ValidLft = ad_ValidLft address\<rparr>"

definition savedStates :: "Addr list \<Rightarrow> HostAddressState list" where
  "savedStates addresses =
     concat (map (\<lambda>address. case ad_IPNet address of Some net \<Rightarrow> [addressStateOf address net] | None \<Rightarrow> []) addresses)"

definition snapshotHostDevice :: "('w, 'z) host_scheme \<Rightarrow> Link \<Rightarrow> string \<Rightarrow> ('w, HostDeviceState) eff" where
  "snapshotHostDevice N link podName =
     andThen (mapErr (Wrapf ''list addresses on %s'' [lk_Name link]) (nAddrList N link)) (\<lambda>addresses.
       ok \<lparr>hd_OriginalName = lk_Name link, hd_PodInterfaceName = podName, hd_OriginalAdminUp = lk_Up link,
           hd_OriginalOperState = ToLower (lk_OperState link), hd_OriginalMTU = lk_MTU link,
           hd_OriginalMAC = HardwareAddr_String (lk_HardwareAddr link),
           hd_OriginalAddresses = map ha_CIDR (savedStates addresses), hd_AddressState = savedStates addresses,
           hd_Restored = False\<rparr>)"

definition findLink :: "('w, 'z) host_scheme \<Rightarrow> string \<Rightarrow> string \<Rightarrow> ('w, Link) eff" where
  "findLink N preferredName hardwareAddress =
     (let byMAC = andThen (nLinkList N) (\<lambda>links.
            case find (\<lambda>link. hardwareAddress \<noteq> [] \<and> EqualFold (HardwareAddr_String (lk_HardwareAddr link)) hardwareAddress) links of
              Some link \<Rightarrow> ok link
            | None \<Rightarrow> fail (Errorf ''interface %q with MAC %q not found'' [preferredName, hardwareAddress]))
      in if preferredName \<noteq> []
         then andThen (attempt (nLinkByName N preferredName)) (\<lambda>r. case r of Inr link \<Rightarrow> ok link | Inl _ \<Rightarrow> byMAC)
         else byMAC)"

text \<open>An address as it was saved.\<close>

definition savedAddr :: "('w, 'z) host_scheme \<Rightarrow> HostAddressState \<Rightarrow> goerr + Addr" where
  "savedAddr N saved =
     (case nParseAddr N (ha_CIDR saved) of
        Inl err \<Rightarrow> Inl err
      | Inr parsed \<Rightarrow>
          (case (if ha_Peer saved \<noteq> [] then map_sum id Some (nParseIPNet N (ha_Peer saved)) else Inr (ad_Peer parsed)) of
             Inl err \<Rightarrow> Inl err
           | Inr peer \<Rightarrow>
               Inr (parsed\<lparr>ad_Label := ha_Label saved, ad_Flags := ha_Flags saved, ad_Scope := ha_Scope saved,
                 ad_PreferedLft := ha_PreferredLft saved, ad_ValidLft := ha_ValidLft saved, ad_Peer := peer,
                 ad_Broadcast := (if ha_Broadcast saved \<noteq> [] then ParseIP (ha_Broadcast saved) else ad_Broadcast parsed)\<rparr>)))"

definition cidrState :: "string \<Rightarrow> HostAddressState" where
  "cidrState cidr = \<lparr>ha_CIDR = cidr, ha_Label = [], ha_Flags = 0, ha_Scope = 0, ha_Peer = [], ha_Broadcast = [],
     ha_PreferredLft = 0, ha_ValidLft = 0\<rparr>"

definition addressesToRestore :: "HostDeviceState \<Rightarrow> HostAddressState list" where
  "addressesToRestore state =
     (if hd_AddressState state = [] then map cidrState (hd_OriginalAddresses state) else hd_AddressState state)"

definition restoreMAC :: "('w, 'z) host_scheme \<Rightarrow> Link \<Rightarrow> HostDeviceState \<Rightarrow> ('w, unit) eff" where
  "restoreMAC N link state =
     (if hd_OriginalMAC state \<noteq> [] \<and> \<not> EqualFold (HardwareAddr_String (lk_HardwareAddr link)) (hd_OriginalMAC state)
      then (case ParseMAC (hd_OriginalMAC state) of
              None \<Rightarrow> fail (Errorf ''address %s: invalid MAC address'' [hd_OriginalMAC state])
            | Some mac \<Rightarrow> nLinkSetHardwareAddr N link mac)
      else ok ())"

definition restoreMTU :: "('w, 'z) host_scheme \<Rightarrow> Link \<Rightarrow> HostDeviceState \<Rightarrow> ('w, unit) eff" where
  "restoreMTU N link state =
     (if hd_OriginalMTU state > 0 \<and> lk_MTU link \<noteq> hd_OriginalMTU state then nLinkSetMTU N link (hd_OriginalMTU state) else ok ())"

definition restoreLinkState :: "('w, 'z) host_scheme \<Rightarrow> Link \<Rightarrow> HostDeviceState \<Rightarrow> ('w, unit) eff" where
  "restoreLinkState N link0 state =
     andThen (ensureName N (Wrapf ''restore interface name'' []) link0 (hd_OriginalName state)) (\<lambda>link.
     seqE (nLinkSetDown N link)
       (seqE (restoreMAC N link state)
         (seqE (restoreMTU N link state)
           (andThen (nAddrList N link) (\<lambda>currentAddresses.
             seqE (forE (\<lambda>address. ignoreErr (nAddrDel N link address)) currentAddresses)
               (seqE (forE (\<lambda>saved. andThen (liftE (savedAddr N saved)) (addrEnsure N link)) (addressesToRestore state))
                 (if hd_OriginalAdminUp state then nLinkSetUp N link else nLinkSetDown N link)))))))"

definition markRestored :: "DeviceConfig \<Rightarrow> DeviceConfig" where
  "markRestored cfg = cfg\<lparr>dev_HostDevice := map_option (\<lambda>hs. hs\<lparr>hd_Restored := True\<rparr>) (dev_HostDevice cfg),
     dev_AttachedIf := [], dev_LifecycleState := ''Restored''\<rparr>"

text \<open>The part of \<^verbatim>\<open>restoreHostDevice\<close> that runs inside the pod's namespace.\<close>

definition leaveNamespace :: "('w, 'z) host_scheme \<Rightarrow> string \<Rightarrow> HostDeviceState \<Rightarrow> nshandle \<Rightarrow> ('w, unit) eff" where
  "leaveNamespace N attachedIf hs rootNS =
     andThen (findLink N attachedIf (hd_OriginalMAC hs)) (\<lambda>link.
     seqE (nLinkSetDown N link)
       (andThen (ensureName N id link (hd_OriginalName hs)) (\<lambda>link1. nLinkSetNsFd N link1 rootNS)))"

definition restoreFromPod :: "('w, 'z) host_scheme \<Rightarrow> string \<Rightarrow> string \<Rightarrow> HostDeviceState \<Rightarrow> ('w, unit) eff" where
  "restoreFromPod N nsPath attachedIf hs =
     (if nsPath = [] then
        fail (Errorf ''host device %s is not in the host namespace and Pod namespace is unavailable'' [hd_OriginalName hs])
      else
        andThen (nNsGet N) (\<lambda>rootNS.
        andThen (mapErr (Wrapf ''open Pod network namespace for host-device restore'' []) (nNsGetFromPath N nsPath)) (\<lambda>target.
        seqE (mapErr (Wrapf ''move host device back to host'' []) (inNetNS N target (leaveNamespace N attachedIf hs rootNS)))
          (andThen (mapErr (Wrapf ''find restored host device'' []) (nLinkByName N (hd_OriginalName hs))) (\<lambda>link.
             restoreLinkState N link hs)))))"

definition restoreHostDevice :: "('w, 'z) host_scheme \<Rightarrow> string \<Rightarrow> DeviceConfig \<Rightarrow> ('w, DeviceConfig) eff" where
  "restoreHostDevice N nsPath cfg =
     (case dev_HostDevice cfg of
        None \<Rightarrow> ok cfg
      | Some hs \<Rightarrow>
          if hd_Restored hs then ok cfg
          else
            andThen (attempt (findLink N (hd_OriginalName hs) (hd_OriginalMAC hs))) (\<lambda>found.
              case found of
                Inr link \<Rightarrow> seqE (restoreLinkState N link hs) (ok (markRestored cfg))
              | Inl _ \<Rightarrow> seqE (restoreFromPod N nsPath (dev_AttachedIf cfg) hs) (ok (markRestored cfg))))"

text \<open>The configuration inside the pod: the name and the hardware address of the link there.\<close>

definition configureHostDevice :: "('w, 'z) host_scheme \<Rightarrow> NetworkConfig \<Rightarrow> HostDeviceState \<Rightarrow> ('w, string \<times> string) eff" where
  "configureHostDevice N net hs =
     andThen (findLink N (hd_OriginalName hs) (hd_OriginalMAC hs)) (\<lambda>link0.
     andThen (if nc_InterfaceName net \<noteq> [] \<and> nc_InterfaceName net \<noteq> lk_Name link0
              then seqE (mapErr (Wrapf ''rename host device in Pod'' []) (nLinkSetName N link0 (nc_InterfaceName net)))
                     (nLinkByName N (nc_InterfaceName net))
              else ok link0) (\<lambda>podLink.
     seqE (if nc_MTU net > 0 \<and> nc_MTU net \<noteq> lk_MTU podLink then nLinkSetMTU N podLink (nc_MTU net) else ok ())
       (seqE (forE (addAddress N podLink) (nc_Addresses net))
         (seqE (nLinkSetUp N podLink)
           (ok (lk_Name podLink, HardwareAddr_String (lk_HardwareAddr podLink)))))))"

text \<open>Everything up to the point where the device has left the host.\<close>

definition enterNamespace :: "('w, 'z) host_scheme \<Rightarrow> fsys \<Rightarrow> string \<Rightarrow> DeviceConfig \<Rightarrow> HostDeviceState \<Rightarrow> ('w, nshandle) eff" where
  "enterNamespace N fs nsPath cfg hs =
     andThen (mapErr (Wrapf ''find host device %s'' [hd_OriginalName hs]) (nLinkByName N (hd_OriginalName hs))) (\<lambda>link.
     if ii_PCIAddress (dev_Identity cfg) \<noteq> []
        \<and> ii_PCIAddress (interfaceIdentity fs (hd_OriginalName hs)) \<noteq> ii_PCIAddress (dev_Identity cfg)
     then fail (Errorf ''host device %s PCI identity changed'' [hd_OriginalName hs])
     else
       andThen (mapErr (Wrapf ''open Pod network namespace'' []) (nNsGetFromPath N nsPath)) (\<lambda>target.
       seqE (mapErr (Wrapf ''set host device %s down'' [hd_OriginalName hs]) (nLinkSetDown N link))
         (seqE (mapErr (Wrapf ''move host device %s into Pod'' [hd_OriginalName hs])
                 (onError (restoreLinkState N link hs) (nLinkSetNsFd N link target)))
           (ok target))))"

text \<open>The error, if any, and the record as the caller then sees it.\<close>

definition attachHostDevice ::
  "('w, 'z) host_scheme \<Rightarrow> fsys \<Rightarrow> string \<Rightarrow> DeviceConfig \<Rightarrow> ('w, goerr option \<times> DeviceConfig) eff" where
  "attachHostDevice N fs nsPath cfg =
     (case dev_HostDevice cfg of
        None \<Rightarrow> ok (Some (Errorf ''host-device state is missing'' []), cfg)
      | Some hs \<Rightarrow>
          andThen (attempt (enterNamespace N fs nsPath cfg hs)) (\<lambda>entered.
            case entered of
              Inl err \<Rightarrow> ok (Some err, cfg)
            | Inr target \<Rightarrow>
                andThen (attempt (inNetNS N target (configureHostDevice N (dev_Network cfg) hs))) (\<lambda>configured.
                  case configured of
                    Inl err \<Rightarrow>
                      andThen (attempt (restoreHostDevice N nsPath cfg)) (\<lambda>restored.
                        case restored of
                          Inl restoreErr \<Rightarrow> ok (Some (Wrapf ''attach host device: %v; rollback failed'' [eText N err] restoreErr), cfg)
                        | Inr cfg1 \<Rightarrow> ok (Some err, cfg1))
                  | Inr (name, hw) \<Rightarrow>
                      ok (None, cfg\<lparr>dev_AttachedIf := name, dev_HardwareAddress := hw,
                            dev_HostDevice := Some (hs\<lparr>hd_Restored := False\<rparr>), dev_LifecycleState := ''Attached''\<rparr>))))"

section \<open>Safety of an allocation\<close>

definition defaultRoute :: "NetRoute \<Rightarrow> bool" where
  "defaultRoute route \<longleftrightarrow>
     (case nr_Dst route of None \<Rightarrow> True | Some dst \<Rightarrow> IPNet_String dst = ''0.0.0.0/0'' \<or> IPNet_String dst = ''::/0'')"

definition carriesAddress :: "HostDeviceState \<Rightarrow> string \<Rightarrow> bool" where
  "carriesAddress state address \<longleftrightarrow>
     list_ex (\<lambda>cidr. case ParseCIDR cidr of Some (ip, _) \<Rightarrow> IP_String ip = address | None \<Rightarrow> False) (hd_OriginalAddresses state)"

definition nodeAddress :: "string \<times> string \<Rightarrow> bool" where
  "nodeAddress a \<longleftrightarrow> fst a = ''InternalIP'' \<or> fst a = ''ExternalIP''"

definition validateHostDeviceSafety ::
  "('w, 'z) host_scheme \<Rightarrow> drv \<Rightarrow> Link \<Rightarrow> HostDeviceState \<Rightarrow> ('w, unit) eff" where
  "validateHostDeviceSafety N d link state =
     (if lk_MasterIndex link \<noteq> 0 then
        fail (Errorf ''host device %s belongs to link master index %d; set allowUnsafe only after verifying node connectivity''
          [lk_Name link, Itoa (lk_MasterIndex link)])
      else
        andThen (mapErr (Wrapf ''inspect routes for host device %s'' [lk_Name link]) (nRouteList N link)) (\<lambda>routes.
        if list_ex defaultRoute routes then
          fail (Errorf ''host device %s carries a default route; refusing exclusive allocation'' [lk_Name link])
        else
          andThen (mapErr (Wrapf ''inspect node addresses before host-device allocation'' []) (kGetNode N (drv_nodeName d))) (\<lambda>node.
            case find (\<lambda>a. nodeAddress a \<and> carriesAddress state (snd a)) (node_Addresses node) of
              Some a \<Rightarrow> fail (Errorf ''host device %s carries Kubernetes node address %s; refusing exclusive allocation''
                [lk_Name link, snd a])
            | None \<Rightarrow> ok ())))"

end
