(* ===== verification/Driver.thy ===== *)
theory Driver
  imports Dpdk Host_Device Driver_Ipam
begin

text \<open>
  The handlers of \<^verbatim>\<open>internal/driver/driver.go\<close> and \<^verbatim>\<open>hostdevice.go\<close>: what the kubelet calls
  (prepare and unprepare claims), what the container runtime calls (synchronize, run, stop and
  remove a pod sandbox), the publication of devices, and the start of the driver.

  Go map iteration is modelled by the order of the association list.  A device record is a copy,
  except for its host-device state, which handler and store share by a pointer: \<open>shareHostDevice\<close>
  writes it back where a handler changes it and then fails.
\<close>

section \<open>Publication\<close>

definition unrestoredHost :: "string \<Rightarrow> DeviceConfig \<Rightarrow> HostDeviceState option" where
  "unrestoredHost name cfg =
     (case dev_HostDevice cfg of
        Some hs \<Rightarrow> if dev_ParentName cfg = name \<and> nc_Type (dev_Network cfg) = ''host-device'' \<and> \<not> hd_Restored hs then Some hs else None
      | None \<Rightarrow> None)"

definition storedInterface :: "Store \<Rightarrow> string \<Rightarrow> (DeviceConfig \<times> HostDeviceState) option" where
  "storedInterface st name =
     (case concat (map (\<lambda>(_, pod). concat (map (\<lambda>(_, cfg). case unrestoredHost name cfg of Some hs \<Rightarrow> [(cfg, hs)] | None \<Rightarrow> [])
                                        (pod_devices pod))) (PodConfigs st)) of
        [] \<Rightarrow> None | x # _ \<Rightarrow> Some x)"

definition publishInterface :: "('w, 'z) host_scheme \<Rightarrow> InterfaceConfig \<Rightarrow> ('w sys, PublishedDevice list) eff" where
  "publishInterface N ifc =
     andThen (attempt (onW (nLinkByName N (ic_Name ifc)))) (\<lambda>r.
       case r of
         Inl _ \<Rightarrow>
           getsE (\<lambda>s. case storedInterface (sys_store s) (ic_Name ifc) of
             None \<Rightarrow> []
           | Some (cfg, hs) \<Rightarrow> [\<lparr>pd_Name = deviceName (ic_Name ifc), pd_Attributes = storedDeviceAttributes ifc cfg hs,
                 pd_AllowMultipleAllocations = (ic_AllocationPolicy ifc = ''shared'')\<rparr>])
       | Inr link \<Rightarrow>
           getsE (\<lambda>s. [\<lparr>pd_Name = deviceName (ic_Name ifc),
             pd_Attributes = deviceAttributes ifc link (interfaceIdentity (sys_fs s) (ic_Name ifc)),
             pd_AllowMultipleAllocations = (ic_AllocationPolicy ifc = ''shared'')\<rparr>]))"

definition publishDPDK :: "drv \<Rightarrow> ('w sys, PublishedDevice list) eff" where
  "publishDPDK d =
     (if \<not> dc_Enabled (cfg_DPDK (drv_cfg d)) then ok []
      else
        andThen (getsE sys_fs) (\<lambda>fs.
        andThen (mapErr (Wrapf ''discover DPDK devices'' []) (liftE (discoverDPDKDevices fs (cfg_DPDK (drv_cfg d))))) (\<lambda>discovered.
        seqE (modifyE (\<lambda>s. s\<lparr>sys_dpdk := discovered\<rparr>))
          (ok (map (\<lambda>(_, device). \<lparr>pd_Name = dd_Name device, pd_Attributes = dpdkDeviceAttributes device,
                 pd_AllowMultipleAllocations = False\<rparr>) discovered)))))"

definition publish :: "('w, 'z) host_scheme \<Rightarrow> drv \<Rightarrow> ('w sys, unit) eff" where
  "publish N d =
     andThen (mapE (publishInterface N) (cfg_Interfaces (drv_cfg d))) (\<lambda>devices1.
     andThen (publishDPDK d) (\<lambda>devices2.
       onW (hPublishResources N (if devices1 @ devices2 = [] then [] else [(drv_nodeName d, devices1 @ devices2)]))))"

section \<open>Preparing a claim\<close>

text \<open>The configuration of an interface, from the defaults, the claim and the pod.\<close>

definition interfaceBase :: "InterfaceConfig \<Rightarrow> NetworkConfig" where
  "interfaceBase ifc = no_network\<lparr>nc_Type := ic_DefaultType ifc, nc_Mode := ic_DefaultMode ifc,
     nc_InterfaceName := ic_DefaultPodName ifc, nc_MTU := ic_MTU ifc\<rparr>"

definition requestedConfig ::
  "codecs \<Rightarrow> drv \<Rightarrow> Store \<Rightarrow> ResourceClaim \<Rightarrow> Pod \<Rightarrow> InterfaceConfig \<Rightarrow> AllocationResult \<Rightarrow> string \<Rightarrow> goerr + NetworkConfig" where
  "requestedConfig J d st claim pod ifc allocation storageKey =
     (case configForRequest (jNetwork J) (drv_driverName d) claim (ar_Request allocation) of
        Inl err \<Rightarrow> Inl err
      | Inr userCfg \<Rightarrow>
          (let n1 = mergeConfig (interfaceBase ifc) userCfg;
               n2 = (if nc_Type n1 = ''host-device'' \<and> nc_InterfaceName n1 = [] then n1\<lparr>nc_InterfaceName := ic_Name ifc\<rparr> else n1)
           in case (if nc_Type n2 = ''macvlan'' \<or> nc_Type n2 = ''ipvlan''
                    then podInterfaceName st pod claim (ar_Request allocation) storageKey (nc_InterfaceName n2)
                    else Inr (nc_InterfaceName n2)) of
                Inl err \<Rightarrow> Inl err
              | Inr name \<Rightarrow>
                  (case podStaticAddress (pod_Annotations pod) (ar_Request allocation) name (nc_IPPool n2) of
                     Inl err \<Rightarrow> Inl err
                   | Inr address \<Rightarrow>
                       (let n3 = n2\<lparr>nc_InterfaceName := name\<rparr>;
                            n4 = (if address \<noteq> [] then n3\<lparr>nc_Address := address\<rparr> else n3)
                        in case validateConfig ifc n4 of Inl err \<Rightarrow> Inl err | Inr _ \<Rightarrow> Inr n4))))"

definition deviceConfigOf ::
  "ResourceClaim \<Rightarrow> AllocationResult \<Rightarrow> InterfaceConfig \<Rightarrow> InterfaceIdentity \<Rightarrow> NetworkConfig \<Rightarrow> DeviceConfig" where
  "deviceConfigOf claim allocation ifc identity netCfg =
     \<lparr>dev_Claim = \<lparr>nn_Namespace = rc_Namespace claim, nn_Name = rc_Name claim\<rparr>, dev_ClaimUID = rc_UID claim,
      dev_DriverName = ar_Driver allocation, dev_PoolName = ar_Pool allocation, dev_DeviceName = ar_Device allocation,
      dev_ShareID = ar_ShareID allocation, dev_ParentName = ic_Name ifc, dev_AllocationPolicy = ic_AllocationPolicy ifc,
      dev_Identity = identity, dev_HostDevice = None, dev_DPDK = None, dev_Network = netCfg, dev_AttachedIf = [],
      dev_HardwareAddress = [], dev_LifecycleState = []\<rparr>"

text \<open>A host device keeps the record of an earlier preparation; otherwise the link is recorded as it is now.\<close>

definition keptHostDevice :: "Store \<Rightarrow> uid \<Rightarrow> string \<Rightarrow> uid \<Rightarrow> DeviceConfig option" where
  "keptHostDevice st podUID storageKey claimUID =
     (case GetPod podUID st of
        None \<Rightarrow> None
      | Some existingPod \<Rightarrow>
          (case map_of (pod_devices existingPod) storageKey of
             None \<Rightarrow> None
           | Some existing \<Rightarrow> if dev_ClaimUID existing = claimUID \<and> dev_HostDevice existing \<noteq> None then Some existing else None))"

definition withHostDevice ::
  "('w, 'z) host_scheme \<Rightarrow> drv \<Rightarrow> InterfaceConfig \<Rightarrow> uid \<Rightarrow> string \<Rightarrow> DeviceConfig \<Rightarrow> ('w sys, DeviceConfig) eff" where
  "withHostDevice N d ifc podUID storageKey deviceCfg =
     andThen (getsE (\<lambda>s. keptHostDevice (sys_store s) podUID storageKey (dev_ClaimUID deviceCfg))) (\<lambda>kept.
       case kept of
         Some existing \<Rightarrow> ok existing
       | None \<Rightarrow>
           andThen (mapErr (Wrapf ''inspect host device %s'' [ic_Name ifc]) (onW (nLinkByName N (ic_Name ifc)))) (\<lambda>link.
           andThen (onW (snapshotHostDevice N link (nc_InterfaceName (dev_Network deviceCfg)))) (\<lambda>hs.
           seqE (if \<not> ic_AllowUnsafe ifc then onW (validateHostDeviceSafety N d link hs) else ok ())
             (ok (deviceCfg\<lparr>dev_HostDevice := Some hs\<rparr>)))))"

definition prepareInterface ::
  "('w, 'z) host_scheme \<Rightarrow> codecs \<Rightarrow> drv \<Rightarrow> ResourceClaim \<Rightarrow> Pod \<Rightarrow> uid \<Rightarrow> string \<Rightarrow> AllocationResult \<Rightarrow> InterfaceConfig
    \<Rightarrow> ('w sys, PreparedDevice) eff" where
  "prepareInterface N J d claim pod podUID storageKey allocation ifc =
     andThen (andThen (getsE sys_store) (\<lambda>st. liftE (requestedConfig J d st claim pod ifc allocation storageKey))) (\<lambda>netCfg0.
     andThen (applyIPAM N (jStore J) d netCfg0 claim pod) (\<lambda>netCfg.
     andThen (getsE (\<lambda>s. deviceConfigOf claim allocation ifc (interfaceIdentity (sys_fs s) (ic_Name ifc)) netCfg)) (\<lambda>cfg0.
     andThen (if nc_Type netCfg = ''host-device'' then withHostDevice N d ifc podUID storageKey cfg0 else ok cfg0) (\<lambda>cfg1.
     let cfg = cfg1\<lparr>dev_LifecycleState := ''Prepared''\<rparr>; message = networkPreparedMessage cfg in
     seqE (mapErr (Wrapf ''persist pod config'' []) (onStore (SetDevice (jStore J) podUID storageKey cfg)))
       (seqE (mapErr (Wrapf ''report prepared device status'' [])
               (onW (setResourceClaimDeviceStatus N cfg False ''NetworkPrepared'' message [])))
         (seqE (ignoreErr (onW (emitPodEvent N d pod ''Normal'' ''LinuxNetworkPrepared'' ''PrepareNetwork'' message (Some (dev_Claim cfg)))))
           (ok \<lparr>prd_Requests = [ar_Request allocation], prd_PoolName = drv_nodeName d, prd_DeviceName = ar_Device allocation,
               prd_CDIDeviceIDs = []\<rparr>)))))))"

text \<open>One result of the allocation; a device of another driver is passed over.\<close>

definition prepareAllocation ::
  "('w, 'z) host_scheme \<Rightarrow> codecs \<Rightarrow> drv \<Rightarrow> ResourceClaim \<Rightarrow> Pod \<Rightarrow> uid \<Rightarrow> AllocationResult \<Rightarrow> ('w sys, PreparedDevice list) eff" where
  "prepareAllocation N J d claim pod podUID allocation =
     (if ar_Driver allocation \<noteq> drv_driverName d then ok []
      else
        andThen (getsE sys_dpdk) (\<lambda>dpdkDevices.
        let storageKey = deviceStoreKey (rc_UID claim) (ar_Device allocation) (ar_ShareID allocation) in
        case (map_of dpdkDevices (ar_Device allocation), map_of (drv_devices d) (ar_Device allocation)) of
          (Some dpdk, _) \<Rightarrow>
            andThen (prepareDPDKDevice N J d claim pod podUID storageKey allocation dpdk) (\<lambda>x. ok [x])
        | (None, Some ifc) \<Rightarrow>
            andThen (prepareInterface N J d claim pod podUID storageKey allocation ifc) (\<lambda>x. ok [x])
        | (None, None) \<Rightarrow> fail (Errorf ''allocated unknown device %q'' [ar_Device allocation])))"

definition prepareClaim :: "('w, 'z) host_scheme \<Rightarrow> codecs \<Rightarrow> drv \<Rightarrow> ResourceClaim \<Rightarrow> ('w sys, PreparedDevice list) eff" where
  "prepareClaim N J d claim =
     (case rc_ReservedFor claim of
        [] \<Rightarrow> ok []
      | holder # others \<Rightarrow>
          if others \<noteq> [] then fail (Errorf ''only one pod may reserve claim %s/%s'' [rc_Namespace claim, rc_Name claim])
          else if cons_APIGroup holder \<noteq> [] \<or> cons_Resource holder \<noteq> ''pods'' then
            fail (Errorf ''claim %s/%s is reserved for unsupported object %s/%s''
              [rc_Namespace claim, rc_Name claim, cons_APIGroup holder, cons_Resource holder])
          else
            andThen (mapErr (Wrapf ''get pod %s/%s for claim %s/%s'' [rc_Namespace claim, cons_Name holder, rc_Namespace claim, rc_Name claim])
              (onW (kGetPod N (rc_Namespace claim) (cons_Name holder)))) (\<lambda>pod.
            andThen (mapE (prepareAllocation N J d claim pod (cons_UID holder)) (rc_Results claim)) (\<lambda>prepared.
            seqE (if prepared \<noteq> [] \<and> podUsesNetworkReadinessGate pod
                  then mapErr (Wrapf ''set Pod network readiness'' [])
                    (onW (setPodNetworkCondition N (pod_Namespace pod) (pod_Name pod) (pod_UID pod) ''False'' ''NetworkPrepared''
                      ''Secondary network resources are prepared; waiting for attachment''))
                  else ok ())
              (ok prepared))))"

text \<open>The results per claim, as the kubelet gets them; a later claim with the same UID replaces the entry.\<close>

fun eachClaim :: "('c \<Rightarrow> uid) \<Rightarrow> ('c \<Rightarrow> ('s, 'a) eff) \<Rightarrow> 'c list \<Rightarrow> (uid \<times> (goerr + 'a)) list \<Rightarrow> ('s, (uid \<times> (goerr + 'a)) list) eff" where
  "eachClaim uidOf f [] results = ok results"
| "eachClaim uidOf f (c # cs) results =
     andThen (attempt (f c)) (\<lambda>r. eachClaim uidOf f cs (gput (uidOf c) r results))"

definition PrepareResourceClaims ::
  "('w, 'z) host_scheme \<Rightarrow> codecs \<Rightarrow> drv \<Rightarrow> ResourceClaim list \<Rightarrow> ('w sys, (uid \<times> (goerr + PreparedDevice list)) list) eff" where
  "PrepareResourceClaims N J d claims = eachClaim rc_UID (prepareClaim N J d) claims []"

section \<open>Restoring host devices\<close>

definition needsRestore :: "DeviceConfig \<Rightarrow> bool" where
  "needsRestore cfg \<longleftrightarrow> nc_Type (dev_Network cfg) = ''host-device''
     \<and> (case dev_HostDevice cfg of Some hs \<Rightarrow> \<not> hd_Restored hs | None \<Rightarrow> False)"

text \<open>Restore, record, report to the claim; \<open>report\<close> is what the caller adds.\<close>

definition restoreStored ::
  "('w, 'z) host_scheme \<Rightarrow> codecs \<Rightarrow> string \<Rightarrow> uid \<Rightarrow> string \<Rightarrow> (DeviceConfig \<Rightarrow> ('w sys, unit) eff) \<Rightarrow> DeviceConfig \<Rightarrow> ('w sys, unit) eff" where
  "restoreStored N J nsPath podUID storageKey report cfg =
     andThen (mapErr (Wrapf ''restore %s'' [dev_ParentName cfg]) (onW (restoreHostDevice N nsPath cfg))) (\<lambda>cfg1.
     seqE (onStore (SetDevice (jStore J) podUID storageKey cfg1))
       (seqE (ignoreErr (onW (setResourceClaimDeviceStatus N cfg1 False ''NetworkRestored'' (networkRestoredMessage cfg1) (dev_HardwareAddress cfg1))))
         (report cfg1)))"

definition restoreClaimHostDevices :: "('w, 'z) host_scheme \<Rightarrow> codecs \<Rightarrow> drv \<Rightarrow> uid \<Rightarrow> ('w sys, unit) eff" where
  "restoreClaimHostDevices N J d claimUID =
     andThen (getsE (\<lambda>s. PodConfigs (sys_store s))) (\<lambda>podConfigs.
     andThen (collectE (\<lambda>(podUID, nsPath, storageKey, cfg). restoreStored N J nsPath podUID storageKey (\<lambda>_. ok ()) cfg)
       (concat (map (\<lambda>(podUID, podCfg). map (\<lambda>(key, cfg). (podUID, pcf_NetNS podCfg, key, cfg))
          (filter (\<lambda>(_, cfg). dev_ClaimUID cfg = claimUID \<and> needsRestore cfg) (pod_devices podCfg))) podConfigs))) (\<lambda>restoreErrors.
     seqE (ignoreErr (publish N d)) (liftE (errors_Join restoreErrors))))"

definition reportRestored ::
  "('w, 'z) host_scheme \<Rightarrow> codecs \<Rightarrow> drv \<Rightarrow> PodSandbox \<Rightarrow> DeviceConfig \<Rightarrow> ('w sys, unit) eff" where
  "reportRestored N J d pod cfg =
     andThen (attempt (onW (kGetPod N (sb_Namespace pod) (sb_Name pod)))) (\<lambda>r.
       case r of
         Inr kubePod \<Rightarrow>
           if pod_UID kubePod = sb_Uid pod then
             seqE (ignoreErr (onW (setPodNetworkStatus N J (pod_Namespace kubePod) (pod_Name kubePod) (pod_UID kubePod) cfg)))
               (ignoreErr (onW (emitPodEvent N d kubePod ''Normal'' ''LinuxHostDeviceRestored'' ''RestoreHostDevice''
                 (networkRestoredMessage cfg) (Some (dev_Claim cfg)))))
           else ok ()
       | Inl _ \<Rightarrow> ok ())"

definition restorePodHostDevices :: "('w, 'z) host_scheme \<Rightarrow> codecs \<Rightarrow> drv \<Rightarrow> PodSandbox \<Rightarrow> ('w sys, unit) eff" where
  "restorePodHostDevices N J d pod =
     andThen (getsE (\<lambda>s. GetPod (sb_Uid pod) (sys_store s))) (\<lambda>found.
       case found of
         None \<Rightarrow> ok ()
       | Some podCfg \<Rightarrow>
           (let nsPath = (if networkNamespace pod = [] then pcf_NetNS podCfg else networkNamespace pod) in
            andThen (collectE (\<lambda>(storageKey, cfg). restoreStored N J nsPath (sb_Uid pod) storageKey (reportRestored N J d pod) cfg)
              (filter (\<lambda>(_, cfg). needsRestore cfg) (pod_devices podCfg))) (\<lambda>restoreErrors.
            seqE (ignoreErr (publish N d)) (liftE (errors_Join restoreErrors)))))"

definition StopPodSandbox :: "('w, 'z) host_scheme \<Rightarrow> codecs \<Rightarrow> drv \<Rightarrow> PodSandbox \<Rightarrow> ('w sys, unit) eff" where
  "StopPodSandbox N J d pod = restorePodHostDevices N J d pod"

definition RemovePodSandbox :: "('w, 'z) host_scheme \<Rightarrow> codecs \<Rightarrow> drv \<Rightarrow> PodSandbox \<Rightarrow> ('w sys, unit) eff" where
  "RemovePodSandbox N J d pod = restorePodHostDevices N J d pod"

section \<open>Unpreparing a claim\<close>

record NamespacedObject =
  no_Namespace :: string
  no_Name :: string
  no_UID :: uid

definition unprepareClaim :: "('w, 'z) host_scheme \<Rightarrow> codecs \<Rightarrow> drv \<Rightarrow> NamespacedObject \<Rightarrow> ('w sys, unit) eff" where
  "unprepareClaim N J d claim =
     seqE (mapErr (Wrapf ''restore host device before unprepare'' []) (restoreClaimHostDevices N J d (no_UID claim)))
       (seqE (mapErr (Wrapf ''remove ResourceClaim device status'' [])
               (onW (removeResourceClaimDeviceStatus N d \<lparr>nn_Namespace = no_Namespace claim, nn_Name = no_Name claim\<rparr>)))
         (seqE (mapErr (Wrapf ''delete cluster IP allocation'' []) (onW (DeleteForClaim N (no_UID claim))))
           (seqE (if dc_Enabled (cfg_DPDK (drv_cfg d))
                  then mapErr (Wrapf ''remove CDI specification'' [])
                    (onFs (removeClaimCDISpecs (dc_CDIPath (cfg_DPDK (drv_cfg d))) (no_UID claim)))
                  else ok ())
             (onStore (DeleteClaim (jStore J) (no_UID claim))))))"

definition UnprepareResourceClaims ::
  "('w, 'z) host_scheme \<Rightarrow> codecs \<Rightarrow> drv \<Rightarrow> NamespacedObject list \<Rightarrow> ('w sys, (uid \<times> (goerr + unit)) list) eff" where
  "UnprepareResourceClaims N J d claims = eachClaim no_UID (unprepareClaim N J d) claims []"

section \<open>Pod sandboxes\<close>

definition recoverOrphan :: "('w, 'z) host_scheme \<Rightarrow> codecs \<Rightarrow> uid \<Rightarrow> string \<Rightarrow> DeviceConfig \<Rightarrow> ('w sys, unit) eff" where
  "recoverOrphan N J podUID storageKey cfg =
     andThen (attempt (onW (restoreHostDevice N [] cfg))) (\<lambda>r.
       case r of Inl _ \<Rightarrow> ok () | Inr cfg1 \<Rightarrow> onStore (SetDevice (jStore J) podUID storageKey cfg1))"

definition Synchronize :: "('w, 'z) host_scheme \<Rightarrow> codecs \<Rightarrow> drv \<Rightarrow> PodSandbox list \<Rightarrow> ('w sys, unit) eff" where
  "Synchronize N J d active =
     seqE (forE (\<lambda>pod. if networkNamespace pod \<noteq> [] then ignoreErr (onStore (SetNetNS (jStore J) (sb_Uid pod) (networkNamespace pod))) else ok ()) active)
       (andThen (getsE (\<lambda>s. PodConfigs (sys_store s))) (\<lambda>podConfigs.
        seqE (forE (\<lambda>(podUID, storageKey, cfg). recoverOrphan N J podUID storageKey cfg)
               (concat (map (\<lambda>(podUID, podCfg). map (\<lambda>(key, cfg). (podUID, key, cfg))
                  (filter (\<lambda>(_, cfg). needsRestore cfg) (pod_devices podCfg)))
                  (filter (\<lambda>(podUID, _). \<not> Contains (map sb_Uid active) podUID) podConfigs))))
          (ignoreErr (publish N d))))"

definition shareHostDevice :: "uid \<Rightarrow> string \<Rightarrow> HostDeviceState option \<Rightarrow> Store \<Rightarrow> Store" where
  "shareHostDevice podUID storageKey hs st =
     (case lookupDevice st podUID storageKey of
        None \<Rightarrow> st
      | Some cfg \<Rightarrow> putDevice podUID storageKey (cfg\<lparr>dev_HostDevice := hs\<rparr>) st)"

text \<open>The error, the record and the hardware address after an attempt to attach.\<close>

definition attachAny ::
  "('w, 'z) host_scheme \<Rightarrow> uid \<Rightarrow> string \<Rightarrow> string \<Rightarrow> DeviceConfig \<Rightarrow> ('w sys, goerr option \<times> DeviceConfig \<times> string) eff" where
  "attachAny N podUID storageKey nsPath cfg =
     (if nc_Type (dev_Network cfg) = ''host-device'' then
        andThen (getsE sys_fs) (\<lambda>fs.
        andThen (onW (attachHostDevice N fs nsPath cfg)) (\<lambda>(err, cfg1).
        seqE (modifyE (\<lambda>s. s\<lparr>sys_store := shareHostDevice podUID storageKey (dev_HostDevice cfg1) (sys_store s)\<rparr>))
          (ok (err, cfg1, dev_HardwareAddress cfg1))))
      else
        andThen (attempt (onW (attachLink N nsPath cfg))) (\<lambda>r.
          ok (case r of Inl err \<Rightarrow> (Some err, cfg, []) | Inr hw \<Rightarrow> (None, cfg, hw))))"

definition reportAttachFailure ::
  "('w, 'z) host_scheme \<Rightarrow> drv \<Rightarrow> Pod \<Rightarrow> DeviceConfig \<Rightarrow> goerr \<Rightarrow> ('w sys, unit) eff" where
  "reportAttachFailure N d kubePod cfg err =
     (let message = ''failed to attach '' @ nc_InterfaceName (dev_Network cfg) @ '': '' @ eText N err in
      seqE (ignoreErr (onW (setResourceClaimDeviceStatus N cfg False ''NetworkAttachFailed'' message [])))
        (seqE (if podUsesNetworkReadinessGate kubePod
               then ignoreErr (onW (setPodNetworkCondition N (pod_Namespace kubePod) (pod_Name kubePod) (pod_UID kubePod)
                 ''False'' ''NetworkAttachFailed'' message))
               else ok ())
          (ignoreErr (onW (emitPodEvent N d kubePod ''Warning'' ''LinuxNetworkAttachFailed'' ''AttachNetwork'' message (Some (dev_Claim cfg)))))))"

definition attachDevice ::
  "('w, 'z) host_scheme \<Rightarrow> codecs \<Rightarrow> drv \<Rightarrow> PodSandbox \<Rightarrow> Pod \<Rightarrow> string \<Rightarrow> string \<Rightarrow> DeviceConfig \<Rightarrow> ('w sys, DeviceConfig) eff" where
  "attachDevice N J d pod kubePod nsPath storageKey cfg =
     andThen (attachAny N (sb_Uid pod) storageKey nsPath cfg) (\<lambda>(err, cfg1, hw).
       case err of
         Some e \<Rightarrow>
           seqE (reportAttachFailure N d kubePod cfg1 e)
             (fail (Wrapf ''attach %s for pod %s/%s'' [storageKey, sb_Namespace pod, sb_Name pod] e))
       | None \<Rightarrow>
           (let cfg2 = cfg1\<lparr>dev_AttachedIf := nc_InterfaceName (dev_Network cfg1), dev_HardwareAddress := hw, dev_LifecycleState := ''Attached''\<rparr>
            in seqE (onStore (SetDevice (jStore J) (sb_Uid pod) storageKey cfg2)) (ok cfg2)))"

definition reporting :: "('w, 'z) host_scheme \<Rightarrow> drv \<Rightarrow> Pod \<Rightarrow> DeviceConfig \<Rightarrow> string \<Rightarrow> ('w sys, unit) eff \<Rightarrow> ('w sys, unit) eff" where
  "reporting N d kubePod cfg what m =
     andThen (attempt m) (\<lambda>r.
       case r of
         Inr _ \<Rightarrow> ok ()
       | Inl err \<Rightarrow>
           seqE (ignoreErr (onW (emitPodEvent N d kubePod ''Warning'' ''LinuxNetworkStatusUpdateFailed'' ''ReportNetworkStatus''
                  (eText N err) (Some (dev_Claim cfg)))))
             (fail (Wrapf what [] err)))"

definition runDPDK ::
  "('w, 'z) host_scheme \<Rightarrow> codecs \<Rightarrow> drv \<Rightarrow> PodSandbox \<Rightarrow> Pod \<Rightarrow> string \<Rightarrow> DeviceConfig \<Rightarrow> ('w sys, unit) eff" where
  "runDPDK N J d pod kubePod storageKey cfg0 =
     (let cfg = cfg0\<lparr>dev_LifecycleState := ''Injected''\<rparr> in
      seqE (onStore (SetDevice (jStore J) (sb_Uid pod) storageKey cfg))
        (seqE (mapErr (Wrapf ''report injected DPDK device status'' [])
                (onW (setResourceClaimDeviceStatus N cfg True ''DPDKInjected'' (dpdkInjectedMessage cfg) [])))
          (mapErr (Wrapf ''report Pod DPDK status'' [])
            (onW (setPodNetworkStatus N J (pod_Namespace kubePod) (pod_Name kubePod) (pod_UID kubePod) cfg)))))"

definition runDevice ::
  "('w, 'z) host_scheme \<Rightarrow> codecs \<Rightarrow> drv \<Rightarrow> PodSandbox \<Rightarrow> Pod \<Rightarrow> string \<Rightarrow> string \<times> DeviceConfig \<Rightarrow> ('w sys, unit) eff" where
  "runDevice N J d pod kubePod nsPath = (\<lambda>(storageKey, cfg0).
     if nc_Type (dev_Network cfg0) = ''dpdk'' then runDPDK N J d pod kubePod storageKey cfg0
     else
       andThen (if dev_AttachedIf cfg0 = [] then attachDevice N J d pod kubePod nsPath storageKey cfg0 else ok cfg0) (\<lambda>cfg.
       let message = networkStatusMessage cfg in
       seqE (reporting N d kubePod cfg ''report attached device status''
              (onW (setResourceClaimDeviceStatus N cfg True ''NetworkAttached'' message (dev_HardwareAddress cfg))))
         (seqE (reporting N d kubePod cfg ''report Pod network status''
                 (onW (setPodNetworkStatus N J (pod_Namespace kubePod) (pod_Name kubePod) (pod_UID kubePod) cfg)))
           (ignoreErr (onW (emitPodEvent N d kubePod ''Normal'' ''LinuxNetworkAttached'' ''AttachNetwork'' message (Some (dev_Claim cfg))))))))"

definition RunPodSandbox :: "('w, 'z) host_scheme \<Rightarrow> codecs \<Rightarrow> drv \<Rightarrow> PodSandbox \<Rightarrow> ('w sys, unit) eff" where
  "RunPodSandbox N J d pod =
     andThen (getsE (\<lambda>s. GetPod (sb_Uid pod) (sys_store s))) (\<lambda>found.
       case found of
         None \<Rightarrow> ok ()
       | Some podCfg \<Rightarrow>
           (let nsPath = networkNamespace pod in
            if nsPath = [] then fail (Errorf ''pod %s/%s has no network namespace'' [sb_Namespace pod, sb_Name pod])
            else
              seqE (onStore (SetNetNS (jStore J) (sb_Uid pod) nsPath))
                (andThen (mapErr (Wrapf ''get Pod for network status'' []) (onW (kGetPod N (sb_Namespace pod) (sb_Name pod)))) (\<lambda>kubePod.
                 if pod_UID kubePod \<noteq> sb_Uid pod then fail (Errorf ''Pod %s/%s UID changed'' [sb_Namespace pod, sb_Name pod])
                 else
                   seqE (forE (runDevice N J d pod kubePod nsPath) (pod_devices podCfg))
                     (if podUsesNetworkReadinessGate kubePod
                      then mapErr (Wrapf ''set Pod network readiness'' [])
                        (onW (setPodNetworkCondition N (pod_Namespace kubePod) (pod_Name kubePod) (pod_UID kubePod) ''True'' ''NetworkAttached''
                          ''All requested secondary networks are attached''))
                      else ok ())))))"

section \<open>Starting\<close>

text \<open>The clients are present or absent; the driver's state after \<^verbatim>\<open>Start\<close> is the pair of what is fixed and what changes.\<close>

record Options =
  opt_NodeName :: string
  opt_DriverName :: string
  opt_KubeletPluginsDir :: string
  opt_KubeletRegistrationDir :: string
  opt_StateFile :: string
  opt_Config :: "Config option"
  opt_DynamicClient :: bool

definition devicesOf :: "Config \<Rightarrow> (string \<times> InterfaceConfig) list" where
  "devicesOf cfg = fold (\<lambda>ifc ds. gput (deviceName (ic_Name ifc)) ifc ds) (cfg_Interfaces cfg) []"

definition stateFile :: "Options \<Rightarrow> string" where
  "stateFile opts = or_default (opt_StateFile opts) ''/var/run/linux-net-dra/state.json''"

definition bringUp :: "('w, 'z) host_scheme \<Rightarrow> Options \<Rightarrow> drv \<Rightarrow> ('w sys, unit) eff" where
  "bringUp N opts d =
     (let pluginPath = filepath_Join [or_default (opt_KubeletPluginsDir opts) (hKubeletPluginsDir N), drv_driverName d] in
      seqE (\<lambda>s. (Inr (), reloadIPPools N d s))
        (seqE (mapErr (Wrapf ''create plugin path %s'' [pluginPath]) (onFs (MkdirAll pluginPath)))
          (seqE (mapErr (Wrapf ''start kubelet plugin'' [])
                  (onW (hStartPlugin N (drv_driverName d) (drv_nodeName d) pluginPath
                    (or_default (opt_KubeletRegistrationDir opts) (hKubeletRegistryDir N)))))
            (onError (onW (hStopPlugin N))
              (seqE (publish N d)
                (mapErr (Wrapf ''create NRI stub'' []) (onW (hNewStub N (drv_driverName d) ''00''))))))))"

definition Start :: "('w, 'z) host_scheme \<Rightarrow> codecs \<Rightarrow> Options \<Rightarrow> fsys \<Rightarrow> 'w \<Rightarrow> (goerr + drv \<times> 'w sys) \<times> fsys \<times> 'w" where
  "Start N J opts fs w =
     (case opt_Config opts of
        None \<Rightarrow> (Inl (Errorf ''config is required'' []), fs, w)
      | Some cfg \<Rightarrow>
          if \<not> opt_DynamicClient opts then (Inl (Errorf ''dynamic Kubernetes client is required'' []), fs, w)
          else
            (case NewStore (jStore J) (stateFile opts) fs of
               (Inl err, fs1) \<Rightarrow> (Inl (Wrapf ''open state file'' [] err), fs1, w)
             | (Inr st, fs1) \<Rightarrow>
                 (let d = \<lparr>drv_nodeName = opt_NodeName opts, drv_driverName = or_default (opt_DriverName opts) DefaultDriverName,
                        drv_cfg = cfg, drv_devices = devicesOf cfg\<rparr>
                  in case bringUp N opts d \<lparr>sys_store = st, sys_fs = fs1, sys_w = w, sys_ipPools = [], sys_dpdk = []\<rparr> of
                       (Inl err, s) \<Rightarrow> (Inl err, sys_fs s, sys_w s)
                     | (Inr _, s) \<Rightarrow> (Inr (d, s), sys_fs s, sys_w s))))"

end
