(* ===== verification/Triples.thy ===== *)
theory Triples
  imports Effects
begin

text \<open>
  Triples for effectful programs with errors: from a state with \<open>P\<close>, a program that returns a value
  ends with \<open>Q\<close> of the value and the state, one that returns an error with \<open>E\<close> of the error and the
  state.  One rule per combinator; \<open>onSuccess\<close> is the triple that says nothing about errors.
\<close>

definition triple :: "('s \<Rightarrow> bool) \<Rightarrow> ('s, 'a) eff \<Rightarrow> ('a \<Rightarrow> 's \<Rightarrow> bool) \<Rightarrow> (goerr \<Rightarrow> 's \<Rightarrow> bool) \<Rightarrow> bool" where
  "triple P m Q E \<longleftrightarrow> (\<forall>s. P s \<longrightarrow> (case m s of (Inr x, s') \<Rightarrow> Q x s' | (Inl e, s') \<Rightarrow> E e s'))"

abbreviation onSuccess :: "('s \<Rightarrow> bool) \<Rightarrow> ('s, 'a) eff \<Rightarrow> ('a \<Rightarrow> 's \<Rightarrow> bool) \<Rightarrow> bool" where
  "onSuccess P m Q \<equiv> triple P m Q (\<lambda>_ _. True)"

abbreviation always :: "('s \<Rightarrow> bool) \<Rightarrow> ('s, 'a) eff \<Rightarrow> ('s \<Rightarrow> bool) \<Rightarrow> bool" where
  "always P m Q \<equiv> triple P m (\<lambda>_. Q) (\<lambda>_. Q)"

lemma tripleI:
  assumes "\<And>s x s'. P s \<Longrightarrow> m s = (Inr x, s') \<Longrightarrow> Q x s'" and "\<And>s e s'. P s \<Longrightarrow> m s = (Inl e, s') \<Longrightarrow> E e s'"
  shows "triple P m Q E"
  using assms by (auto simp: triple_def split: prod.splits sum.splits)

lemma triple_Inr: "triple P m Q E \<Longrightarrow> P s \<Longrightarrow> m s = (Inr x, s') \<Longrightarrow> Q x s'"
  by (auto simp: triple_def split: prod.splits sum.splits)

lemma triple_Inl: "triple P m Q E \<Longrightarrow> P s \<Longrightarrow> m s = (Inl e, s') \<Longrightarrow> E e s'"
  by (auto simp: triple_def split: prod.splits sum.splits)

lemma triple_weaken:
  assumes "triple P m Q E" and "\<And>s. P' s \<Longrightarrow> P s" and "\<And>x s. Q x s \<Longrightarrow> Q' x s" and "\<And>e s. E e s \<Longrightarrow> E' e s"
  shows "triple P' m Q' E'"
  by (rule tripleI) (use assms triple_Inr triple_Inl in metis)+

lemmas triple_pre = triple_weaken [OF _ _ asm_rl asm_rl]
lemmas triple_post = triple_weaken [OF _ asm_rl]

lemma triple_ok: "(\<And>s. P s \<Longrightarrow> Q x s) \<Longrightarrow> triple P (ok x) Q E"
  by (rule tripleI) (auto simp: ok_def)

lemma triple_fail: "(\<And>s. P s \<Longrightarrow> E e s) \<Longrightarrow> triple P (fail e) Q E"
  by (rule tripleI) (auto simp: fail_def)

lemma triple_liftE: "(\<And>s y. P s \<Longrightarrow> x = Inr y \<Longrightarrow> Q y s) \<Longrightarrow> (\<And>s e. P s \<Longrightarrow> x = Inl e \<Longrightarrow> E e s) \<Longrightarrow> triple P (liftE x) Q E"
  by (rule tripleI) auto

lemma triple_getsE: "(\<And>s. P s \<Longrightarrow> Q (f s) s) \<Longrightarrow> triple P (getsE f) Q E"
  by (rule tripleI) auto

lemma triple_modifyE: "(\<And>s. P s \<Longrightarrow> Q () (f s)) \<Longrightarrow> triple P (modifyE f) Q E"
  by (rule tripleI) auto

lemma triple_andThen:
  assumes "triple P m R E" and "\<And>x. triple (R x) (f x) Q E"
  shows "triple P (andThen m f) Q E"
proof (rule tripleI)
  fix s y s2
  assume "P s" and "andThen m f s = (Inr y, s2)"
  then obtain x s1 where "m s = (Inr x, s1)" "f x s1 = (Inr y, s2)" by (auto simp: andThen_Inr)
  then show "Q y s2" using triple_Inr [OF assms(1) \<open>P s\<close>] triple_Inr [OF assms(2)] by blast
next
  fix s e s2
  assume "P s" and "andThen m f s = (Inl e, s2)"
  then consider "m s = (Inl e, s2)" | x s1 where "m s = (Inr x, s1)" "f x s1 = (Inl e, s2)" by (auto simp: andThen_Inl)
  then show "E e s2"
  proof cases
    case 1
    then show ?thesis using triple_Inl [OF assms(1) \<open>P s\<close>] by blast
  next
    case 2
    then show ?thesis using triple_Inr [OF assms(1) \<open>P s\<close>] triple_Inl [OF assms(2)] by blast
  qed
qed

lemma triple_mapErr: "triple P m Q (\<lambda>e. E (h e)) \<Longrightarrow> triple P (mapErr h m) Q E"
  by (rule tripleI) (auto simp: mapErr_Inl dest: triple_Inr triple_Inl)

lemma triple_attempt:
  assumes "triple P m (\<lambda>x. Q (Inr x)) (\<lambda>e. Q (Inl e))"
  shows "triple P (attempt m) Q E"
proof (rule tripleI)
  fix s r s'
  assume P: "P s" and "attempt m s = (Inr r, s')"
  then have "m s = (r, s')" by simp
  with triple_Inr [OF assms P] triple_Inl [OF assms P] show "Q r s'" by (cases r) simp_all
qed simp

lemma triple_always: "always P m Q \<Longrightarrow> P s \<Longrightarrow> Q (snd (m s))"
  by (cases "m s"; cases "fst (m s)") (simp_all add: triple_Inl [of P m "\<lambda>_. Q" "\<lambda>_. Q"] triple_Inr [of P m "\<lambda>_. Q" "\<lambda>_. Q"])

lemma triple_ignoreErr: "always P m Q \<Longrightarrow> triple P (ignoreErr m) (\<lambda>_. Q) E"
  by (rule tripleI) (simp_all add: triple_always)

lemma triple_deferE:
  assumes "triple P m R F" and "\<And>x. always (R x) c (Q x)" and "\<And>e. always (F e) c (E e)"
  shows "triple P (deferE c m) Q E"
  unfolding triple_def
proof (intro allI impI)
  fix s
  assume P: "P s"
  obtain r s1 where m: "m s = (r, s1)" by fastforce
  obtain u s2 where c: "c s1 = (u, s2)" by fastforce
  show "case deferE c m s of (Inl e, s') \<Rightarrow> E e s' | (Inr x, s') \<Rightarrow> Q x s'"
  proof (cases r)
    case (Inl e)
    with triple_Inl [OF assms(1) P] m have "F e s1" by simp
    with assms(3) c have "E e s2" by (cases u) (use triple_Inl triple_Inr in metis)+
    with m c Inl show ?thesis by (simp add: deferE_def)
  next
    case (Inr x)
    with triple_Inr [OF assms(1) P] m have "R x s1" by simp
    with assms(2) c have "Q x s2" by (cases u) (use triple_Inl triple_Inr in metis)+
    with m c Inr show ?thesis by (simp add: deferE_def)
  qed
qed

lemma triple_onError:
  assumes "triple P m Q F" and "\<And>e. always (F e) c (E e)"
  shows "triple P (onError c m) Q E"
  unfolding triple_def
proof (intro allI impI)
  fix s
  assume P: "P s"
  obtain r s1 where m: "m s = (r, s1)" by fastforce
  obtain u s2 where c: "c s1 = (u, s2)" by fastforce
  show "case onError c m s of (Inl e, s') \<Rightarrow> E e s' | (Inr x, s') \<Rightarrow> Q x s'"
  proof (cases r)
    case (Inl e)
    with triple_Inl [OF assms(1) P] m have "F e s1" by simp
    with assms(2) c have "E e s2" by (cases u) (use triple_Inl triple_Inr in metis)+
    with m c Inl show ?thesis by (simp add: onError_def)
  next
    case (Inr x)
    with triple_Inr [OF assms(1) P] m show ?thesis by (simp add: onError_def)
  qed
qed

text \<open>Loops: an invariant, and one that grows with the rounds.\<close>

lemma triple_forE_from:
  "(\<And>ys z zs. xs = ys @ z # zs \<Longrightarrow> triple (I (pre @ ys)) (f z) (\<lambda>_. I (pre @ ys @ [z])) E) \<Longrightarrow>
     triple (I pre) (forE f xs) (\<lambda>_. I (pre @ xs)) E"
proof (induction xs arbitrary: pre)
  case Nil
  show ?case by (simp add: triple_ok)
next
  case (Cons x xs)
  have 1: "triple (I pre) (f x) (\<lambda>_. I (pre @ [x])) E" using Cons.prems [of "[]" x xs] by simp
  have 2: "triple (I (pre @ [x])) (forE f xs) (\<lambda>_. I ((pre @ [x]) @ xs)) E"
    by (rule Cons.IH) (use Cons.prems [of "x # _"] in simp)
  show ?case using triple_andThen [OF 1 2] by simp
qed

lemmas triple_forE_grow = triple_forE_from [of _ _ "[]", simplified]

lemma triple_forE: "(\<And>x. x \<in> set xs \<Longrightarrow> triple I (f x) (\<lambda>_. I) E) \<Longrightarrow> triple I (forE f xs) (\<lambda>_. I) E"
  using triple_forE_from [of xs "\<lambda>_. I" "[]" f E] by auto

lemma triple_collectE:
  "(\<And>x. x \<in> set xs \<Longrightarrow> always I (f x) I) \<Longrightarrow> triple I (collectE f xs) (\<lambda>_. I) E"
proof (induction xs)
  case Nil
  show ?case by (simp add: triple_ok)
next
  case (Cons x xs)
  have "triple I (attempt (f x)) (\<lambda>_. I) E" using Cons.prems [of x] by (intro triple_attempt) simp
  moreover have "triple I (collectE f xs) (\<lambda>_. I) E" using Cons by simp
  ultimately show ?case by (auto intro!: triple_andThen triple_ok)
qed

lemma triple_mapE:
  "(\<And>x. x \<in> set xs \<Longrightarrow> triple I (f x) (\<lambda>_. I) E) \<Longrightarrow> triple I (mapE f xs) (\<lambda>_. I) E"
proof (induction xs)
  case Nil
  show ?case by (simp add: triple_ok)
next
  case (Cons x xs)
  have "triple I (f x) (\<lambda>_. I) E" using Cons.prems by simp
  moreover have "triple I (mapE f xs) (\<lambda>_. I) E" using Cons by simp
  ultimately show ?case by (auto intro!: triple_andThen triple_ok)
qed

text \<open>An invariant that a program keeps on every outcome.\<close>

lemma keeps_always: "keepsR (\<lambda>s s'. I s \<longrightarrow> I s') m \<longleftrightarrow> always I m I"
  unfolding keepsR_def triple_def
  by (intro iff_allI imp_cong refl) (auto split: prod.split sum.split)

lemma triple_if: "(b \<Longrightarrow> triple P m Q E) \<Longrightarrow> (\<not> b \<Longrightarrow> triple P n Q E) \<Longrightarrow> triple P (if b then m else n) Q E"
  by simp

lemma triple_sum:
  "(\<And>e. x = Inl e \<Longrightarrow> triple P (f e) Q E) \<Longrightarrow> (\<And>y. x = Inr y \<Longrightarrow> triple P (g y) Q E) \<Longrightarrow> triple P (case_sum f g x) Q E"
  by (cases x) simp_all

lemma triple_option:
  "(x = None \<Longrightarrow> triple P m Q E) \<Longrightarrow> (\<And>y. x = Some y \<Longrightarrow> triple P (f y) Q E) \<Longrightarrow> triple P (case_option m f x) Q E"
  by (cases x) simp_all

lemma triple_prod: "(\<And>y z. p = (y, z) \<Longrightarrow> triple P (f y z) Q E) \<Longrightarrow> triple P (case_prod f p) Q E"
  by (cases p) simp_all

text \<open>A fact that does not depend on the state can be carried into the program.\<close>

lemma triple_fact: "(A \<Longrightarrow> triple P m Q E) \<Longrightarrow> triple (\<lambda>s. A \<and> P s) m Q E"
  by (auto simp: triple_def)

lemma triple_conj: "triple P m Q E \<Longrightarrow> triple P' m Q' E' \<Longrightarrow> triple (\<lambda>s. P s \<and> P' s) m (\<lambda>x s. Q x s \<and> Q' x s) (\<lambda>e s. E e s \<and> E' e s)"
  by (auto simp: triple_def split: prod.splits sum.splits)

end
