(* ===== verification/Link_API.thy ===== *)
theory Link_API
  imports Host_Device Triples
begin

text \<open>
  What the driver may rely on of the kernel's links: the laws of the calls of
  \<^verbatim>\<open>vishvananda/netlink\<close> and \<^verbatim>\<open>vishvananda/netns\<close> on the view of the devices in each network
  namespace.  The laws say what a successful call has done to the device it was given and leave the
  rest open: a device may change its operational state by itself, the kernel adds link-local
  addresses when a link goes up and drops addresses when it goes down.
\<close>

record kdev =
  kd_link :: Link
  kd_addrs :: "Addr list"

text \<open>The namespace of the calling thread, and the devices by namespace and index.\<close>

record kernel =
  k_cur :: nshandle
  k_dev :: "nshandle \<Rightarrow> int \<Rightarrow> kdev option"

definition devAt :: "kernel \<Rightarrow> int \<Rightarrow> kdev option" where
  "devAt k i = k_dev k (k_cur k) i"

text \<open>The attributes of a link are those of the device it stands for.\<close>

definition accurate :: "kernel \<Rightarrow> Link \<Rightarrow> bool" where
  "accurate k l \<longleftrightarrow> (\<exists>d. devAt k (lk_Index l) = Some d \<and> kd_link d = l)"

text \<open>What is recorded of a device: its name, its hardware address, its MTU.\<close>

definition ident :: "kdev \<Rightarrow> string \<times> u8 list \<times> int" where
  "ident d = (lk_Name (kd_link d), lk_HardwareAddr (kd_link d), lk_MTU (kd_link d))"

text \<open>The thread stays in its namespace and the device with the index goes from \<open>d\<close> to some \<open>d'\<close> with \<open>R d d'\<close>.\<close>

definition devStep :: "int \<Rightarrow> (kdev \<Rightarrow> kdev \<Rightarrow> bool) \<Rightarrow> kernel \<Rightarrow> kernel \<Rightarrow> bool" where
  "devStep i R k k' \<longleftrightarrow> k_cur k' = k_cur k \<and> (\<forall>d. devAt k i = Some d \<longrightarrow> (\<exists>d'. devAt k' i = Some d' \<and> R d d'))"

definition hasNet :: "kdev \<Rightarrow> Addr \<Rightarrow> bool" where
  "hasNet d a \<longleftrightarrow> ad_IPNet a \<in> ad_IPNet ` set (kd_addrs d)"

definition moreAddrs :: "kdev \<Rightarrow> kdev \<Rightarrow> bool" where
  "moreAddrs d d' \<longleftrightarrow> ident d' = ident d \<and> set (kd_addrs d) \<subseteq> set (kd_addrs d')"

locale link_api =
  fixes N :: "('w, 'z) host_scheme" and view :: "'w \<Rightarrow> kernel"
  assumes LinkByName_view: "nLinkByName N n w = (r, w') \<Longrightarrow> view w' = view w"
    and LinkByName_ok: "nLinkByName N n w = (Inr l, w') \<Longrightarrow> lk_Name l = n \<and> accurate (view w) l"
    and LinkList_view: "nLinkList N w = (r1, w') \<Longrightarrow> view w' = view w"
    and LinkList_ok: "nLinkList N w = (Inr ls, w') \<Longrightarrow> l \<in> set ls \<Longrightarrow> accurate (view w) l"
    and SetName_ok: "nLinkSetName N l n w = (Inr u, w') \<Longrightarrow> k_cur (view w') = k_cur (view w)"
    and SetNsFd_ok: "nLinkSetNsFd N l h w = (Inr u, w') \<Longrightarrow> k_cur (view w') = k_cur (view w)"
    and SetDown_ok: "nLinkSetDown N l w = (Inr u, w') \<Longrightarrow>
      devStep (lk_Index l) (\<lambda>d d'. ident d' = ident d \<and> \<not> lk_Up (kd_link d')) (view w) (view w')"
    and SetUp_ok: "nLinkSetUp N l w = (Inr u, w') \<Longrightarrow>
      devStep (lk_Index l) (\<lambda>d d'. moreAddrs d d' \<and> lk_Up (kd_link d')) (view w) (view w')"
    and SetMTU_ok: "nLinkSetMTU N l m w = (Inr u, w') \<Longrightarrow>
      devStep (lk_Index l) (\<lambda>d d'. ident d' = (fst (ident d), fst (snd (ident d)), m)) (view w) (view w')"
    and SetHardwareAddr_ok: "nLinkSetHardwareAddr N l hw w = (Inr u, w') \<Longrightarrow>
      devStep (lk_Index l) (\<lambda>d d'. ident d' = (fst (ident d), hw, snd (snd (ident d)))) (view w) (view w')"
    and AddrList_view: "nAddrList N l w = (r2, w') \<Longrightarrow> view w' = view w"
    and AddrDel_step: "nAddrDel N l a w = (r3, w') \<Longrightarrow> devStep (lk_Index l) (\<lambda>d d'. ident d' = ident d) (view w) (view w')"
    and AddrAdd_ok: "nAddrAdd N l a w = (Inr u, w') \<Longrightarrow>
      devStep (lk_Index l) (\<lambda>d d'. moreAddrs d d' \<and> hasNet d' a) (view w) (view w')"
    and AddrAdd_exists: "nAddrAdd N l a w = (Inl e, w') \<Longrightarrow> os_IsExist e \<Longrightarrow>
      devStep (lk_Index l) (\<lambda>d d'. moreAddrs d d' \<and> hasNet d' a) (view w) (view w')"
    and NsGet_view: "nNsGet N w = (r4, w') \<Longrightarrow> view w' = view w"
    and NsGet_ok: "nNsGet N w = (Inr h, w') \<Longrightarrow> h = k_cur (view w)"
    and NsGetFromPath_view: "nNsGetFromPath N p w = (r5, w') \<Longrightarrow> view w' = view w"
    and NsSet_err: "nNsSet N h w = (Inl e, w') \<Longrightarrow> view w' = view w"
    and NsSet_back: "nNsGet N w = (Inr h, w') \<Longrightarrow> \<exists>w2. nNsSet N h w1 = (Inr (), w2) \<and> k_cur (view w2) = h"

end
