(* ===== verification/Node_Host.thy ===== *)
theory Node_Host
  imports Link_API Reconciler "HOL-Library.AList"
begin

text \<open>
  A node in the small, on which the laws of \<open>link_api\<close> are discharged and the handlers of the
  driver evaluated: a table of devices by namespace and index, the namespaces by path, a schedule of
  kernel errors, and beside it the API server of \<^verbatim>\<open>Api_Server\<close>, through which all API calls go.
\<close>

record node =
  kn_server :: server
  kn_ns :: nshandle
  kn_devs :: "((nshandle \<times> int) \<times> kdev) list"
  kn_paths :: "(string \<times> nshandle) list"
  kn_routes :: "NetRoute list"
  kn_faults :: "string option list"
  kn_published :: "(string \<times> PublishedDevice list) list"
  kn_registered :: bool

definition nodeView :: "node \<Rightarrow> kernel" where
  "nodeView w = \<lparr>k_cur = kn_ns w, k_dev = (\<lambda>ns i. map_of (kn_devs w) (ns, i))\<rparr>"

definition onServer :: "(server, 'a) eff \<Rightarrow> (node, 'a) eff" where
  "onServer m w = (case m (kn_server w) of (r, s) \<Rightarrow> (r, w\<lparr>kn_server := s\<rparr>))"

section \<open>Kernel calls\<close>

text \<open>A call fails when the schedule says so, and otherwise does its work.\<close>

definition kcall :: "(node, 'a) eff \<Rightarrow> (node, 'a) eff" where
  "kcall m w =
     (case kn_faults w of
        [] \<Rightarrow> m w
      | f # fs \<Rightarrow> (case f of Some e \<Rightarrow> (Inl (Errorf e []), w\<lparr>kn_faults := fs\<rparr>) | None \<Rightarrow> m (w\<lparr>kn_faults := fs\<rparr>)))"

definition noDevice :: goerr where
  "noDevice = Errorf ''no such device'' []"

definition k_LinkByName :: "string \<Rightarrow> (node, Link) eff" where
  "k_LinkByName n w =
     (case find (\<lambda>((ns, i), d). ns = kn_ns w \<and> lk_Name (kd_link d) = n \<and> map_of (kn_devs w) (ns, i) = Some d \<and> lk_Index (kd_link d) = i) (kn_devs w) of
        Some (_, d) \<Rightarrow> (Inr (kd_link d), w) | None \<Rightarrow> (Inl noDevice, w))"

definition k_LinkList :: "(node, Link list) eff" where
  "k_LinkList w = (Inr (map (\<lambda>(_, d). kd_link d)
     (filter (\<lambda>((ns, i), d). ns = kn_ns w \<and> map_of (kn_devs w) (ns, i) = Some d \<and> lk_Index (kd_link d) = i) (kn_devs w))), w)"

definition changeDev :: "(kdev \<Rightarrow> goerr + kdev) \<Rightarrow> Link \<Rightarrow> (node, unit) eff" where
  "changeDev f l w =
     (case map_of (kn_devs w) (kn_ns w, lk_Index l) of
        None \<Rightarrow> (Inl noDevice, w)
      | Some d \<Rightarrow>
          (case f d of
             Inl e \<Rightarrow> (Inl e, w)
           | Inr d' \<Rightarrow> (Inr (), w\<lparr>kn_devs := AList.update (kn_ns w, lk_Index l) d' (kn_devs w)\<rparr>)))"

definition setLink :: "(Link \<Rightarrow> Link) \<Rightarrow> kdev \<Rightarrow> goerr + kdev" where
  "setLink f d = Inr (d\<lparr>kd_link := f (kd_link d)\<rparr>)"

definition addAddr :: "Addr \<Rightarrow> kdev \<Rightarrow> goerr + kdev" where
  "addAddr a d = (if ad_IPNet a \<in> ad_IPNet ` set (kd_addrs d) then Inl (PathError ErrExist []) else Inr (d\<lparr>kd_addrs := kd_addrs d @ [a]\<rparr>))"

definition delAddr :: "Addr \<Rightarrow> kdev \<Rightarrow> goerr + kdev" where
  "delAddr a d = Inr (d\<lparr>kd_addrs := filter (\<lambda>b. ad_IPNet b \<noteq> ad_IPNet a) (kd_addrs d)\<rparr>)"

text \<open>Moving a link takes it down and drops its addresses.\<close>

definition k_LinkSetNsFd :: "Link \<Rightarrow> nshandle \<Rightarrow> (node, unit) eff" where
  "k_LinkSetNsFd l h w =
     (case map_of (kn_devs w) (kn_ns w, lk_Index l) of
        None \<Rightarrow> (Inl noDevice, w)
      | Some d \<Rightarrow> (Inr (), w\<lparr>kn_devs := AList.update (h, lk_Index l) (d\<lparr>kd_link := (kd_link d)\<lparr>lk_Up := False\<rparr>, kd_addrs := []\<rparr>)
          (filter (\<lambda>(k, _). k \<noteq> (kn_ns w, lk_Index l)) (kn_devs w))\<rparr>))"

definition k_LinkAdd :: "LinkSpec \<Rightarrow> (node, Link) eff" where
  "k_LinkAdd spec w =
     (let i = 1 + fold max (map (snd \<circ> fst) (kn_devs w)) 0;
          l = \<lparr>lk_Index = i, lk_Name = ls_Name spec, lk_HardwareAddr = [2, 0, 0, 0, 0, word_of_int i], lk_MTU = ls_MTU spec, lk_Up = False,
               lk_OperState = ''down'', lk_MasterIndex = 0\<rparr>
      in (Inr l, w\<lparr>kn_devs := kn_devs w @ [((kn_ns w, i), \<lparr>kd_link = l, kd_addrs = []\<rparr>)]\<rparr>))"

definition k_LinkDel :: "Link \<Rightarrow> (node, unit) eff" where
  "k_LinkDel l w = (Inr (), w\<lparr>kn_devs := filter (\<lambda>(k, _). k \<noteq> (kn_ns w, lk_Index l)) (kn_devs w)\<rparr>)"

definition k_AddrList :: "Link \<Rightarrow> (node, Addr list) eff" where
  "k_AddrList l w = (case map_of (kn_devs w) (kn_ns w, lk_Index l) of None \<Rightarrow> (Inl noDevice, w) | Some d \<Rightarrow> (Inr (kd_addrs d), w))"

definition k_NsGetFromPath :: "string \<Rightarrow> (node, nshandle) eff" where
  "k_NsGetFromPath p w = (case map_of (kn_paths w) p of None \<Rightarrow> (Inl (PathError ErrNotExist p), w) | Some h \<Rightarrow> (Inr h, w))"

text \<open>\<^verbatim>\<open>netlink.ParseAddr\<close> and \<^verbatim>\<open>ParseIPNet\<close> of an address in CIDR notation.\<close>

definition k_ParseAddr :: "string \<Rightarrow> goerr + Addr" where
  "k_ParseAddr s =
     (case ParseCIDR s of
        None \<Rightarrow> Inl (Errorf ''invalid CIDR address: %s'' [s])
      | Some (ip, net) \<Rightarrow> Inr \<lparr>ad_IPNet = Some (net\<lparr>net_IP := ip\<rparr>), ad_Label = [], ad_Flags = 0, ad_Scope = 0, ad_Peer = None,
          ad_Broadcast = [], ad_PreferedLft = 0, ad_ValidLft = 0\<rparr>)"

definition k_ParseIPNet :: "string \<Rightarrow> goerr + ipnet" where
  "k_ParseIPNet s = (case ParseCIDR s of None \<Rightarrow> Inl (Errorf ''invalid CIDR address: %s'' [s]) | Some (ip, net) \<Rightarrow> Inr (net\<lparr>net_IP := ip\<rparr>))"

section \<open>The node's host record\<close>

definition node_kube :: "(server \<Rightarrow> server) \<Rightarrow> node kube" where
  "node_kube env = unstr.extend doc_unstr (kube.fields
     (\<lambda>g obj. onServer (kCreate (server_kube env) g obj)) (\<lambda>g n. onServer (kGet (server_kube env) g n))
     (\<lambda>g. onServer (kList (server_kube env) g)) (\<lambda>g n opts. onServer (kDelete (server_kube env) g n opts))
     (\<lambda>g obj. onServer (kUpdateStatus (server_kube env) g obj)) (\<lambda>ns n. onServer (kGetClaim (server_kube env) ns n))
     (\<lambda>c. onServer (kUpdateClaimStatus (server_kube env) c)) (\<lambda>ns n. onServer (kGetPod (server_kube env) ns n))
     (\<lambda>p. onServer (kUpdatePod (server_kube env) p)) (\<lambda>p. onServer (kUpdatePodStatus (server_kube env) p))
     (\<lambda>n. onServer (kGetNode (server_kube env) n)) (\<lambda>e. onServer (kCreateEvent (server_kube env) e))
     (retry_steps 3) (\<lambda>cs c w. setStatusCondition (sv_time (kn_server w)) cs c) (\<lambda>w. sv_time (kn_server w)))"

definition node_host :: "(server \<Rightarrow> server) \<Rightarrow> node host" where
  "node_host env = kube.extend (node_kube env) (host.fields
     (\<lambda>n. kcall (k_LinkByName n)) (kcall k_LinkList) (\<lambda>spec. kcall (k_LinkAdd spec)) (\<lambda>l. kcall (k_LinkDel l))
     (\<lambda>l h. kcall (k_LinkSetNsFd l h)) (\<lambda>l n. kcall (changeDev (setLink (\<lambda>x. x\<lparr>lk_Name := n\<rparr>)) l))
     (\<lambda>l. kcall (changeDev (setLink (\<lambda>x. x\<lparr>lk_Up := True\<rparr>)) l)) (\<lambda>l. kcall (changeDev (setLink (\<lambda>x. x\<lparr>lk_Up := False\<rparr>)) l))
     (\<lambda>l m. kcall (changeDev (setLink (\<lambda>x. x\<lparr>lk_MTU := m\<rparr>)) l))
     (\<lambda>l hw. kcall (changeDev (setLink (\<lambda>x. x\<lparr>lk_HardwareAddr := hw\<rparr>)) l))
     (\<lambda>l. kcall (k_AddrList l)) (\<lambda>l a. kcall (changeDev (addAddr a) l)) (\<lambda>l a. kcall (changeDev (delAddr a) l))
     (\<lambda>r. kcall (\<lambda>w. (Inr (), w\<lparr>kn_routes := kn_routes w @ [r]\<rparr>)))
     (\<lambda>l. kcall (\<lambda>w. (Inr (filter (\<lambda>r. nr_LinkIndex r = lk_Index l) (kn_routes w)), w)))
     (kcall (\<lambda>w. (Inr (kn_ns w), w))) (\<lambda>p. kcall (k_NsGetFromPath p)) (\<lambda>h w. (Inr (), w\<lparr>kn_ns := h\<rparr>))
     k_ParseAddr k_ParseIPNet (\<lambda>e. ''error'')
     ''/var/lib/kubelet/plugins'' ''/var/lib/kubelet/plugins_registry''
     (\<lambda>driver node path reg. kcall (\<lambda>w. (Inr (), w\<lparr>kn_registered := True\<rparr>))) (\<lambda>w. (Inr (), w\<lparr>kn_registered := False\<rparr>)) (\<lambda>driver idx. kcall (ok ()))
     (\<lambda>pools. kcall (\<lambda>w. (Inr (), w\<lparr>kn_published := pools\<rparr>))))"

section \<open>The laws hold\<close>

lemmas node_ops = node_host_def node_kube_def kube.defs unstr.defs host.defs

lemma node_host_sel [simp]:
  "nLinkByName (node_host env) n = kcall (k_LinkByName n)" "nLinkList (node_host env) = kcall k_LinkList"
  "nLinkAdd (node_host env) spec = kcall (k_LinkAdd spec)" "nLinkDel (node_host env) l = kcall (k_LinkDel l)"
  "nLinkSetNsFd (node_host env) l h = kcall (k_LinkSetNsFd l h)"
  "nLinkSetName (node_host env) l n = kcall (changeDev (setLink (\<lambda>x. x\<lparr>lk_Name := n\<rparr>)) l)"
  "nLinkSetUp (node_host env) l = kcall (changeDev (setLink (\<lambda>x. x\<lparr>lk_Up := True\<rparr>)) l)"
  "nLinkSetDown (node_host env) l = kcall (changeDev (setLink (\<lambda>x. x\<lparr>lk_Up := False\<rparr>)) l)"
  "nLinkSetMTU (node_host env) l m = kcall (changeDev (setLink (\<lambda>x. x\<lparr>lk_MTU := m\<rparr>)) l)"
  "nLinkSetHardwareAddr (node_host env) l hw = kcall (changeDev (setLink (\<lambda>x. x\<lparr>lk_HardwareAddr := hw\<rparr>)) l)"
  "nAddrList (node_host env) l = kcall (k_AddrList l)" "nAddrAdd (node_host env) l a = kcall (changeDev (addAddr a) l)"
  "nAddrDel (node_host env) l a = kcall (changeDev (delAddr a) l)"
  "nRouteList (node_host env) l = kcall (\<lambda>w. (Inr (filter (\<lambda>r. nr_LinkIndex r = lk_Index l) (kn_routes w)), w))"
  "nNsGet (node_host env) = kcall (\<lambda>w. (Inr (kn_ns w), w))" "nNsGetFromPath (node_host env) p = kcall (k_NsGetFromPath p)"
  "nNsSet (node_host env) h = (\<lambda>w. (Inr (), w\<lparr>kn_ns := h\<rparr>))"
  "nParseAddr (node_host env) = k_ParseAddr" "nParseIPNet (node_host env) = k_ParseIPNet"
  by (simp_all add: node_ops)

lemma node_kube_sel [simp]:
  "kCreate (node_host env) g obj = onServer (kCreate (server_kube env) g obj)"
  "kGet (node_host env) g n = onServer (kGet (server_kube env) g n)"
  "kList (node_host env) g = onServer (kList (server_kube env) g)"
  "kDelete (node_host env) g n opts = onServer (kDelete (server_kube env) g n opts)"
  "kUpdateStatus (node_host env) g obj = onServer (kUpdateStatus (server_kube env) g obj)"
  "kGetClaim (node_host env) ns n = onServer (kGetClaim (server_kube env) ns n)"
  "kUpdateClaimStatus (node_host env) c = onServer (kUpdateClaimStatus (server_kube env) c)"
  "kGetPod (node_host env) ns n = onServer (kGetPod (server_kube env) ns n)"
  "kUpdatePod (node_host env) p = onServer (kUpdatePod (server_kube env) p)"
  "kUpdatePodStatus (node_host env) p = onServer (kUpdatePodStatus (server_kube env) p)"
  "kGetNode (node_host env) n = onServer (kGetNode (server_kube env) n)"
  "kCreateEvent (node_host env) e = onServer (kCreateEvent (server_kube env) e)"
  "kRetryOnConflict (node_host env) = retry_steps 3"
  by (simp_all add: node_ops)

lemma nodeView_upd [simp]:
  "nodeView (w\<lparr>kn_faults := f\<rparr>) = nodeView w" "nodeView (w\<lparr>kn_server := s\<rparr>) = nodeView w"
  "k_cur (nodeView (w\<lparr>kn_devs := ds\<rparr>)) = k_cur (nodeView w)" "k_cur (nodeView w) = kn_ns w"
  by (simp_all add: nodeView_def)

lemma devAt_node [simp]: "devAt (nodeView w) i = map_of (kn_devs w) (kn_ns w, i)"
  by (simp add: devAt_def nodeView_def)

lemma kcall_cases:
  assumes "kcall m w = (r, w')"
  obtains e fs where "r = Inl (Errorf e [])" "w' = w\<lparr>kn_faults := fs\<rparr>" | fs where "m (w\<lparr>kn_faults := fs\<rparr>) = (r, w')" | "m w = (r, w')"
  using assms by (auto simp: kcall_def split: list.splits option.splits)

text \<open>A call that changes one device.\<close>

lemma changeDev_Inr:
  assumes "kcall (changeDev f l) w = (Inr u, w')" and "\<And>d d'. f d = Inr d' \<Longrightarrow> R d d'"
  shows "devStep (lk_Index l) R (nodeView w) (nodeView w')"
  using assms(1)
proof (cases rule: kcall_cases)
  case (2 fs)
  with assms(2) show ?thesis
    by (auto simp: changeDev_def devStep_def update_conv' split: option.splits sum.splits)
next
  case 3
  with assms(2) show ?thesis
    by (auto simp: changeDev_def devStep_def update_conv' split: option.splits sum.splits)
qed simp

lemma changeDev_Inl:
  assumes "kcall (changeDev f l) w = (Inl e, w')" and "\<And>d. (f d = Inl e \<or> (\<exists>x. e = Errorf x [])) \<Longrightarrow> R d d"
  shows "devStep (lk_Index l) R (nodeView w) (nodeView w')"
  using assms(1)
proof (cases rule: kcall_cases)
  case (1 x fs)
  with assms(2) show ?thesis by (auto simp: devStep_def)
next
  case (2 fs)
  with assms(2) show ?thesis by (auto simp: changeDev_def devStep_def noDevice_def split: option.splits sum.splits)
next
  case 3
  with assms(2) show ?thesis by (auto simp: changeDev_def devStep_def noDevice_def split: option.splits sum.splits)
qed

text \<open>A call that only reads.\<close>

lemma kcall_reads:
  assumes "\<And>v. snd (m v) = v" and "kcall m w = (r, w')"
  shows "nodeView w' = nodeView w"
  using assms(2) by (cases rule: kcall_cases) (use assms(1) in \<open>auto, metis nodeView_upd(1) snd_conv, metis snd_conv\<close>)

lemma k_LinkByName_reads: "snd (k_LinkByName n w) = w"
  by (simp add: k_LinkByName_def split: option.splits prod.splits)

lemma LinkByName_accurate:
  assumes "kcall (k_LinkByName n) w = (Inr l, w')"
  shows "lk_Name l = n \<and> accurate (nodeView w) l"
  using assms
proof (cases rule: kcall_cases)
  case (2 fs)
  then show ?thesis by (auto simp: k_LinkByName_def accurate_def find_Some_iff split: option.splits)
next
  case 3
  then show ?thesis by (auto simp: k_LinkByName_def accurate_def find_Some_iff split: option.splits)
qed simp

lemma LinkList_accurate:
  assumes "kcall k_LinkList w = (Inr ls, w')" and "l \<in> set ls"
  shows "accurate (nodeView w) l"
  using assms(1)
proof (cases rule: kcall_cases)
  case (2 fs)
  with assms(2) show ?thesis by (auto simp: k_LinkList_def accurate_def)
next
  case 3
  with assms(2) show ?thesis by (auto simp: k_LinkList_def accurate_def)
qed simp

interpretation nlink: link_api "node_host env" nodeView for env
proof (unfold_locales, simp_all only: node_host_sel)
  show "nodeView w' = nodeView w" if "kcall (k_LinkByName n) w = (r, w')" for n w r w'
    using kcall_reads [OF k_LinkByName_reads that] .
  show "lk_Name l = n \<and> accurate (nodeView w) l" if "kcall (k_LinkByName n) w = (Inr l, w')" for n w l w'
    using LinkByName_accurate [OF that] .
  show "nodeView w' = nodeView w" if "kcall k_LinkList w = (r, w')" for w r w'
    by (rule kcall_reads [OF _ that]) (simp add: k_LinkList_def)
  show "accurate (nodeView w) l" if "kcall k_LinkList w = (Inr ls, w')" "l \<in> set ls" for w ls w' l
    using LinkList_accurate [OF that] .
  show "k_cur (nodeView w') = k_cur (nodeView w)" if "kcall (changeDev (setLink (\<lambda>x. x\<lparr>lk_Name := n\<rparr>)) l) w = (Inr u, w')" for l n w u w'
    using changeDev_Inr [OF that, of "\<lambda>_ _. True"] by (simp add: devStep_def)
  show "k_cur (nodeView w') = k_cur (nodeView w)" if "kcall (k_LinkSetNsFd l h) w = (Inr u, w')" for l h w u w'
    using that by (cases rule: kcall_cases) (auto simp: k_LinkSetNsFd_def split: option.splits)
  show "devStep (lk_Index l) (\<lambda>d d'. ident d' = ident d \<and> \<not> lk_Up (kd_link d')) (nodeView w) (nodeView w')"
    if "kcall (changeDev (setLink (\<lambda>x. x\<lparr>lk_Up := False\<rparr>)) l) w = (Inr u, w')" for l w u w'
    by (rule changeDev_Inr [OF that]) (auto simp: setLink_def ident_def)
  show "devStep (lk_Index l) (\<lambda>d d'. moreAddrs d d' \<and> lk_Up (kd_link d')) (nodeView w) (nodeView w')"
    if "kcall (changeDev (setLink (\<lambda>x. x\<lparr>lk_Up := True\<rparr>)) l) w = (Inr u, w')" for l w u w'
    by (rule changeDev_Inr [OF that]) (auto simp: setLink_def ident_def moreAddrs_def)
  show "devStep (lk_Index l) (\<lambda>d d'. ident d' = (fst (ident d), fst (snd (ident d)), m)) (nodeView w) (nodeView w')"
    if "kcall (changeDev (setLink (\<lambda>x. x\<lparr>lk_MTU := m\<rparr>)) l) w = (Inr u, w')" for l m w u w'
    by (rule changeDev_Inr [OF that]) (auto simp: setLink_def ident_def)
  show "devStep (lk_Index l) (\<lambda>d d'. ident d' = (fst (ident d), hw, snd (snd (ident d)))) (nodeView w) (nodeView w')"
    if "kcall (changeDev (setLink (\<lambda>x. x\<lparr>lk_HardwareAddr := hw\<rparr>)) l) w = (Inr u, w')" for l hw w u w'
    by (rule changeDev_Inr [OF that]) (auto simp: setLink_def ident_def)
  show "nodeView w' = nodeView w" if "kcall (k_AddrList l) w = (r, w')" for l w r w'
    by (rule kcall_reads [OF _ that]) (simp add: k_AddrList_def split: option.splits)
  show "devStep (lk_Index l) (\<lambda>d d'. ident d' = ident d) (nodeView w) (nodeView w')"
    if "kcall (changeDev (delAddr a) l) w = (r, w')" for l a w r w'
  proof (cases r)
    case (Inl e)
    with that show ?thesis by (intro changeDev_Inl [of "delAddr a" l w e]) auto
  next
    case (Inr u)
    with that show ?thesis by (intro changeDev_Inr [of "delAddr a" l w u]) (auto simp: delAddr_def ident_def)
  qed
  show "devStep (lk_Index l) (\<lambda>d d'. moreAddrs d d' \<and> hasNet d' a) (nodeView w) (nodeView w')"
    if "kcall (changeDev (addAddr a) l) w = (Inr u, w')" for l a w u w'
    by (rule changeDev_Inr [OF that]) (auto simp: addAddr_def ident_def moreAddrs_def hasNet_def split: if_splits)
  show "devStep (lk_Index l) (\<lambda>d d'. moreAddrs d d' \<and> hasNet d' a) (nodeView w) (nodeView w')"
    if "kcall (changeDev (addAddr a) l) w = (Inl e, w')" "os_IsExist e" for l a w e w'
    by (rule changeDev_Inl [OF that(1)]) (use that(2) in \<open>auto simp: addAddr_def ident_def moreAddrs_def hasNet_def split: if_splits\<close>)
  show "nodeView w' = nodeView w" if "kcall (\<lambda>w. (Inr (kn_ns w), w)) w = (r, w')" for w w' and r :: "goerr + nshandle"
    by (rule kcall_reads [OF _ that]) simp
  show "h = k_cur (nodeView w)" if "kcall (\<lambda>w. (Inr (kn_ns w), w)) w = (Inr h, w')" for w h w'
    using that by (cases rule: kcall_cases) auto
  show "nodeView w' = nodeView w" if "kcall (k_NsGetFromPath p) w = (r, w')" for p w r w'
    by (rule kcall_reads [OF _ that]) (simp add: k_NsGetFromPath_def split: option.splits)
qed auto

end
