(* ===== verification/Driver_API.thy ===== *)
theory Driver_API
  imports Driver Ipam_Props Node_Host
begin

text \<open>
  What the driver relies on of the cluster beyond the IPAM calls: none of its other calls, to the API
  server, the kernel, the kubelet helper or the runtime, touches the IPAllocation objects (the others may
  change them meanwhile), and \<^verbatim>\<open>RetryOnConflict\<close> runs the function it is given some number of times.
  From this the rules follow by which every handler respects the discipline of the table.
\<close>

locale driver_api = cluster_api N tab rely for N :: "('w, 'z) host_scheme" and tab rely +
  assumes GetPod_quiet: "keepsR (\<lambda>w w'. table_steps N (tab w) (tab w')) (kGetPod N ns n)"
    and UpdateClaimStatus_quiet: "keepsR (\<lambda>w w'. table_steps N (tab w) (tab w')) (kUpdateClaimStatus N c)"
    and UpdatePod_quiet: "keepsR (\<lambda>w w'. table_steps N (tab w) (tab w')) (kUpdatePod N p)"
    and UpdatePodStatus_quiet: "keepsR (\<lambda>w w'. table_steps N (tab w) (tab w')) (kUpdatePodStatus N p)"
    and GetNode_quiet: "keepsR (\<lambda>w w'. table_steps N (tab w) (tab w')) (kGetNode N n)"
    and CreateEvent_quiet: "keepsR (\<lambda>w w'. table_steps N (tab w) (tab w')) (kCreateEvent N ev)"
    and Retry: "reflp R \<Longrightarrow> transp R \<Longrightarrow> keepsR R m \<Longrightarrow> keepsR R (kRetryOnConflict N m)"
    and LinkByName_quiet: "keepsR (\<lambda>w w'. table_steps N (tab w) (tab w')) (nLinkByName N n)"
    and LinkList_quiet: "keepsR (\<lambda>w w'. table_steps N (tab w) (tab w')) (nLinkList N)"
    and LinkAdd_quiet: "keepsR (\<lambda>w w'. table_steps N (tab w) (tab w')) (nLinkAdd N spec)"
    and LinkDel_quiet: "keepsR (\<lambda>w w'. table_steps N (tab w) (tab w')) (nLinkDel N l)"
    and LinkSetNsFd_quiet: "keepsR (\<lambda>w w'. table_steps N (tab w) (tab w')) (nLinkSetNsFd N l h)"
    and LinkSetName_quiet: "keepsR (\<lambda>w w'. table_steps N (tab w) (tab w')) (nLinkSetName N l n)"
    and LinkSetUp_quiet: "keepsR (\<lambda>w w'. table_steps N (tab w) (tab w')) (nLinkSetUp N l)"
    and LinkSetDown_quiet: "keepsR (\<lambda>w w'. table_steps N (tab w) (tab w')) (nLinkSetDown N l)"
    and LinkSetMTU_quiet: "keepsR (\<lambda>w w'. table_steps N (tab w) (tab w')) (nLinkSetMTU N l m1)"
    and LinkSetHardwareAddr_quiet: "keepsR (\<lambda>w w'. table_steps N (tab w) (tab w')) (nLinkSetHardwareAddr N l hw)"
    and AddrList_quiet: "keepsR (\<lambda>w w'. table_steps N (tab w) (tab w')) (nAddrList N l)"
    and AddrAdd_quiet: "keepsR (\<lambda>w w'. table_steps N (tab w) (tab w')) (nAddrAdd N l a)"
    and AddrDel_quiet: "keepsR (\<lambda>w w'. table_steps N (tab w) (tab w')) (nAddrDel N l a)"
    and RouteAdd_quiet: "keepsR (\<lambda>w w'. table_steps N (tab w) (tab w')) (nRouteAdd N route)"
    and RouteList_quiet: "keepsR (\<lambda>w w'. table_steps N (tab w) (tab w')) (nRouteList N l)"
    and NsGet_quiet: "keepsR (\<lambda>w w'. table_steps N (tab w) (tab w')) (nNsGet N)"
    and NsGetFromPath_quiet: "keepsR (\<lambda>w w'. table_steps N (tab w) (tab w')) (nNsGetFromPath N path)"
    and NsSet_quiet: "keepsR (\<lambda>w w'. table_steps N (tab w) (tab w')) (nNsSet N h)"
    and StartPlugin_quiet: "keepsR (\<lambda>w w'. table_steps N (tab w) (tab w')) (hStartPlugin N s1 s2 s3 s4)"
    and StopPlugin_quiet: "keepsR (\<lambda>w w'. table_steps N (tab w) (tab w')) (hStopPlugin N)"
    and NewStub_quiet: "keepsR (\<lambda>w w'. table_steps N (tab w) (tab w')) (hNewStub N s1 s2)"
    and Publish_quiet: "keepsR (\<lambda>w w'. table_steps N (tab w) (tab w')) (hPublishResources N pools)"

sublocale driver_api \<subseteq> tbl: state_order "\<lambda>w w'. table_steps N (tab w) (tab w')"
  by unfold_locales (auto intro: rtranclp_trans)

sublocale driver_api \<subseteq> stbl: state_order "\<lambda>s s'. table_steps N (tab (sys_w s)) (tab (sys_w s'))"
  by unfold_locales (auto intro: rtranclp_trans)

context driver_api
begin

lemma GetClaim_quiet: "keepsR (\<lambda>w w'. table_steps N (tab w) (tab w')) (kGetClaim N ns n)"
  by (rule keepsRI) (metis getClaim_tab rely_steps)

lemma ListPools_quiet: "keepsR (\<lambda>w w'. table_steps N (tab w) (tab w')) (kList N IPPoolGVR)"
  by (rule keepsRI) (metis listPools_tab rely_steps)

lemma Retry_quiet:
  "keepsR (\<lambda>w w'. table_steps N (tab w) (tab w')) m \<Longrightarrow> keepsR (\<lambda>w w'. table_steps N (tab w) (tab w')) (kRetryOnConflict N m)"
  by (rule Retry) (auto intro: reflpI transpI rtranclp_trans)

lemma DeleteForClaim_quiet: "keepsR (\<lambda>w w'. table_steps N (tab w) (tab w')) (DeleteForClaim N u)"
  by (rule keepsRI) (rule DeleteForClaim_steps)

lemmas quiet_calls = GetPod_quiet UpdateClaimStatus_quiet UpdatePod_quiet UpdatePodStatus_quiet GetNode_quiet CreateEvent_quiet
  LinkByName_quiet LinkList_quiet LinkAdd_quiet LinkDel_quiet LinkSetNsFd_quiet LinkSetName_quiet LinkSetUp_quiet LinkSetDown_quiet
  LinkSetMTU_quiet LinkSetHardwareAddr_quiet AddrList_quiet AddrAdd_quiet AddrDel_quiet RouteAdd_quiet RouteList_quiet NsGet_quiet
  NsGetFromPath_quiet NsSet_quiet StartPlugin_quiet StopPlugin_quiet NewStub_quiet Publish_quiet GetClaim_quiet Retry_quiet DeleteForClaim_quiet

text \<open>The functions that act on the world only.\<close>

lemma status_quiet:
  "keepsR (\<lambda>w w'. table_steps N (tab w) (tab w')) (setResourceClaimDeviceStatus N cfg ready reason message hw)"
  "keepsR (\<lambda>w w'. table_steps N (tab w) (tab w')) (removeResourceClaimDeviceStatus N d cn)"
  "keepsR (\<lambda>w w'. table_steps N (tab w) (tab w')) (setPodNetworkCondition N ns n u st reason message)"
  "keepsR (\<lambda>w w'. table_steps N (tab w) (tab w')) (setPodNetworkStatus N J ns n u cfg)"
  "keepsR (\<lambda>w w'. table_steps N (tab w) (tab w')) (emitPodEvent N d pod ty reason action note rel)"
  unfolding setResourceClaimDeviceStatus_def removeResourceClaimDeviceStatus_def setPodNetworkCondition_def setPodNetworkStatus_def
    emitPodEvent_def
  by (intro quiet_calls tbl.keeps_rules)+

lemma links_quiet:
  "keepsR (\<lambda>w w'. table_steps N (tab w) (tab w')) (findLink N name mac)"
  "keepsR (\<lambda>w w'. table_steps N (tab w) (tab w')) (ensureName N wrap l name)"
  "keepsR (\<lambda>w w'. table_steps N (tab w) (tab w')) (addrEnsure N l a)"
  "keepsR (\<lambda>w w'. table_steps N (tab w) (tab w')) (addAddress N l address)"
  "keepsR (\<lambda>w w'. table_steps N (tab w) (tab w')) (addRoute N l dst gw)"
  "keepsR (\<lambda>w w'. table_steps N (tab w) (tab w')) (restoreMAC N l hs)"
  "keepsR (\<lambda>w w'. table_steps N (tab w) (tab w')) (restoreMTU N l hs)"
  "keepsR (\<lambda>w w'. table_steps N (tab w) (tab w')) (snapshotHostDevice N l podName)"
  "keepsR (\<lambda>w w'. table_steps N (tab w) (tab w')) (validateHostDeviceSafety N d l hs)"
  unfolding findLink_def ensureName_def addrEnsure_def addAddress_def addRoute_def restoreMAC_def restoreMTU_def snapshotHostDevice_def
    validateHostDeviceSafety_def
  by (intro quiet_calls tbl.keeps_rules)+

lemma inNetNS_quiet:
  "keepsR (\<lambda>w w'. table_steps N (tab w) (tab w')) m \<Longrightarrow> keepsR (\<lambda>w w'. table_steps N (tab w) (tab w')) (inNetNS N h m)"
  unfolding inNetNS_def by (intro quiet_calls tbl.keeps_rules)

lemma hostDevice_quiet:
  "keepsR (\<lambda>w w'. table_steps N (tab w) (tab w')) (restoreHostDevice N nsPath cfg)"
  "keepsR (\<lambda>w w'. table_steps N (tab w) (tab w')) (attachHostDevice N fs nsPath cfg)"
  "keepsR (\<lambda>w w'. table_steps N (tab w) (tab w')) (attachLink N nsPath cfg)"
proof -
  have state: "keepsR (\<lambda>w w'. table_steps N (tab w) (tab w')) (restoreLinkState N l hs)" for l hs
    unfolding restoreLinkState_def by (intro quiet_calls links_quiet tbl.keeps_rules)
  show restore: "keepsR (\<lambda>w w'. table_steps N (tab w) (tab w')) (restoreHostDevice N nsPath cfg)"
    unfolding restoreHostDevice_def restoreFromPod_def leaveNamespace_def
    by (intro quiet_calls links_quiet state inNetNS_quiet tbl.keeps_rules)
  show "keepsR (\<lambda>w w'. table_steps N (tab w) (tab w')) (attachHostDevice N fs nsPath cfg)"
    unfolding attachHostDevice_def enterNamespace_def configureHostDevice_def
    by (intro quiet_calls links_quiet state restore inNetNS_quiet tbl.keeps_rules)
  show "keepsR (\<lambda>w w'. table_steps N (tab w) (tab w')) (attachLink N nsPath cfg)"
    unfolding attachLink_def configureChild_def Let_def
    by (intro quiet_calls links_quiet inNetNS_quiet tbl.keeps_rules)
qed

text \<open>The handlers.\<close>

lemma onW_quiet:
  "keepsR (\<lambda>w w'. table_steps N (tab w) (tab w')) m \<Longrightarrow> keepsR (\<lambda>s s'. table_steps N (tab (sys_w s)) (tab (sys_w s'))) (onW m)"
  by (rule keeps_onW [where Rw = "\<lambda>w w'. table_steps N (tab w) (tab w')"]) simp_all

lemma onStore_quiet: "keepsR (\<lambda>s s'. table_steps N (tab (sys_w s)) (tab (sys_w s'))) (onStore m1)"
  by (rule keeps_onStore) simp

lemma onFs_quiet: "keepsR (\<lambda>s s'. table_steps N (tab (sys_w s)) (tab (sys_w s'))) (onFs m2)"
  by (rule keeps_onFs) simp

lemma setDPDK_quiet: "keepsR (\<lambda>s s'. table_steps N (tab (sys_w s)) (tab (sys_w s'))) (modifyE (\<lambda>s. s\<lparr>sys_dpdk := ds\<rparr>))"
  by (rule stbl.keeps_modifyE) simp

lemma setStore_quiet: "keepsR (\<lambda>s s'. table_steps N (tab (sys_w s)) (tab (sys_w s'))) (modifyE (\<lambda>s. s\<lparr>sys_store := f s\<rparr>))"
  by (rule stbl.keeps_modifyE) simp

lemma applyIPAM_quiet: "keepsR (\<lambda>s s'. table_steps N (tab (sys_w s)) (tab (sys_w s'))) (applyIPAM N J d netCfg claim pod)"
  by (rule keepsRI) (rule applyIPAM_steps)

lemmas sys_quiet = onW_quiet onStore_quiet onFs_quiet setDPDK_quiet setStore_quiet applyIPAM_quiet quiet_calls status_quiet links_quiet hostDevice_quiet

lemma publish_quiet: "keepsR (\<lambda>s s'. table_steps N (tab (sys_w s)) (tab (sys_w s'))) (publish N d)"
  unfolding publish_def publishInterface_def publishDPDK_def by (intro sys_quiet stbl.keeps_rules)

lemma prepareClaim_quiet: "keepsR (\<lambda>s s'. table_steps N (tab (sys_w s)) (tab (sys_w s'))) (prepareClaim N J d claim)"
  unfolding prepareClaim_def prepareAllocation_def prepareInterface_def prepareDPDKDevice_def withHostDevice_def Let_def
  by (intro sys_quiet stbl.keeps_rules)

lemma restoreStored_quiet:
  "(\<And>c. keepsR (\<lambda>s s'. table_steps N (tab (sys_w s)) (tab (sys_w s'))) (report c)) \<Longrightarrow>
     keepsR (\<lambda>s s'. table_steps N (tab (sys_w s)) (tab (sys_w s'))) (restoreStored N J nsPath podUID key report cfg)"
  unfolding restoreStored_def by (intro sys_quiet stbl.keeps_rules)

lemma unprepareClaim_quiet: "keepsR (\<lambda>s s'. table_steps N (tab (sys_w s)) (tab (sys_w s'))) (unprepareClaim N J d obj)"
  unfolding unprepareClaim_def restoreClaimHostDevices_def
  by (intro sys_quiet publish_quiet restoreStored_quiet stbl.keeps_rules)

lemma restorePod_quiet: "keepsR (\<lambda>s s'. table_steps N (tab (sys_w s)) (tab (sys_w s'))) (restorePodHostDevices N J d pod)"
  unfolding restorePodHostDevices_def reportRestored_def
  by (intro sys_quiet publish_quiet restoreStored_quiet stbl.keeps_rules)

lemma Synchronize_quiet: "keepsR (\<lambda>s s'. table_steps N (tab (sys_w s)) (tab (sys_w s'))) (Synchronize N J d sandboxes)"
  unfolding Synchronize_def recoverOrphan_def by (intro sys_quiet publish_quiet stbl.keeps_rules)

lemma RunPodSandbox_quiet: "keepsR (\<lambda>s s'. table_steps N (tab (sys_w s)) (tab (sys_w s'))) (RunPodSandbox N J d pod)"
  unfolding RunPodSandbox_def runDevice_def runDPDK_def attachDevice_def attachAny_def reportAttachFailure_def reporting_def
  by (intro sys_quiet publish_quiet stbl.keeps_rules)

lemma eachClaim_quiet:
  "(\<And>c. keepsR (\<lambda>s s'. table_steps N (tab (sys_w s)) (tab (sys_w s'))) (f c)) \<Longrightarrow>
     keepsR (\<lambda>s s'. table_steps N (tab (sys_w s)) (tab (sys_w s'))) (eachClaim uidOf f cs results)"
  by (induction cs arbitrary: results) (auto intro!: stbl.keeps_rules)

end

end
