(* ===== verification/Node_Driver.thy ===== *)
theory Node_Driver
  imports Driver_API
begin

text \<open>The laws of \<open>driver_api\<close> on the node of \<^verbatim>\<open>Node_Host\<close>.\<close>

lemma onServer_eq: "onServer m w = (r, w') \<longleftrightarrow> (\<exists>s. m (kn_server w) = (r, s) \<and> w' = w\<lparr>kn_server := s\<rparr>)"
  by (auto simp: onServer_def split: prod.splits)

lemma node_unstr [simp]:
  "uNestedString (node_host env) = uNestedString doc_unstr" "uNestedSlice (node_host env) = uNestedSlice doc_unstr"
  "uNestedStringSlice (node_host env) = uNestedStringSlice doc_unstr" "uNestedMap (node_host env) = uNestedMap doc_unstr"
  "uSetNestedMap (node_host env) = uSetNestedMap doc_unstr" "uGetName (node_host env) = uGetName doc_unstr"
  "uGetUID (node_host env) = uGetUID doc_unstr" "uGetGeneration (node_host env) = uGetGeneration doc_unstr"
  by (simp_all add: node_ops doc_unstr_def)

lemma server_unstr: "uNestedString (server_kube env) = uNestedString doc_unstr"
  by (simp add: server_ops doc_unstr_def)

lemma node_same: "same_object (node_host env) = same_object (server_kube env)"
  by (simp add: same_object_def fun_eq_iff)

lemma node_Parse: "ParseAllocation (node_host env) = ParseAllocation (server_kube env)"
  by (simp add: ParseAllocation_def referenceFromSpec_def server_unstr fun_eq_iff Let_def split: option.split gval.split)

lemma node_well_named: "well_named (node_host env) = well_named (server_kube env)"
  by (simp only: well_named_def node_Parse fun_eq_iff) simp

lemma table_step_cong: "well_named U = well_named V \<Longrightarrow> table_step U t t' \<Longrightarrow> table_step V t t'"
  by (erule table_stepE) (auto intro: table_step.intros)

lemma node_steps: "table_steps (node_host env) = table_steps (server_kube env)"
  by (rule arg_cong [where f = rtranclp], intro ext) (use table_step_cong node_well_named in metis)

lemma kcall_server: "(\<And>v. kn_server (snd (m v)) = kn_server v) \<Longrightarrow> kn_server (snd (kcall m w)) = kn_server w"
  by (simp add: kcall_def split: list.split option.split)

lemma changeDev_server [simp]: "kn_server (snd (changeDev f l w)) = kn_server w"
  by (simp add: changeDev_def split: option.split sum.split)

lemma kernel_server [simp]:
  "kn_server (snd (k_LinkByName n w)) = kn_server w" "kn_server (snd (k_LinkList w)) = kn_server w"
  "kn_server (snd (k_LinkAdd spec w)) = kn_server w" "kn_server (snd (k_LinkDel l w)) = kn_server w"
  "kn_server (snd (k_LinkSetNsFd l h w)) = kn_server w" "kn_server (snd (k_AddrList l w)) = kn_server w"
  "kn_server (snd (k_NsGetFromPath p w)) = kn_server w" "kn_server (snd (ok x w)) = kn_server w"
  by (simp_all add: k_LinkByName_def k_LinkList_def k_LinkAdd_def k_LinkDel_def k_LinkSetNsFd_def k_AddrList_def k_NsGetFromPath_def
      ok_def Let_def split: option.split prod.split)

lemma node_other_sel [simp]:
  "nRouteAdd (node_host env) r = kcall (\<lambda>w. (Inr (), w\<lparr>kn_routes := kn_routes w @ [r]\<rparr>))"
  "hStartPlugin (node_host env) s1 s2 s3 s4 = kcall (\<lambda>w. (Inr (), w\<lparr>kn_registered := True\<rparr>))"
  "hStopPlugin (node_host env) = (\<lambda>w. (Inr (), w\<lparr>kn_registered := False\<rparr>))"
  "hNewStub (node_host env) s1 s2 = kcall (ok ())"
  "hPublishResources (node_host env) pools = kcall (\<lambda>w. (Inr (), w\<lparr>kn_published := pools\<rparr>))"
  by (simp_all add: node_ops)

text \<open>A call that does not touch the server, and a call of the server that does not touch the table.\<close>

lemma kernel_quiet: "(\<And>v. kn_server (snd (m v)) = kn_server v) \<Longrightarrow> keepsR (\<lambda>w w'. table_steps K (sv_tab (kn_server w)) (sv_tab (kn_server w'))) (kcall m)"
  by (simp add: keepsR_def kcall_server)

context server_env
begin

lemma onServer_quiet:
  assumes "\<And>s. sv_tab (snd (m s)) = sv_tab s"
  shows "keepsR (\<lambda>w w'. table_steps (server_kube env) (sv_tab (kn_server w)) (sv_tab (kn_server w'))) (onServer (serve env m))"
proof (rule keepsRI)
  fix w r w'
  assume "onServer (serve env m) w = (r, w')"
  then obtain s where s: "serve env m (kn_server w) = (r, s)" "w' = w\<lparr>kn_server := s\<rparr>" by (auto simp: onServer_eq)
  from s(1) obtain s1 where "sv_rely env (kn_server w) s1" "s = s1 \<or> s = snd (m s1)" by (cases rule: serve_cases) auto
  with assms env_steps s(2) show "table_steps (server_kube env) (sv_tab (kn_server w)) (sv_tab (kn_server w'))"
    by (auto simp: sv_rely_def)
qed

end

lemma retry_keeps: "reflp R \<Longrightarrow> transp R \<Longrightarrow> keepsR R m \<Longrightarrow> R w (snd (retry_steps k m w))"
proof (induction k m w rule: retry_steps.induct)
  case (1 f w)
  then show ?case by (simp add: keepsR_def)
next
  case (2 k f w)
  obtain r w1 where f: "f w = (r, w1)" by fastforce
  with 2(4) have 1: "R w w1" by (metis keepsRD)
  show ?case
  proof (cases "\<exists>e. r = Inl e \<and> IsConflict e")
    case True
    then obtain e where e: "r = Inl e" "IsConflict e" by blast
    with f 2 have "R w1 (snd (retry_steps k f w1))" by simp
    with 1 f e 2(3) show ?thesis by (simp, metis transpD)
  next
    case False
    with f 1 show ?thesis by (cases r) auto
  qed
qed

lemma sv_typed_tab [simp]:
  "sv_tab (snd (sv_getPod ns n s)) = sv_tab s" "sv_tab (snd (sv_updateClaimStatus c s)) = sv_tab s"
  "sv_tab (snd (sv_updatePod upd p s)) = sv_tab s" "sv_tab (snd (sv_getNode n s)) = sv_tab s" "sv_tab (snd (sv_createEvent e s)) = sv_tab s"
  by (auto simp: sv_getPod_def sv_updateClaimStatus_def sv_updatePod_def sv_getNode_def sv_createEvent_def sv_tab_def
      split: option.split prod.split sum.split)

lemma server_typed_sel [simp]:
  "kUpdateClaimStatus (server_kube env) c = serve env (sv_updateClaimStatus c)" "kGetPod (server_kube env) ns n = serve env (sv_getPod ns n)"
  "kUpdatePod (server_kube env) p = serve env (sv_updatePod (\<lambda>q. q\<lparr>pod_Annotations := pod_Annotations p\<rparr>) p)"
  "kUpdatePodStatus (server_kube env) p = serve env (sv_updatePod (\<lambda>q. q\<lparr>pod_Conditions := pod_Conditions p\<rparr>) p)"
  "kGetNode (server_kube env) n = serve env (sv_getNode n)" "kCreateEvent (server_kube env) e = serve env (sv_createEvent e)"
  by (simp_all add: server_ops)

interpretation ndu: unstructured_lib "node_host env" for env
  by unfold_locales (simp_all add: doc_unstr_def)

lemma onServerD: "onServer m w = (r, w') \<Longrightarrow> m (kn_server w) = (r, kn_server w')"
  by (auto simp: onServer_eq)

lemma some_node: "\<exists>s1. P s1 \<Longrightarrow> \<exists>w1. P (kn_server w1)"
  by (metis node.select_convs(1))

sublocale server_env \<subseteq> nd: driver_api "node_host env" "\<lambda>w. sv_tab (kn_server w)" "\<lambda>w w'. sv_rely env (kn_server w) (kn_server w')"
proof (unfold_locales, simp_all only: node_steps node_same node_unstr(6,7) node_host_sel node_other_sel node_kube_sel server_typed_sel)
  show "table_steps (server_kube env) (sv_tab (kn_server w)) (sv_tab (kn_server w1))" if "sv_rely env (kn_server w) (kn_server w1)" for w w1
    using api.rely_steps [OF that] .
  show "doc_name obj = n" if "sv_tab (kn_server w) n = Some obj" for w n obj
    using sv_tab_names [OF that] .
  show "\<exists>w1. sv_rely env (kn_server w) (kn_server w1) \<and> sv_tab (kn_server w1) (doc_name obj) = None \<and> same_object (server_kube env) c obj
      \<and> sv_tab (kn_server w') = (sv_tab (kn_server w1))(doc_name obj \<mapsto> c)"
    if "onServer (kCreate (server_kube env) IPAllocationGVR obj) w = (Inr c, w')" for obj w c w'
    using some_node [OF api.create_ok [OF onServerD [OF that]]] by (simp only: server_kube_sel)
  show "\<exists>w1. sv_rely env (kn_server w) (kn_server w1) \<and> (IsAlreadyExists e \<longrightarrow> sv_tab (kn_server w1) (doc_name obj) \<noteq> None) \<and>
      (sv_tab (kn_server w') = sv_tab (kn_server w1) \<or> \<not> IsAlreadyExists e \<and> sv_tab (kn_server w1) (doc_name obj) = None \<and>
         (\<exists>c. same_object (server_kube env) c obj \<and> sv_tab (kn_server w') = (sv_tab (kn_server w1))(doc_name obj \<mapsto> c)))"
    if "onServer (kCreate (server_kube env) IPAllocationGVR obj) w = (Inl e, w')" for obj w e w'
    using some_node [OF api.create_err [OF onServerD [OF that]]] by (simp only: server_kube_sel)
  show "\<exists>w1. sv_rely env (kn_server w) (kn_server w1) \<and> sv_tab (kn_server w') = sv_tab (kn_server w1) \<and> sv_tab (kn_server w1) n = Some obj"
    if "onServer (kGet (server_kube env) IPAllocationGVR n) w = (Inr obj, w')" for n w obj w'
    using some_node [OF api.get_ok [OF onServerD [OF that]]] .
  show "\<not> IsAlreadyExists e \<and> (\<exists>w1. sv_rely env (kn_server w) (kn_server w1) \<and> sv_tab (kn_server w') = sv_tab (kn_server w1))"
    if "onServer (kGet (server_kube env) IPAllocationGVR n) w = (Inl e, w')" for n w e w'
    using api.get_err [OF onServerD [OF that]] some_node [of "\<lambda>s. sv_rely env (kn_server w) s \<and> sv_tab (kn_server w') = sv_tab s"] by simp
  show "\<exists>w1. sv_rely env (kn_server w) (kn_server w1) \<and> sv_tab (kn_server w') = sv_tab (kn_server w1) \<and> set items = ran (sv_tab (kn_server w1))"
    if "onServer (kList (server_kube env) IPAllocationGVR) w = (Inr items, w')" for w items w'
    using some_node [OF api.list_ok [OF onServerD [OF that]]] .
  show "\<exists>w1. sv_rely env (kn_server w) (kn_server w1) \<and> sv_tab (kn_server w') = sv_tab (kn_server w1) \<and> (IsNotFound e \<longrightarrow> sv_tab (kn_server w1) = Map.empty)"
    if "onServer (kList (server_kube env) IPAllocationGVR) w = (Inl e, w')" for w e w'
    using some_node [OF api.list_err [OF onServerD [OF that]]] .
  show "\<exists>w1 obj. sv_rely env (kn_server w) (kn_server w1) \<and> sv_tab (kn_server w1) n = Some obj \<and> uGetUID doc_unstr obj = do_UID opts
      \<and> sv_tab (kn_server w') = (sv_tab (kn_server w1))(n := None)"
    if "onServer (kDelete (server_kube env) IPAllocationGVR n opts) w = (Inr u, w')" for n opts w u w'
    using some_node [OF api.delete_ok [OF onServerD [OF that]]] by (simp only: server_kube_sel)
  show "\<exists>w1. sv_rely env (kn_server w) (kn_server w1) \<and> (IsNotFound e \<longrightarrow> sv_tab (kn_server w1) n = None) \<and>
      (sv_tab (kn_server w') = sv_tab (kn_server w1) \<or>
         (\<exists>obj. sv_tab (kn_server w1) n = Some obj \<and> uGetUID doc_unstr obj = do_UID opts \<and> sv_tab (kn_server w') = (sv_tab (kn_server w1))(n := None)))"
    if "onServer (kDelete (server_kube env) IPAllocationGVR n opts) w = (Inl e, w')" for n opts w e w'
    using some_node [OF api.delete_err [OF onServerD [OF that]]] by (simp only: server_kube_sel)
  show "\<exists>w1. sv_rely env (kn_server w) (kn_server w1) \<and> sv_tab (kn_server w') = sv_tab (kn_server w1)"
    if "onServer (kGetClaim (server_kube env) ns n) w = (r, w')" for ns n w r w'
    using some_node [OF cluster.getClaim_tab [OF onServerD [OF that]]] .
  show "\<exists>w1. sv_rely env (kn_server w) (kn_server w1) \<and> sv_tab (kn_server w') = sv_tab (kn_server w1)"
    if "onServer (kList (server_kube env) IPPoolGVR) w = (r, w')" for w r w'
    using some_node [OF cluster.listPools_tab [OF onServerD [OF that]]] .
  show "\<exists>w1. sv_rely env (kn_server w) (kn_server w1) \<and> sv_tab (kn_server w') = sv_tab (kn_server w1)"
    if "onServer (kUpdateStatus (server_kube env) IPPoolGVR obj) w = (r, w')" for obj w r w'
    using some_node [OF cluster.updatePool_tab [OF onServerD [OF that]]] .
  show "keepsR R (retry_steps 3 m)" if "reflp R" "transp R" "keepsR R m" for R m
    unfolding keepsR_def using retry_keeps [OF that] by blast
  show "keepsR (\<lambda>w w'. table_steps (server_kube env) (sv_tab (kn_server w)) (sv_tab (kn_server w'))) (\<lambda>w. (Inr (), w\<lparr>kn_ns := h\<rparr>))" for h
    by (simp add: keepsR_def)
  show "keepsR (\<lambda>w w'. table_steps (server_kube env) (sv_tab (kn_server w)) (sv_tab (kn_server w'))) (\<lambda>w. (Inr (), w\<lparr>kn_registered := False\<rparr>))"
    by (simp add: keepsR_def)
qed (rule onServer_quiet kernel_quiet; simp)+

end
