(* ===== verification/Status_Props.thy ===== *)
theory Status_Props
  imports Node_Driver
begin

text \<open>
  What the reports to the API server write.  The laws of the typed claims of the API server are a locale:
  between a read and a successful write of a claim's status nobody else has written it (the resource
  version sees to that), and a retry loop ends with a run of its function.
\<close>

lemma attempt_andThen: "andThen (attempt m) f s = (case m s of (r, s1) \<Rightarrow> f r s1)"
  by (simp add: andThen_def attempt_def split: prod.split)

locale claim_api =
  fixes K :: "('w, 'z) kube_scheme" and claims :: "'w \<Rightarrow> string \<times> string \<Rightarrow> ResourceClaim option"
  assumes get_ok: "kGetClaim K ns n w = (Inr c, w') \<Longrightarrow> claims w' = claims w \<and> claims w (ns, n) = Some c"
    and get_err: "kGetClaim K ns n w = (Inl e, w') \<Longrightarrow> claims w' = claims w \<and> (IsNotFound e \<longrightarrow> claims w (ns, n) = None)"
    and update_ok: "kUpdateClaimStatus K c w = (Inr u, w') \<Longrightarrow>
      \<exists>old. claims w (rc_Namespace c, rc_Name c) = Some old \<and> claims w' = (claims w)((rc_Namespace c, rc_Name c) \<mapsto> old\<lparr>rc_Devices := rc_Devices c\<rparr>)"
    and update_conflict: "kUpdateClaimStatus K c w = (Inl e, w') \<Longrightarrow> IsConflict e \<Longrightarrow> claims w' = claims w"
    and claim_names: "claims w (ns, n) = Some c \<Longrightarrow> rc_Namespace c = ns \<and> rc_Name c = n"
    and retry: "kRetryOnConflict K m w = (Inr u, w') \<Longrightarrow> (\<And>v e v'. m v = (Inl e, v') \<Longrightarrow> IsConflict e \<Longrightarrow> claims v' = claims v) \<Longrightarrow>
      \<exists>v. claims v = claims w \<and> m v = (Inr u, w')"
begin

text \<open>A read, a check, and a write of the device list.\<close>

lemma setStatus_claim:
  assumes "setResourceClaimDeviceStatus K cfg ready reason message hw w = (Inr (), w')"
  obtains old st where "claims w (nn_Namespace (dev_Claim cfg), nn_Name (dev_Claim cfg)) = Some old" "rc_UID old = dev_ClaimUID cfg"
    "statusKey st = (dev_DriverName cfg, dev_PoolName cfg, dev_DeviceName cfg, dev_ShareID cfg)"
    "claims w' = (claims w)((nn_Namespace (dev_Claim cfg), nn_Name (dev_Claim cfg)) \<mapsto> old\<lparr>rc_Devices := putStatus st (rc_Devices old)\<rparr>)"
proof -
  let ?ns = "nn_Namespace (dev_Claim cfg)" and ?n = "nn_Name (dev_Claim cfg)"
  let ?body = "\<lambda>claim. if rc_UID claim \<noteq> dev_ClaimUID cfg then fail (Errorf ''ResourceClaim %s/%s UID changed'' [?ns, ?n])
      else andThen (getsE (allocatedDeviceStatus K claim cfg ready reason message hw)) (\<lambda>status.
        kUpdateClaimStatus K (claim\<lparr>rc_Devices := putStatus status (rc_Devices claim)\<rparr>))"
  have conflict: "claims v' = claims v" if "andThen (kGetClaim K ?ns ?n) ?body v = (Inl e, v')" "IsConflict e" for v e v'
  proof -
    from that(1) [unfolded andThen_Inl] consider "kGetClaim K ?ns ?n v = (Inl e, v')"
      | c v1 where "kGetClaim K ?ns ?n v = (Inr c, v1)" "?body c v1 = (Inl e, v')" by blast
    then show ?thesis
    proof cases
      case 1
      then show ?thesis using get_err by blast
    next
      case 2
      then have "claims v' = claims v1"
        using that(2) update_conflict by (auto simp: andThen_Inl fail_def split: if_splits)
      with get_ok [OF 2(1)] show ?thesis by simp
    qed
  qed
  have "\<exists>v. claims v = claims w \<and> andThen (kGetClaim K ?ns ?n) ?body v = (Inr (), w')"
    by (rule retry [OF assms [unfolded setResourceClaimDeviceStatus_def]]) (rule conflict)
  then obtain v where v: "claims v = claims w" "andThen (kGetClaim K ?ns ?n) ?body v = (Inr (), w')" by (elim exE conjE) (rule that)
  from v(2) [unfolded andThen_Inr] obtain c v1 where g: "kGetClaim K ?ns ?n v = (Inr c, v1)" "?body c v1 = (Inr (), w')" by blast
  from g(2) have uid: "rc_UID c = dev_ClaimUID cfg" by (auto simp: fail_def split: if_splits)
  let ?st = "allocatedDeviceStatus K c cfg ready reason message hw v1"
  from g(2) uid have u: "kUpdateClaimStatus K (c\<lparr>rc_Devices := putStatus ?st (rc_Devices c)\<rparr>) v1 = (Inr (), w')"
    by (simp add: andThen_def getsE_def)
  from get_ok [OF g(1)] v(1) have c: "claims v1 = claims w" "claims w (?ns, ?n) = Some c" by simp_all
  from update_ok [OF u] claim_names [OF c(2)] c
  have "claims w' = (claims w)((?ns, ?n) \<mapsto> c\<lparr>rc_Devices := putStatus ?st (rc_Devices c)\<rparr>)" by auto
  with c(2) uid show ?thesis by (intro that [of c ?st]) (simp_all add: allocatedDeviceStatus_def statusKey_def)
qed

lemma removeStatus_claim:
  assumes "removeResourceClaimDeviceStatus K d cn w = (Inr (), w')"
  shows "claims w' = (case claims w (nn_Namespace cn, nn_Name cn) of None \<Rightarrow> claims w
    | Some old \<Rightarrow> (claims w)((nn_Namespace cn, nn_Name cn) \<mapsto> old\<lparr>rc_Devices := filter (\<lambda>st. ads_Driver st \<noteq> drv_driverName d) (rc_Devices old)\<rparr>))"
proof -
  let ?ns = "nn_Namespace cn" and ?n = "nn_Name cn"
  let ?keep = "\<lambda>c. filter (\<lambda>st. ads_Driver st \<noteq> drv_driverName d) (rc_Devices c)"
  let ?body = "\<lambda>r. case r of Inl err \<Rightarrow> if IsNotFound err then ok () else fail err
      | Inr current \<Rightarrow> (let devices = ?keep current in if length devices = length (rc_Devices current) then ok ()
          else kUpdateClaimStatus K (current\<lparr>rc_Devices := devices\<rparr>))"
  have conflict: "claims v' = claims v" if "andThen (attempt (kGetClaim K ?ns ?n)) ?body v = (Inl e, v')" "IsConflict e" for v e v'
  proof -
    obtain r v1 where g1: "kGetClaim K ?ns ?n v = (r, v1)" by fastforce
    note g = g1 that(1) [unfolded attempt_andThen g1 prod.case]
    show ?thesis
    proof (cases r)
      case (Inl x)
      with g get_err [of ?ns ?n v x v1] show ?thesis by (auto simp: ok_def fail_def split: if_splits)
    next
      case (Inr c)
      with g get_ok [of ?ns ?n v c v1] update_conflict [OF _ that(2)] show ?thesis by (auto simp: Let_def ok_def split: if_splits)
    qed
  qed
  have "\<exists>v. claims v = claims w \<and> andThen (attempt (kGetClaim K ?ns ?n)) ?body v = (Inr (), w')"
    by (rule retry [OF assms [unfolded removeResourceClaimDeviceStatus_def]]) (rule conflict)
  then obtain v where v: "claims v = claims w" "andThen (attempt (kGetClaim K ?ns ?n)) ?body v = (Inr (), w')" by (elim exE conjE) (rule that)
  obtain r v1 where g1: "kGetClaim K ?ns ?n v = (r, v1)" by fastforce
  note g = g1 v(2) [unfolded attempt_andThen g1 prod.case]
  show ?thesis
  proof (cases r)
    case (Inl e)
    with g get_err [of ?ns ?n v e v1] v(1) show ?thesis by (auto simp: ok_def fail_def split: if_splits)
  next
    case (Inr c)
    with g get_ok [of ?ns ?n v c v1] v(1) have c: "claims v1 = claims w" "claims w (?ns, ?n) = Some c" by auto
    show ?thesis
    proof (cases "length (?keep c) = length (rc_Devices c)")
      case True
      then have "?keep c = rc_Devices c" by (metis length_filter_less less_irrefl filter_True)
      then have "c\<lparr>rc_Devices := ?keep c\<rparr> = c" by simp
      moreover from True g Inr have "w' = v1" by (simp add: ok_def)
      ultimately show ?thesis using c by (simp add: fun_upd_idem)
    next
      case False
      with g Inr have "kUpdateClaimStatus K (c\<lparr>rc_Devices := ?keep c\<rparr>) v1 = (Inr (), w')" by (simp add: Let_def)
      from update_ok [OF this] claim_names [OF c(2)] c show ?thesis by auto
    qed
  qed
qed

end

text \<open>The laws hold of the server of \<^verbatim>\<open>Api_Server\<close> when nobody interferes.\<close>

definition sv_claimTab :: "server \<Rightarrow> string \<times> string \<Rightarrow> ResourceClaim option" where
  "sv_claimTab s = (\<lambda>(ns, n). find (\<lambda>c. rc_Namespace c = ns \<and> rc_Name c = n) (sv_claims s))"

lemma sv_claimTab_fault [simp]: "sv_claimTab (snd (next_fault s)) = sv_claimTab s"
  by (simp add: sv_claimTab_def next_fault_def split: list.split)

lemma retry_last:
  "retry_steps k m w = (Inr u, w') \<Longrightarrow> (\<And>v e v'. m v = (Inl e, v') \<Longrightarrow> IsConflict e \<Longrightarrow> f v' = f v) \<Longrightarrow> \<exists>v. f v = f w \<and> m v = (Inr u, w')"
proof (induction k m w rule: retry_steps.induct)
  case (1 m w)
  then show ?case by (intro exI [of _ w]) simp
next
  case (2 k m w)
  obtain r w1 where m: "m w = (r, w1)" by fastforce
  show ?case
  proof (cases "\<exists>e. r = Inl e \<and> IsConflict e")
    case True
    then obtain e where e: "r = Inl e" "IsConflict e" by blast
    with 2(2) m have "retry_steps k m w1 = (Inr u, w')" by simp
    moreover from 2(3) m e have "f w1 = f w" by blast
    ultimately show ?thesis using 2(1) [OF m [symmetric] e(1,2)] 2(3) by metis
  next
    case False
    with 2(2) m show ?thesis by (intro exI [of _ w]) (cases r, auto)
  qed
qed

lemma find_update:
  assumes "\<And>c. P c \<longleftrightarrow> key c = k" and "\<And>c. key (g c) = key c"
  shows "find P (map (\<lambda>c. if key c = k' then g c else c) cs) = (if k = k' then map_option g (find P cs) else find P cs)"
  using assms by (induction cs) auto

interpretation calmc: claim_api "server_kube id" sv_claimTab
proof unfold_locales
  fix ns n w w' and c :: ResourceClaim
  assume "kGetClaim (server_kube id) ns n w = (Inr c, w')"
  then have "serve id (sv_getClaim ns n) w = (Inr c, w')" by (simp add: server_ops)
  from calm_serve_Inr [OF this] have "sv_getClaim ns n (snd (next_fault w)) = (Inr c, w')" .
  then have "w' = snd (next_fault w)" "sv_claimTab (snd (next_fault w)) (ns, n) = Some c"
    by (auto simp: sv_getClaim_def sv_claimTab_def split: option.splits)
  then show "sv_claimTab w' = sv_claimTab w \<and> sv_claimTab w (ns, n) = Some c" by simp
next
  fix ns n w w' e
  assume "kGetClaim (server_kube id) ns n w = (Inl e, w')"
  then have "serve id (sv_getClaim ns n) w = (Inl e, w')" by (simp add: server_ops)
  then show "sv_claimTab w' = sv_claimTab w \<and> (IsNotFound e \<longrightarrow> sv_claimTab w (ns, n) = None)"
    by (cases rule: serve_cases)
      (auto simp: sv_rely_def sv_getClaim_def sv_claimTab_def next_fault_def split: option.splits list.splits)
next
  fix c w w' and u :: unit
  assume "kUpdateClaimStatus (server_kube id) c w = (Inr u, w')"
  then have "serve id (sv_updateClaimStatus c) w = (Inr u, w')" by (simp add: server_ops)
  from calm_serve_Inr [OF this] have "sv_updateClaimStatus c (snd (next_fault w)) = (Inr u, w')" .
  then obtain old where old: "sv_claimTab (snd (next_fault w)) (rc_Namespace c, rc_Name c) = Some old"
    and w': "sv_claims w' = map (\<lambda>d. if (rc_Namespace d, rc_Name d) = (rc_Namespace c, rc_Name c) then d\<lparr>rc_Devices := rc_Devices c\<rparr> else d)
      (sv_claims (snd (next_fault w)))"
    by (auto simp: sv_updateClaimStatus_def sv_getClaim_def sv_claimTab_def split: option.splits)
  have "sv_claimTab w' (ns, n) = (if (ns, n) = (rc_Namespace c, rc_Name c) then map_option (\<lambda>d. d\<lparr>rc_Devices := rc_Devices c\<rparr>) (sv_claimTab (snd (next_fault w)) (ns, n))
      else sv_claimTab (snd (next_fault w)) (ns, n))" for ns n
    unfolding sv_claimTab_def case_prod_conv w' by (rule find_update) auto
  with old have "sv_claimTab w' = (sv_claimTab w)((rc_Namespace c, rc_Name c) \<mapsto> old\<lparr>rc_Devices := rc_Devices c\<rparr>)"
    by (auto simp: fun_eq_iff)
  with old show "\<exists>old. sv_claimTab w (rc_Namespace c, rc_Name c) = Some old
      \<and> sv_claimTab w' = (sv_claimTab w)((rc_Namespace c, rc_Name c) \<mapsto> old\<lparr>rc_Devices := rc_Devices c\<rparr>)" by auto
next
  fix c w w' e
  assume "kUpdateClaimStatus (server_kube id) c w = (Inl e, w')" and e: "IsConflict e"
  then have "serve id (sv_updateClaimStatus c) w = (Inl e, w')" by (simp add: server_ops)
  then show "sv_claimTab w' = sv_claimTab w"
    using e by (cases rule: serve_cases) (auto simp: sv_updateClaimStatus_def sv_getClaim_def IsConflict_def split: option.splits)
next
  fix w ns n c
  assume "sv_claimTab w (ns, n) = Some c"
  then show "rc_Namespace c = ns \<and> rc_Name c = n" by (auto simp: sv_claimTab_def find_Some_iff)
next
  fix m w u w'
  assume "kRetryOnConflict (server_kube id) m w = (Inr u, w')" and "\<And>v e v'. m v = (Inl e, v') \<Longrightarrow> IsConflict e \<Longrightarrow> sv_claimTab v' = sv_claimTab v"
  then show "\<exists>v. sv_claimTab v = sv_claimTab w \<and> m v = (Inr u, w')" by (intro retry_last) (simp_all add: server_ops)
qed

section \<open>Properties\<close>

text \<open>C19: a successful status report writes the status of exactly one device of exactly the claim it is about.  The claim of that name has
  the UID the device was prepared for; of its device statuses the one with the device's key is replaced, or added, and all others are kept;
  no other claim changes.\<close>

theorem setResourceClaimDeviceStatus_exact:
  assumes "claim_api K claims" and "setResourceClaimDeviceStatus K cfg ready reason message hw w = (Inr (), w')"
    and "key = (nn_Namespace (dev_Claim cfg), nn_Name (dev_Claim cfg))"
  shows "\<exists>old st. claims w key = Some old \<and> rc_UID old = dev_ClaimUID cfg
    \<and> statusKey st = (dev_DriverName cfg, dev_PoolName cfg, dev_DeviceName cfg, dev_ShareID cfg)
    \<and> claims w' = (claims w)(key \<mapsto> old\<lparr>rc_Devices := putStatus st (rc_Devices old)\<rparr>)
    \<and> (distinct (map statusKey (rc_Devices old)) \<longrightarrow>
        set (putStatus st (rc_Devices old)) = insert st {e. List.member (rc_Devices old) e \<and> statusKey e \<noteq> statusKey st})"
proof -
  obtain old st where "claims w key = Some old" "rc_UID old = dev_ClaimUID cfg"
    "statusKey st = (dev_DriverName cfg, dev_PoolName cfg, dev_DeviceName cfg, dev_ShareID cfg)"
    "claims w' = (claims w)(key \<mapsto> old\<lparr>rc_Devices := putStatus st (rc_Devices old)\<rparr>)"
    unfolding assms(3) by (rule claim_api.setStatus_claim [OF assms(1,2)])
  then show ?thesis using putStatus_get [of "rc_Devices old" _ st] by (intro exI [of _ old] exI [of _ st]) auto
qed

definition reported_server :: server where
  "reported_server = empty_server\<lparr>sv_claims := [sample_claim]\<rparr>"

lemma sample_reported: "\<exists>w'. setResourceClaimDeviceStatus (server_kube id) sample_device True ''NetworkAttached'' ''attached'' [] reported_server = (Inr (), w')"
  by (simp add: setResourceClaimDeviceStatus_def server_ops andThen_def getsE_def serve_calm sv_getClaim_def sv_updateClaimStatus_def reported_server_def
      sample_claim_def sample_device_def numeral_3_eq_3)

theorem setResourceClaimDeviceStatus_exact_witness:
  "\<exists>w' c st. setResourceClaimDeviceStatus (server_kube id) sample_device True ''NetworkAttached'' ''attached'' [] reported_server = (Inr (), w')
     \<and> sv_claimTab w' (''default'', ''net-a'') = Some c \<and> rc_UID c = ''uid-a'' \<and> List.member (rc_Devices c) st \<and> ads_Device st = ''eth1''"
proof -
  obtain w' where w: "setResourceClaimDeviceStatus (server_kube id) sample_device True ''NetworkAttached'' ''attached'' [] reported_server = (Inr (), w')"
    using sample_reported by blast
  from setResourceClaimDeviceStatus_exact [OF calmc.claim_api_axioms w refl] obtain old st where
    o: "rc_UID old = dev_ClaimUID sample_device" "statusKey st = (dev_DriverName sample_device, dev_PoolName sample_device, dev_DeviceName sample_device, dev_ShareID sample_device)"
      "sv_claimTab w' = (sv_claimTab reported_server)((nn_Namespace (dev_Claim sample_device), nn_Name (dev_Claim sample_device)) \<mapsto> old\<lparr>rc_Devices := putStatus st (rc_Devices old)\<rparr>)"
    by auto
  have "st \<in> set (putStatus st ds)" for ds by (induction ds) auto
  with o w show ?thesis
    by (intro exI [of _ w'] exI [of _ "old\<lparr>rc_Devices := putStatus st (rc_Devices old)\<rparr>"] exI [of _ st]) (simp add: sample_device_def statusKey_def)
qed

text \<open>C20: the removal of a status acts on the claim of that name as it is now, whoever it is: of its device statuses exactly those of other
  drivers are left.  No UID is compared, so a claim that was created again under the name loses its own device statuses.\<close>

theorem removeResourceClaimDeviceStatus_exact:
  assumes "claim_api K claims" and "removeResourceClaimDeviceStatus K d cn w = (Inr (), w')"
  shows "claims w' = (case claims w (nn_Namespace cn, nn_Name cn) of None \<Rightarrow> claims w
    | Some old \<Rightarrow> (claims w)((nn_Namespace cn, nn_Name cn) \<mapsto> old\<lparr>rc_Devices := filter (\<lambda>st. ads_Driver st \<noteq> drv_driverName d) (rc_Devices old)\<rparr>))"
  using claim_api.removeStatus_claim [OF assms] .

lemma sample_removed: "\<exists>w'. removeResourceClaimDeviceStatus (server_kube id) sample_drv \<lparr>nn_Namespace = ''default'', nn_Name = ''net-a''\<rparr> reported_server = (Inr (), w')"
  by (simp add: removeResourceClaimDeviceStatus_def server_ops andThen_def attempt_def serve_calm sv_getClaim_def reported_server_def
      sv_updateClaimStatus_def sample_claim_def numeral_3_eq_3 ok_def Let_def)

theorem removeResourceClaimDeviceStatus_exact_witness:
  "\<exists>w' c. removeResourceClaimDeviceStatus (server_kube id) sample_drv \<lparr>nn_Namespace = ''default'', nn_Name = ''net-a''\<rparr> reported_server = (Inr (), w')
     \<and> sv_claimTab w' (''default'', ''net-a'') = Some c \<and> list_all (\<lambda>st. ads_Driver st \<noteq> drv_driverName sample_drv) (rc_Devices c)"
proof -
  obtain w' where w: "removeResourceClaimDeviceStatus (server_kube id) sample_drv \<lparr>nn_Namespace = ''default'', nn_Name = ''net-a''\<rparr> reported_server = (Inr (), w')"
    using sample_removed by blast
  have "sv_claimTab reported_server (''default'', ''net-a'') = Some sample_claim" by (simp add: sv_claimTab_def reported_server_def sample_claim_def)
  with removeResourceClaimDeviceStatus_exact [OF calmc.claim_api_axioms w] w show ?thesis by (simp add: list_all_iff)
qed

end
