(* ===== verification/Driver_Store.thy ===== *)
theory Driver_Store
  imports Driver Triples
begin

text \<open>
  What the handlers keep of the driver's own state: the store stays well formed, so that every device
  stands under its own key, and the discovered DPDK devices under names that no network interface shares
  a key with.
\<close>

definition dpdkNamed :: "(string \<times> dpdkDevice) list \<Rightarrow> bool" where
  "dpdkNamed ds \<longleftrightarrow> (\<forall>(k, d)\<in>set ds. HasPrefix k ''pci-'')"

definition wf_sys :: "'w sys \<Rightarrow> bool" where
  "wf_sys s \<longleftrightarrow> wf_store (sys_store s) \<and> dpdkNamed (sys_dpdk s)"

text \<open>A DPDK device is published for exclusive use, so its allocation has no share.\<close>

definition valid_claim :: "ResourceClaim \<Rightarrow> bool" where
  "valid_claim claim \<longleftrightarrow> (\<forall>r\<in>set (rc_Results claim). HasPrefix (ar_Device r) ''pci-'' \<longrightarrow> ar_ShareID r = None)"

abbreviation keepsWf :: "('w sys, 'a) eff \<Rightarrow> bool" where
  "keepsWf m \<equiv> keepsR (\<lambda>s s'. wf_sys s \<longrightarrow> wf_sys s') m"

text \<open>A program whose values satisfy \<open>A\<close>, followed by one that keeps the invariant for such values.\<close>

definition yields :: "('w sys, 'a) eff \<Rightarrow> ('a \<Rightarrow> bool) \<Rightarrow> bool" where
  "yields m A \<longleftrightarrow> (\<forall>s x s'. wf_sys s \<longrightarrow> m s = (Inr x, s') \<longrightarrow> A x)"

lemma wf_andThen:
  assumes "keepsWf m" and "yields m A" and "\<And>x. A x \<Longrightarrow> keepsWf (f x)"
  shows "keepsWf (andThen m f)"
proof (rule keepsRI, rule impI)
  fix s r s'
  assume w: "wf_sys s" and a: "andThen m f s = (r, s')"
  obtain x s1 where x: "m s = (x, s1)" by fastforce
  have w1: "wf_sys s1" using keepsRD [OF assms(1) x] w by blast
  show "wf_sys s'"
  proof (cases x)
    case (Inl e)
    with a x w1 show ?thesis by (simp add: andThen_def)
  next
    case (Inr y)
    with assms(2) w x have "A y" by (auto simp: yields_def)
    moreover from a x Inr have "f y s1 = (r, s')" by (simp add: andThen_def)
    ultimately show ?thesis using keepsRD [OF assms(3)] w1 by metis
  qed
qed

lemma wf_gets_andThen:
  assumes "\<And>s. wf_sys s \<Longrightarrow> A (f s)" and "\<And>x. A x \<Longrightarrow> keepsWf (g x)"
  shows "keepsWf (andThen (getsE f) g)"
  by (rule wf_andThen [of _ A]) (auto simp: yields_def assms intro: invariant.keeps_getsE)

lemma wf_onW: "keepsWf (onW m)"
  by (rule keepsRI) (auto simp: onW_eq wf_sys_def)

lemma wf_onFs: "keepsWf (onFs m)"
  by (rule keepsRI) (auto simp: onFs_eq wf_sys_def)

lemma wf_commit:
  assumes "\<And>st. wf_store st \<Longrightarrow> wf_store (f st)"
  shows "keepsWf (onStore (\<lambda>st. commit J (f st)))"
  by (rule keepsRI) (auto simp: onStore_eq wf_sys_def commit_def assms split: prod.splits)

lemma wf_SetDevice: "migratedKey k cfg = k \<Longrightarrow> keepsWf (onStore (SetDevice J u k cfg))"
  unfolding SetDevice_def by (rule wf_commit) (rule wf_putDevice)

lemma wf_SetNetNS: "keepsWf (onStore (SetNetNS J u ns))"
  unfolding SetNetNS_def by (rule wf_commit) (rule wf_putNetNS)

lemma wf_DeleteClaim: "keepsWf (onStore (DeleteClaim J u))"
  unfolding DeleteClaim_def by (rule wf_commit) (rule wf_forgetClaim)

lemmas wf_calls = wf_onW wf_onFs wf_SetDevice wf_SetNetNS wf_DeleteClaim

lemma dpdkNamed_discovered: "discoverDPDKDevices fs cfg = Inr ds \<Longrightarrow> dpdkNamed ds"
proof -
  have "dpdkNamed acc \<Longrightarrow> dpdkNamed (inspectAll fs cfg names ps acc)" for names ps acc
  proof (induction ps arbitrary: acc)
    case (Cons p ps)
    have "dpdkNamed (gput (dd_Name d) d acc)" if "inspectDevice fs cfg names p = Some d" for d
    proof -
      from that have "HasPrefix (dd_Name d) ''pci-''"
        by (auto simp: inspectDevice_def dpdkDeviceName_def HasPrefix_def Let_def split: if_splits prod.splits)
      with Cons.prems set_gput [of "dd_Name d" d acc] show ?thesis by (fastforce simp: dpdkNamed_def)
    qed
    with Cons show ?case by (simp split: option.split)
  qed simp
  from this [of "[]"] have "dpdkNamed (inspectAll fs cfg names ps [])" for names ps by (simp add: dpdkNamed_def)
  moreover assume "discoverDPDKDevices fs cfg = Inr ds"
  ultimately show ?thesis by (auto simp: discoverDPDKDevices_def dpdkNamed_def [of "[]"] split: if_splits sum.splits)
qed

lemma wf_publish: "keepsWf (publish N d)"
proof -
  have set: "keepsWf (modifyE (\<lambda>s. s\<lparr>sys_dpdk := ds\<rparr>))" if "dpdkNamed ds" for ds
    using that by (intro invariant.keeps_modifyE) (simp add: wf_sys_def)
  have disc: "yields (mapErr h (liftE (discoverDPDKDevices fs c))) dpdkNamed" for h fs c
    by (auto simp: yields_def intro: dpdkNamed_discovered)
  have dpdk: "keepsWf (publishDPDK d)"
    unfolding publishDPDK_def by (intro set invariant.keeps_if wf_andThen [OF _ disc] invariant.keeps_rules)
  show ?thesis unfolding publish_def publishInterface_def by (intro wf_calls dpdk invariant.keeps_rules)
qed

text \<open>Devices read from a well-formed store stand under their keys.\<close>

lemma wf_sys_pods: "wf_sys s \<Longrightarrow> (u, pod) \<in> set (PodConfigs (sys_store s)) \<Longrightarrow> wf_pod pod"
  by (auto simp: wf_sys_def wf_store_def PodConfigs_def)

lemma wf_sys_pod: "wf_sys s \<Longrightarrow> GetPod u (sys_store s) = Some pod \<Longrightarrow> wf_pod pod"
  using wf_store_pod by (auto simp: wf_sys_def GetPod_def)

lemma wf_pod_key: "wf_pod pod \<Longrightarrow> (k, cfg) \<in> set (pod_devices pod) \<Longrightarrow> migratedKey k cfg = k"
  by (auto simp: wf_pod_def)

lemma migratedKey_cong:
  "dev_ClaimUID c = dev_ClaimUID c' \<Longrightarrow> dev_DeviceName c = dev_DeviceName c' \<Longrightarrow> dev_ShareID c = dev_ShareID c' \<Longrightarrow>
     migratedKey k c = migratedKey k c'"
  by (simp add: migratedKey_def)

lemma migratedKey_upd [simp]:
  "migratedKey k (markRestored cfg) = migratedKey k cfg"
  "migratedKey k (cfg\<lparr>dev_LifecycleState := x\<rparr>) = migratedKey k cfg" "migratedKey k (cfg\<lparr>dev_HostDevice := h\<rparr>) = migratedKey k cfg"
  "migratedKey k (cfg\<lparr>dev_AttachedIf := a, dev_HardwareAddress := b\<rparr>) = migratedKey k cfg"
  by (simp_all add: migratedKey_def markRestored_def)

lemma restoreHostDevice_cfg:
  "restoreHostDevice N nsPath cfg w = (Inr cfg', w') \<Longrightarrow> cfg' = cfg \<or> cfg' = markRestored cfg"
  by (auto simp: restoreHostDevice_def andThen_Inr ok_def split: option.splits if_splits sum.splits) (metis old.sum.exhaust)

lemma restore_key:
  "migratedKey k cfg = k \<Longrightarrow> yields (mapErr h (onW (restoreHostDevice N nsPath cfg))) (\<lambda>cfg'. migratedKey k cfg' = k)"
  by (auto simp: yields_def onW_eq dest: restoreHostDevice_cfg)

lemma wf_restoreStored:
  assumes "migratedKey key cfg = key" and "\<And>c. keepsWf (report c)"
  shows "keepsWf (restoreStored N J nsPath podUID key report cfg)"
  unfolding restoreStored_def
  by (rule wf_andThen [OF _ restore_key [OF assms(1)]]) (intro wf_calls assms(2) invariant.keeps_rules)+

lemma wf_restoreClaim: "keepsWf (restoreClaimHostDevices N J d u)"
  unfolding restoreClaimHostDevices_def
proof (rule wf_gets_andThen [of "\<lambda>ps. \<forall>(u, pod)\<in>set ps. wf_pod pod"])
  fix ps :: "(uid \<times> PodConfig) list"
  assume ps: "\<forall>(u, pod)\<in>set ps. wf_pod pod"
  let ?devs = "concat (map (\<lambda>(podUID, podCfg). map (\<lambda>(key, cfg). (podUID, pcf_NetNS podCfg, key, cfg))
      (filter (\<lambda>(_, cfg). dev_ClaimUID cfg = u \<and> needsRestore cfg) (pod_devices podCfg))) ps)"
  have "keepsWf (case x of (podUID, nsPath, key, cfg) \<Rightarrow> restoreStored N J nsPath podUID key (\<lambda>_. ok ()) cfg)" if "x \<in> set ?devs" for x
  proof -
    from that ps obtain podUID nsPath key cfg where "x = (podUID, nsPath, key, cfg)" "migratedKey key cfg = key"
      by (fastforce dest: wf_pod_key)
    then show ?thesis by (auto intro!: wf_restoreStored invariant.keeps_ok)
  qed
  then show "keepsWf (andThen (collectE (\<lambda>(podUID, nsPath, key, cfg). restoreStored N J nsPath podUID key (\<lambda>_. ok ()) cfg) ?devs)
      (\<lambda>errs. seqE (ignoreErr (publish N d)) (liftE (errors_Join errs))))"
    by (intro invariant.keeps_andThen invariant.keeps_collectE wf_publish invariant.keeps_ignoreErr invariant.keeps_liftE)
qed (use wf_sys_pods in blast)

lemma wf_unprepareClaim: "keepsWf (unprepareClaim N J d obj)"
  unfolding unprepareClaim_def by (intro wf_restoreClaim wf_calls invariant.keeps_rules)

lemma wf_restorePod: "keepsWf (restorePodHostDevices N J d pod)"
  unfolding restorePodHostDevices_def
proof (rule wf_gets_andThen [of "\<lambda>found. \<forall>podCfg. found = Some podCfg \<longrightarrow> wf_pod podCfg"])
  fix found
  assume wf: "\<forall>podCfg. found = Some podCfg \<longrightarrow> wf_pod podCfg"
  have report: "keepsWf (reportRestored N J d pod c)" for c
    unfolding reportRestored_def by (intro wf_calls invariant.keeps_rules)
  have "keepsWf (case x of (key, cfg) \<Rightarrow> restoreStored N J nsPath (sb_Uid pod) key (reportRestored N J d pod) cfg)"
    if "x \<in> set (filter (\<lambda>(_, cfg). needsRestore cfg) (pod_devices podCfg))" "wf_pod podCfg" for x nsPath podCfg
    using that by (auto intro!: wf_restoreStored report dest: wf_pod_key)
  then show "keepsWf (case found of None \<Rightarrow> ok ()
      | Some podCfg \<Rightarrow> (let nsPath = if networkNamespace pod = [] then pcf_NetNS podCfg else networkNamespace pod
          in andThen (collectE (\<lambda>(key, cfg). restoreStored N J nsPath (sb_Uid pod) key (reportRestored N J d pod) cfg)
               (filter (\<lambda>(_, cfg). needsRestore cfg) (pod_devices podCfg)))
               (\<lambda>errs. seqE (ignoreErr (publish N d)) (liftE (errors_Join errs)))))"
    using wf unfolding Let_def
    by (intro invariant.keeps_option invariant.keeps_ok invariant.keeps_andThen invariant.keeps_collectE wf_publish
        invariant.keeps_ignoreErr invariant.keeps_liftE) auto
qed (use wf_sys_pod in blast)

lemma wf_Synchronize: "keepsWf (Synchronize N J d active)"
proof -
  have orphan: "keepsWf (recoverOrphan N J u key cfg)" if "migratedKey key cfg = key" for u key cfg
  proof -
    have y: "yields (attempt (onW (restoreHostDevice N [] cfg))) (\<lambda>r. \<forall>cfg'. r = Inr cfg' \<longrightarrow> migratedKey key cfg' = key)"
      using that by (auto simp: yields_def onW_eq dest: restoreHostDevice_cfg)
    show ?thesis unfolding recoverOrphan_def
      by (rule wf_andThen [OF _ y]) (auto intro!: wf_calls invariant.keeps_rules)
  qed
  let ?devs = "\<lambda>ps. concat (map (\<lambda>(podUID, podCfg). map (\<lambda>(key, cfg). (podUID, key, cfg))
      (filter (\<lambda>(_, cfg). needsRestore cfg) (pod_devices podCfg))) (filter (\<lambda>(podUID, _). \<not> Contains (map sb_Uid active) podUID) ps))"
  have each: "keepsWf (case x of (podUID, key, cfg) \<Rightarrow> recoverOrphan N J podUID key cfg)"
    if "\<forall>(u, pod)\<in>set ps. wf_pod pod" "x \<in> set (?devs ps)" for ps x
  proof -
    from that obtain podUID key cfg where "x = (podUID, key, cfg)" "migratedKey key cfg = key" by (fastforce dest: wf_pod_key)
    then show ?thesis by (auto intro: orphan)
  qed
  have rest: "keepsWf (andThen (getsE (\<lambda>s. PodConfigs (sys_store s))) (\<lambda>ps. seqE
      (forE (\<lambda>(podUID, key, cfg). recoverOrphan N J podUID key cfg) (?devs ps)) (ignoreErr (publish N d))))"
    by (rule wf_gets_andThen [of "\<lambda>ps. \<forall>(u, pod)\<in>set ps. wf_pod pod"])
      (use wf_sys_pods in blast, intro invariant.keeps_andThen invariant.keeps_forE wf_publish invariant.keeps_ignoreErr, use each in blast)
  show ?thesis unfolding Synchronize_def
    by (rule invariant.keeps_andThen [OF _ rest])
      (intro invariant.keeps_forE invariant.keeps_if invariant.keeps_ignoreErr wf_calls invariant.keeps_ok)
qed

section \<open>Preparing and running\<close>

lemma wf_ReserveIP: "ReserveIP J pool address u p st fs = (r, st', fs') \<Longrightarrow> wf_store st \<Longrightarrow> wf_store st'"
  by (auto simp: ReserveIP_def commit_def wf_reserve split: option.splits if_splits prod.splits)

lemma wf_onReserve: "keepsWf (onStore (ReserveIP J pool address u p))"
  by (rule keepsRI) (auto simp: onStore_eq wf_sys_def dest: wf_ReserveIP)

lemma wf_reload: "wf_sys (reloadIPPools K d s) = wf_sys s"
  by (simp add: wf_sys_def reloadIPPools_def split: prod.split sum.split)

lemma keepsWf_snd: "keepsWf m \<Longrightarrow> wf_sys s \<Longrightarrow> wf_sys (snd (m s))"
  by (simp add: keepsR_def)

lemma wf_applyIPAM:
  fixes K :: "('w, 'z) kube_scheme"
  shows "keepsWf (applyIPAM K J d netCfg claim pod)"
proof (rule keepsRI, rule impI)
  fix s r s'
  assume w: "wf_sys s" and a: "applyIPAM K J d netCfg claim pod s = (r, s')"
  let ?s = "reloadIPPools K d s"
  have w0: "wf_sys ?s" using w by (simp add: wf_reload)
  obtain f s1 where f: "onW (FindForClaim K (rc_UID claim)) ?s = (f, s1)" by fastforce
  have w1: "wf_sys s1" using keepsRD [OF wf_onW f] w0 by blast
  have w2: "wf_sys (snd (onStore (ReserveIP J n ad (rc_UID claim) (pod_UID pod)) s1))" for n ad
    by (rule keepsWf_snd [OF wf_onReserve w1])
  have w3: "wf_sys (snd (onW m s1))" for m :: "('w, string) eff" by (rule keepsWf_snd [OF wf_onW w1])
  have w4: "wf_sys (snd (onStore (ReserveIP J n ad (rc_UID claim) (pod_UID pod)) (snd (onW m s1))))" for n ad and m :: "('w, string) eff"
    by (rule keepsWf_snd [OF wf_onReserve w3])
  from a f have "s' \<in> {s, ?s, s1} \<or> (\<exists>n ad. s' = snd (onStore (ReserveIP J n ad (rc_UID claim) (pod_UID pod)) s1))
      \<or> (\<exists>m :: ('w, string) eff. s' = snd (onW m s1))
      \<or> (\<exists>n ad (m :: ('w, string) eff). s' = snd (onStore (ReserveIP J n ad (rc_UID claim) (pod_UID pod)) (snd (onW m s1))))"
    by (auto simp: applyIPAM_def Let_def split: if_splits option.splits sum.splits prod.splits) (metis snd_conv)+
  then show "wf_sys s'" using w w0 w1 w2 w3 w4 by auto
qed

lemma yields_weaken: "yields m A \<Longrightarrow> (\<And>x. A x \<Longrightarrow> B x) \<Longrightarrow> yields m B"
  unfolding yields_def by blast

lemma kept_key: "wf_sys s \<Longrightarrow> keptHostDevice (sys_store s) u key claimUID = Some cfg \<Longrightarrow> migratedKey key cfg = key"
  by (auto simp: keptHostDevice_def split: option.splits if_splits dest!: wf_sys_pod map_of_SomeD intro: wf_pod_key)

lemma withHostDevice_key:
  assumes "migratedKey key cfg = key"
  shows "yields (withHostDevice N d ifc podUID key cfg) (\<lambda>c. migratedKey key c = key)"
  unfolding yields_def withHostDevice_def
proof (intro allI impI)
  fix s c s'
  assume w: "wf_sys s" and a: "andThen (getsE (\<lambda>s. keptHostDevice (sys_store s) podUID key (dev_ClaimUID cfg))) (\<lambda>kept.
      case kept of Some existing \<Rightarrow> ok existing
      | None \<Rightarrow> andThen (mapErr (Wrapf ''inspect host device %s'' [ic_Name ifc]) (onW (nLinkByName N (ic_Name ifc)))) (\<lambda>link.
          andThen (onW (snapshotHostDevice N link (nc_InterfaceName (dev_Network cfg)))) (\<lambda>hs.
          seqE (if \<not> ic_AllowUnsafe ifc then onW (validateHostDeviceSafety N d link hs) else ok ())
            (ok (cfg\<lparr>dev_HostDevice := Some hs\<rparr>))))) s = (Inr c, s')"
  show "migratedKey key c = key"
  proof (cases "keptHostDevice (sys_store s) podUID key (dev_ClaimUID cfg)")
    case (Some existing)
    with a kept_key [OF w Some] show ?thesis by (simp add: andThen_def getsE_def ok_def)
  next
    case None
    with a assms show ?thesis by (auto simp: andThen_Inr ok_def)
  qed
qed

lemma wf_withHostDevice: "keepsWf (withHostDevice N d ifc podUID key cfg)"
  unfolding withHostDevice_def by (intro wf_calls invariant.keeps_rules)

lemma deviceConfigOf_key:
  "migratedKey (deviceStoreKey (rc_UID claim) (ar_Device a) (ar_ShareID a)) (deviceConfigOf claim a ifc identity netCfg)
     = deviceStoreKey (rc_UID claim) (ar_Device a) (ar_ShareID a)"
  by (simp add: migratedKey_def deviceConfigOf_def)

lemma wf_prepareInterface:
  assumes key: "key = deviceStoreKey (rc_UID claim) (ar_Device a) (ar_ShareID a)"
  shows "keepsWf (prepareInterface N J d claim pod podUID key a ifc)"
proof -
  have cfg: "yields (if nc_Type netCfg = ''host-device'' then withHostDevice N d ifc podUID key cfg0 else ok cfg0) (\<lambda>c. migratedKey key c = key)"
    if "migratedKey key cfg0 = key" for netCfg cfg0
    using withHostDevice_key [OF that, of N d ifc podUID] that by (simp add: yields_def ok_def)
  have gets: "yields (getsE (\<lambda>s. deviceConfigOf claim a ifc (interfaceIdentity (sys_fs s) (ic_Name ifc)) netCfg)) (\<lambda>c. migratedKey key c = key)" for netCfg
    by (simp add: yields_def deviceConfigOf_key key)
  show ?thesis unfolding prepareInterface_def Let_def
    by (intro wf_andThen [OF _ gets] wf_andThen [OF _ cfg] invariant.keeps_andThen [OF _ wf_andThen [OF _ gets]]
        wf_applyIPAM wf_withHostDevice wf_calls invariant.keeps_rules) simp_all
qed

lemma wf_prepareDPDK:
  assumes "ar_ShareID a = None" and "key = deviceStoreKey (rc_UID claim) (ar_Device a) (ar_ShareID a)"
  shows "keepsWf (prepareDPDKDevice N J d claim pod podUID key a device)"
proof -
  have "migratedKey key (dpdkConfigOf claim a st) = key" for st
    using assms by (simp add: migratedKey_def dpdkConfigOf_def)
  then show ?thesis unfolding prepareDPDKDevice_def Let_def by (intro wf_calls invariant.keeps_rules)
qed

lemma wf_prepareAllocation:
  assumes "HasPrefix (ar_Device a) ''pci-'' \<longrightarrow> ar_ShareID a = None"
  shows "keepsWf (prepareAllocation N J d claim pod podUID a)"
proof -
  let ?key = "deviceStoreKey (rc_UID claim) (ar_Device a) (ar_ShareID a)"
  have "keepsWf (andThen (getsE sys_dpdk) (\<lambda>ds. let key = ?key in
      case (map_of ds (ar_Device a), map_of (drv_devices d) (ar_Device a)) of
        (Some dpdk, _) \<Rightarrow> andThen (prepareDPDKDevice N J d claim pod podUID key a dpdk) (\<lambda>x. ok [x])
      | (None, Some ifc) \<Rightarrow> andThen (prepareInterface N J d claim pod podUID key a ifc) (\<lambda>x. ok [x])
      | (None, None) \<Rightarrow> fail (Errorf ''allocated unknown device %q'' [ar_Device a])))"
  proof (rule wf_gets_andThen [of dpdkNamed])
    fix ds
    assume ds: "dpdkNamed ds"
    have share: "ar_ShareID a = None" if "map_of ds (ar_Device a) = Some dpdk" for dpdk
      using ds assms map_of_SomeD [OF that] by (auto simp: dpdkNamed_def)
    show "keepsWf (let key = ?key in case (map_of ds (ar_Device a), map_of (drv_devices d) (ar_Device a)) of
        (Some dpdk, _) \<Rightarrow> andThen (prepareDPDKDevice N J d claim pod podUID key a dpdk) (\<lambda>x. ok [x])
      | (None, Some ifc) \<Rightarrow> andThen (prepareInterface N J d claim pod podUID key a ifc) (\<lambda>x. ok [x])
      | (None, None) \<Rightarrow> fail (Errorf ''allocated unknown device %q'' [ar_Device a]))"
      using share unfolding Let_def
      by (cases "map_of ds (ar_Device a)"; cases "map_of (drv_devices d) (ar_Device a)")
        (simp_all, (intro invariant.keeps_andThen invariant.keeps_ok invariant.keeps_fail wf_prepareDPDK wf_prepareInterface refl; simp)+)
  qed (simp add: wf_sys_def)
  then show ?thesis unfolding prepareAllocation_def by (intro invariant.keeps_if invariant.keeps_ok)
qed

lemma wf_prepareClaim: "valid_claim claim \<Longrightarrow> keepsWf (prepareClaim N J d claim)"
  unfolding prepareClaim_def
  by (intro invariant.keeps_mapE invariant.keeps_rules wf_calls wf_prepareAllocation) (auto simp: valid_claim_def)

lemma attachHostDevice_key:
  assumes "attachHostDevice N fs nsPath cfg w = (Inr (err, cfg'), w')"
  shows "migratedKey k cfg' = migratedKey k cfg"
proof (cases "dev_HostDevice cfg")
  case None
  with assms show ?thesis by (auto simp: attachHostDevice_def ok_def)
next
  case (Some hs)
  obtain en w1 where en: "enterNamespace N fs nsPath cfg hs w = (en, w1)" by fastforce
  show ?thesis
  proof (cases en)
    case (Inl e)
    with assms Some en show ?thesis by (auto simp: attachHostDevice_def andThen_Inr ok_def)
  next
    case (Inr target)
    obtain co w2 where co: "inNetNS N target (configureHostDevice N (dev_Network cfg) hs) w1 = (co, w2)" by fastforce
    obtain re w3 where re: "restoreHostDevice N nsPath cfg w2 = (re, w3)" by fastforce
    show ?thesis
    proof (cases co)
      case (Inl e)
      with assms Some en Inr co re have "cfg' = cfg \<or> re = Inr cfg'"
        by (cases re) (auto simp: attachHostDevice_def andThen_Inr ok_def)
      with re restoreHostDevice_cfg [of N nsPath cfg w2 cfg' w3] show ?thesis by auto
    next
      case I: (Inr x)
      with assms Some en Inr co show ?thesis
        by (cases x) (auto simp: attachHostDevice_def andThen_Inr ok_def migratedKey_def)
    qed
  qed
qed

lemma lookup_key: "wf_store st \<Longrightarrow> lookupDevice st u k = Some cfg \<Longrightarrow> migratedKey k cfg = k"
  by (auto simp: lookupDevice_def GetPod_def split: option.splits dest: wf_store_pod intro: wf_pod_key [OF _ map_of_SomeD])

lemma wf_share: "wf_store st \<Longrightarrow> wf_store (shareHostDevice u k hs st)"
  by (simp add: shareHostDevice_def wf_putDevice lookup_key split: option.split)

lemma wf_setShare: "keepsWf (modifyE (\<lambda>s. s\<lparr>sys_store := shareHostDevice u k hs (sys_store s)\<rparr>))"
  by (rule invariant.keeps_modifyE) (simp add: wf_sys_def wf_share)

lemma attachAny_key:
  assumes "migratedKey k cfg = k"
  shows "yields (attachAny N u k nsPath cfg) (\<lambda>(err, cfg', hw). migratedKey k cfg' = k)"
  using assms
  by (auto simp: yields_def attachAny_def andThen_Inr ok_def onW_eq attachHostDevice_key split: if_splits sum.splits)
    (metis old.sum.exhaust)

lemma wf_attachAny: "keepsWf (attachAny N u k nsPath cfg)"
  unfolding attachAny_def by (intro wf_setShare wf_calls invariant.keeps_rules)

lemma attachDevice_key:
  assumes "migratedKey key cfg = key"
  shows "keepsWf (attachDevice N J d pod kubePod nsPath key cfg)"
proof -
  have rep: "keepsWf (reportAttachFailure N d kubePod c e)" for c e
    unfolding reportAttachFailure_def by (intro wf_calls invariant.keeps_rules)
  show ?thesis unfolding attachDevice_def Let_def
    by (rule wf_andThen [OF wf_attachAny attachAny_key [OF assms]])
      (auto intro!: rep wf_calls invariant.keeps_rules)
qed

lemma wf_runDevice:
  assumes "migratedKey key cfg = key"
  shows "keepsWf (runDevice N J d pod kubePod nsPath (key, cfg))"
proof -
  have rep: "keepsWf m \<Longrightarrow> keepsWf (reporting N d kubePod c what m)" for c what and m :: "('a sys, unit) eff"
    unfolding reporting_def by (intro wf_calls invariant.keeps_rules)
  have dpdk: "keepsWf (runDPDK N J d pod kubePod key cfg)"
    unfolding runDPDK_def Let_def using assms by (intro wf_calls invariant.keeps_rules) simp
  show ?thesis unfolding runDevice_def Let_def case_prod_conv
    by (intro invariant.keeps_if dpdk invariant.keeps_andThen attachDevice_key [OF assms] invariant.keeps_ok rep wf_calls invariant.keeps_ignoreErr)
qed

lemma wf_RunPodSandbox: "keepsWf (RunPodSandbox N J d pod)"
  unfolding RunPodSandbox_def
proof (rule wf_gets_andThen [of "\<lambda>found. \<forall>podCfg. found = Some podCfg \<longrightarrow> wf_pod podCfg"])
  fix found
  assume wf: "\<forall>podCfg. found = Some podCfg \<longrightarrow> wf_pod podCfg"
  have loop: "keepsWf (forE (runDevice N J d pod kubePod nsPath) (pod_devices podCfg))" if "found = Some podCfg" for podCfg kubePod nsPath
    by (rule invariant.keeps_forE) (use that wf wf_pod_key wf_runDevice in \<open>metis surj_pair\<close>)
  show "keepsWf (case found of None \<Rightarrow> ok ()
      | Some podCfg \<Rightarrow> (let nsPath = networkNamespace pod in
            if nsPath = [] then fail (Errorf ''pod %s/%s has no network namespace'' [sb_Namespace pod, sb_Name pod])
            else
              seqE (onStore (SetNetNS (jStore J) (sb_Uid pod) nsPath))
                (andThen (mapErr (Wrapf ''get Pod for network status'' []) (onW (kGetPod N (sb_Namespace pod) (sb_Name pod)))) (\<lambda>kubePod.
                 if pod_UID kubePod \<noteq> sb_Uid pod then fail (Errorf ''Pod %s/%s UID changed'' [sb_Namespace pod, sb_Name pod])
                 else
                   seqE (forE (runDevice N J d pod kubePod nsPath) (pod_devices podCfg))
                     (if podUsesNetworkReadinessGate kubePod
                      then mapErr (Wrapf ''set Pod network readiness'' [])
                        (onW (setPodNetworkCondition N (pod_Namespace kubePod) (pod_Name kubePod) (pod_UID kubePod) ''True'' ''NetworkAttached''
                          ''All requested secondary networks are attached''))
                      else ok ())))))"
    unfolding Let_def
    by (intro invariant.keeps_option invariant.keeps_ok invariant.keeps_if invariant.keeps_fail invariant.keeps_andThen
        invariant.keeps_mapErr loop wf_calls)
qed (use wf_sys_pod in blast)

lemma wf_eachClaim: "(\<And>c. c \<in> set cs \<Longrightarrow> keepsWf (f c)) \<Longrightarrow> keepsWf (eachClaim uidOf f cs results)"
  by (induction cs arbitrary: results) (auto intro!: invariant.keeps_ok invariant.keeps_andThen invariant.keeps_attempt)

end
