(* ===== verification/Host_Device_Props.thy ===== *)
theory Host_Device_Props
  imports Link_API
begin

text \<open>
  Moving a host device into a pod and back: what a restored device looks like, and what a failed
  attachment leaves behind.
\<close>

section \<open>The recorded state of a device\<close>

text \<open>The hardware address is the recorded one: textually, or as the parsed address.\<close>

definition macRestored :: "HostDeviceState \<Rightarrow> u8 list \<Rightarrow> bool" where
  "macRestored hs hw \<longleftrightarrow> hd_OriginalMAC hs = [] \<or> EqualFold (HardwareAddr_String hw) (hd_OriginalMAC hs)
     \<or> ParseMAC (hd_OriginalMAC hs) = Some hw"

definition identRestored :: "HostDeviceState \<Rightarrow> kdev \<Rightarrow> bool" where
  "identRestored hs d \<longleftrightarrow> lk_Name (kd_link d) = hd_OriginalName hs \<and> macRestored hs (lk_HardwareAddr (kd_link d))
     \<and> (hd_OriginalMTU hs > 0 \<longrightarrow> lk_MTU (kd_link d) = hd_OriginalMTU hs)"

definition addrRestored :: "('w, 'z) host_scheme \<Rightarrow> HostAddressState list \<Rightarrow> kdev \<Rightarrow> bool" where
  "addrRestored N saved d \<longleftrightarrow> (\<forall>x\<in>set saved. \<exists>a. savedAddr N x = Inr a \<and> hasNet d a)"

text \<open>A device that is down keeps the addresses the kernel lets it keep; one that is up has all it had.\<close>

definition devRestored :: "('w, 'z) host_scheme \<Rightarrow> HostDeviceState \<Rightarrow> kdev \<Rightarrow> bool" where
  "devRestored N hs d \<longleftrightarrow> identRestored hs d \<and> lk_Up (kd_link d) = hd_OriginalAdminUp hs
     \<and> (hd_OriginalAdminUp hs \<longrightarrow> addrRestored N (addressesToRestore hs) d)"

lemma identRestored_ident: "ident d' = ident d \<Longrightarrow> identRestored hs d' = identRestored hs d"
  by (auto simp: identRestored_def ident_def)

lemma hasNet_more: "moreAddrs d d' \<Longrightarrow> hasNet d a \<Longrightarrow> hasNet d' a"
  by (auto simp: moreAddrs_def hasNet_def)

lemma addrRestored_more: "moreAddrs d d' \<Longrightarrow> addrRestored N xs d \<Longrightarrow> addrRestored N xs d'"
  unfolding addrRestored_def using hasNet_more by blast

context link_api
begin

text \<open>The thread is in namespace \<open>c\<close> and the device with index \<open>i\<close> there satisfies \<open>Q\<close>.\<close>

definition inside :: "nshandle \<Rightarrow> int \<Rightarrow> (kdev \<Rightarrow> bool) \<Rightarrow> 'w \<Rightarrow> bool" where
  "inside c i Q w \<longleftrightarrow> k_cur (view w) = c \<and> (\<exists>d. devAt (view w) i = Some d \<and> Q d)"

lemma inside_step:
  "inside c i Q w \<Longrightarrow> devStep i R (view w) (view w') \<Longrightarrow> (\<And>d d'. Q d \<Longrightarrow> R d d' \<Longrightarrow> Q' d') \<Longrightarrow> inside c i Q' w'"
  unfolding inside_def devStep_def by metis

lemma inside_view: "view w' = view w \<Longrightarrow> inside c i Q w' = inside c i Q w"
  by (simp add: inside_def)

lemma accurate_inside: "accurate (view w) l \<Longrightarrow> inside (k_cur (view w)) (lk_Index l) (\<lambda>d. kd_link d = l) w"
  by (auto simp: accurate_def inside_def)

lemma SetDown_triple:
  assumes "\<And>d d'. Q d \<Longrightarrow> ident d' = ident d \<Longrightarrow> \<not> lk_Up (kd_link d') \<Longrightarrow> Q' d'"
  shows "onSuccess (inside c (lk_Index l) Q) (nLinkSetDown N l) (\<lambda>_. inside c (lk_Index l) Q')"
  by (rule tripleI) (use inside_step SetDown_ok assms in blast)+

lemma SetUp_triple:
  assumes "\<And>d d'. Q d \<Longrightarrow> moreAddrs d d' \<Longrightarrow> lk_Up (kd_link d') \<Longrightarrow> Q' d'"
  shows "onSuccess (inside c (lk_Index l) Q) (nLinkSetUp N l) (\<lambda>_. inside c (lk_Index l) Q')"
  by (rule tripleI) (use inside_step SetUp_ok assms in blast)+

lemma restoreMAC_triple:
  "onSuccess (inside c (lk_Index link) (\<lambda>d. ident d = (n, lk_HardwareAddr link, m))) (restoreMAC N link hs)
    (\<lambda>_. inside c (lk_Index link) (\<lambda>d. \<exists>hw. ident d = (n, hw, m) \<and> macRestored hs hw))"
  unfolding restoreMAC_def
proof (intro triple_if)
  assume c: "hd_OriginalMAC hs \<noteq> [] \<and> \<not> EqualFold (HardwareAddr_String (lk_HardwareAddr link)) (hd_OriginalMAC hs)"
  show "onSuccess (inside c (lk_Index link) (\<lambda>d. ident d = (n, lk_HardwareAddr link, m)))
     (case ParseMAC (hd_OriginalMAC hs) of None \<Rightarrow> fail (Errorf ''address %s: invalid MAC address'' [hd_OriginalMAC hs])
      | Some mac \<Rightarrow> nLinkSetHardwareAddr N link mac)
     (\<lambda>_. inside c (lk_Index link) (\<lambda>d. \<exists>hw. ident d = (n, hw, m) \<and> macRestored hs hw))"
  proof (intro triple_option triple_fail)
    fix mac
    assume "ParseMAC (hd_OriginalMAC hs) = Some mac"
    then have "macRestored hs mac" by (simp add: macRestored_def)
    then show "onSuccess (inside c (lk_Index link) (\<lambda>d. ident d = (n, lk_HardwareAddr link, m))) (nLinkSetHardwareAddr N link mac)
       (\<lambda>_. inside c (lk_Index link) (\<lambda>d. \<exists>hw. ident d = (n, hw, m) \<and> macRestored hs hw))"
      by (intro tripleI) (auto elim: inside_step [OF _ SetHardwareAddr_ok])
  qed simp
next
  assume "\<not> (hd_OriginalMAC hs \<noteq> [] \<and> \<not> EqualFold (HardwareAddr_String (lk_HardwareAddr link)) (hd_OriginalMAC hs))"
  then have "macRestored hs (lk_HardwareAddr link)" by (auto simp: macRestored_def)
  then show "onSuccess (inside c (lk_Index link) (\<lambda>d. ident d = (n, lk_HardwareAddr link, m))) (ok ())
     (\<lambda>_. inside c (lk_Index link) (\<lambda>d. \<exists>hw. ident d = (n, hw, m) \<and> macRestored hs hw))"
    by (intro triple_ok) (auto simp: inside_def)
qed

lemma restoreMTU_triple:
  assumes "n = hd_OriginalName hs"
  shows "onSuccess (inside c (lk_Index link) (\<lambda>d. \<exists>hw. ident d = (n, hw, lk_MTU link) \<and> macRestored hs hw)) (restoreMTU N link hs)
    (\<lambda>_. inside c (lk_Index link) (identRestored hs))"
  unfolding restoreMTU_def
proof (intro triple_if)
  assume "hd_OriginalMTU hs > 0 \<and> lk_MTU link \<noteq> hd_OriginalMTU hs"
  show "onSuccess (inside c (lk_Index link) (\<lambda>d. \<exists>hw. ident d = (n, hw, lk_MTU link) \<and> macRestored hs hw))
     (nLinkSetMTU N link (hd_OriginalMTU hs)) (\<lambda>_. inside c (lk_Index link) (identRestored hs))"
    by (intro tripleI) (auto simp: identRestored_def ident_def assms elim!: inside_step [OF _ SetMTU_ok])
next
  assume "\<not> (hd_OriginalMTU hs > 0 \<and> lk_MTU link \<noteq> hd_OriginalMTU hs)"
  then show "onSuccess (inside c (lk_Index link) (\<lambda>d. \<exists>hw. ident d = (n, hw, lk_MTU link) \<and> macRestored hs hw))
     (ok ()) (\<lambda>_. inside c (lk_Index link) (identRestored hs))"
    by (intro triple_ok) (auto simp: inside_def identRestored_def ident_def assms)
qed

lemma clearAddresses_triple:
  "onSuccess (inside c (lk_Index link) (identRestored hs)) (forE (\<lambda>a. ignoreErr (nAddrDel N link a)) as)
     (\<lambda>_. inside c (lk_Index link) (identRestored hs))"
proof (intro triple_forE triple_ignoreErr tripleI)
  fix a s r s'
  assume "inside c (lk_Index link) (identRestored hs) s" and "nAddrDel N link a s = (Inr r, s')"
  then show "inside c (lk_Index link) (identRestored hs) s'"
    using inside_step [OF _ AddrDel_step] identRestored_ident by blast
next
  fix a s e s'
  assume "inside c (lk_Index link) (identRestored hs) s" and "nAddrDel N link a s = (Inl e, s')"
  then show "inside c (lk_Index link) (identRestored hs) s'"
    using inside_step [OF _ AddrDel_step] identRestored_ident by blast
qed

lemma addrEnsure_triple:
  assumes "\<And>d d'. Q d \<Longrightarrow> moreAddrs d d' \<Longrightarrow> hasNet d' a \<Longrightarrow> Q' d'"
  shows "onSuccess (inside c (lk_Index link) Q) (addrEnsure N link a) (\<lambda>_. inside c (lk_Index link) Q')"
proof (rule tripleI)
  fix s u s'
  assume i: "inside c (lk_Index link) Q s" and "addrEnsure N link a s = (Inr u, s')"
  moreover obtain r s1 where r: "nAddrAdd N link a s = (r, s1)" by fastforce
  ultimately have "s1 = s' \<and> (\<forall>e. r = Inl e \<longrightarrow> os_IsExist e)"
    by (auto simp: addrEnsure_def andThen_Inr ok_def fail_def split: sum.splits if_splits)
  with r have "devStep (lk_Index link) (\<lambda>d d'. moreAddrs d d' \<and> hasNet d' a) (view s) (view s')"
    by (cases r) (use AddrAdd_ok AddrAdd_exists in blast)+
  from inside_step [OF i this] assms show "inside c (lk_Index link) Q' s'" by blast
qed simp

lemma addSaved_triple:
  "onSuccess (inside c (lk_Index link) (identRestored hs))
     (forE (\<lambda>saved. andThen (liftE (savedAddr N saved)) (addrEnsure N link)) xs)
     (\<lambda>_. inside c (lk_Index link) (\<lambda>d. identRestored hs d \<and> addrRestored N xs d))"
proof -
  have "onSuccess (inside c (lk_Index link) (\<lambda>d. identRestored hs d \<and> addrRestored N [] d))
     (forE (\<lambda>saved. andThen (liftE (savedAddr N saved)) (addrEnsure N link)) xs)
     (\<lambda>_. inside c (lk_Index link) (\<lambda>d. identRestored hs d \<and> addrRestored N xs d))"
  proof (rule triple_forE_grow [where I = "\<lambda>ys. inside c (lk_Index link) (\<lambda>d. identRestored hs d \<and> addrRestored N ys d)"])
    fix ys z zs
    show "onSuccess (inside c (lk_Index link) (\<lambda>d. identRestored hs d \<and> addrRestored N ys d))
       (andThen (liftE (savedAddr N z)) (addrEnsure N link))
       (\<lambda>_. inside c (lk_Index link) (\<lambda>d. identRestored hs d \<and> addrRestored N (ys @ [z]) d))"
    proof (rule triple_andThen)
      show "onSuccess (inside c (lk_Index link) (\<lambda>d. identRestored hs d \<and> addrRestored N ys d)) (liftE (savedAddr N z))
         (\<lambda>a s. savedAddr N z = Inr a \<and> inside c (lk_Index link) (\<lambda>d. identRestored hs d \<and> addrRestored N ys d) s)"
        by (rule triple_liftE) simp_all
    next
      fix a
      show "onSuccess (\<lambda>s. savedAddr N z = Inr a \<and> inside c (lk_Index link) (\<lambda>d. identRestored hs d \<and> addrRestored N ys d) s)
         (addrEnsure N link a) (\<lambda>_. inside c (lk_Index link) (\<lambda>d. identRestored hs d \<and> addrRestored N (ys @ [z]) d))"
      proof (intro triple_fact addrEnsure_triple)
        fix d d'
        assume "savedAddr N z = Inr a" "identRestored hs d \<and> addrRestored N ys d" "moreAddrs d d'" "hasNet d' a"
        moreover from this have "identRestored hs d'" using identRestored_ident moreAddrs_def by blast
        ultimately show "identRestored hs d' \<and> addrRestored N (ys @ [z]) d'"
          using addrRestored_more [of d d' N ys] by (auto simp: addrRestored_def)
      qed
    qed
  qed
  then show ?thesis by (simp add: addrRestored_def)
qed

lemma LinkByName_triple:
  "triple (\<lambda>w. k_cur (view w) = c) (nLinkByName N n) (\<lambda>l w. lk_Name l = n \<and> k_cur (view w) = c \<and> accurate (view w) l)
     (\<lambda>_ w. k_cur (view w) = c)"
  by (rule tripleI) (metis LinkByName_view LinkByName_ok)+

lemma ensureName_triple:
  "onSuccess (\<lambda>w. k_cur (view w) = c \<and> accurate (view w) l0) (ensureName N wrap l0 n)
     (\<lambda>l w. lk_Name l = n \<and> inside c (lk_Index l) (\<lambda>d. kd_link d = l) w)"
  unfolding ensureName_def
proof (intro triple_if triple_ok)
  show "onSuccess (\<lambda>w. k_cur (view w) = c \<and> accurate (view w) l0)
      (seqE (mapErr wrap (nLinkSetName N l0 n)) (nLinkByName N n))
      (\<lambda>l w. lk_Name l = n \<and> inside c (lk_Index l) (\<lambda>d. kd_link d = l) w)"
  proof (rule triple_andThen)
    show "onSuccess (\<lambda>w. k_cur (view w) = c \<and> accurate (view w) l0) (mapErr wrap (nLinkSetName N l0 n)) (\<lambda>_ w. k_cur (view w) = c)"
      by (intro triple_mapErr tripleI) (metis SetName_ok, simp)
    show "onSuccess (\<lambda>w. k_cur (view w) = c) (nLinkByName N n) (\<lambda>l w. lk_Name l = n \<and> inside c (lk_Index l) (\<lambda>d. kd_link d = l) w)"
      by (rule triple_post [OF LinkByName_triple]) (use accurate_inside in auto)
  qed
qed (use accurate_inside in auto)

lemma restoreLinkState_triple:
  "onSuccess (\<lambda>w. k_cur (view w) = c \<and> accurate (view w) l0) (restoreLinkState N l0 hs)
     (\<lambda>_ w. \<exists>i. inside c i (devRestored N hs) w)"
  unfolding restoreLinkState_def
proof (rule triple_andThen [OF ensureName_triple], rule triple_fact)
  fix l :: Link
  assume n: "lk_Name l = hd_OriginalName hs"
  let ?in = "inside c (lk_Index l)"
  have down: "onSuccess (?in (\<lambda>d. kd_link d = l)) (nLinkSetDown N l)
      (\<lambda>_. ?in (\<lambda>d. ident d = (hd_OriginalName hs, lk_HardwareAddr l, lk_MTU l)))"
    by (rule SetDown_triple) (simp add: ident_def n)
  have list: "onSuccess (?in (identRestored hs)) (nAddrList N l) (\<lambda>_. ?in (identRestored hs))"
    by (rule tripleI) (metis AddrList_view inside_view, simp)
  have finish: "onSuccess (?in (\<lambda>d. identRestored hs d \<and> addrRestored N (addressesToRestore hs) d))
      (if hd_OriginalAdminUp hs then nLinkSetUp N l else nLinkSetDown N l) (\<lambda>_. ?in (devRestored N hs))"
  proof (intro triple_if SetUp_triple SetDown_triple)
    fix d d'
    assume "hd_OriginalAdminUp hs" "identRestored hs d \<and> addrRestored N (addressesToRestore hs) d" "moreAddrs d d'" "lk_Up (kd_link d')"
    then show "devRestored N hs d'"
      using identRestored_ident [of d' d] addrRestored_more [of d d' N "addressesToRestore hs"] by (simp add: devRestored_def moreAddrs_def)
  next
    fix d d'
    assume "\<not> hd_OriginalAdminUp hs" "identRestored hs d \<and> addrRestored N (addressesToRestore hs) d" "ident d' = ident d" "\<not> lk_Up (kd_link d')"
    then show "devRestored N hs d'" using identRestored_ident [of d' d] by (simp add: devRestored_def)
  qed
  have "onSuccess (?in (\<lambda>d. kd_link d = l))
     (seqE (nLinkSetDown N l) (seqE (restoreMAC N l hs) (seqE (restoreMTU N l hs)
       (andThen (nAddrList N l) (\<lambda>current. seqE (forE (\<lambda>a. ignoreErr (nAddrDel N l a)) current)
         (seqE (forE (\<lambda>saved. andThen (liftE (savedAddr N saved)) (addrEnsure N l)) (addressesToRestore hs))
           (if hd_OriginalAdminUp hs then nLinkSetUp N l else nLinkSetDown N l)))))))
     (\<lambda>_. ?in (devRestored N hs))"
    by (intro triple_andThen [OF down] triple_andThen [OF restoreMAC_triple] triple_andThen [OF restoreMTU_triple]
        triple_andThen [OF list] triple_andThen [OF clearAddresses_triple] triple_andThen [OF addSaved_triple] finish refl)
  then show "onSuccess (?in (\<lambda>d. kd_link d = l))
     (seqE (nLinkSetDown N l) (seqE (restoreMAC N l hs) (seqE (restoreMTU N l hs)
       (andThen (nAddrList N l) (\<lambda>current. seqE (forE (\<lambda>a. ignoreErr (nAddrDel N l a)) current)
         (seqE (forE (\<lambda>saved. andThen (liftE (savedAddr N saved)) (addrEnsure N l)) (addressesToRestore hs))
           (if hd_OriginalAdminUp hs then nLinkSetUp N l else nLinkSetDown N l)))))))
     (\<lambda>_ w. \<exists>i. inside c i (devRestored N hs) w)"
    by (rule triple_post) auto
qed

lemma findLink_triple:
  "triple (\<lambda>w. k_cur (view w) = c) (findLink N name mac) (\<lambda>l w. k_cur (view w) = c \<and> accurate (view w) l) (\<lambda>_ w. k_cur (view w) = c)"
proof -
  have list: "triple (\<lambda>w. k_cur (view w) = c) (nLinkList N)
      (\<lambda>ls w. k_cur (view w) = c \<and> (\<forall>l\<in>set ls. accurate (view w) l)) (\<lambda>_ w. k_cur (view w) = c)"
    by (rule tripleI) (metis LinkList_view LinkList_ok)+
  have byMAC: "triple (\<lambda>w. k_cur (view w) = c)
      (andThen (nLinkList N) (\<lambda>ls. case find P ls of Some l \<Rightarrow> ok l | None \<Rightarrow> fail e))
      (\<lambda>l w. k_cur (view w) = c \<and> accurate (view w) l) (\<lambda>_ w. k_cur (view w) = c)" for P e
    by (intro triple_andThen [OF list] triple_option triple_ok triple_fail) (auto simp: find_Some_iff)
  have name: "triple (\<lambda>w. k_cur (view w) = c) (attempt (nLinkByName N name))
      (\<lambda>r w. k_cur (view w) = c \<and> (\<forall>l. r = Inr l \<longrightarrow> accurate (view w) l)) (\<lambda>_ w. k_cur (view w) = c)"
    by (rule triple_attempt, rule triple_post [OF LinkByName_triple]) auto
  have named: "triple (\<lambda>w. k_cur (view w) = c)
      (andThen (attempt (nLinkByName N name)) (\<lambda>r. case r of Inr l \<Rightarrow> ok l
        | Inl _ \<Rightarrow> andThen (nLinkList N) (\<lambda>ls. case find P ls of Some l \<Rightarrow> ok l | None \<Rightarrow> fail e)))
      (\<lambda>l w. k_cur (view w) = c \<and> accurate (view w) l) (\<lambda>_ w. k_cur (view w) = c)" for P e
    by (intro triple_andThen [OF name] triple_sum triple_ok triple_pre [OF byMAC]) auto
  show ?thesis unfolding findLink_def Let_def by (intro triple_if named byMAC)
qed

lemma NsGet_triple:
  "triple (\<lambda>w. k_cur (view w) = c) (nNsGet N) (\<lambda>h w. (h = c \<and> (\<exists>w1 w2. nNsGet N w1 = (Inr c, w2))) \<and> k_cur (view w) = c) (\<lambda>_ w. k_cur (view w) = c)"
  by (rule tripleI) (metis NsGet_view NsGet_ok)+

lemma NsSet_back_triple: "nNsGet N w1 = (Inr c, w2) \<Longrightarrow> always (\<lambda>_. True) (nNsSet N c) (\<lambda>w. k_cur (view w) = c)"
  by (rule tripleI) (use NsSet_back [of w1 c w2] in \<open>metis Inl_Inr_False Pair_inject\<close>)+

lemma inNetNS_triple:
  "always (\<lambda>w. k_cur (view w) = c) (inNetNS N target fn) (\<lambda>w. k_cur (view w) = c)"
  unfolding inNetNS_def
proof (rule triple_andThen [OF NsGet_triple], rule triple_fact, elim conjE exE)
  fix h w1 w2
  assume h: "h = c" and g: "nNsGet N w1 = (Inr c, w2)"
  have set: "triple (\<lambda>w. k_cur (view w) = c) (nNsSet N target) (\<lambda>_ _. True) (\<lambda>_ w. k_cur (view w) = c)"
    by (rule tripleI) (simp, metis NsSet_err)
  have "triple (\<lambda>_. True) fn (\<lambda>_ _. True) (\<lambda>_ _. True)" by (rule tripleI) simp_all
  then have "always (\<lambda>_. True) (deferE (nNsSet N h) fn) (\<lambda>w. k_cur (view w) = c)"
    unfolding h by (rule triple_deferE) (rule NsSet_back_triple [OF g])+
  with set show "always (\<lambda>w. k_cur (view w) = c) (seqE (nNsSet N target) (deferE (nNsSet N h) fn)) (\<lambda>w. k_cur (view w) = c)"
    by (rule triple_andThen)
qed

lemma restoreFromPod_triple:
  "onSuccess (\<lambda>w. k_cur (view w) = c) (restoreFromPod N nsPath attached hs) (\<lambda>_ w. \<exists>i. inside c i (devRestored N hs) w)"
proof -
  have path: "onSuccess (\<lambda>w. k_cur (view w) = c) (mapErr h (nNsGetFromPath N nsPath)) (\<lambda>_ w. k_cur (view w) = c)" for h
    by (intro triple_mapErr tripleI) (metis NsGetFromPath_view, simp)
  have root: "onSuccess (\<lambda>w. k_cur (view w) = c) (nNsGet N) (\<lambda>_ w. k_cur (view w) = c)"
    by (rule triple_post [OF NsGet_triple]) auto
  have move: "onSuccess (\<lambda>w. k_cur (view w) = c) (mapErr h (inNetNS N target fn)) (\<lambda>_ w. k_cur (view w) = c)"
    for h target and fn :: "('w, unit) eff"
    by (rule triple_mapErr, rule triple_post [OF inNetNS_triple]) auto
  have name: "onSuccess (\<lambda>w. k_cur (view w) = c) (mapErr h (nLinkByName N n)) (\<lambda>l w. k_cur (view w) = c \<and> accurate (view w) l)" for h n
    by (rule triple_mapErr, rule triple_post [OF LinkByName_triple]) auto
  show ?thesis unfolding restoreFromPod_def
    by (intro triple_if triple_fail TrueI triple_andThen [OF root] triple_andThen [OF path]
        triple_andThen [OF move] triple_andThen [OF name] restoreLinkState_triple)
qed

lemma restoreHostDevice_triple:
  assumes "dev_HostDevice cfg = Some hs" and "\<not> hd_Restored hs"
  shows "onSuccess (\<lambda>w. k_cur (view w) = c) (restoreHostDevice N nsPath cfg)
    (\<lambda>cfg' w. cfg' = markRestored cfg \<and> (\<exists>i. inside c i (devRestored N hs) w))"
proof -
  have found: "onSuccess (\<lambda>w. k_cur (view w) = c) (attempt (findLink N (hd_OriginalName hs) (hd_OriginalMAC hs)))
      (\<lambda>r w. k_cur (view w) = c \<and> (\<forall>l. r = Inr l \<longrightarrow> accurate (view w) l))"
    by (rule triple_attempt, rule triple_post [OF findLink_triple]) auto
  have mark: "onSuccess (\<lambda>w. \<exists>i. inside c i (devRestored N hs) w) (ok (markRestored cfg))
      (\<lambda>cfg' w. cfg' = markRestored cfg \<and> (\<exists>i. inside c i (devRestored N hs) w))"
    by (rule triple_ok) simp
  have "onSuccess (\<lambda>w. k_cur (view w) = c \<and> (\<forall>l. r = Inr l \<longrightarrow> accurate (view w) l))
      (case r of Inr link \<Rightarrow> seqE (restoreLinkState N link hs) (ok (markRestored cfg))
       | Inl _ \<Rightarrow> seqE (restoreFromPod N nsPath (dev_AttachedIf cfg) hs) (ok (markRestored cfg)))
      (\<lambda>cfg' w. cfg' = markRestored cfg \<and> (\<exists>i. inside c i (devRestored N hs) w))" for r :: "goerr + Link"
    by (intro triple_sum triple_andThen [OF triple_pre [OF restoreLinkState_triple] mark]
        triple_andThen [OF triple_pre [OF restoreFromPod_triple] mark]) auto
  then show ?thesis unfolding restoreHostDevice_def using assms by (simp add: triple_andThen [OF found])
qed

lemma restoreHostDevice_result:
  assumes "dev_HostDevice cfg = Some hs" and "\<not> hd_Restored hs" and "restoreHostDevice N nsPath cfg w = (Inr cfg', w')"
  shows "cfg' = markRestored cfg \<and> k_cur (view w') = k_cur (view w) \<and> (\<exists>i d. devAt (view w') i = Some d \<and> devRestored N hs d)"
  using triple_Inr [OF restoreHostDevice_triple [OF assms(1,2)] refl assms(3)] by (auto simp: inside_def)

lemma SetDown_cur: "nLinkSetDown N l w = (Inr u, w') \<Longrightarrow> k_cur (view w') = k_cur (view w)"
  by (drule SetDown_ok) (simp add: devStep_def)

lemma enterNamespace_triple:
  "onSuccess (\<lambda>w. k_cur (view w) = c) (enterNamespace N fs nsPath cfg hs) (\<lambda>_ w. k_cur (view w) = c)"
proof -
  have name: "onSuccess (\<lambda>w. k_cur (view w) = c) (mapErr h (nLinkByName N n)) (\<lambda>_ w. k_cur (view w) = c)" for h n
    by (rule triple_mapErr, rule triple_post [OF LinkByName_triple]) auto
  have path: "onSuccess (\<lambda>w. k_cur (view w) = c) (mapErr h (nNsGetFromPath N nsPath)) (\<lambda>_ w. k_cur (view w) = c)" for h
    by (intro triple_mapErr tripleI) (metis NsGetFromPath_view, simp)
  have down: "onSuccess (\<lambda>w. k_cur (view w) = c) (mapErr h (nLinkSetDown N l)) (\<lambda>_ w. k_cur (view w) = c)" for h l
    by (intro triple_mapErr tripleI) (metis SetDown_cur, simp)
  have move: "onSuccess (\<lambda>w. k_cur (view w) = c) (mapErr h (onError m (nLinkSetNsFd N l target))) (\<lambda>_ w. k_cur (view w) = c)"
    for h l target and m :: "('w, unit) eff"
  proof (rule triple_mapErr, rule triple_onError)
    show "onSuccess (\<lambda>w. k_cur (view w) = c) (nLinkSetNsFd N l target) (\<lambda>_ w. k_cur (view w) = c)"
      by (rule tripleI) (metis SetNsFd_ok, simp)
  qed (rule tripleI, simp_all)
  have last: "onSuccess (\<lambda>w. k_cur (view w) = c) (ok target) (\<lambda>_ w. k_cur (view w) = c)" for target :: nshandle
    by (rule triple_ok) simp
  show ?thesis unfolding enterNamespace_def
    by (intro triple_andThen [OF name] triple_if triple_fail TrueI triple_andThen [OF path] triple_andThen [OF down] triple_andThen [OF move] last)
qed

lemma attachHostDevice_failed:
  assumes hs: "dev_HostDevice cfg = Some hs" and nr: "\<not> hd_Restored hs"
    and a: "attachHostDevice N fs nsPath cfg w = (Inr (Some err, cfg'), w')"
  shows "cfg' = cfg \<or> cfg' = markRestored cfg \<and> k_cur (view w') = k_cur (view w)
    \<and> (\<exists>i d. devAt (view w') i = Some d \<and> devRestored N hs d)"
proof -
  obtain en w1 where en: "enterNamespace N fs nsPath cfg hs w = (en, w1)" by fastforce
  show ?thesis
  proof (cases en)
    case (Inl e)
    with a hs en show ?thesis by (auto simp: attachHostDevice_def andThen_Inr ok_def)
  next
    case (Inr target)
    with en have c1: "k_cur (view w1) = k_cur (view w)"
      using triple_Inr [OF enterNamespace_triple refl] by blast
    obtain co w2 where co: "inNetNS N target (configureHostDevice N (dev_Network cfg) hs) w1 = (co, w2)" by fastforce
    have c2: "k_cur (view w2) = k_cur (view w)"
      using triple_always [OF inNetNS_triple [of "k_cur (view w)" target "configureHostDevice N (dev_Network cfg) hs"] c1] co by simp
    from a hs en Inr co obtain e where co': "co = Inl e"
      by (cases co) (auto simp: attachHostDevice_def andThen_Inr ok_def)
    obtain re w3 where re: "restoreHostDevice N nsPath cfg w2 = (re, w3)" by fastforce
    from a hs en Inr co co' re have "cfg' = cfg \<or> (re = Inr cfg' \<and> w' = w3)"
      by (cases re) (auto simp: attachHostDevice_def andThen_Inr ok_def)
    with restoreHostDevice_result [OF hs nr, of nsPath w2 cfg' w'] re c2 show ?thesis by auto
  qed
qed

end

section \<open>Hardware addresses\<close>

lemma ToLower_hex: "ToLower (hex_byte b) = hex_byte b"
proof -
  have all: "list_all (\<lambda>d. lower_char (if d < 10 then char_of (48 + d) else char_of (87 + d))
      = (if d < 10 then char_of (48 + d) else char_of (87 + d))) [0..<16::nat]"
    by (simp add: upt_rec lower_char_def)
  have "unat b < 256" using unat_u8_le [of b] by linarith
  then have "unat b div 16 \<in> set [0..<16]" "unat b mod 16 \<in> set [0..<16]" by auto
  with all show ?thesis unfolding list_all_iff by (simp add: hex_byte_def ToLower_def)
qed

lemma ToLower_append: "ToLower (a @ b) = ToLower a @ ToLower b"
  by (simp add: ToLower_def)

lemma ToLower_String: "ToLower (HardwareAddr_String hw) = HardwareAddr_String hw"
proof -
  have "ToLower (Join (map hex_byte hw) '':'') = Join (map hex_byte hw) '':''"
  proof (induction "map hex_byte hw" "'':''" arbitrary: hw rule: Join.induct)
    case (3 x y xs)
    then obtain b c bs where hw: "hw = b # c # bs" "x = hex_byte b" "y = hex_byte c" "xs = map hex_byte bs" by auto
    have "lower_char CHR '':'' = CHR '':''" by (simp add: lower_char_def)
    with 3(1) [of "c # bs"] hw show ?case by (simp add: ToLower_append ToLower_hex) (simp add: ToLower_def)
  qed (use ToLower_hex in \<open>auto simp: ToLower_def\<close>)
  then show ?thesis by (simp add: HardwareAddr_String_def)
qed

lemma HardwareAddr_String_inj:
  "hw \<noteq> [] \<Longrightarrow> hw' \<noteq> [] \<Longrightarrow> HardwareAddr_String hw = HardwareAddr_String hw' \<Longrightarrow> hw = hw'"
  using macPairs_String by (metis option.inject)

lemma HardwareAddr_String_Nil: "HardwareAddr_String hw = [] \<longleftrightarrow> hw = []"
  using macPairs_String [of hw] by (cases "hw = []") (auto simp: HardwareAddr_String_def)

lemma length_Join: "length (Join xs sep) = sum_list (map length xs) + (length xs - 1) * length sep"
  by (induction xs sep rule: Join.induct) simp_all

lemma ParseMAC_String:
  assumes "length hw = 6"
  shows "ParseMAC (HardwareAddr_String hw) = Some hw"
proof -
  from assms obtain b c bs where hw: "hw = b # c # bs" by (cases hw; cases "tl hw") auto
  obtain x y where x: "hex_byte b = [x, y]" by (simp add: hex_byte_def)
  have "HardwareAddr_String hw ! 2 = CHR '':''" by (simp add: HardwareAddr_String_def hw x)
  moreover have "length (HardwareAddr_String hw) = 17"
  proof -
    have "map length (map hex_byte hw) = replicate 6 2" using assms by (simp add: hex_byte_def map_replicate_const comp_def)
    with assms show ?thesis by (simp add: HardwareAddr_String_def length_Join sum_list_replicate)
  qed
  moreover have "macPairs CHR '':'' (HardwareAddr_String hw) = Some hw" using macPairs_String [of hw] hw by simp
  ultimately show ?thesis using assms by (simp add: ParseMAC_def Let_def)
qed

text \<open>A recorded six-byte address is restored exactly.\<close>

lemma macRestored_exact:
  assumes "hd_OriginalMAC hs = HardwareAddr_String hw0" and "length hw0 = 6" and "macRestored hs hw"
  shows "hw = hw0"
proof -
  from assms(2) have ne: "hw0 \<noteq> []" by auto
  from assms(3) consider "EqualFold (HardwareAddr_String hw) (HardwareAddr_String hw0)" | "ParseMAC (HardwareAddr_String hw0) = Some hw"
    using ne by (auto simp: macRestored_def assms(1) HardwareAddr_String_Nil)
  then show ?thesis
  proof cases
    case 1
    then have eq: "HardwareAddr_String hw = HardwareAddr_String hw0" by (simp add: EqualFold_def ToLower_String)
    with ne have "hw \<noteq> []" by (metis HardwareAddr_String_Nil)
    with ne eq show ?thesis by (rule HardwareAddr_String_inj [rotated])
  next
    case 2
    with ParseMAC_String [OF assms(2)] show ?thesis by simp
  qed
qed

end
