(* ===== verification/Host_Device_Claims.thy ===== *)
theory Host_Device_Claims
  imports Host_Device_Props Node_Host
begin

text \<open>
  The promises of \<^verbatim>\<open>hostdevice.go\<close>, with the laws of the kernel's links (\<open>link_api\<close>) as a
  hypothesis; the witnesses run on the node of \<^verbatim>\<open>Node_Host\<close>.
\<close>

section \<open>Sample node\<close>

text \<open>A network card, the record of what it was before it went into a pod, and a node that has it in one of its namespaces.\<close>

definition nic :: Link where
  "nic = \<lparr>lk_Index = 3, lk_Name = ''eth1'', lk_HardwareAddr = [0x52, 0x54, 0, 0x12, 0x34, 0x56], lk_MTU = 1500, lk_Up = True,
     lk_OperState = ''up'', lk_MasterIndex = 0\<rparr>"

definition nic_state :: "bool \<Rightarrow> HostDeviceState" where
  "nic_state restored = \<lparr>hd_OriginalName = ''eth1'', hd_PodInterfaceName = ''net1'', hd_OriginalAdminUp = True,
     hd_OriginalOperState = ''up'', hd_OriginalMTU = 1500, hd_OriginalMAC = HardwareAddr_String [0x52, 0x54, 0, 0x12, 0x34, 0x56],
     hd_OriginalAddresses = [''10.0.0.5/24''], hd_AddressState = [cidrState ''10.0.0.5/24''], hd_Restored = restored\<rparr>"

definition nic_device :: "bool \<Rightarrow> string \<Rightarrow> DeviceConfig" where
  "nic_device restored attached = sample_device\<lparr>dev_ParentName := ''eth1'', dev_HostDevice := Some (nic_state restored),
     dev_AttachedIf := attached, dev_Network := no_network\<lparr>nc_Type := ''host-device'', nc_InterfaceName := ''net1''\<rparr>\<rparr>"

definition nic_node :: "nshandle \<Rightarrow> Link \<Rightarrow> Addr list \<Rightarrow> string option list \<Rightarrow> node" where
  "nic_node ns l as faults = \<lparr>kn_server = empty_server, kn_ns = 0, kn_devs = [((ns, 3), \<lparr>kd_link = l, kd_addrs = as\<rparr>)],
     kn_paths = [(''/ns/pod'', 1)], kn_routes = [], kn_faults = faults, kn_published = [], kn_registered = False\<rparr>"

definition nic_addr :: Addr where
  "nic_addr = \<lparr>ad_IPNet = Some \<lparr>net_IP = v4InV6Prefix @ [10, 0, 0, 5], net_Mask = CIDRMask 24 32\<rparr>, ad_Label = [], ad_Flags = 0,
     ad_Scope = 0, ad_Peer = None, ad_Broadcast = [], ad_PreferedLft = 0, ad_ValidLft = 0\<rparr>"

lemma nic_cidr: "ParseCIDR ''10.0.0.5/24'' = Some (v4InV6Prefix @ [10, 0, 0, 5],
    \<lparr>net_IP = IP_Mask (v4InV6Prefix @ [10, 0, 0, 5]) (CIDRMask 24 32), net_Mask = CIDRMask 24 32\<rparr>)"
proof -
  have t: "''10.0.0.5/24'' = dotted [10, 0, 0, 5] @ ''/'' @ utoa 24" by code_simp
  show ?thesis unfolding t by (rule ParseCIDR_dotted) simp_all
qed

lemma nic_saved [simp]: "savedAddr (node_host env) (cidrState ''10.0.0.5/24'') = Inr nic_addr"
  by (simp add: savedAddr_def cidrState_def k_ParseAddr_def nic_cidr nic_addr_def)

lemma nic_mac [simp]: "EqualFold s s" "HardwareAddr_String [b, c, d, e, f, g] \<noteq> []"
  by (simp_all add: EqualFold_def HardwareAddr_String_Nil)

lemma nic_sel [simp]: "dev_HostDevice (nic_device r a) = Some (nic_state r)" "hd_Restored (nic_state r) = r"
  "dev_AttachedIf (nic_device r a) = a" "nc_InterfaceName (dev_Network (nic_device r a)) = ''net1''"
  "nc_MTU (dev_Network (nic_device r a)) = 0" "nc_Addresses (dev_Network (nic_device r a)) = []"
  "ii_PCIAddress (dev_Identity (nic_device r a)) = []"
  by (simp_all add: nic_device_def nic_state_def no_network_def sample_device_def no_identity_def)

lemma nic_state_sel [simp]: "hd_OriginalName (nic_state r) = ''eth1''" "hd_OriginalAdminUp (nic_state r) = True"
  "hd_OriginalMTU (nic_state r) = 1500" "hd_OriginalMAC (nic_state r) = HardwareAddr_String [0x52, 0x54, 0, 0x12, 0x34, 0x56]"
  "addressesToRestore (nic_state r) = [cidrState ''10.0.0.5/24'']"
  by (simp_all add: nic_state_def addressesToRestore_def)

text \<open>What evaluates the calls on the node.\<close>

lemmas node_eval = andThen_def attempt_def ok_def fail_def mapErr_def liftE_def ignoreErr_def deferE_def onError_def Let_def
  kcall_def k_LinkByName_def k_LinkList_def changeDev_def setLink_def k_LinkSetNsFd_def k_NsGetFromPath_def k_AddrList_def addAddr_def
  inNetNS_def findLink_def ensureName_def addrEnsure_def noDevice_def

lemmas restore_eval = restoreHostDevice_def restoreFromPod_def leaveNamespace_def restoreLinkState_def restoreMAC_def restoreMTU_def

text \<open>Restoring the card, which the pod has renamed and given another MTU.\<close>

lemma nic_restored:
  "restoreHostDevice (node_host id) ''/ns/pod'' (nic_device False ''net1'') (nic_node 1 (nic\<lparr>lk_Name := ''net1'', lk_MTU := 9000\<rparr>) [] []) =
     (Inr (markRestored (nic_device False ''net1'')), nic_node 0 nic [nic_addr] [])"
  by (simp add: restore_eval node_eval nic_node_def) (simp add: nic_def node_eval)

section \<open>Restoring\<close>




lemma nic_snapshot:
  "snapshotHostDevice (node_host id) nic ''net1'' (nic_node 0 nic [] []) =
     (Inr ((nic_state False)\<lparr>hd_OriginalAddresses := [], hd_AddressState := []\<rparr>), nic_node 0 nic [] [])"
proof -
  have "ToLower ''up'' = ''up''" by code_simp
  then show ?thesis by (simp add: snapshotHostDevice_def savedStates_def nic_state_def node_eval nic_node_def nic_def)
qed

lemma nic_restored_plain:
  "restoreHostDevice (node_host id) ''/ns/pod''
      ((nic_device False ''net1'')\<lparr>dev_HostDevice := Some ((nic_state False)\<lparr>hd_OriginalAddresses := [], hd_AddressState := []\<rparr>)\<rparr>)
      (nic_node 1 (nic\<lparr>lk_Name := ''net1'', lk_MTU := 9000, lk_HardwareAddr := [2, 0, 0, 0, 0, 7]\<rparr>) [] []) =
     (Inr (markRestored ((nic_device False ''net1'')\<lparr>dev_HostDevice := Some ((nic_state False)\<lparr>hd_OriginalAddresses := [], hd_AddressState := []\<rparr>)\<rparr>)),
      nic_node 0 nic [] [])"
proof -
  have "\<not> EqualFold (HardwareAddr_String [2, 0, 0, 0, 0, 7]) (HardwareAddr_String [0x52, 0x54, 0, 0x12, 0x34, 0x56])"
    using HardwareAddr_String_inj [of "[2, 0, 0, 0, 0, 7]" "[0x52, 0x54, 0, 0x12, 0x34, 0x56]"] by (auto simp: EqualFold_def ToLower_String)
  moreover have "ParseMAC (HardwareAddr_String [0x52, 0x54, 0, 0x12, 0x34, 0x56]) = Some [0x52, 0x54, 0, 0x12, 0x34, 0x56]"
    by (rule ParseMAC_String) simp
  ultimately show ?thesis
    by (simp add: restore_eval node_eval nic_node_def addressesToRestore_def) (simp add: nic_def node_eval)
qed


section \<open>Attaching\<close>


text \<open>The seventh kernel call, the renaming inside the pod, fails.\<close>

abbreviation rename_fails :: "string option list" where
  "rename_fails \<equiv> [None, None, None, None, None, None, Some ''device busy'']"

lemma nic_rolled_back:
  "attachHostDevice (node_host id) fs ''/ns/pod'' (nic_device False []) (nic_node 0 nic [nic_addr] rename_fails) =
     (Inr (Some (Wrapf ''rename host device in Pod'' [] (Errorf ''device busy'' [])), markRestored (nic_device False [])),
      nic_node 0 nic [nic_addr] [])"
  by (simp add: attachHostDevice_def enterNamespace_def configureHostDevice_def restore_eval node_eval nic_node_def)
    (simp add: nic_def node_eval)



lemma nic_entered:
  "enterNamespace (node_host id) fs ''/ns/pod'' (nic_device True []) (nic_state True) (nic_node 0 nic [nic_addr] rename_fails) =
     (Inr 1, nic_node 1 (nic\<lparr>lk_Up := False\<rparr>) [] [None, None, Some ''device busy''])"
  by (simp add: enterNamespace_def node_eval nic_node_def) (simp add: nic_def node_eval)

lemma nic_unconfigured:
  "inNetNS (node_host id) 1 (configureHostDevice (node_host id) (dev_Network (nic_device True [])) (nic_state True))
      (nic_node 1 (nic\<lparr>lk_Up := False\<rparr>) [] [None, None, Some ''device busy'']) =
     (Inl (Wrapf ''rename host device in Pod'' [] (Errorf ''device busy'' [])), nic_node 1 (nic\<lparr>lk_Up := False\<rparr>) [] [])"
  by (simp add: configureHostDevice_def node_eval nic_node_def) (simp add: nic_def node_eval)


end
