(* ===== verification/Driver_Run.thy ===== *)
theory Driver_Run
  imports Driver_Store Node_Driver Host_Device_Claims
begin

text \<open>
  The life of a driver process.  The kubelet and the container runtime call its handlers in any order,
  the publication ticker fires, the rest of the cluster acts in between, and the process is stopped and
  started again.  A handler is one step here, with the actions of the others inside its API calls; the
  calls of one kind are serialised by the driver's mutex and by the callers.
\<close>

section \<open>Events\<close>

text \<open>The loop of \<^verbatim>\<open>publishLoop\<close> up to its \<open>n\<close>-th tick; an error is only logged.\<close>

primrec publishLoop :: "('w, 'z) host_scheme \<Rightarrow> drv \<Rightarrow> nat \<Rightarrow> ('w sys, unit) eff" where
  "publishLoop N d 0 = ok ()"
| "publishLoop N d (Suc n) = seqE (ignoreErr (publish N d)) (publishLoop N d n)"

datatype driver_event =
    Prepare "ResourceClaim list"
  | Unprepare "NamespacedObject list"
  | Sync "PodSandbox list"
  | RunPod PodSandbox
  | StopPod PodSandbox
  | RemovePod PodSandbox
  | Ticks nat

definition handle :: "('w, 'z) host_scheme \<Rightarrow> codecs \<Rightarrow> drv \<Rightarrow> driver_event \<Rightarrow> 'w sys \<Rightarrow> 'w sys" where
  "handle N J d ev s =
     (case ev of
        Prepare claims \<Rightarrow> snd (PrepareResourceClaims N J d claims s)
      | Unprepare claims \<Rightarrow> snd (UnprepareResourceClaims N J d claims s)
      | Sync sandboxes \<Rightarrow> snd (Synchronize N J d sandboxes s)
      | RunPod pod \<Rightarrow> snd (RunPodSandbox N J d pod s)
      | StopPod pod \<Rightarrow> snd (StopPodSandbox N J d pod s)
      | RemovePod pod \<Rightarrow> snd (RemovePodSandbox N J d pod s)
      | Ticks n \<Rightarrow> snd (publishLoop N d n s))"

section \<open>Processes\<close>

text \<open>A process is down, with the file system and the world it left behind, or up.\<close>

datatype 'w process = Down fsys 'w | Up drv "'w sys"

fun process_world :: "'w process \<Rightarrow> 'w" where
  "process_world (Down fs w) = w"
| "process_world (Up d s) = sys_w s"

inductive driver_step :: "('w, 'z) host_scheme \<Rightarrow> codecs \<Rightarrow> ('w \<Rightarrow> 'w \<Rightarrow> bool) \<Rightarrow> 'w process \<Rightarrow> 'w process \<Rightarrow> bool"
  for N J rely where
  boot: "Start N J opts fs w = (Inr (d, s), fs', w') \<Longrightarrow> driver_step N J rely (Down fs w) (Up d s)"
| refused: "Start N J opts fs w = (Inl err, fs', w') \<Longrightarrow> driver_step N J rely (Down fs w) (Down fs' w')"
| event: "s' = handle N J d ev s \<Longrightarrow> driver_step N J rely (Up d s) (Up d s')"
| exit: "driver_step N J rely (Up d s) (Down (sys_fs s) (sys_w s))"
| others_up: "rely (sys_w s) w \<Longrightarrow> driver_step N J rely (Up d s) (Up d (s\<lparr>sys_w := w\<rparr>))"
| others_down: "rely w w' \<Longrightarrow> driver_step N J rely (Down fs w) (Down fs w')"

inductive_cases driver_stepE: "driver_step N J rely p q"

abbreviation driver_steps :: "('w, 'z) host_scheme \<Rightarrow> codecs \<Rightarrow> ('w \<Rightarrow> 'w \<Rightarrow> bool) \<Rightarrow> 'w process \<Rightarrow> 'w process \<Rightarrow> bool" where
  "driver_steps N J rely \<equiv> (driver_step N J rely)\<^sup>*\<^sup>*"

section \<open>The table of allocations\<close>

context driver_api
begin

lemma publishLoop_quiet: "keepsR (\<lambda>s s'. table_steps N (tab (sys_w s)) (tab (sys_w s'))) (publishLoop N d n)"
  by (induction n) (auto intro!: stbl.keeps_andThen stbl.keeps_ok stbl.keeps_ignoreErr publish_quiet)

lemma handle_steps: "table_steps N (tab (sys_w s)) (tab (sys_w (handle N J d ev s)))"
proof -
  have each: "keepsR (\<lambda>s s'. table_steps N (tab (sys_w s)) (tab (sys_w s'))) (PrepareResourceClaims N J d cs)"
    "keepsR (\<lambda>s s'. table_steps N (tab (sys_w s)) (tab (sys_w s'))) (UnprepareResourceClaims N J d os)" for cs os
    unfolding PrepareResourceClaims_def UnprepareResourceClaims_def
    by (rule eachClaim_quiet, rule prepareClaim_quiet unprepareClaim_quiet)+
  show ?thesis
    using each Synchronize_quiet RunPodSandbox_quiet restorePod_quiet publishLoop_quiet
    by (cases ev) (simp_all add: handle_def keepsR_def StopPodSandbox_def RemovePodSandbox_def)
qed

lemma reload_steps: "table_steps N (tab (sys_w s)) (tab (sys_w (reloadIPPools N d s)))"
  using ListPools_quiet by (simp add: keepsR_def)

lemma bringUp_quiet: "keepsR (\<lambda>s s'. table_steps N (tab (sys_w s)) (tab (sys_w s'))) (bringUp N opts d)"
proof -
  have reload: "keepsR (\<lambda>s s'. table_steps N (tab (sys_w s)) (tab (sys_w s'))) (\<lambda>s. (Inr (), reloadIPPools N d s))"
    using ListPools_quiet by (simp add: keepsR_def)
  show ?thesis unfolding bringUp_def Let_def
    by (intro reload sys_quiet publish_quiet stbl.keeps_andThen stbl.keeps_mapErr stbl.keeps_onError)
qed

lemma Start_steps:
  assumes "Start N J opts fs w = (r, fs', w')"
  shows "table_steps N (tab w) (tab w')" and "r = Inr (d, s) \<Longrightarrow> sys_w s = w'"
proof -
  have up: "table_steps N (tab w) (tab (sys_w s1))"
    if "bringUp N opts d1 \<lparr>sys_store = st, sys_fs = f1, sys_w = w, sys_ipPools = [], sys_dpdk = []\<rparr> = (x, s1)" for d1 st f1 x s1
    using keepsRD [OF bringUp_quiet that] by simp
  from assms show "table_steps N (tab w) (tab w')"
    by (auto simp: Start_def Let_def split: option.splits if_splits prod.splits sum.splits dest!: up)
  from assms show "r = Inr (d, s) \<Longrightarrow> sys_w s = w'"
    by (auto simp: Start_def Let_def split: option.splits if_splits prod.splits sum.splits)
qed

lemma driver_step_steps: "driver_step N J rely p q \<Longrightarrow> table_steps N (tab (process_world p)) (tab (process_world q))"
proof (induction rule: driver_step.induct)
  case (boot opts fs w d s fs' w')
  from Start_steps(1) [OF boot] Start_steps(2) [OF boot refl] show ?case by simp
next
  case (refused opts fs w err fs' w')
  from Start_steps(1) [OF refused] show ?case by simp
next
  case (event s' d ev s)
  with handle_steps show ?case by simp
qed (simp_all add: rely_steps)

lemma driver_steps_steps: "driver_steps N J rely p q \<Longrightarrow> table_steps N (tab (process_world p)) (tab (process_world q))"
proof (induction rule: rtranclp_induct)
  case (step q r)
  from rtranclp_trans [OF step.IH driver_step_steps [OF step.hyps(2)]] show ?case .
qed simp

end

section \<open>The store\<close>

lemma wf_publishLoop: "keepsWf (publishLoop N d n)"
  by (induction n) (auto intro!: invariant.keeps_andThen invariant.keeps_ok invariant.keeps_ignoreErr wf_publish)

fun valid_event :: "driver_event \<Rightarrow> bool" where
  "valid_event (Prepare claims) = list_all valid_claim claims"
| "valid_event _ = True"

lemma handle_wf:
  assumes "valid_event ev" and "wf_sys s"
  shows "wf_sys (handle N J d ev s)"
proof -
  have p: "keepsWf (PrepareResourceClaims N J d cs)" if "list_all valid_claim cs" for cs
    unfolding PrepareResourceClaims_def using that by (intro wf_eachClaim wf_prepareClaim) (simp add: list_all_iff)
  have u: "keepsWf (UnprepareResourceClaims N J d os)" for os
    unfolding UnprepareResourceClaims_def by (intro wf_eachClaim wf_unprepareClaim)
  show ?thesis
    using assms keepsWf_snd [OF p] keepsWf_snd [OF u] keepsWf_snd [OF wf_Synchronize] keepsWf_snd [OF wf_RunPodSandbox]
      keepsWf_snd [OF wf_restorePod] keepsWf_snd [OF wf_publishLoop]
    by (cases ev) (simp_all add: handle_def StopPodSandbox_def RemovePodSandbox_def)
qed

end
