(* ===== verification/Driver_Release.thy ===== *)
theory Driver_Release
  imports Driver_Store Node_Driver
begin

text \<open>
  What a successful release leaves behind, exactly: restoring the host devices of a claim or of a pod
  marks those devices as restored and changes no other record; unpreparing a claim acts on the store as
  forgetting the claim, and the claim owns no address in the cluster afterwards.
\<close>

section \<open>Programs that leave the store alone\<close>

abbreviation keepsStore :: "('w sys, 'a) eff \<Rightarrow> bool" where
  "keepsStore m \<equiv> keepsR (\<lambda>s s'. sys_store s' = sys_store s) m"

lemma store_onW: "keepsStore (onW m)"
  by (rule keepsRI) (auto simp: onW_eq)

lemma store_onFs: "keepsStore (onFs m)"
  by (rule keepsRI) (auto simp: onFs_eq)

lemma store_publish: "keepsStore (publish N d)"
proof -
  have "keepsStore (modifyE (\<lambda>s. s\<lparr>sys_dpdk := ds\<rparr>))" for ds by (rule unchanged.keeps_modifyE) simp
  then show ?thesis unfolding publish_def publishInterface_def publishDPDK_def
    by (intro store_onW unchanged.keeps_rules)
qed

lemma store_reportRestored: "keepsStore (reportRestored N J d pod cfg)"
  unfolding reportRestored_def by (intro store_onW unchanged.keeps_rules)

section \<open>Loops that collect errors\<close>

text \<open>Such a loop ends without errors exactly when the loop that stops at the first error does.\<close>

lemma collectE_Inl [simp]: "collectE f xs s \<noteq> (Inl e, s')"
  by (induction xs arbitrary: s) (auto simp: andThen_Inl ok_def)

lemma collectE_forE: "collectE f xs s = (Inr [], s') \<longleftrightarrow> forE f xs s = (Inr (), s')"
proof (induction xs arbitrary: s)
  case (Cons x xs)
  show ?case
  proof (cases "f x s")
    case (Pair r s1)
    show ?thesis
    proof (cases r)
      case (Inl e)
      with Pair show ?thesis by (cases "collectE f xs s1") (auto simp: andThen_def attempt_def ok_def split: sum.splits)
    next
      case (Inr u)
      with Pair Cons.IH [of s1] show ?thesis by (auto simp: andThen_Inr andThen_def attempt_def ok_def split: prod.splits sum.splits)
    qed
  qed
qed (simp add: ok_def)

section \<open>Restoring\<close>

definition restoredRecord :: "DeviceConfig \<Rightarrow> DeviceConfig" where
  "restoredRecord cfg = (if needsRestore cfg then markRestored cfg else cfg)"

lemma restoredRecord_claim [simp]: "dev_ClaimUID (restoredRecord cfg) = dev_ClaimUID cfg"
  by (simp add: restoredRecord_def markRestored_def)

lemma restoredRecord_done: "\<not> needsRestore (restoredRecord cfg)"
  by (auto simp: restoredRecord_def needsRestore_def markRestored_def split: option.splits)

lemma restoreHostDevice_marks:
  "needsRestore cfg \<Longrightarrow> restoreHostDevice N nsPath cfg w = (Inr cfg', w') \<Longrightarrow> cfg' = restoredRecord cfg"
  by (auto simp: restoreHostDevice_def restoredRecord_def needsRestore_def andThen_Inr ok_def split: option.splits if_splits sum.splits)
    (metis old.sum.exhaust)

lemma SetDevice_store: "onStore (SetDevice J p k cfg) s = (r, s') \<Longrightarrow> sys_store s' = putDevice p k cfg (sys_store s)"
  by (auto simp: onStore_eq SetDevice_def commit_def split: prod.splits)

lemma restoreStored_store:
  assumes "needsRestore cfg" and "\<And>c. keepsStore (rep c)" and "restoreStored N J nsPath p k rep cfg s = (Inr u, s')"
  shows "sys_store s' = putDevice p k (restoredRecord cfg) (sys_store s)"
proof -
  let ?report = "\<lambda>c. onW (setResourceClaimDeviceStatus N c False ''NetworkRestored'' (networkRestoredMessage c) (dev_HardwareAddress c))"
  from assms(3) obtain cfg1 s1 s2 where
    1: "onW (restoreHostDevice N nsPath cfg) s = (Inr cfg1, s1)"
    and 2: "onStore (SetDevice (jStore J) p k cfg1) s1 = (Inr u2, s2)"
    and 3: "rep cfg1 (snd (?report cfg1 s2)) = (Inr u, s')"
    by (auto simp: restoreStored_def andThen_Inr)
  from 1 restoreHostDevice_marks [OF assms(1)] have "cfg1 = restoredRecord cfg" "sys_store s1 = sys_store s"
    by (auto simp: onW_eq)
  moreover have "sys_store (snd (?report cfg1 s2)) = sys_store s2" by (simp add: onW_def split: prod.split)
  ultimately show ?thesis using SetDevice_store [OF 2] keepsRD [OF assms(2) 3] by simp
qed

text \<open>One round per device, each on the record the store had at the beginning.\<close>

lemma restore_rounds:
  assumes "\<And>x. x \<in> set xs \<Longrightarrow> lookupDevice (sys_store s0) (fst (key x)) (snd (key x)) = Some (cfg x)"
    and "\<And>x s s' u. x \<in> set xs \<Longrightarrow> f x s = (Inr u, s') \<Longrightarrow>
      sys_store s' = putDevice (fst (key x)) (snd (key x)) (restoredRecord (cfg x)) (sys_store s)"
    and "forE f xs s0 = (Inr (), s1)"
  shows "lookupDevice (sys_store s1) p k =
      (if (p, k) \<in> key ` set xs then map_option restoredRecord (lookupDevice (sys_store s0) p k) else lookupDevice (sys_store s0) p k)
    \<and> ip_allocations (sys_store s1) = ip_allocations (sys_store s0)"
proof -
  let ?I = "\<lambda>pre s. (\<forall>p k. lookupDevice (sys_store s) p k =
      (if (p, k) \<in> key ` set pre then map_option restoredRecord (lookupDevice (sys_store s0) p k) else lookupDevice (sys_store s0) p k))
    \<and> ip_allocations (sys_store s) = ip_allocations (sys_store s0)"
  have "onSuccess (?I []) (forE f xs) (\<lambda>_. ?I xs)"
  proof (rule triple_forE_grow)
    fix ys z zs
    assume xs: "xs = ys @ z # zs"
    then have z: "z \<in> set xs" by simp
    show "onSuccess (?I ys) (f z) (\<lambda>_. ?I (ys @ [z]))"
    proof (rule tripleI)
      fix s u s'
      assume I: "?I ys s" and f: "f z s = (Inr u, s')"
      note st = assms(2) [OF z f]
      have "ip_allocations (sys_store s') = ip_allocations (sys_store s)" unfolding st by (simp add: putDevice_def Let_def)
      moreover have "lookupDevice (sys_store s') p k =
        (if (p, k) \<in> key ` set (ys @ [z]) then map_option restoredRecord (lookupDevice (sys_store s0) p k)
         else lookupDevice (sys_store s0) p k)" for p k
        unfolding st lookup_putDevice using I assms(1) [OF z] by (cases "key z") auto
      ultimately show "?I (ys @ [z]) s'" using I by simp
    qed simp
  qed
  from triple_Inr [OF this _ assms(3)] show ?thesis by simp
qed

lemma wf_lookup:
  assumes "wf_store st" and "(p, pod) \<in> set (PodConfigs st)"
  shows "(k, cfg) \<in> set (pod_devices pod) \<longleftrightarrow> lookupDevice st p k = Some cfg"
proof -
  from assms have "map_of (pods st) p = Some pod" "distinct (map fst (pod_devices pod))"
    by (auto simp: wf_store_def PodConfigs_def wf_pod_def)
  then show ?thesis by (simp add: lookupDevice_def GetPod_def)
qed

lemma lookup_mem: "lookupDevice st p k = Some cfg \<Longrightarrow> \<exists>pod. (p, pod) \<in> set (PodConfigs st) \<and> (k, cfg) \<in> set (pod_devices pod)"
  by (auto simp: lookupDevice_def GetPod_def PodConfigs_def split: option.splits dest: map_of_SomeD)

lemma after_restore:
  assumes "andThen (collectE f xs) (\<lambda>errs. seqE (ignoreErr (publish N d)) (liftE (errors_Join errs))) s = (Inr (), s')"
  obtains s1 where "forE f xs s = (Inr (), s1)" "sys_store s' = sys_store s1"
proof -
  from assms obtain errs s1 where c: "collectE f xs s = (Inr errs, s1)" "errors_Join errs = Inr ()" "s' = snd (publish N d s1)"
    by (auto simp: andThen_Inr)
  then have "errs = []" by (auto simp: errors_Join_def split: if_splits)
  with c store_publish [of N d] show ?thesis by (intro that) (auto simp: collectE_forE keepsR_def)
qed

lemma gets_andThen: "andThen (getsE f) g s = g (f s) s"
  by (simp add: andThen_def getsE_def)

lemma selected_mem:
  "(p, ns, k, cfg) \<in> set (concat (map (\<lambda>(p, pod). map (\<lambda>(k, c). (p, n pod, k, c)) (filter (\<lambda>(_, c). P c) (D pod))) ps)) \<longleftrightarrow>
     (\<exists>pod. (p, pod) \<in> set ps \<and> ns = n pod \<and> (k, cfg) \<in> set (D pod) \<and> P cfg)"
proof (induction ps)
  case (Cons x ps)
  have "(p, ns, k, cfg) \<in> (\<lambda>(k, c). (q, n pod, k, c)) ` {y \<in> set ds. case y of (_, c) \<Rightarrow> P c} \<longleftrightarrow>
      p = q \<and> ns = n pod \<and> (k, cfg) \<in> set ds \<and> P cfg" for q pod ds
    by (auto simp: image_iff)
  with Cons show ?case by (cases x) auto
qed simp

lemma restoreClaim_store:
  assumes "wf_store (sys_store s)" and "restoreClaimHostDevices N J d u s = (Inr (), s')"
  shows "lookupDevice (sys_store s') p k = map_option (\<lambda>cfg. if dev_ClaimUID cfg = u then restoredRecord cfg else cfg)
      (lookupDevice (sys_store s) p k)
    \<and> ip_allocations (sys_store s') = ip_allocations (sys_store s)"
proof -
  let ?ps = "PodConfigs (sys_store s)"
  let ?f = "\<lambda>(podUID, nsPath, storageKey, cfg). restoreStored N J nsPath podUID storageKey (\<lambda>_. ok ()) cfg"
  let ?xs = "concat (map (\<lambda>(podUID, podCfg). map (\<lambda>(key, cfg). (podUID, pcf_NetNS podCfg, key, cfg))
          (filter (\<lambda>(_, cfg). dev_ClaimUID cfg = u \<and> needsRestore cfg) (pod_devices podCfg))) ?ps)"
  let ?key = "\<lambda>(p, ns, k, cfg). (p, k)" and ?cfg = "\<lambda>(p, ns, k, cfg). cfg"
  have mem: "lookupDevice (sys_store s) p k = Some cfg \<and> dev_ClaimUID cfg = u \<and> needsRestore cfg"
    if "(p, ns, k, cfg) \<in> set ?xs" for p ns k cfg
  proof -
    from that [unfolded selected_mem] obtain pod where "(p, pod) \<in> set ?ps" "(k, cfg) \<in> set (pod_devices pod)" "dev_ClaimUID cfg = u"
      "needsRestore cfg" by (elim exE conjE) (rule that)
    with wf_lookup [OF assms(1)] show ?thesis by blast
  qed
  have keys: "(p, k) \<in> ?key ` set ?xs \<longleftrightarrow> (\<exists>cfg. lookupDevice (sys_store s) p k = Some cfg \<and> dev_ClaimUID cfg = u \<and> needsRestore cfg)" for p k
  proof
    assume "(p, k) \<in> ?key ` set ?xs"
    then obtain x where x: "x \<in> set ?xs" "(p, k) = ?key x" by blast
    obtain q ns l c where "x = (q, ns, l, c)" by (cases x)
    with x mem [of q ns l c] show "\<exists>cfg. lookupDevice (sys_store s) p k = Some cfg \<and> dev_ClaimUID cfg = u \<and> needsRestore cfg"
      by simp
  next
    assume "\<exists>cfg. lookupDevice (sys_store s) p k = Some cfg \<and> dev_ClaimUID cfg = u \<and> needsRestore cfg"
    then obtain cfg pod where "(p, pod) \<in> set ?ps" "(k, cfg) \<in> set (pod_devices pod)" "dev_ClaimUID cfg = u" "needsRestore cfg"
      using lookup_mem by blast
    then have "(p, pcf_NetNS pod, k, cfg) \<in> set ?xs" unfolding selected_mem by (intro exI conjI) (assumption | rule refl)+
    from imageI [OF this, of ?key] show "(p, k) \<in> ?key ` set ?xs" by (simp only: case_prod_conv)
  qed
  obtain s1 where 1: "forE ?f ?xs s = (Inr (), s1)" "sys_store s' = sys_store s1"
    by (rule after_restore [OF assms(2) [unfolded restoreClaimHostDevices_def gets_andThen]])
  have "lookupDevice (sys_store s1) p k =
      (if (p, k) \<in> ?key ` set ?xs then map_option restoredRecord (lookupDevice (sys_store s) p k) else lookupDevice (sys_store s) p k)
    \<and> ip_allocations (sys_store s1) = ip_allocations (sys_store s)"
  proof (rule restore_rounds [where key = ?key and cfg = ?cfg, OF _ _ 1(1)])
    fix x
    assume x: "x \<in> set ?xs"
    obtain q ns l c where [simp]: "x = (q, ns, l, c)" by (cases x)
    from x mem [of q ns l c] have m: "lookupDevice (sys_store s) q l = Some c" "needsRestore c" by auto
    from m show "lookupDevice (sys_store s) (fst (?key x)) (snd (?key x)) = Some (?cfg x)" by simp
    show "sys_store t' = putDevice (fst (?key x)) (snd (?key x)) (restoredRecord (?cfg x)) (sys_store t)"
      if "?f x t = (Inr v, t')" for t t' v
    proof -
      from that have "restoreStored N J ns q l (\<lambda>_. ok ()) c t = (Inr v, t')" by simp
      from restoreStored_store [OF m(2) unchanged.keeps_ok this] show ?thesis by simp
    qed
  qed
  then show ?thesis unfolding 1(2) keys by (cases "lookupDevice (sys_store s) p k") (auto simp: restoredRecord_def)
qed

lemma restorePod_store:
  assumes "wf_store (sys_store s)" and "restorePodHostDevices N J d pod s = (Inr (), s')"
  shows "lookupDevice (sys_store s') p k =
      (if p = sb_Uid pod then map_option restoredRecord else id) (lookupDevice (sys_store s) p k)
    \<and> ip_allocations (sys_store s') = ip_allocations (sys_store s)"
proof (cases "GetPod (sb_Uid pod) (sys_store s)")
  case None
  with assms(2) have "s' = s" by (simp add: restorePodHostDevices_def gets_andThen ok_def)
  with None show ?thesis by (simp add: lookupDevice_def)
next
  case (Some podCfg)
  let ?ns = "if networkNamespace pod = [] then pcf_NetNS podCfg else networkNamespace pod"
  let ?f = "\<lambda>(k, cfg). restoreStored N J ?ns (sb_Uid pod) k (reportRestored N J d pod) cfg"
  let ?xs = "filter (\<lambda>(_, cfg). needsRestore cfg) (pod_devices podCfg)"
  let ?key = "\<lambda>(k, cfg). (sb_Uid pod, k)"
  have look: "lookupDevice (sys_store s) (sb_Uid pod) k = map_of (pod_devices podCfg) k" for k
    using Some by (simp add: lookupDevice_def)
  from Some assms(1) have dist: "distinct (map fst (pod_devices podCfg))"
    using wf_store_pod by (auto simp: GetPod_def wf_pod_def)
  have keys: "(p, k) \<in> ?key ` set ?xs \<longleftrightarrow>
      p = sb_Uid pod \<and> (\<exists>cfg. lookupDevice (sys_store s) p k = Some cfg \<and> needsRestore cfg)" for p k
    using dist by (auto simp: image_iff look)
  have run: "andThen (collectE ?f ?xs) (\<lambda>errs. seqE (ignoreErr (publish N d)) (liftE (errors_Join errs))) s = (Inr (), s')"
    using assms(2) Some by (simp add: restorePodHostDevices_def gets_andThen Let_def)
  obtain s1 where 1: "forE ?f ?xs s = (Inr (), s1)" "sys_store s' = sys_store s1" by (rule after_restore [OF run])
  have "lookupDevice (sys_store s1) p k =
      (if (p, k) \<in> ?key ` set ?xs then map_option restoredRecord (lookupDevice (sys_store s) p k) else lookupDevice (sys_store s) p k)
    \<and> ip_allocations (sys_store s1) = ip_allocations (sys_store s)"
  proof (rule restore_rounds [where key = ?key and cfg = snd, OF _ _ 1(1)])
    fix x
    assume x: "x \<in> set ?xs"
    obtain l c where [simp]: "x = (l, c)" by (cases x)
    from x have m: "(l, c) \<in> set (pod_devices podCfg)" "needsRestore c" by auto
    with dist show "lookupDevice (sys_store s) (fst (?key x)) (snd (?key x)) = Some (snd x)" by (simp add: look)
    show "sys_store t' = putDevice (fst (?key x)) (snd (?key x)) (restoredRecord (snd x)) (sys_store t)"
      if "?f x t = (Inr v, t')" for t t' v
    proof -
      from that have "restoreStored N J ?ns (sb_Uid pod) l (reportRestored N J d pod) c t = (Inr v, t')" by simp
      from restoreStored_store [OF m(2) store_reportRestored this] show ?thesis by simp
    qed
  qed
  then show ?thesis unfolding 1(2) keys by (cases "lookupDevice (sys_store s) p k") (auto simp: restoredRecord_def)
qed

section \<open>Unpreparing\<close>

lemma DeleteClaim_store: "onStore (DeleteClaim J u) s = (r, s') \<Longrightarrow> sys_store s' = forgetClaim u (sys_store s) \<and> sys_w s' = sys_w s"
  by (auto simp: onStore_eq DeleteClaim_def commit_def split: prod.splits)

text \<open>The stages of a successful unpreparation: the devices are restored, the cluster's allocations deleted, the store told.\<close>

lemma unprepareClaim_stages:
  assumes "unprepareClaim N J d obj s = (Inr (), s')"
  obtains s1 w w' x where "restoreClaimHostDevices N J d (no_UID obj) s = (Inr (), s1)"
    and "DeleteForClaim N (no_UID obj) w = (Inr x, w')" and "sys_w s' = w'"
    and "sys_store s' = forgetClaim (no_UID obj) (sys_store s1)"
proof -
  let ?cdi = "if dc_Enabled (cfg_DPDK (drv_cfg d))
      then mapErr (Wrapf ''remove CDI specification'' []) (onFs (removeClaimCDISpecs (dc_CDIPath (cfg_DPDK (drv_cfg d))) (no_UID obj)))
      else ok ()"
  from assms obtain u1 u2 u3 s1 s2 x s3 s4 where 1: "restoreClaimHostDevices N J d (no_UID obj) s = (Inr u1, s1)"
    and r: "onW (removeResourceClaimDeviceStatus N d \<lparr>nn_Namespace = no_Namespace obj, nn_Name = no_Name obj\<rparr>) s1 = (Inr u2, s2)"
    and 3: "onW (DeleteForClaim N (no_UID obj)) s2 = (Inr x, s3)"
    and c: "?cdi s3 = (Inr u3, s4)"
    and 5: "onStore (DeleteClaim (jStore J) (no_UID obj)) s4 = (Inr (), s')"
    unfolding unprepareClaim_def andThen_Inr mapErr_Inr by blast
  from r have 2: "sys_store s2 = sys_store s1" by (auto simp: onW_eq)
  from c have 4: "sys_store s4 = sys_store s3" "sys_w s4 = sys_w s3" by (auto simp: onFs_eq ok_def split: if_splits)
  from 3 obtain w' where "DeleteForClaim N (no_UID obj) (sys_w s2) = (Inr x, w')" "s3 = s2\<lparr>sys_w := w'\<rparr>" by (auto simp: onW_eq)
  with DeleteClaim_store [OF 5] 1 2 4 show ?thesis by (intro that) simp_all
qed

end
