(* ===== verification/Store_Refinement.thy ===== *)
theory Store_Refinement
  imports Store_Props
begin

text \<open>
  The store of \<^verbatim>\<open>store.go\<close> against what it promises.  Its abstract content (\<open>content\<close>) says, for
  every pod and key, which device is recorded, for every pod with an entry its network namespace, and for
  every claim its address.  Each method of the store does to the content what \<open>spec\<close> says, and the state
  file gives the content back when the process is started again.
\<close>

section \<open>The abstract store\<close>

record content =
  c_device :: "uid \<Rightarrow> string \<Rightarrow> DeviceConfig option"
  c_netns :: "uid \<Rightarrow> string option"
  c_address :: "uid \<Rightarrow> IPAllocation option"

definition contentOf :: "Store \<Rightarrow> content" where
  "contentOf s = \<lparr>c_device = lookupDevice s, c_netns = (\<lambda>p. map_option pcf_NetNS (GetPod p s)), c_address = (\<lambda>u. AllocationForClaim u s)\<rparr>"

datatype store_op =
    OpDevice uid string DeviceConfig
  | OpNetNS uid string
  | OpDeletePod uid
  | OpDeleteClaim uid
  | OpReserve string string uid uid

text \<open>A claim that is forgotten takes with it the pods that have no device left; an address is reserved once per claim.\<close>

fun spec :: "store_op \<Rightarrow> content \<Rightarrow> content" where
  "spec (OpDevice p k cfg) c =
     c\<lparr>c_device := (c_device c)(p := (c_device c p)(k \<mapsto> cfg)),
       c_netns := (c_netns c)(p := (case c_netns c p of None \<Rightarrow> Some [] | x \<Rightarrow> x))\<rparr>"
| "spec (OpNetNS p ns) c = c\<lparr>c_netns := (c_netns c)(p \<mapsto> ns)\<rparr>"
| "spec (OpDeletePod p) c = c\<lparr>c_device := (c_device c)(p := Map.empty), c_netns := (c_netns c)(p := None)\<rparr>"
| "spec (OpDeleteClaim u) c =
     (let dev = (\<lambda>p k. case c_device c p k of Some cfg \<Rightarrow> if dev_ClaimUID cfg \<noteq> u then Some cfg else None | None \<Rightarrow> None)
      in \<lparr>c_device = dev, c_netns = (\<lambda>p. if dev p = Map.empty then None else c_netns c p), c_address = (c_address c)(u := None)\<rparr>)"
| "spec (OpReserve pool address u p) c =
     (case c_address c u of
        Some _ \<Rightarrow> c
      | None \<Rightarrow> c\<lparr>c_address := (c_address c)(u \<mapsto> \<lparr>ia_Pool = pool, ia_Address = address, ia_ClaimUID = u, ia_PodUID = p\<rparr>)\<rparr>)"

text \<open>The method behind an operation.\<close>

fun perform :: "codec \<Rightarrow> store_op \<Rightarrow> Store \<Rightarrow> fsys \<Rightarrow> (goerr + unit) \<times> Store \<times> fsys" where
  "perform J (OpDevice p k cfg) = SetDevice J p k cfg"
| "perform J (OpNetNS p ns) = SetNetNS J p ns"
| "perform J (OpDeletePod p) = DeletePod J p"
| "perform J (OpDeleteClaim u) = DeleteClaim J u"
| "perform J (OpReserve pool address u p) = ReserveIP J pool address u p"

text \<open>The operations the handlers use: devices under their own key.\<close>

fun legal_op :: "store_op \<Rightarrow> bool" where
  "legal_op (OpDevice p k cfg) \<longleftrightarrow> migratedKey k cfg = k"
| "legal_op _ \<longleftrightarrow> True"

section \<open>Each method meets its specification\<close>

lemma GetPod_putDevice: "map_option pcf_NetNS (GetPod q (putDevice p k cfg s)) =
    (if q = p then Some (case GetPod p s of Some pod \<Rightarrow> pcf_NetNS pod | None \<Rightarrow> []) else map_option pcf_NetNS (GetPod q s))"
  by (auto simp: GetPod_def putDevice_def Let_def no_pod_def split: option.split)

lemma GetPod_putNetNS: "map_option pcf_NetNS (GetPod q (putNetNS p ns s)) = (if q = p then Some ns else map_option pcf_NetNS (GetPod q s))"
  by (simp add: GetPod_def putNetNS_def Let_def)

lemma lookup_putNetNS: "lookupDevice (putNetNS p ns st) q l = lookupDevice st q l"
  by (auto simp: lookupDevice_def putNetNS_def GetPod_def Let_def pod_devices_def no_pod_def split: option.splits)

lemma allocations_put [simp]: "ip_allocations (putDevice p k cfg s) = ip_allocations s" "ip_allocations (putNetNS p ns s) = ip_allocations s"
  by (simp_all add: putDevice_def putNetNS_def Let_def)

lemma GetPod_forget:
  assumes "wf_store s"
  shows "map_option pcf_NetNS (GetPod p (forgetClaim u s)) =
    (if lookupDevice (forgetClaim u s) p = Map.empty then None else map_option pcf_NetNS (GetPod p s))"
proof (cases "GetPod p s")
  case None
  with assms show ?thesis by (simp add: GetPod_def map_of_dropClaim wf_store_def)
next
  case (Some pod)
  let ?ds = "filter (\<lambda>(_, cfg). dev_ClaimUID cfg \<noteq> u) (pod_devices pod)"
  from assms Some have g: "GetPod p (forgetClaim u s) = (if ?ds = [] then None else Some (pod\<lparr>pcf_Devices := Some ?ds\<rparr>))"
    by (simp add: GetPod_def map_of_dropClaim wf_store_def Let_def)
  show ?thesis
  proof (cases "?ds = []")
    case True
    with g have "lookupDevice (forgetClaim u s) p = Map.empty" by (simp add: lookupDevice_def fun_eq_iff)
    with True g show ?thesis by simp
  next
    case False
    with g have "lookupDevice (forgetClaim u s) p = map_of ?ds" by (simp add: lookupDevice_def fun_eq_iff)
    moreover from False have "map_of ?ds \<noteq> Map.empty" by (simp add: map_of_eq_empty_iff)
    ultimately show ?thesis using g False Some by simp
  qed
qed

lemma content_ops:
  assumes "wf_store s"
  shows "contentOf (putDevice p k cfg s) = spec (OpDevice p k cfg) (contentOf s)"
    and "contentOf (putNetNS p ns s) = spec (OpNetNS p ns) (contentOf s)"
    and "contentOf (set_pods (gdel p (pods s)) s) = spec (OpDeletePod p) (contentOf s)"
    and "contentOf (forgetClaim u s) = spec (OpDeleteClaim u) (contentOf s)"
proof -
  show "contentOf (putDevice p k cfg s) = spec (OpDevice p k cfg) (contentOf s)"
    by (auto simp: contentOf_def fun_eq_iff lookup_putDevice GetPod_putDevice AllocationForClaim_def split: option.split)
  show "contentOf (putNetNS p ns s) = spec (OpNetNS p ns) (contentOf s)"
    by (simp add: contentOf_def fun_eq_iff lookup_putNetNS GetPod_putNetNS AllocationForClaim_def)
  show "contentOf (set_pods (gdel p (pods s)) s) = spec (OpDeletePod p) (contentOf s)"
    by (auto simp: contentOf_def fun_eq_iff lookupDevice_def GetPod_def AllocationForClaim_def)
  have "lookupDevice (forgetClaim u s) =
      (\<lambda>p k. case lookupDevice s p k of Some cfg \<Rightarrow> if dev_ClaimUID cfg \<noteq> u then Some cfg else None | None \<Rightarrow> None)"
    by (intro ext) (rule lookup_forgetClaim [OF assms])
  with GetPod_forget [OF assms] show "contentOf (forgetClaim u s) = spec (OpDeleteClaim u) (contentOf s)"
    by (simp add: contentOf_def Let_def AllocationForClaim_def fun_eq_iff)
qed

lemma perform_commit:
  assumes "perform J opn s fs = (r, s', fs')"
  shows "s' = s \<and> fs' = fs \<or> commit J s' fs = (r, s', fs')"
  using assms
  by (cases opn) (auto simp: SetDevice_def SetNetNS_def DeletePod_def DeleteClaim_def ReserveIP_def commit_def split: option.splits if_splits prod.splits)

lemma commit_store: "commit J s fs = (r, s', fs') \<Longrightarrow> s' = s"
  by (simp add: commit_def split: prod.splits)

lemma content_reserve:
  assumes "ReserveIP J pool address u p s fs = (r, s', fs')"
  shows "contentOf s' = spec (OpReserve pool address u p) (contentOf s)"
proof (cases "map_of (ip_allocations s) u")
  case (Some a)
  with assms have "s' = s" by (simp add: ReserveIP_def split: if_splits)
  with Some show ?thesis by (simp add: contentOf_def AllocationForClaim_def)
next
  case None
  with assms have "s' = set_allocations (gput u \<lparr>ia_Pool = pool, ia_Address = address, ia_ClaimUID = u, ia_PodUID = p\<rparr> (ip_allocations s)) s"
    by (auto simp: ReserveIP_def dest: commit_store)
  with None show ?thesis by (simp add: contentOf_def AllocationForClaim_def lookupDevice_def GetPod_def fun_eq_iff)
qed

lemma perform_content:
  assumes "wf_store s" and "perform J opn s fs = (r, s', fs')"
  shows "contentOf s' = spec opn (contentOf s)"
proof (cases opn)
  case (OpReserve pool address u p)
  with assms(2) content_reserve show ?thesis by simp
qed (use assms(2) content_ops [OF assms(1)] in
  \<open>simp_all only: perform.simps SetDevice_def SetNetNS_def DeletePod_def DeleteClaim_def, (metis commit_store)+\<close>)

lemma perform_wf:
  assumes "wf_store s" and "legal_op opn" and "perform J opn s fs = (r, s', fs')"
  shows "wf_store s'"
  using assms
  by (cases opn)
    (auto simp: SetDevice_def SetNetNS_def DeletePod_def DeleteClaim_def ReserveIP_def commit_def wf_putDevice wf_putNetNS wf_deletePod
      wf_forgetClaim wf_reserve split: option.splits if_splits prod.splits)

lemma perform_path: "perform J opn s fs = (r, s', fs') \<Longrightarrow> store_path s' = store_path s"
  by (cases opn) (auto simp: SetDevice_def SetNetNS_def DeletePod_def DeleteClaim_def ReserveIP_def commit_def putDevice_def putNetNS_def Let_def
      split: option.splits if_splits prod.splits)

section \<open>Restarting from the file\<close>

text \<open>Two states with the same maps: what \<^verbatim>\<open>encoding/json\<close> gives back of a state it has written.  Maps have no order.\<close>

definition samePod :: "PodConfig \<Rightarrow> PodConfig \<Rightarrow> bool" where
  "samePod pod pod' \<longleftrightarrow> pcf_PodUID pod' = pcf_PodUID pod \<and> pcf_NetNS pod' = pcf_NetNS pod
     \<and> distinct (map fst (pod_devices pod')) \<and> map_of (pod_devices pod') = map_of (pod_devices pod)"

definition sameState :: "State \<Rightarrow> State \<Rightarrow> bool" where
  "sameState st st' \<longleftrightarrow> (\<exists>ps as ps' as'. st_Pods st = Some ps \<and> st_IPAllocations st = Some as \<and> st_Pods st' = Some ps' \<and> st_IPAllocations st' = Some as'
     \<and> distinct (map fst ps') \<and> distinct (map fst as') \<and> map_of as' = map_of as \<and> (\<forall>u. rel_option samePod (map_of ps u) (map_of ps' u)))"

definition roundTrips :: "codec \<Rightarrow> State \<Rightarrow> bool" where
  "roundTrips J st \<longleftrightarrow> (\<forall>data. cMarshal J st = Inr data \<longrightarrow>
     data \<noteq> [] \<and> (\<exists>st'. cUnmarshalState J data (store_State (empty_store [])) = (None, st') \<and> sameState st st'))"

lemma contentI:
  assumes "\<And>u. rel_option (\<lambda>q q'. pcf_NetNS q = pcf_NetNS q' \<and> map_of (pod_devices q) = map_of (pod_devices q')) (GetPod u s) (GetPod u t)"
    and "map_of (ip_allocations s) = map_of (ip_allocations t)"
  shows "contentOf s = contentOf t"
proof -
  have "lookupDevice s u = lookupDevice t u \<and> map_option pcf_NetNS (GetPod u s) = map_option pcf_NetNS (GetPod u t)" for u
    using assms(1) [of u] by (cases "GetPod u s"; cases "GetPod u t") (auto simp: lookupDevice_def fun_eq_iff)
  with assms(2) show ?thesis by (simp add: contentOf_def AllocationForClaim_def fun_eq_iff)
qed

lemma sameState_store:
  assumes "wf_store s" and "sameState (store_State s) st'"
  shows "wf_store \<lparr>store_path = path, store_State = st'\<rparr> \<and> contentOf \<lparr>store_path = path, store_State = st'\<rparr> = contentOf s"
proof -
  let ?t = "\<lparr>store_path = path, store_State = st'\<rparr>"
  from assms(2) have st: "st_Pods st' \<noteq> None" "st_IPAllocations st' \<noteq> None" "distinct (map fst (pods ?t))" "distinct (map fst (ip_allocations ?t))"
    and al: "map_of (ip_allocations ?t) = map_of (ip_allocations s)"
    and ps: "\<And>u. rel_option samePod (map_of (pods s) u) (map_of (pods ?t) u)"
    by (auto simp: sameState_def pods_def ip_allocations_def)
  have pod: "\<exists>q. map_of (pods s) u = Some q \<and> samePod q pod" if "map_of (pods ?t) u = Some pod" for u pod
    using ps [of u] that by (auto simp: option_rel_Some2)
  have wfp: "pcf_PodUID pod = u \<and> wf_pod pod" if u: "map_of (pods ?t) u = Some pod" for u pod
  proof -
    from pod [OF u] obtain q where q: "map_of (pods s) u = Some q" "samePod q pod" by blast
    from wf_store_pod [OF assms(1) q(1)] have w: "wf_pod q" "pcf_PodUID q = u" by simp_all
    have "migratedKey k cfg = k" if "(k, cfg) \<in> set (pod_devices pod)" for k cfg
    proof -
      from that q(2) have "map_of (pod_devices q) k = Some cfg" by (simp add: samePod_def flip: map_of_eq_Some_iff)
      with w(1) show ?thesis by (auto simp: wf_pod_def dest: map_of_SomeD)
    qed
    with q(2) w(2) show ?thesis by (auto simp: samePod_def wf_pod_def)
  qed
  have "ia_ClaimUID a = u" if "(u, a) \<in> set (ip_allocations ?t)" for u a
  proof -
    from that st(4) al have "map_of (ip_allocations s) u = Some a" by (metis map_of_eq_Some_iff)
    with assms(1) show ?thesis by (auto simp: wf_store_def dest: map_of_SomeD)
  qed
  with st wfp have "wf_store ?t" by (auto simp: wf_store_def)
  moreover have "contentOf s = contentOf ?t"
  proof (rule contentI)
    show "rel_option (\<lambda>q q'. pcf_NetNS q = pcf_NetNS q' \<and> map_of (pod_devices q) = map_of (pod_devices q')) (GetPod u s) (GetPod u ?t)" for u
      using ps [of u] unfolding GetPod_def by (rule option.rel_mono_strong) (simp add: samePod_def)
  qed (simp add: al)
  ultimately show ?thesis by simp
qed

text \<open>A well-formed store has nothing to migrate.\<close>

lemma gput_fresh: "k \<notin> fst ` set m \<Longrightarrow> gput k v m = m @ [(k, v)]"
  by (induction m) auto

lemma migrateDevices_wf:
  "\<forall>(k, cfg)\<in>set ds. migratedKey k cfg = k \<Longrightarrow> distinct (map fst (acc @ ds)) \<Longrightarrow> migrateDevices ds acc ch = (acc @ ds, ch)"
  by (induction ds arbitrary: acc) (auto simp: gput_fresh)

lemma migratePods_wf:
  "\<forall>(u, pod)\<in>set ps. wf_pod pod \<Longrightarrow> migratePods ps ch = (map (\<lambda>(u, pod). (u, pod\<lparr>pcf_Devices := Some (pod_devices pod)\<rparr>)) ps, ch)"
  by (induction ps) (auto simp: wf_pod_def migrateDevices_wf)

lemma migrate_wf:
  assumes "wf_store s"
  obtains s1 where "migrateDeviceKeys s = (s1, False)" "contentOf s1 = contentOf s"
proof
  let ?ps = "map (\<lambda>(u, pod). (u, pod\<lparr>pcf_Devices := Some (pod_devices pod)\<rparr>)) (pods s)"
  from assms have "\<forall>(u, pod)\<in>set (pods s). wf_pod pod" by (auto simp: wf_store_def)
  then show "migrateDeviceKeys s = (set_pods ?ps s, False)" by (simp add: migrateDeviceKeys_def migratePods_wf)
  have "GetPod u (set_pods ?ps s) = map_option (\<lambda>pod. pod\<lparr>pcf_Devices := Some (pod_devices pod)\<rparr>) (GetPod u s)" for u
    by (simp add: GetPod_def map_of_map)
  then show "contentOf (set_pods ?ps s) = contentOf s"
    by (intro contentI) (simp_all add: option.rel_map option.rel_refl)
qed

text \<open>The state file holds what the store was when it was written.\<close>

definition durable :: "codec \<Rightarrow> fsys \<Rightarrow> string list \<Rightarrow> Store \<Rightarrow> bool" where
  "durable J fs p s \<longleftrightarrow> (\<exists>data. cMarshal J (store_State s) = Inr data \<and> node_at fs p = Some (FFile data))"

lemma durable_restart:
  assumes "state_file fs (store_path s) d b" and "wf_store s" and "durable J fs (d @ [b]) s" and "roundTrips J (store_State s)"
  shows "\<exists>s1. NewStore J (store_path s) fs = (Inr s1, fs) \<and> contentOf s1 = contentOf s"
proof -
  let ?path = "store_path s"
  from assms(3) obtain data where data: "cMarshal J (store_State s) = Inr data" "node_at fs (d @ [b]) = Some (FFile data)"
    by (auto simp: durable_def)
  from assms(4) data(1) obtain st' where st': "data \<noteq> []" "cUnmarshalState J data (store_State (empty_store [])) = (None, st')"
    "sameState (store_State s) st'" by (auto simp: roundTrips_def)
  have e: "store_State (empty_store ?path) = store_State (empty_store [])" by (simp add: empty_store_def)
  from sameState_store [OF assms(2) st'(3)] have t: "wf_store \<lparr>store_path = ?path, store_State = st'\<rparr>"
    "contentOf \<lparr>store_path = ?path, store_State = st'\<rparr> = contentOf s" by blast+
  obtain s1 where s1: "migrateDeviceKeys \<lparr>store_path = ?path, store_State = st'\<rparr> = (s1, False)"
    "contentOf s1 = contentOf \<lparr>store_path = ?path, store_State = st'\<rparr>" by (rule migrate_wf [OF t(1)])
  have pods: "st_Pods st' \<noteq> None" "withMaps st' = st'" using st'(3) by (auto simp: sameState_def withMaps_def)
  have "resolve fs ?path = Some (d @ [b])"
    using plain_resolve [of fs d ?path b] assms(1) state_file_paths(2) [OF assms(1)] data(2) by (simp add: state_file_def)
  then have "os_ReadFile fs ?path = Inr data" using data(2) by (simp add: os_ReadFile_def)
  then have "NewStore J ?path fs = (Inr s1, fs)"
    using st' s1 pods state_file_paths(1) [OF assms(1)]
    by (auto simp: NewStore_def decodeState_def decodeLegacy_def finishStore_def e ok_def)
  with s1(2) t(2) show ?thesis by auto
qed

section \<open>The promise\<close>

text \<open>Operations one after the other, until one fails; and that every store on the way is one that the encoding can represent.\<close>

fun inSequence :: "('o \<Rightarrow> 's \<Rightarrow> 'd \<Rightarrow> (goerr + unit) \<times> 's \<times> 'd) \<Rightarrow> 'o list \<Rightarrow> 's \<Rightarrow> 'd \<Rightarrow> (goerr + unit) \<times> 's \<times> 'd" where
  "inSequence f [] s d = (Inr (), s, d)"
| "inSequence f (x # xs) s d = (case f x s d of (Inl e, s1, d1) \<Rightarrow> (Inl e, s1, d1) | (Inr _, s1, d1) \<Rightarrow> inSequence f xs s1 d1)"

fun allStores :: "('s \<Rightarrow> bool) \<Rightarrow> ('o \<Rightarrow> 's \<Rightarrow> 'd \<Rightarrow> (goerr + unit) \<times> 's \<times> 'd) \<Rightarrow> 'o list \<Rightarrow> 's \<Rightarrow> 'd \<Rightarrow> bool" where
  "allStores P f [] s d \<longleftrightarrow> P s"
| "allStores P f (x # xs) s d \<longleftrightarrow> P s \<and> (case f x s d of (Inl e, s1, d1) \<Rightarrow> True | (Inr _, s1, d1) \<Rightarrow> allStores P f xs s1 d1)"

lemma allStores_start: "allStores P f xs s d \<Longrightarrow> P s"
  by (cases xs) simp_all

text \<open>What clients of a durable store rely on: an abstract content, operations that act on it as specified, and a reading of the
  disk that gives the content after a successful operation and the previous content after a failed one.\<close>

locale durable_store =
  fixes inv :: "'s \<Rightarrow> 'd \<Rightarrow> bool" and repr :: "'s \<Rightarrow> bool" and legal :: "'o \<Rightarrow> bool" and content :: "'s \<Rightarrow> 'c" and act :: "'o \<Rightarrow> 'c \<Rightarrow> 'c"
    and perf :: "'o \<Rightarrow> 's \<Rightarrow> 'd \<Rightarrow> (goerr + unit) \<times> 's \<times> 'd" and reopen :: "'d \<Rightarrow> 'c option"
  assumes inv_perf: "inv s d \<Longrightarrow> legal x \<Longrightarrow> perf x s d = (Inr u, s', d') \<Longrightarrow> inv s' d'"
    and content_perf: "inv s d \<Longrightarrow> perf x s d = (r, s', d') \<Longrightarrow> content s' = act x (content s)"
    and reopen_inv: "inv s d \<Longrightarrow> repr s \<Longrightarrow> reopen d = Some (content s)"
    and reopen_err: "inv s d \<Longrightarrow> repr s \<Longrightarrow> perf x s d = (Inl e, s', d') \<Longrightarrow> reopen d' = Some (content s)"
begin

text \<open>The disk is never between two operations: it holds the content after some number of them, after all when none has failed.\<close>

lemma sequence_prefix:
  "inv s d \<Longrightarrow> list_all legal xs \<Longrightarrow> allStores repr perf xs s d \<Longrightarrow> inSequence perf xs s d = (r, s', d') \<Longrightarrow>
     \<exists>n \<le> length xs. reopen d' = Some (fold act (take n xs) (content s)) \<and> (r = Inr () \<longrightarrow> n = length xs \<and> content s' = fold act xs (content s))"
proof (induction xs arbitrary: s d)
  case Nil
  then show ?case using reopen_inv by auto
next
  case (Cons x xs)
  from Cons.prems(2) have l: "legal x" "list_all legal xs" by simp_all
  have repr: "repr s" using allStores_start [OF Cons.prems(3)] .
  obtain q s1 d1 where x: "perf x s d = (q, s1, d1)" by (cases "perf x s d") auto
  show ?case
  proof (cases q)
    case (Inl e)
    with x Cons.prems(4) have "r = Inl e" "d' = d1" by simp_all
    with reopen_err [OF Cons.prems(1) repr] x Inl show ?thesis by (intro exI [of _ 0]) simp
  next
    case (Inr u)
    with x have x': "perf x s d = (Inr u, s1, d1)" by simp
    from x' Cons.prems(3,4) have rest: "inSequence perf xs s1 d1 = (r, s', d')" "allStores repr perf xs s1 d1" by simp_all
    have "content s1 = act x (content s)" using content_perf [OF Cons.prems(1) x'] .
    with Cons.IH [OF inv_perf [OF Cons.prems(1) l(1) x'] l(2) rest(2,1)] obtain n where
      "n \<le> length xs" "reopen d' = Some (fold act (take n xs) (act x (content s)))"
      "r = Inr () \<longrightarrow> n = length xs \<and> content s' = fold act xs (act x (content s))" by auto
    then show ?thesis by (intro exI [of _ "Suc n"]) simp
  qed
qed

end

text \<open>The store with its state file keeps the promise.\<close>

definition stored :: "codec \<Rightarrow> string \<Rightarrow> string list \<Rightarrow> string \<Rightarrow> Store \<Rightarrow> fsys \<Rightarrow> bool" where
  "stored J path d b s fs \<longleftrightarrow> store_path s = path \<and> state_file fs path d b \<and> wf_store s \<and> durable J fs (d @ [b]) s"

definition reopened :: "codec \<Rightarrow> string \<Rightarrow> fsys \<Rightarrow> content option" where
  "reopened J path fs = (case NewStore J path fs of (Inl _, _) \<Rightarrow> None | (Inr s, _) \<Rightarrow> Some (contentOf s))"

lemma perform_stored:
  assumes "stored J path d b s fs" and "perform J opn s fs = (r, s', fs')"
  shows "state_file fs' path d b \<and> (case r of Inl _ \<Rightarrow> durable J fs' (d @ [b]) s | Inr _ \<Rightarrow> durable J fs' (d @ [b]) s')"
proof -
  from assms(1) have st: "state_file fs path d b" "durable J fs (d @ [b]) s" "store_path s = path" by (simp_all add: stored_def)
  from perform_path [OF assms(2)] st(3) have p: "store_path s' = path" by simp
  consider "s' = s" "fs' = fs" | "commit J s' fs = (r, s', fs')" using perform_commit [OF assms(2)] by blast
  then show ?thesis
  proof cases
    case 1
    with st show ?thesis by (simp split: sum.split)
  next
    case 2
    then have "persistLocked J s' fs = (r, fs')" by (simp add: commit_def split: prod.splits)
    from persist_result [of fs s' d b, OF _ this] st p show ?thesis by (auto simp: durable_def split: sum.splits)
  qed
qed

interpretation sf: durable_store "stored J path d b" "\<lambda>s. roundTrips J (store_State s)" legal_op contentOf spec "perform J" "reopened J path"
  for J path d b
proof unfold_locales
  fix s s' fs fs' opn u
  assume a: "stored J path d b s fs" "legal_op opn" "perform J opn s fs = (Inr u, s', fs')"
  from perform_stored [OF a(1,3)] perform_path [OF a(3)] a perform_wf [of s opn J fs] show "stored J path d b s' fs'" by (auto simp: stored_def)
next
  fix s s' fs fs' opn r
  assume "stored J path d b s fs" "perform J opn s fs = (r, s', fs')"
  then show "contentOf s' = spec opn (contentOf s)" using perform_content by (auto simp: stored_def)
next
  fix s fs
  assume "stored J path d b s fs" "roundTrips J (store_State s)"
  with durable_restart [of fs s d b J] show "reopened J path fs = Some (contentOf s)" by (auto simp: stored_def reopened_def)
next
  fix s s' fs fs' opn e
  assume a: "stored J path d b s fs" "roundTrips J (store_State s)" "perform J opn s fs = (Inl e, s', fs')"
  from perform_stored [OF a(1,3)] a durable_restart [of fs' s d b J] show "reopened J path fs' = Some (contentOf s)"
    by (auto simp: stored_def reopened_def)
qed

section \<open>Properties\<close>

text \<open>C4: each method of the store refines its specification: on every outcome of the write to the file, the content in memory becomes
  what the specification of the operation says, for devices, namespaces and addresses together.\<close>

theorem store_refines:
  assumes "wf_store s" and "perform J opn s fs = (r, s', fs')"
  shows "contentOf s' = spec opn (contentOf s)"
  using perform_content [OF assms] .

definition one_pod :: Store where
  "one_pod = putDevice ''pod-1'' ''uid-a/eth1'' sample_device (empty_store ''/run/state'')"

lemma one_pod_wf: "wf_store one_pod" "store_path one_pod = ''/run/state''"
proof -
  show "wf_store one_pod" unfolding one_pod_def
    by (rule wf_putDevice [OF wf_empty_store]) (simp add: migratedKey_def deviceStoreKey_def sample_device_def)
  show "store_path one_pod = ''/run/state''" by (simp add: one_pod_def putDevice_def Let_def empty_store_def)
qed

theorem store_refines_witness:
  "contentOf (fst (snd (perform const_codec (OpDeleteClaim ''uid-a'') one_pod (sample_fs [WFail 0])))) = spec (OpDeleteClaim ''uid-a'') (contentOf one_pod)
   \<and> c_netns (spec (OpDeleteClaim ''uid-a'') (contentOf one_pod)) ''pod-1'' = None"
proof -
  obtain r s' fs' where p: "perform const_codec (OpDeleteClaim ''uid-a'') one_pod (sample_fs [WFail 0]) = (r, s', fs')" by (rule prod_cases3)
  from store_refines [OF one_pod_wf(1) p] p
  have "contentOf (fst (snd (perform const_codec (OpDeleteClaim ''uid-a'') one_pod (sample_fs [WFail 0])))) = spec (OpDeleteClaim ''uid-a'') (contentOf one_pod)"
    by simp
  moreover have "c_device (contentOf one_pod) ''pod-1'' = [''uid-a/eth1'' \<mapsto> sample_device]"
    by (simp add: contentOf_def one_pod_def lookup_putDevice fun_eq_iff) (simp add: lookupDevice_def GetPod_def pods_def empty_store_def)
  ultimately show ?thesis by (simp add: Let_def fun_eq_iff sample_device_def)
qed

text \<open>C5: whatever sequence of operations the process goes through and whichever write fails, a restart from the state file finds the
  content after some number of the operations, one after the other from the first on, and after all of them when none has failed.
  The hypothesis on the codec is that it gives back the maps of the states it is asked to write.\<close>

theorem store_restart:
  assumes "state_file fs (store_path s) d b" and "wf_store s" and "durable J fs (d @ [b]) s" and "list_all legal_op ops"
    and "allStores (\<lambda>t. roundTrips J (store_State t)) (perform J) ops s fs" and "inSequence (perform J) ops s fs = (r, s', fs')"
  shows "\<exists>n \<le> length ops. (r = Inr () \<longrightarrow> n = length ops) \<and>
    (\<exists>s1 fs1. NewStore J (store_path s) fs' = (Inr s1, fs1) \<and> contentOf s1 = fold spec (take n ops) (contentOf s))"
proof -
  have "stored J (store_path s) d b s fs" using assms by (simp add: stored_def)
  from sf.sequence_prefix [OF this assms(4-6)] obtain n where
    "n \<le> length ops" "reopened J (store_path s) fs' = Some (fold spec (take n ops) (contentOf s))" "r = Inr () \<longrightarrow> n = length ops" by blast
  then show ?thesis by (intro exI [of _ n]) (auto simp: reopened_def split: prod.splits sum.splits)
qed

text \<open>A codec that can write two states only.\<close>

definition pair_codec :: "State \<Rightarrow> State \<Rightarrow> codec" where
  "pair_codec a b = \<lparr>cMarshal = (\<lambda>st. if st = a then Inr ''a'' else if st = b then Inr ''b'' else Inl (Errorf ''no text'' [])),
     cUnmarshalState = (\<lambda>data st. (None, if data = ''a'' then a else b)), cUnmarshalLegacy = (\<lambda>_. Inr None)\<rparr>"

lemma sameState_refl: "wf_store s \<Longrightarrow> sameState (store_State s) (store_State s)"
proof -
  assume w: "wf_store s"
  then obtain ps as where st: "st_Pods (store_State s) = Some ps" "st_IPAllocations (store_State s) = Some as" by (auto simp: wf_store_def)
  with w have d: "distinct (map fst ps)" "distinct (map fst as)" by (simp_all add: wf_store_def pods_def ip_allocations_def)
  have "samePod pod pod" if "map_of ps u = Some pod" for u pod
    using wf_store_pod [OF w, of u pod] that st by (simp add: pods_def samePod_def wf_pod_def)
  then have "rel_option samePod (map_of ps u) (map_of ps u)" for u by (cases "map_of ps u") simp_all
  with st d show ?thesis unfolding sameState_def by blast
qed

lemma pair_round_trips: "wf_store s \<Longrightarrow> wf_store t \<Longrightarrow> roundTrips (pair_codec (store_State s) (store_State t)) st"
  by (auto simp: roundTrips_def pair_codec_def dest: sameState_refl)

theorem store_restart_witness:
  "\<exists>s1 fs1 fs'. perform (pair_codec (store_State one_pod) (store_State (putNetNS ''pod-1'' ''/ns/pod'' one_pod))) (OpNetNS ''pod-1'' ''/ns/pod'') one_pod
       (put_node [''run'', ''state''] (FFile ''a'') (sample_fs [])) = (Inr (), putNetNS ''pod-1'' ''/ns/pod'' one_pod, fs')
     \<and> NewStore (pair_codec (store_State one_pod) (store_State (putNetNS ''pod-1'' ''/ns/pod'' one_pod))) ''/run/state'' fs' = (Inr s1, fs1)
     \<and> c_netns (contentOf s1) ''pod-1'' = Some ''/ns/pod''"
proof -
  let ?t = "putNetNS ''pod-1'' ''/ns/pod'' one_pod"
  let ?J = "pair_codec (store_State one_pod) (store_State ?t)" and ?fs = "put_node [''run'', ''state''] (FFile ''a'') (sample_fs [])"
  have wf: "wf_store ?t" by (rule wf_putNetNS [OF one_pod_wf(1)])
  have sf: "state_file ?fs (store_path one_pod) [''run''] ''state''"
    by (auto simp: one_pod_wf state_file_def comps_path_def plain_dir_def clean_name_def plain_file_def sample_fs_def node_at_def put_node_def take_Cons' le_Suc_eq)
  have du: "durable ?J ?fs ([''run''] @ [''state'']) one_pod"
    by (simp add: durable_def pair_codec_def put_node_def node_at_def)
  have ne: "store_State ?t \<noteq> store_State one_pod"
    by (simp add: one_pod_def putNetNS_def putDevice_def Let_def set_pods_def pods_def empty_store_def no_pod_def)
  have p: "path_comps ''/run'' = [''run'']" "path_comps ''/run/state'' = [''run'', ''state'']"
    "path_comps ''/run/state.tmp'' = [''run'', ''state.tmp'']" by (simp_all add: path_comps_def)
  have m: "cMarshal ?J (store_State ?t) = Inr ''b''" using ne by (simp add: pair_codec_def)
  have path: "store_path ?t = ''/run/state''" by (simp add: putNetNS_def Let_def one_pod_wf)
  have "\<exists>fs'. persistLocked ?J ?t ?fs = (Inr (), fs')"
    by (simp add: persistLocked_def path m andThen_def filepath_Dir_def p comps_path_def MkdirAll_def WriteFile_def Rename_def
        next_wfault_def sample_fs_def node_at_def tmp_path_def resolve_def target_of_def put_node_def numeral_eq_Suc)
  then obtain fs' where run: "perform ?J (OpNetNS ''pod-1'' ''/ns/pod'') one_pod ?fs = (Inr (), ?t, fs')" by (auto simp: SetNetNS_def commit_def)
  have rt: "roundTrips ?J st" for st using pair_round_trips [OF one_pod_wf(1) wf] .
  have "allStores (\<lambda>t. roundTrips ?J (store_State t)) (perform ?J) [OpNetNS ''pod-1'' ''/ns/pod''] one_pod ?fs"
    by (simp add: rt split: prod.split sum.split)
  from store_restart [OF sf one_pod_wf(1) du _ this, of "Inr ()" ?t fs'] run
  obtain s1 fs1 where "NewStore ?J ''/run/state'' fs' = (Inr s1, fs1)" "contentOf s1 = spec (OpNetNS ''pod-1'' ''/ns/pod'') (contentOf one_pod)"
    by (auto simp: one_pod_wf)
  with run show ?thesis by (intro exI [of _ s1] exI [of _ fs1] exI [of _ fs']) simp
qed

end
