(* ===== verification/Driver_Attach.thy ===== *)
theory Driver_Attach
  imports Driver_Release Store_Refinement
begin

text \<open>
  What a successful \<^verbatim>\<open>RunPodSandbox\<close> records: every device of the pod is injected or attached, the
  records of other pods stay as they are.
\<close>

text \<open>A program that changes the store at one key only.\<close>

definition onlyAt :: "uid \<Rightarrow> string \<Rightarrow> Store \<Rightarrow> Store \<Rightarrow> bool" where
  "onlyAt p k st st' \<longleftrightarrow> (\<forall>q l. (q, l) \<noteq> (p, k) \<longrightarrow> lookupDevice st' q l = lookupDevice st q l)"

lemma onlyAt_refl [simp]: "onlyAt p k st st"
  by (simp add: onlyAt_def)

lemma onlyAt_trans: "onlyAt p k st st1 \<Longrightarrow> onlyAt p k st1 st2 \<Longrightarrow> onlyAt p k st st2"
  by (auto simp: onlyAt_def)

lemma onlyAt_put [simp]: "onlyAt p k st (putDevice p k cfg st)"
  by (auto simp: onlyAt_def lookup_putDevice)

lemma onlyAt_share: "onlyAt p k st (shareHostDevice p k hs st)"
  by (auto simp: shareHostDevice_def split: option.split)

text \<open>What the record of a device becomes.\<close>

definition ranDevice :: "DeviceConfig \<Rightarrow> DeviceConfig \<Rightarrow> bool" where
  "ranDevice cfg cfg' \<longleftrightarrow>
     (if nc_Type (dev_Network cfg) = ''dpdk'' then cfg' = cfg\<lparr>dev_LifecycleState := ''Injected''\<rparr>
      else if dev_AttachedIf cfg \<noteq> [] then cfg' = cfg
      else dev_LifecycleState cfg' = ''Attached'' \<and> dev_AttachedIf cfg' = nc_InterfaceName (dev_Network cfg'))"

lemma attachAny_only:
  assumes "attachAny N p k nsPath cfg s = (Inr x, s')"
  shows "onlyAt p k (sys_store s) (sys_store s')"
  using assms onlyAt_share
  by (cases "nc_Type (dev_Network cfg) = ''host-device''") (auto simp: attachAny_def andThen_Inr onW_eq ok_def)

lemma attachDevice_store:
  assumes "attachDevice N J d pod kubePod nsPath k cfg s = (Inr cfg', s')"
  shows "onlyAt (sb_Uid pod) k (sys_store s) (sys_store s') \<and> lookupDevice (sys_store s') (sb_Uid pod) k = Some cfg'
    \<and> dev_LifecycleState cfg' = ''Attached'' \<and> dev_AttachedIf cfg' = nc_InterfaceName (dev_Network cfg')"
proof -
  from assms obtain x s1 where x: "attachAny N (sb_Uid pod) k nsPath cfg s = (Inr x, s1)"
    and rest: "(\<lambda>(err, cfg1, hw). case err of
         Some e \<Rightarrow> seqE (reportAttachFailure N d kubePod cfg1 e)
             (fail (Wrapf ''attach %s for pod %s/%s'' [k, sb_Namespace pod, sb_Name pod] e))
       | None \<Rightarrow> (let cfg2 = cfg1\<lparr>dev_AttachedIf := nc_InterfaceName (dev_Network cfg1), dev_HardwareAddress := hw,
              dev_LifecycleState := ''Attached''\<rparr>
            in seqE (onStore (SetDevice (jStore J) (sb_Uid pod) k cfg2)) (ok cfg2))) x s1 = (Inr cfg', s')"
    unfolding attachDevice_def andThen_Inr by blast
  obtain err cfg1 hw where e: "x = (err, cfg1, hw)" by (cases x)
  have "err = None"
  proof (rule ccontr)
    assume "err \<noteq> None"
    then obtain e where "err = Some e" by blast
    with rest e show False by (simp add: andThen_Inr)
  qed
  with rest e obtain u where set: "onStore (SetDevice (jStore J) (sb_Uid pod) k cfg') s1 = (Inr u, s')"
    and c: "cfg' = cfg1\<lparr>dev_AttachedIf := nc_InterfaceName (dev_Network cfg1), dev_HardwareAddress := hw, dev_LifecycleState := ''Attached''\<rparr>"
    by (simp add: andThen_Inr Let_def)
  from SetDevice_store [OF set] onlyAt_trans [OF attachAny_only [OF x]] c show ?thesis
    by (auto simp: lookup_putDevice)
qed

lemma runDevice_store:
  assumes "runDevice N J d pod kubePod nsPath (k, cfg) s = (Inr u, s')" and "lookupDevice (sys_store s) (sb_Uid pod) k = Some cfg"
  shows "onlyAt (sb_Uid pod) k (sys_store s) (sys_store s')
    \<and> (\<exists>cfg'. lookupDevice (sys_store s') (sb_Uid pod) k = Some cfg' \<and> ranDevice cfg cfg')"
proof (cases "nc_Type (dev_Network cfg) = ''dpdk''")
  case True
  with assms(1) have "runDPDK N J d pod kubePod k cfg s = (Inr u, s')" by (simp add: runDevice_def)
  then obtain v s1 where set: "onStore (SetDevice (jStore J) (sb_Uid pod) k (cfg\<lparr>dev_LifecycleState := ''Injected''\<rparr>)) s = (Inr v, s1)"
    and "sys_store s' = sys_store s1"
    by (auto simp: runDPDK_def Let_def andThen_Inr onW_eq)
  with SetDevice_store [OF set] True show ?thesis by (simp add: lookup_putDevice ranDevice_def)
next
  case False
  let ?attach = "if dev_AttachedIf cfg = [] then attachDevice N J d pod kubePod nsPath k cfg else ok cfg"
  have rep: "keepsStore (reporting N d kubePod c what m)" if "keepsStore m" for c what and m :: "('a sys, unit) eff"
    using that unfolding reporting_def by (intro store_onW unchanged.keeps_rules)
  from assms(1) False obtain cfg1 s1 where a: "?attach s = (Inr cfg1, s1)"
    and rest: "(seqE (reporting N d kubePod cfg1 ''report attached device status''
          (onW (setResourceClaimDeviceStatus N cfg1 True ''NetworkAttached'' (networkStatusMessage cfg1) (dev_HardwareAddress cfg1))))
         (seqE (reporting N d kubePod cfg1 ''report Pod network status''
                 (onW (setPodNetworkStatus N J (pod_Namespace kubePod) (pod_Name kubePod) (pod_UID kubePod) cfg1)))
           (ignoreErr (onW (emitPodEvent N d kubePod ''Normal'' ''LinuxNetworkAttached'' ''AttachNetwork'' (networkStatusMessage cfg1)
             (Some (dev_Claim cfg1))))))) s1 = (Inr u, s')"
    by (auto simp: runDevice_def andThen_Inr [of ?attach] Let_def)
  have "keepsStore (seqE (reporting N d kubePod cfg1 ''report attached device status''
          (onW (setResourceClaimDeviceStatus N cfg1 True ''NetworkAttached'' (networkStatusMessage cfg1) (dev_HardwareAddress cfg1))))
         (seqE (reporting N d kubePod cfg1 ''report Pod network status''
                 (onW (setPodNetworkStatus N J (pod_Namespace kubePod) (pod_Name kubePod) (pod_UID kubePod) cfg1)))
           (ignoreErr (onW (emitPodEvent N d kubePod ''Normal'' ''LinuxNetworkAttached'' ''AttachNetwork'' (networkStatusMessage cfg1)
             (Some (dev_Claim cfg1)))))))"
    by (intro unchanged.keeps_andThen rep store_onW unchanged.keeps_ignoreErr)
  from keepsRD [OF this rest] have st: "sys_store s' = sys_store s1" .
  show ?thesis
  proof (cases "dev_AttachedIf cfg = []")
    case True
    with a have "attachDevice N J d pod kubePod nsPath k cfg s = (Inr cfg1, s1)" by simp
    from attachDevice_store [OF this] True False st show ?thesis by (auto simp: ranDevice_def)
  next
    case Attached: False
    with a have "s1 = s" by (simp add: ok_def)
    with Attached False st assms(2) show ?thesis by (simp add: ranDevice_def)
  qed
qed

text \<open>All devices of the pod, one after the other.\<close>

lemma run_rounds:
  assumes "distinct (map fst xs)" and "\<And>k cfg. (k, cfg) \<in> set xs \<Longrightarrow> lookupDevice (sys_store s0) (sb_Uid pod) k = Some cfg"
    and "forE (runDevice N J d pod kubePod nsPath) xs s0 = (Inr u, s1)"
  shows "(\<forall>(k, cfg)\<in>set xs. \<exists>cfg'. lookupDevice (sys_store s1) (sb_Uid pod) k = Some cfg' \<and> ranDevice cfg cfg')
    \<and> (\<forall>q l. (q = sb_Uid pod \<longrightarrow> l \<notin> fst ` set xs) \<longrightarrow> lookupDevice (sys_store s1) q l = lookupDevice (sys_store s0) q l)"
  using assms
proof (induction xs arbitrary: s0)
  case Nil
  then show ?case by (simp add: ok_def)
next
  case (Cons x xs)
  obtain k cfg where [simp]: "x = (k, cfg)" by (cases x)
  from Cons.prems(3) obtain v s2 where x: "runDevice N J d pod kubePod nsPath (k, cfg) s0 = (Inr v, s2)"
    and rest: "forE (runDevice N J d pod kubePod nsPath) xs s2 = (Inr u, s1)" by (auto simp: andThen_Inr)
  have "lookupDevice (sys_store s0) (sb_Uid pod) k = Some cfg" using Cons.prems(2) by simp
  note 1 = runDevice_store [OF x this]
  have keep: "lookupDevice (sys_store s2) (sb_Uid pod) l = Some c" if "(l, c) \<in> set xs" for l c
  proof -
    from that Cons.prems(1) have "l \<noteq> k" by (force simp: image_iff)
    with 1 Cons.prems(2) [of l c] that show ?thesis by (simp add: onlyAt_def)
  qed
  from Cons.IH [OF _ keep rest] Cons.prems(1)
  have IH: "\<forall>(k, cfg)\<in>set xs. \<exists>cfg'. lookupDevice (sys_store s1) (sb_Uid pod) k = Some cfg' \<and> ranDevice cfg cfg'"
    "\<And>q l. (q = sb_Uid pod \<Longrightarrow> l \<notin> fst ` set xs) \<Longrightarrow> lookupDevice (sys_store s1) q l = lookupDevice (sys_store s2) q l" by auto
  from Cons.prems(1) have k: "lookupDevice (sys_store s1) (sb_Uid pod) k = lookupDevice (sys_store s2) (sb_Uid pod) k" by (intro IH(2)) simp
  have "lookupDevice (sys_store s1) q l = lookupDevice (sys_store s0) q l" if "q = sb_Uid pod \<longrightarrow> l \<notin> fst ` set (x # xs)" for q l
  proof -
    from that have "lookupDevice (sys_store s1) q l = lookupDevice (sys_store s2) q l" by (intro IH(2)) simp
    moreover from that 1 have "lookupDevice (sys_store s2) q l = lookupDevice (sys_store s0) q l" by (auto simp: onlyAt_def)
    ultimately show ?thesis by simp
  qed
  with IH(1) 1 k show ?case by simp
qed

lemma SetNetNS_store: "onStore (SetNetNS J p ns) s = (r, s') \<Longrightarrow> sys_store s' = putNetNS p ns (sys_store s)"
  by (auto simp: onStore_eq SetNetNS_def commit_def split: prod.splits)

lemma RunPodSandbox_store:
  assumes "wf_store (sys_store s)" and "GetPod (sb_Uid pod) (sys_store s) = Some podCfg"
    and "RunPodSandbox N J d pod s = (Inr (), s')"
  shows "(\<forall>(k, cfg)\<in>set (pod_devices podCfg). \<exists>cfg'. lookupDevice (sys_store s') (sb_Uid pod) k = Some cfg' \<and> ranDevice cfg cfg')
    \<and> (\<forall>q l. (q = sb_Uid pod \<longrightarrow> l \<notin> fst ` set (pod_devices podCfg)) \<longrightarrow> lookupDevice (sys_store s') q l = lookupDevice (sys_store s) q l)"
proof -
  let ?ns = "networkNamespace pod"
  let ?ready = "\<lambda>kubePod. if podUsesNetworkReadinessGate kubePod
      then mapErr (Wrapf ''set Pod network readiness'' []) (onW (setPodNetworkCondition N (pod_Namespace kubePod) (pod_Name kubePod)
        (pod_UID kubePod) ''True'' ''NetworkAttached'' ''All requested secondary networks are attached''))
      else ok ()"
  from assms(2,3) have ns: "?ns \<noteq> []" by (auto simp: RunPodSandbox_def gets_andThen Let_def)
  let ?body = "\<lambda>kubePod. if pod_UID kubePod \<noteq> sb_Uid pod then fail (Errorf ''Pod %s/%s UID changed'' [sb_Namespace pod, sb_Name pod])
      else seqE (forE (runDevice N J d pod kubePod ?ns) (pod_devices podCfg)) (?ready kubePod)"
  have "seqE (onStore (SetNetNS (jStore J) (sb_Uid pod) ?ns))
      (andThen (mapErr (Wrapf ''get Pod for network status'' []) (onW (kGetPod N (sb_Namespace pod) (sb_Name pod)))) ?body) s = (Inr (), s')"
    using assms(2,3) ns by (simp add: RunPodSandbox_def gets_andThen Let_def)
  then obtain u1 s1 kubePod s2 where 1: "onStore (SetNetNS (jStore J) (sb_Uid pod) ?ns) s = (Inr u1, s1)"
    and 2: "onW (kGetPod N (sb_Namespace pod) (sb_Name pod)) s1 = (Inr kubePod, s2)" and "?body kubePod s2 = (Inr (), s')"
    unfolding andThen_Inr mapErr_Inr by blast
  then have "seqE (forE (runDevice N J d pod kubePod ?ns) (pod_devices podCfg)) (?ready kubePod) s2 = (Inr (), s')"
    by (simp add: fail_def split: if_splits)
  then obtain u2 s3 where 3: "forE (runDevice N J d pod kubePod ?ns) (pod_devices podCfg) s2 = (Inr u2, s3)"
    and 4: "?ready kubePod s3 = (Inr (), s')"
    unfolding andThen_Inr by blast
  have look: "lookupDevice (sys_store s2) q l = lookupDevice (sys_store s) q l" for q l
    using SetNetNS_store [OF 1] 2 by (auto simp: onW_eq lookup_putNetNS)
  have dist: "distinct (map fst (pod_devices podCfg))" using assms(1,2) wf_store_pod by (auto simp: GetPod_def wf_pod_def)
  with assms(2) have mem: "lookupDevice (sys_store s2) (sb_Uid pod) k = Some cfg" if "(k, cfg) \<in> set (pod_devices podCfg)" for k cfg
    using that unfolding look by (simp add: lookupDevice_def)
  have "sys_store s' = sys_store s3" using 4 by (auto simp: onW_eq ok_def split: if_splits)
  with run_rounds [OF dist mem 3] show ?thesis by (simp add: look)
qed

end
