(* ===== verification/Driver_Claims.thy ===== *)
theory Driver_Claims
  imports Driver_Run Driver_Attach
begin

text \<open>The promises of the handlers of \<^verbatim>\<open>driver.go\<close>, with witnesses on the node of \<^verbatim>\<open>Node_Host\<close>.\<close>

section \<open>Sample driver\<close>

definition sample_codecs :: codecs where
  "sample_codecs = \<lparr>jStore = const_codec, jNetwork = (\<lambda>_. Inr no_network), jStatuses = (\<lambda>_. Inr []), jMarshalStatuses = (\<lambda>_. Inr ''[]''),
     jMarshalCDI = (\<lambda>_. Inr ''{}'')\<rparr>"

definition nic_drv :: drv where
  "nic_drv = sample_drv\<lparr>drv_cfg := \<lparr>cfg_DriverName = [], cfg_Interfaces = [], cfg_IPPools = [], cfg_DPDK = sample_dpdk\<lparr>dc_Enabled := False\<rparr>\<rparr>\<rparr>"

text \<open>A node whose card is in the namespace of a pod, under another name and with another MTU.\<close>

definition nic_pod :: "string \<Rightarrow> PodConfig" where
  "nic_pod attached = \<lparr>pcf_PodUID = ''pod-a-uid'', pcf_NetNS = ''/ns/pod'', pcf_Devices = Some [(''uid-a/eth1'', nic_device False attached)]\<rparr>"

definition nic_store :: "string \<Rightarrow> Store" where
  "nic_store attached = \<lparr>store_path = [], store_State = \<lparr>st_Pods = Some [(''pod-a-uid'', nic_pod attached)],
     st_IPAllocations = Some [(''uid-a'', \<lparr>ia_Pool = ''lan'', ia_Address = ''10.0.0.6/24'', ia_ClaimUID = ''uid-a'', ia_PodUID = ''pod-a-uid''\<rparr>)]\<rparr>\<rparr>"

definition nic_sys :: "string \<Rightarrow> node \<Rightarrow> node sys" where
  "nic_sys attached w = \<lparr>sys_store = nic_store attached, sys_fs = sample_fs [], sys_w = w, sys_ipPools = [], sys_dpdk = []\<rparr>"

abbreviation in_pod :: node where
  "in_pod \<equiv> nic_node 1 (nic\<lparr>lk_Name := ''net1'', lk_MTU := 9000\<rparr>) [] []"

definition nic_sandbox :: PodSandbox where
  "nic_sandbox = \<lparr>sb_Uid = ''pod-a-uid'', sb_Namespace = ''default'', sb_Name = ''pod-a'', sb_Namespaces = Some [(''network'', ''/ns/pod'')]\<rparr>"

lemma nic_sys_sel [simp]: "sys_store (nic_sys a w) = nic_store a" "sys_w (nic_sys a w) = w" "sys_fs (nic_sys a w) = sample_fs []"
  "sys_dpdk (nic_sys a w) = []" "pods (nic_store a) = [(''pod-a-uid'', nic_pod a)]" "PodConfigs (nic_store a) = [(''pod-a-uid'', nic_pod a)]"
  "pod_devices (nic_pod a) = [(''uid-a/eth1'', nic_device False a)]" "pcf_NetNS (nic_pod a) = ''/ns/pod''" "store_path (nic_store a) = []"
  by (simp_all add: nic_sys_def nic_store_def pods_def PodConfigs_def pod_devices_def nic_pod_def)

lemma nic_needs [simp]: "needsRestore (nic_device False a)" "dev_ClaimUID (nic_device r a) = ''uid-a''"
  "migratedKey k (nic_device r a) = ''uid-a/eth1''"
  by (simp_all add: needsRestore_def nic_device_def sample_device_def migratedKey_def deviceStoreKey_def)

lemma nic_wf: "wf_sys (nic_sys a w)"
  by (simp add: wf_sys_def dpdkNamed_def wf_store_def wf_pod_def ip_allocations_def)
    (simp add: nic_store_def nic_pod_def)

text \<open>Restoring the card of the sample node, and releasing its claim.\<close>

lemma nic_drv_sel [simp]: "cfg_Interfaces (drv_cfg nic_drv) = []" "dc_Enabled (cfg_DPDK (drv_cfg nic_drv)) = False"
  "drv_nodeName nic_drv = ''node-1''" "jStore sample_codecs = const_codec"
  by (simp_all add: nic_drv_def sample_drv_def sample_codecs_def)

lemma commit_mem [simp]: "store_path st = [] \<Longrightarrow> commit J st fs = (Inr (), st, fs)"
  by (simp add: commit_def persistLocked_def ok_def)

lemma putDevice_path [simp]: "store_path (putDevice p k c st) = store_path st"
  by (simp add: putDevice_def Let_def)

lemma nic_publish: "publish (node_host id) nic_drv s = onW (kcall (\<lambda>w. (Inr (), w\<lparr>kn_published := []\<rparr>))) s"
  by (simp add: publish_def publishDPDK_def node_eval)

abbreviation nic_home :: node where
  "nic_home \<equiv> nic_node 0 nic [nic_addr] []"

lemma no_claim [simp]: "onServer (serve id (sv_getClaim ns n)) (nic_node k l as f) = (Inl (ApiStatus NotFound n), nic_node k l as f)"
  by (simp add: onServer_def nic_node_def serve_calm sv_getClaim_def empty_server_def)

lemma no_pod_found [simp]: "onServer (serve id (sv_getPod ns n)) (nic_node k l as f) = (Inl (ApiStatus NotFound n), nic_node k l as f)"
  by (simp add: onServer_def nic_node_def serve_calm sv_getPod_def empty_server_def)

lemma node_claim_sel [simp]: "kGetClaim (node_host id) ns n = onServer (serve id (sv_getClaim ns n))" "kRetryOnConflict (node_host id) = retry_steps 3"
  "kList (node_host id) g = onServer (kList (server_kube id) g)"
  by (simp_all add: node_ops server_ops)

lemma nic_status [simp]: "setResourceClaimDeviceStatus (node_host id) cfg ready reason message hw (nic_node k l as f) =
    (Inl (ApiStatus NotFound (nn_Name (dev_Claim cfg))), nic_node k l as f)"
  by (simp add: setResourceClaimDeviceStatus_def andThen_def numeral_3_eq_3 IsConflict_def)

lemma nic_status_removed [simp]: "removeResourceClaimDeviceStatus (node_host id) d c (nic_node k l as f) = (Inr (), nic_node k l as f)"
  by (simp add: removeResourceClaimDeviceStatus_def andThen_def attempt_def numeral_3_eq_3 IsNotFound_def ok_def)

lemma nic_released [simp]: "DeleteForClaim (node_host id) u (nic_node k l as f) = (Inr (), nic_node k l as f)"
  by (simp add: DeleteForClaim_def andThen_def onServer_def serve_calm sv_list_def nic_node_def empty_server_def ok_def uniq_def)

lemma nic_published: "snd (publish (node_host id) nic_drv (s\<lparr>sys_w := nic_home\<rparr>)) = s\<lparr>sys_w := nic_home\<rparr>"
  by (simp add: nic_publish onW_def kcall_def nic_node_def)

lemma nic_restore_claim:
  "restoreClaimHostDevices (node_host id) sample_codecs nic_drv ''uid-a'' (nic_sys ''net1'' in_pod) =
     (Inr (), (nic_sys ''net1'' nic_home)\<lparr>sys_store := putDevice ''pod-a-uid'' ''uid-a/eth1'' (markRestored (nic_device False ''net1'')) (nic_store ''net1'')\<rparr>)"
  by (simp del: One_nat_def add: restoreClaimHostDevices_def getsE_def restoreStored_def andThen_def attempt_def onW_def nic_restored onStore_def SetDevice_def mapErr_def ignoreErr_def ok_def nic_publish errors_Join_def liftE_def)
    (simp add: kcall_def nic_node_def nic_sys_def)
lemma nic_unprepared:
  "\<exists>s'. unprepareClaim (node_host id) sample_codecs nic_drv \<lparr>no_Namespace = ''default'', no_Name = ''net-a'', no_UID = ''uid-a''\<rparr>
     (nic_sys ''net1'' in_pod) = (Inr (), s')"
  by (simp del: One_nat_def add: unprepareClaim_def andThen_def nic_restore_claim onW_def mapErr_def ok_def onStore_def DeleteClaim_def)

section \<open>The driver's life\<close>





section \<open>Release\<close>

text \<open>The sample cluster is calm: nobody allocates in between.\<close>

lemma node_release:
  "release_api (node_host id) (\<lambda>w. sv_tab (kn_server w)) (\<lambda>w w'. sv_rely id (kn_server w) (kn_server w')) u"
  by (rule release_api.intro [OF calm.nd.alloc_api_axioms]) (unfold_locales, simp add: calmq.quiet)

text \<open>C2: a successful unpreparation releases exactly the claim.  The store has lost the devices and the address of the claim and
  kept every other record as it was, and in the cluster the claim owns no address, provided the others do not allocate for it meanwhile.\<close>

theorem unprepareClaim_exact:
  assumes "release_api N tab rely (no_UID obj)" and "wf_sys s" and "unprepareClaim N J d obj s = (Inr (), s')"
  shows "lookupDevice (sys_store s') p k =
      (case lookupDevice (sys_store s) p k of Some cfg \<Rightarrow> if dev_ClaimUID cfg \<noteq> no_UID obj then Some cfg else None | None \<Rightarrow> None)
    \<and> AllocationForClaim v (sys_store s') = (if v = no_UID obj then None else AllocationForClaim v (sys_store s))
    \<and> no_UID obj \<notin> owners N (tab (sys_w s')) pool address"
proof -
  obtain s1 w w' x where st: "restoreClaimHostDevices N J d (no_UID obj) s = (Inr (), s1)"
    and del: "DeleteForClaim N (no_UID obj) w = (Inr x, w')" "sys_w s' = w'"
    and fin: "sys_store s' = forgetClaim (no_UID obj) (sys_store s1)"
    by (rule unprepareClaim_stages [OF assms(3)])
  from assms(2) have wf: "wf_store (sys_store s)" by (simp add: wf_sys_def)
  have wf1: "wf_store (sys_store s1)" using keepsRD [OF wf_restoreClaim st] assms(2) by (simp add: wf_sys_def)
  have "no_UID obj \<notin> owners N (tab (sys_w s')) pool address"
    using release_api.DeleteForClaim_release [OF assms(1) del(1)] del(2) by (fastforce simp: owners_def owned_by_def)
  with restoreClaim_store [OF wf st] lookup_forgetClaim [OF wf1] show ?thesis
    by (auto simp: fin AllocationForClaim_def forgetClaim_def split: option.split)
qed

theorem unprepareClaim_exact_witness:
  "\<exists>s'. unprepareClaim (node_host id) sample_codecs nic_drv \<lparr>no_Namespace = ''default'', no_Name = ''net-a'', no_UID = ''uid-a''\<rparr>
       (nic_sys ''net1'' in_pod) = (Inr (), s')
     \<and> lookupDevice (sys_store s') ''pod-a-uid'' ''uid-a/eth1'' = None \<and> AllocationForClaim ''uid-a'' (sys_store s') = None"
proof -
  obtain s' where u: "unprepareClaim (node_host id) sample_codecs nic_drv \<lparr>no_Namespace = ''default'', no_Name = ''net-a'', no_UID = ''uid-a''\<rparr>
       (nic_sys ''net1'' in_pod) = (Inr (), s')" using nic_unprepared by blast
  have l: "lookupDevice (nic_store ''net1'') ''pod-a-uid'' ''uid-a/eth1'' = Some (nic_device False ''net1'')"
    by (simp add: lookupDevice_def GetPod_def)
  from unprepareClaim_exact [OF node_release nic_wf u, of "''pod-a-uid''" "''uid-a/eth1''" "''uid-a''"] u l show ?thesis by auto
qed


lemma nic_stopped:
  "\<exists>s'. StopPodSandbox (node_host id) sample_codecs nic_drv nic_sandbox (nic_sys ''net1'' in_pod) = (Inr (), s')"
  by (simp del: One_nat_def add: StopPodSandbox_def restorePodHostDevices_def gets_andThen getsE_def restoreStored_def andThen_def
      attempt_def onW_def nic_restored onStore_def SetDevice_def mapErr_def ignoreErr_def ok_def nic_publish errors_Join_def liftE_def
      nic_sandbox_def GetPod_def networkNamespace_def gget_def reportRestored_def)


section \<open>Attachment\<close>

text \<open>C6: when the start of a pod's sandbox succeeds, every device prepared for the pod is recorded as injected (DPDK) or attached, and
  the records of other pods have not changed.  A device that already had an attachment keeps its record: nothing is done in the new
  namespace for it.\<close>

theorem RunPodSandbox_attaches:
  assumes "wf_sys s" and "RunPodSandbox N J d pod s = (Inr (), s')" and "lookupDevice (sys_store s) (sb_Uid pod) k = Some cfg"
  shows "(\<exists>cfg'. lookupDevice (sys_store s') (sb_Uid pod) k = Some cfg'
      \<and> (if nc_Type (dev_Network cfg) = ''dpdk'' then cfg' = cfg\<lparr>dev_LifecycleState := ''Injected''\<rparr>
         else if dev_AttachedIf cfg \<noteq> [] then cfg' = cfg
         else dev_LifecycleState cfg' = ''Attached'' \<and> dev_AttachedIf cfg' = nc_InterfaceName (dev_Network cfg')))
    \<and> (p \<noteq> sb_Uid pod \<longrightarrow> lookupDevice (sys_store s') p l = lookupDevice (sys_store s) p l)"
proof -
  from assms(3) obtain podCfg where g: "GetPod (sb_Uid pod) (sys_store s) = Some podCfg" "(k, cfg) \<in> set (pod_devices podCfg)"
    by (auto simp: lookupDevice_def split: option.splits dest: map_of_SomeD)
  from assms(1) have "wf_store (sys_store s)" by (simp add: wf_sys_def)
  note 1 = RunPodSandbox_store [OF this g(1) assms(2)]
  from bspec [OF conjunct1 [OF 1] g(2)] have "\<exists>cfg'. lookupDevice (sys_store s') (sb_Uid pod) k = Some cfg' \<and> ranDevice cfg cfg'" by simp
  with conjunct2 [OF 1] show ?thesis by (simp add: ranDevice_def)
qed

text \<open>A pod with a DPDK device, and a server that knows the pod and its claim.\<close>

definition pci_device :: DeviceConfig where
  "pci_device = sample_device\<lparr>dev_DeviceName := ''pci-0000-03-00-0'', dev_Network := no_network\<lparr>nc_Type := ''dpdk''\<rparr>\<rparr>"

definition pci_store :: Store where
  "pci_store = \<lparr>store_path = [], store_State = \<lparr>st_Pods = Some [(''pod-a-uid'', \<lparr>pcf_PodUID = ''pod-a-uid'', pcf_NetNS = [],
     pcf_Devices = Some [(''uid-a/pci-0000-03-00-0'', pci_device)]\<rparr>)], st_IPAllocations = Some []\<rparr>\<rparr>"

definition pci_sys :: "node sys" where
  "pci_sys = (nic_sys [] (nic_home\<lparr>kn_server := empty_server\<lparr>sv_claims := [sample_claim], sv_pods := [sample_pod]\<rparr>\<rparr>))\<lparr>sys_store := pci_store\<rparr>"

lemma pci_wf: "wf_sys pci_sys"
  by (simp add: pci_sys_def wf_sys_def dpdkNamed_def wf_store_def wf_pod_def ip_allocations_def pci_store_def pods_def pod_devices_def
      pci_device_def sample_device_def migratedKey_def deviceStoreKey_def)

lemma pci_run: "\<exists>s'. RunPodSandbox (node_host id) sample_codecs nic_drv nic_sandbox pci_sys = (Inr (), s')"
  by (simp add: RunPodSandbox_def pci_sys_def getsE_def andThen_def GetPod_def pci_store_def pods_def nic_sandbox_def networkNamespace_def gget_def
    onStore_def SetNetNS_def putNetNS_def mapErr_def onW_def onServer_def serve_calm sv_getPod_def sample_pod_def pod_devices_def ok_def Let_def
     runDevice_def pci_device_def runDPDK_def SetDevice_def setResourceClaimDeviceStatus_def sv_getClaim_def numeral_3_eq_3 sample_claim_def sample_device_def
     setPodNetworkStatus_def sv_updateClaimStatus_def liftE_def sv_updatePod_def sample_codecs_def podUsesNetworkReadinessGate_def Contains_def)

theorem RunPodSandbox_attaches_witness:
  "\<exists>s'. RunPodSandbox (node_host id) sample_codecs nic_drv nic_sandbox pci_sys = (Inr (), s')
     \<and> lookupDevice (sys_store s') ''pod-a-uid'' ''uid-a/pci-0000-03-00-0'' = Some (pci_device\<lparr>dev_LifecycleState := ''Injected''\<rparr>)"
proof -
  obtain s' where r: "RunPodSandbox (node_host id) sample_codecs nic_drv nic_sandbox pci_sys = (Inr (), s')" using pci_run by blast
  have l: "lookupDevice (sys_store pci_sys) (sb_Uid nic_sandbox) ''uid-a/pci-0000-03-00-0'' = Some pci_device"
    by (simp add: pci_sys_def pci_store_def lookupDevice_def GetPod_def pods_def pod_devices_def nic_sandbox_def)
  from RunPodSandbox_attaches [OF pci_wf r l] r show ?thesis by (simp add: nic_sandbox_def pci_device_def no_network_def)
qed

end
