(* ===== verification/Commands.thy ===== *)
theory Commands
  imports Driver_Run Reconciler
begin

text \<open>
  The two binaries under \<^verbatim>\<open>cmd\<close>: \<^verbatim>\<open>linux-net-dra\<close>, which loads the configuration, builds the clients,
  starts the driver and serves until a signal comes, and \<^verbatim>\<open>linux-net-controller\<close>, which runs the
  reconciliation loop while it holds the election Lease.  Flag parsing is the choice of the flag values;
  client-go, the node utilities and the NRI stub are fields of a record.
\<close>

section \<open>Calls\<close>

record ('w, 'r, 'c, 'd) machine =
  mUnmarshalConfig :: "string \<Rightarrow> goerr + Config"
  mGetHostname :: "string \<Rightarrow> goerr + string"
  mHostname :: "goerr + string"
  mGetenv :: "string \<Rightarrow> string"
  mInClusterConfig :: "goerr + 'r"
  mBuildConfigFromFlags :: "string \<Rightarrow> string \<Rightarrow> goerr + 'r"
  mNewForConfig :: "'r \<Rightarrow> goerr + 'c"
  mDynamicForConfig :: "'r \<Rightarrow> goerr + 'd"
  mStubStop :: "('w, unit) eff"

text \<open>Both binaries prefer an explicit kubeconfig to the configuration of the cluster they run in.\<close>

definition kubeConfig :: "('w, 'r, 'c, 'd) machine \<Rightarrow> string \<Rightarrow> goerr + 'r" where
  "kubeConfig M kubeconfig = (if kubeconfig \<noteq> [] then mBuildConfigFromFlags M [] kubeconfig else mInClusterConfig M)"

definition kubeClients :: "('w, 'r, 'c, 'd) machine \<Rightarrow> string \<Rightarrow> goerr + 'c \<times> 'd" where
  "kubeClients M kubeconfig =
     (case kubeConfig M kubeconfig of
        Inl err \<Rightarrow> Inl (Wrapf ''create kube config'' [] err)
      | Inr restCfg \<Rightarrow>
          (case mNewForConfig M restCfg of
             Inl err \<Rightarrow> Inl (Wrapf ''create kube client'' [] err)
           | Inr client \<Rightarrow>
               (case mDynamicForConfig M restCfg of
                  Inl err \<Rightarrow> Inl (Wrapf ''create dynamic kube client'' [] err)
                | Inr dynamicClient \<Rightarrow> Inr (client, dynamicClient))))"

section \<open>The driver binary\<close>

record draFlags =
  df_kubeconfig :: string
  df_config :: string
  df_driverName :: string
  df_nodeName :: string
  df_hostnameOverride :: string
  df_bindAddress :: string
  df_stateFile :: string
  df_kubeletPlugins :: string
  df_kubeletRegistry :: string

definition draDefaults :: draFlags where
  "draDefaults = \<lparr>df_kubeconfig = [], df_config = ''/etc/linux-net-dra/config.json'', df_driverName = DefaultDriverName,
     df_nodeName = [], df_hostnameOverride = [], df_bindAddress = '':9178'', df_stateFile = ''/var/run/linux-net-dra/state.json'',
     df_kubeletPlugins = [], df_kubeletRegistry = []\<rparr>"

definition draNodeName :: "('w, 'r, 'c, 'd) machine \<Rightarrow> draFlags \<Rightarrow> goerr + string" where
  "draNodeName M fl = (if df_nodeName fl = [] then mGetHostname M (df_hostnameOverride fl) else Inr (df_nodeName fl))"

definition draOptions :: "('w, 'r, 'c, 'd) machine \<Rightarrow> draFlags \<Rightarrow> fsys \<Rightarrow> goerr + Options" where
  "draOptions M fl fs =
     (case Load (os_ReadFile fs (df_config fl)) (mUnmarshalConfig M) of
        Inl err \<Rightarrow> Inl (Wrapf ''load config'' [] err)
      | Inr cfg \<Rightarrow>
          (case draNodeName M fl of
             Inl err \<Rightarrow> Inl (Wrapf ''resolve node name'' [] err)
           | Inr nodeName \<Rightarrow>
               (case kubeClients M (df_kubeconfig fl) of
                  Inl err \<Rightarrow> Inl err
                | Inr _ \<Rightarrow>
                    Inr \<lparr>opt_NodeName = nodeName, opt_DriverName = or_default (df_driverName fl) (cfg_DriverName cfg),
                      opt_KubeletPluginsDir = df_kubeletPlugins fl, opt_KubeletRegistrationDir = df_kubeletRegistry fl,
                      opt_StateFile = df_stateFile fl, opt_Config = Some cfg, opt_DynamicClient = True\<rparr>)))"

text \<open>The process: ended by \<^verbatim>\<open>klog.Fatalf\<close> before it is ready, waiting for a signal, or ended by one.\<close>

datatype 'w draProcess = Fatal goerr fsys 'w | Serving drv "'w sys" | Stopped fsys 'w

definition draMain :: "('w, 'z) host_scheme \<Rightarrow> ('w, 'r, 'c, 'd) machine \<Rightarrow> codecs \<Rightarrow> draFlags \<Rightarrow> fsys \<Rightarrow> 'w \<Rightarrow> 'w draProcess" where
  "draMain N M J fl fs w =
     (case draOptions M fl fs of
        Inl err \<Rightarrow> Fatal err fs w
      | Inr opts \<Rightarrow>
          (case Start N J opts fs w of
             (Inl err, fs1, w1) \<Rightarrow> Fatal (Wrapf ''start driver'' [] err) fs1 w1
           | (Inr (d, s), _, _) \<Rightarrow> Serving d s))"

text \<open>\<^verbatim>\<open>Stop\<close> of a driver that \<^verbatim>\<open>Start\<close> has returned, whose stub and helper are not nil; neither call reports an error.\<close>

definition Stop :: "('w, 'z) host_scheme \<Rightarrow> ('w, 'r, 'c, 'd) machine \<Rightarrow> 'w sys \<Rightarrow> 'w sys" where
  "Stop N M s = snd (seqE (ignoreErr (onW (mStubStop M))) (onW (hStopPlugin N)) s)"

datatype draEvent = Call driver_event | Signal

fun draStep :: "('w, 'z) host_scheme \<Rightarrow> ('w, 'r, 'c, 'd) machine \<Rightarrow> codecs \<Rightarrow> draEvent \<Rightarrow> 'w draProcess \<Rightarrow> 'w draProcess" where
  "draStep N M J (Call ev) (Serving d s) = Serving d (handle N J d ev s)"
| "draStep N M J Signal (Serving d s) = (let s1 = Stop N M s in Stopped (sys_fs s1) (sys_w s1))"
| "draStep N M J _ p = p"

definition draRun ::
  "('w, 'z) host_scheme \<Rightarrow> ('w, 'r, 'c, 'd) machine \<Rightarrow> codecs \<Rightarrow> draFlags \<Rightarrow> draEvent list \<Rightarrow> fsys \<Rightarrow> 'w \<Rightarrow> 'w draProcess" where
  "draRun N M J fl events fs w = fold (draStep N M J) events (draMain N M J fl fs w)"

fun draWorld :: "'w draProcess \<Rightarrow> 'w" where
  "draWorld (Fatal err fs w) = w"
| "draWorld (Serving d s) = sys_w s"
| "draWorld (Stopped fs w) = w"

text \<open>The health endpoint answers before the driver has started: \<^verbatim>\<open>ready\<close> is set when \<^verbatim>\<open>Start\<close> has returned.\<close>

definition draHealthz :: "bool \<Rightarrow> nat \<times> string" where
  "draHealthz ready = (if \<not> ready then (503, []) else (200, ''ok'' @ [CHR 0x0A]))"

section \<open>The controller binary\<close>

record controllerFlags =
  cf_kubeconfig :: string
  cf_bindAddress :: string
  cf_interval :: int
  cf_leaderElect :: bool
  cf_leaseName :: string
  cf_leaseNamespace :: string
  cf_identity :: string
  cf_leaseDuration :: int
  cf_renewDeadline :: int
  cf_retryPeriod :: int
  cf_healthTimeout :: int

definition envOrDefault :: "('w, 'r, 'c, 'd) machine \<Rightarrow> string \<Rightarrow> string \<Rightarrow> string" where
  "envOrDefault M name fallback = (let value = mGetenv M name in if value \<noteq> [] then value else fallback)"

definition Second :: int where
  "Second = 1000000000"

definition controllerDefaults :: "('w, 'r, 'c, 'd) machine \<Rightarrow> controllerFlags" where
  "controllerDefaults M = \<lparr>cf_kubeconfig = [], cf_bindAddress = '':9179'', cf_interval = 30 * Second, cf_leaderElect = True,
     cf_leaseName = ''linux-net-dra-controller'', cf_leaseNamespace = envOrDefault M ''POD_NAMESPACE'' ''kube-system'',
     cf_identity = envOrDefault M ''POD_NAME'' [], cf_leaseDuration = 15 * Second, cf_renewDeadline = 10 * Second,
     cf_retryPeriod = 2 * Second, cf_healthTimeout = 20 * Second\<rparr>"

definition leaderIdentity :: "('w, 'r, 'c, 'd) machine \<Rightarrow> controllerFlags \<Rightarrow> goerr + string" where
  "leaderIdentity M fl =
     (if cf_identity fl = []
      then (case mHostname M of Inl err \<Rightarrow> Inl (Wrapf ''resolve leader election identity'' [] err) | Inr h \<Rightarrow> Inr h)
      else Inr (cf_identity fl))"

record LeaderElectionConfig =
  le_LockName :: string
  le_LockNamespace :: string
  le_LockIdentity :: string
  le_LeaseDuration :: int
  le_RenewDeadline :: int
  le_RetryPeriod :: int
  le_ReleaseOnCancel :: bool
  le_Name :: string

definition electionConfig :: "controllerFlags \<Rightarrow> string \<Rightarrow> LeaderElectionConfig" where
  "electionConfig fl identity = \<lparr>le_LockName = cf_leaseName fl, le_LockNamespace = cf_leaseNamespace fl, le_LockIdentity = identity,
     le_LeaseDuration = cf_leaseDuration fl, le_RenewDeadline = cf_renewDeadline fl, le_RetryPeriod = cf_retryPeriod fl,
     le_ReleaseOnCancel = True, le_Name = ''linux-net-dra-controller''\<rparr>"

definition controllerBoot :: "('w, 'r, 'c, 'd) machine \<Rightarrow> controllerFlags \<Rightarrow> goerr + LeaderElectionConfig \<times> Controller" where
  "controllerBoot M fl =
     (case leaderIdentity M fl of
        Inl err \<Rightarrow> Inl err
      | Inr identity \<Rightarrow>
          (case kubeClients M (cf_kubeconfig fl) of
             Inl err \<Rightarrow> Inl err
           | Inr (client, dynamicClient) \<Rightarrow>
               (case New (Some client) (Some dynamicClient) (cf_interval fl) of
                  Inl err \<Rightarrow> Inl (Wrapf ''create controller'' [] err)
                | Inr reconciler \<Rightarrow> Inr (electionConfig fl identity, reconciler))))"

text \<open>
  What happens to the process while it waits: a signal, the return of the health server, the callbacks of the
  elector, a tick of the reconciliation loop, and the loop seeing that its context is done.
\<close>

datatype controllerEvent = Terminate | HealthServerReturned "goerr option" | StartedLeading | Tick | LoopDone | StoppedLeading

definition ErrServerClosed :: goerr where
  "ErrServerClosed = Errorf ''http: Server closed'' []"

text \<open>The events that call \<^verbatim>\<open>cancel\<close>; without leader election the loop runs under the same context.\<close>

fun cancels :: "controllerEvent \<Rightarrow> bool" where
  "cancels Terminate = True"
| "cancels (HealthServerReturned err) = (err \<noteq> None \<and> err \<noteq> Some ErrServerClosed)"
| "cancels _ = False"

record 'w controllerState =
  cs_ctxDone :: bool
  cs_lostLeadership :: bool
  cs_looping :: bool
  cs_w :: 'w

definition OnStartedLeading :: "('w, 'z) kube_scheme \<Rightarrow> 'w controllerState \<Rightarrow> 'w controllerState" where
  "OnStartedLeading K st = st\<lparr>cs_looping := True, cs_w := snd (Reconcile K (cs_w st))\<rparr>"

definition OnStoppedLeading :: "'w controllerState \<Rightarrow> 'w controllerState" where
  "OnStoppedLeading st = (if \<not> cs_ctxDone st then st\<lparr>cs_lostLeadership := True, cs_ctxDone := True\<rparr> else st)"

fun controllerStep :: "('w, 'z) kube_scheme \<Rightarrow> ('w \<Rightarrow> 'w) \<Rightarrow> controllerEvent \<Rightarrow> 'w controllerState \<Rightarrow> 'w controllerState" where
  "controllerStep K idle StartedLeading st = OnStartedLeading K st"
| "controllerStep K idle Tick st = (if cs_looping st then st\<lparr>cs_w := snd (Reconcile K (idle (cs_w st)))\<rparr> else st)"
| "controllerStep K idle LoopDone st = st\<lparr>cs_looping := False\<rparr>"
| "controllerStep K idle StoppedLeading st = OnStoppedLeading st"
| "controllerStep K idle ev st = (if cancels ev then st\<lparr>cs_ctxDone := True\<rparr> else st)"

text \<open>\<^verbatim>\<open>RunOrDie\<close> returns when the elector has called \<^verbatim>\<open>OnStoppedLeading\<close>; the flag says whether it has.\<close>

fun runElected :: "('w, 'z) kube_scheme \<Rightarrow> ('w \<Rightarrow> 'w) \<Rightarrow> controllerEvent list \<Rightarrow> 'w controllerState \<Rightarrow> bool \<times> 'w controllerState" where
  "runElected K idle [] st = (False, st)"
| "runElected K idle (ev # events) st =
     (if ev = StoppedLeading then (True, controllerStep K idle ev st) else runElected K idle events (controllerStep K idle ev st))"

text \<open>Without an election there are no callbacks, and the loop returns nil when it sees that the context is done, and only then.\<close>

fun runAlone :: "('w, 'z) kube_scheme \<Rightarrow> ('w \<Rightarrow> 'w) \<Rightarrow> controllerEvent list \<Rightarrow> 'w controllerState \<Rightarrow> bool \<times> 'w controllerState" where
  "runAlone K idle [] st = (False, st)"
| "runAlone K idle (ev # events) st =
     (if ev = LoopDone \<and> cs_ctxDone st then (True, st)
      else runAlone K idle events (if ev = Tick \<or> cancels ev then controllerStep K idle ev st else st))"

text \<open>The exit status, \<open>None\<close> while the process runs, and the cluster; \<^verbatim>\<open>klog.Fatalf\<close> exits with 255.\<close>

definition controllerMain ::
  "('w, 'z) kube_scheme \<Rightarrow> ('w, 'r, 'c, 'd) machine \<Rightarrow> ('w \<Rightarrow> 'w) \<Rightarrow> controllerFlags \<Rightarrow> controllerEvent list \<Rightarrow> 'w \<Rightarrow> nat option \<times> 'w" where
  "controllerMain K M idle fl events w =
     (case controllerBoot M fl of
        Inl err \<Rightarrow> (Some 255, w)
      | Inr _ \<Rightarrow>
          (let st0 = \<lparr>cs_ctxDone = False, cs_lostLeadership = False, cs_looping = False, cs_w = w\<rparr>;
               (returned, st) = (if cf_leaderElect fl then runElected K idle events st0
                                 else runAlone K idle events (OnStartedLeading K st0))
           in (if returned then Some (if cs_lostLeadership st then 1 else 0) else None, cs_w st)))"

definition controllerHealthz :: "bool \<Rightarrow> goerr option \<Rightarrow> (goerr \<Rightarrow> string) \<Rightarrow> nat \<times> string" where
  "controllerHealthz leaderElect watchdogCheck errText =
     (case (if leaderElect then watchdogCheck else None) of
        Some err \<Rightarrow> (500, errText err @ [CHR 0x0A])
      | None \<Rightarrow> (200, ''ok'' @ [CHR 0x0A]))"

end
