(* ===== verification/Command_Props.thy ===== *)
theory Command_Props
  imports Commands Driver_Claims
begin

text \<open>
  Properties of the binaries: what holds of a driver that reports itself ready, that the kubelet plugin is
  registered while the driver serves and at no other time, the exit status of the controller, and that a
  controller that does not lead leaves the cluster alone.
\<close>

section \<open>Registration\<close>

text \<open>The calls of the start and stop of the driver, as seen by the kubelet: \<open>reg\<close> says that the plugin is registered.\<close>

locale plugin_api =
  fixes N :: "('w, 'z) host_scheme" and reg :: "'w \<Rightarrow> bool"
  assumes list_reg: "keepsR (\<lambda>w w'. reg w' = reg w) (kList N g)"
    and link_reg: "keepsR (\<lambda>w w'. reg w' = reg w) (nLinkByName N n)"
    and publish_reg: "keepsR (\<lambda>w w'. reg w' = reg w) (hPublishResources N pools)"
    and stub_reg: "keepsR (\<lambda>w w'. reg w' = reg w) (hNewStub N name idx)"
    and start_reg: "hStartPlugin N driver node path dir w = (Inr u, w') \<Longrightarrow> reg w'"
    and start_fails: "hStartPlugin N driver node path dir w = (Inl e, w') \<Longrightarrow> reg w' = reg w"
    and stop_reg: "\<not> reg (snd (hStopPlugin N w))"

sublocale plugin_api \<subseteq> regs: state_order "\<lambda>s s'. reg (sys_w s') = reg (sys_w s)"
  by unfold_locales auto

context plugin_api
begin

lemma onW_reg: "keepsR (\<lambda>w w'. reg w' = reg w) m \<Longrightarrow> keepsR (\<lambda>s s'. reg (sys_w s') = reg (sys_w s)) (onW m)"
  by (rule keeps_onW [where Rw = "\<lambda>w w'. reg w' = reg w"]) simp_all

lemma onFs_reg: "keepsR (\<lambda>s s'. reg (sys_w s') = reg (sys_w s)) (onFs m)"
  by (rule keeps_onFs) simp

lemma setDPDK_reg: "keepsR (\<lambda>s s'. reg (sys_w s') = reg (sys_w s)) (modifyE (\<lambda>s. s\<lparr>sys_dpdk := ds\<rparr>))"
  by (rule regs.keeps_modifyE) simp

lemma publish_keeps: "keepsR (\<lambda>s s'. reg (sys_w s') = reg (sys_w s)) (publish N d)"
  unfolding publish_def publishInterface_def publishDPDK_def
  by (intro onW_reg link_reg publish_reg setDPDK_reg regs.keeps_rules)

lemma reload_keeps: "keepsR (\<lambda>s s'. reg (sys_w s') = reg (sys_w s)) (\<lambda>s. (Inr (), reloadIPPools N d s))"
  using list_reg by (auto simp: keepsR_def reloadIPPools_def split: prod.split sum.split) (metis snd_conv)+

text \<open>What follows the registration either succeeds and keeps it or withdraws it.\<close>

lemma onError_stop:
  assumes "keepsR (\<lambda>s s'. reg (sys_w s') = reg (sys_w s)) m" and "onError (onW (hStopPlugin N)) m s = (r, s')" and "reg (sys_w s)"
  shows "reg (sys_w s') \<longleftrightarrow> (\<exists>x. r = Inr x)"
proof -
  obtain q s1 where m: "m s = (q, s1)" by fastforce
  from keepsRD [OF assms(1) m] assms(2,3) m stop_reg [of "sys_w s1"] show ?thesis
    by (cases q) (auto simp: onError_def onW_def split: prod.splits)
qed

lemma bringUp_reg:
  assumes "bringUp N opts d s = (r, s')" and "\<not> reg (sys_w s)"
  shows "reg (sys_w s') \<longleftrightarrow> (\<exists>x. r = Inr x)"
proof -
  define path where "path = filepath_Join [or_default (opt_KubeletPluginsDir opts) (hKubeletPluginsDir N), drv_driverName d]"
  define prep where "prep = seqE (\<lambda>s. (Inr (), reloadIPPools N d s)) (mapErr (Wrapf ''create plugin path %s'' [path]) (onFs (MkdirAll path)))"
  define start where "start = mapErr (Wrapf ''start kubelet plugin'' []) (onW (hStartPlugin N (drv_driverName d) (drv_nodeName d) path
      (or_default (opt_KubeletRegistrationDir opts) (hKubeletRegistryDir N))))"
  define rest where "rest = seqE (publish N d) (mapErr (Wrapf ''create NRI stub'' []) (onW (hNewStub N (drv_driverName d) ''00'')))"
  have b: "bringUp N opts d s = seqE prep (seqE start (onError (onW (hStopPlugin N)) rest)) s"
    by (simp add: bringUp_def Let_def path_def prep_def start_def rest_def andThen_def split: prod.split sum.split)
  have kp: "keepsR (\<lambda>s s'. reg (sys_w s') = reg (sys_w s)) prep" and kr: "keepsR (\<lambda>s s'. reg (sys_w s') = reg (sys_w s)) rest"
    unfolding prep_def rest_def by (intro reload_keeps onFs_reg onW_reg stub_reg publish_keeps regs.keeps_rules)+
  obtain p s1 where p: "prep s = (p, s1)" by fastforce
  obtain q s2 where q: "start s1 = (q, s2)" by fastforce
  have n1: "\<not> reg (sys_w s1)" using keepsRD [OF kp p] assms(2) by simp
  have "reg (sys_w s2) \<longleftrightarrow> (\<exists>x. q = Inr x)"
    using q n1 start_reg start_fails unfolding start_def mapErr_def onW_def by (auto split: prod.splits sum.splits)
  with assms b p q n1 onError_stop [OF kr, of s2] show ?thesis
    by (cases p; cases q) (auto simp: andThen_def)
qed

lemma Start_reg:
  assumes "Start N J opts fs w = (r, fs', w')" and "\<not> reg w"
  shows "reg w' \<longleftrightarrow> (\<exists>x. r = Inr x)" and "r = Inr (d, s) \<Longrightarrow> sys_w s = w'"
  using assms by (auto simp: Start_def Let_def split: option.splits if_splits prod.splits sum.splits dest!: bringUp_reg)

lemma draMain_reg:
  assumes "\<not> reg w"
  shows "reg (draWorld (draMain N M J fl fs w)) \<longleftrightarrow> (\<exists>d s. draMain N M J fl fs w = Serving d s)"
  using Start_reg [OF _ assms] assms unfolding draMain_def
  by (auto split: sum.splits prod.splits)

lemma Stop_reg: "\<not> reg (sys_w (Stop N M s))"
  using stop_reg by (simp add: Stop_def andThen_def ignoreErr_def onW_def split: prod.split) (metis snd_conv)

lemma draSteps_reg:
  assumes "\<not> (\<exists>d s. p = Serving d s) \<Longrightarrow> \<not> reg (draWorld p)" and "\<not> (\<exists>d s. fold (draStep N M J) events p = Serving d s)"
  shows "\<not> reg (draWorld (fold (draStep N M J) events p))"
  using assms
proof (induction events arbitrary: p)
  case (Cons ev events)
  have "\<not> reg (draWorld (draStep N M J ev p))" if "\<not> (\<exists>d s. draStep N M J ev p = Serving d s)"
    using that Cons.prems(1) Stop_reg by (cases "(N, M, J, ev, p)" rule: draStep.cases) (auto simp: Let_def)
  with Cons show ?case by simp
qed simp

end

text \<open>The sample node keeps a flag for the registration.\<close>

lemma kcall_registered: "(\<And>v. kn_registered (snd (m v)) = kn_registered v) \<Longrightarrow> keepsR (\<lambda>w w'. kn_registered w' = kn_registered w) (kcall m)"
  by (simp add: keepsR_def kcall_def split: list.split option.split)

interpretation plg: plugin_api "node_host env" kn_registered for env
proof
  show "keepsR (\<lambda>w w'. kn_registered w' = kn_registered w) (kList (node_host env) g)" for g
    by (simp add: keepsR_def onServer_def split: prod.split)
  show "keepsR (\<lambda>w w'. kn_registered w' = kn_registered w) (nLinkByName (node_host env) n)" for n
    by (simp, rule kcall_registered) (simp add: k_LinkByName_def split: option.split)
  show "keepsR (\<lambda>w w'. kn_registered w' = kn_registered w) (hPublishResources (node_host env) pools)" for pools
    by (simp, rule kcall_registered) simp
  show "keepsR (\<lambda>w w'. kn_registered w' = kn_registered w) (hNewStub (node_host env) name idx)" for name idx
    by (simp, rule kcall_registered) (simp add: ok_def)
qed (auto simp: kcall_def split: list.splits option.splits)

section \<open>The driver binary\<close>

lemma devicesOf_named:
  assumes "(n, ifc) \<in> set (devicesOf cfg)"
  shows "ifc \<in> set (cfg_Interfaces cfg) \<and> n = deviceName (ic_Name ifc)"
proof -
  have "set (fold (\<lambda>ifc ds. gput (deviceName (ic_Name ifc)) ifc ds) ifs ds)
      \<subseteq> (\<lambda>ifc. (deviceName (ic_Name ifc), ifc)) ` set ifs \<union> set ds" for ifs ds
  proof (induction ifs arbitrary: ds)
    case (Cons i ifs)
    from Cons [of "gput (deviceName (ic_Name i)) i ds"] set_gput [of "deviceName (ic_Name i)" i ds] show ?case by auto
  qed simp
  from this [of "cfg_Interfaces cfg" "[]"] assms show ?thesis by (auto simp: devicesOf_def)
qed

lemma draMain_Serving:
  assumes "draMain N M J fl fs w = Serving d s"
  obtains c0 cfg node where "finishConfig c0 = Inr cfg" and "draNodeName M fl = Inr node"
    and "d = \<lparr>drv_nodeName = node, drv_driverName = or_default (or_default (df_driverName fl) (cfg_DriverName cfg)) DefaultDriverName,
        drv_cfg = cfg, drv_devices = devicesOf cfg\<rparr>"
proof -
  from assms obtain opts fs1 w1 where o: "draOptions M fl fs = Inr opts" and st: "Start N J opts fs w = (Inr (d, s), fs1, w1)"
    by (auto simp: draMain_def split: sum.splits prod.splits)
  from o obtain cfg node where l: "Load (os_ReadFile fs (df_config fl)) (mUnmarshalConfig M) = Inr cfg" and n: "draNodeName M fl = Inr node"
    and opts: "opt_NodeName opts = node" "opt_DriverName opts = or_default (df_driverName fl) (cfg_DriverName cfg)" "opt_Config opts = Some cfg"
    by (auto simp: draOptions_def split: sum.splits)
  from st opts have d: "d = \<lparr>drv_nodeName = node, drv_driverName = or_default (or_default (df_driverName fl) (cfg_DriverName cfg)) DefaultDriverName,
        drv_cfg = cfg, drv_devices = devicesOf cfg\<rparr>"
    by (auto simp: Start_def Let_def split: if_splits prod.splits sum.splits)
  from l show thesis by (rule Load_finish) (rule that [OF _ n d])
qed

text \<open>A driver that reports itself ready runs on a well-formed configuration and under a node name; its own name is the flag's, or the
  configuration's when the flag is empty, and is not empty; and each device it serves is an interface of the
  configuration under the name derived from it.  The hypothesis on the node utility is that it gives no empty name.\<close>

theorem draMain_ready:
  assumes "\<And>name. mGetHostname M (df_hostnameOverride fl) = Inr name \<Longrightarrow> name \<noteq> []" and "draMain N M J fl fs w = Serving d s"
  shows "wf_config (drv_cfg d) \<and> drv_nodeName d \<noteq> [] \<and> drv_driverName d \<noteq> [] \<and>
    drv_driverName d = (if df_driverName fl \<noteq> [] then df_driverName fl else cfg_DriverName (drv_cfg d)) \<and>
    (\<forall>(n, ifc) \<in> set (drv_devices d). wf_interface ifc \<and> n = deviceName (ic_Name ifc))"
  using assms(2)
proof (rule draMain_Serving)
  fix c0 cfg node
  assume c: "finishConfig c0 = Inr cfg" and n: "draNodeName M fl = Inr node"
    and d: "d = \<lparr>drv_nodeName = node, drv_driverName = or_default (or_default (df_driverName fl) (cfg_DriverName cfg)) DefaultDriverName,
        drv_cfg = cfg, drv_devices = devicesOf cfg\<rparr>"
  from c have wf: "wf_config cfg" by (rule finishConfig_wf)
  then have ifs: "\<forall>ifc \<in> set (cfg_Interfaces cfg). wf_interface ifc" and name: "cfg_DriverName cfg \<noteq> []" by (simp_all add: wf_config_def)
  from n assms(1) have node: "node \<noteq> []" by (auto simp: draNodeName_def split: if_splits)
  have dev: "\<forall>(n, ifc) \<in> set (devicesOf cfg). wf_interface ifc \<and> n = deviceName (ic_Name ifc)"
    using ifs by (auto dest!: devicesOf_named)
  from wf name node dev show ?thesis by (simp add: d or_default_def)
qed

text \<open>C23: the plugin is registered with the kubelet when the driver reports itself ready, and at no time when the process is gone: a start that fails after the
  registration withdraws it, and a signal withdraws it whatever calls were served in between.\<close>

theorem draRun_registered:
  assumes "plugin_api N reg" and "\<not> reg w"
  shows "(case draMain N M J fl fs w of Serving d s \<Rightarrow> reg (sys_w s) | _ \<Rightarrow> True) \<and>
    (case draRun N M J fl events fs w of Serving d s \<Rightarrow> True | Fatal err fs' w' \<Rightarrow> \<not> reg w' | Stopped fs' w' \<Rightarrow> \<not> reg w')"
proof -
  note main = plugin_api.draMain_reg [OF assms, of M J fl fs]
  have run: "\<not> reg (draWorld (draRun N M J fl events fs w))" if "\<not> (\<exists>d s. draRun N M J fl events fs w = Serving d s)"
    unfolding draRun_def by (rule plugin_api.draSteps_reg [OF assms(1)]) (use main that in \<open>auto simp: draRun_def\<close>)
  show ?thesis using main run by (auto split: draProcess.split)
qed

text \<open>A sample process, on the sample node.\<close>

definition sample_machine :: "(node, unit, unit, unit) machine" where
  "sample_machine = \<lparr>mUnmarshalConfig = (\<lambda>_. Inr (drv_cfg nic_drv)), mGetHostname = (\<lambda>_. Inr ''node-1''), mHostname = Inr ''host-1'',
     mGetenv = (\<lambda>_. []), mInClusterConfig = Inr (), mBuildConfigFromFlags = (\<lambda>_ _. Inr ()), mNewForConfig = (\<lambda>_. Inr ()),
     mDynamicForConfig = (\<lambda>_. Inr ()), mStubStop = ok ()\<rparr>"

definition sample_flags :: draFlags where
  "sample_flags = draDefaults\<lparr>df_config := ''/run/config'', df_stateFile := ''/run/state'', df_driverName := [], df_kubeletPlugins := ''/run''\<rparr>"

abbreviation config_fs :: fsys where
  "config_fs \<equiv> put_node [''run'', ''config''] (FFile ''{}'') (sample_fs [])"

abbreviation sample_loaded :: Config where
  "sample_loaded \<equiv> (drv_cfg nic_drv)\<lparr>cfg_DriverName := DefaultDriverName\<rparr>"

abbreviation sample_options :: Options where
  "sample_options \<equiv> \<lparr>opt_NodeName = ''node-1'', opt_DriverName = DefaultDriverName, opt_KubeletPluginsDir = ''/run'',
     opt_KubeletRegistrationDir = [], opt_StateFile = ''/run/state'', opt_Config = Some sample_loaded, opt_DynamicClient = True\<rparr>"

lemma sample_paths:
  "path_comps ''/run/config'' = [''run'', ''config'']" "path_comps ''/run/state'' = [''run'', ''state'']"
  "filepath_Join [''/run'', DefaultDriverName] = ''/run/linux-net.dra.infinitydon.com''"
  "path_comps ''/run/linux-net.dra.infinitydon.com'' = [''run'', DefaultDriverName]"
  by (simp_all add: path_comps_def filepath_Join_def comps_path_def DefaultDriverName_def)

lemma sample_read:
  "os_ReadFile config_fs ''/run/config'' = Inr ''{}''" "os_ReadFile config_fs ''/run/state'' = Inl (PathError ErrNotExist ''/run/state'')"
  by (simp_all add: os_ReadFile_def resolve_def sample_paths node_at_def put_node_def sample_fs_def numeral_eq_Suc)

lemma sample_opts: "draOptions sample_machine sample_flags config_fs = Inr sample_options"
  by (simp add: draOptions_def sample_machine_def sample_flags_def draDefaults_def Load_def sample_read draNodeName_def kubeClients_def
      kubeConfig_def finishConfig_def nic_drv_def sample_dpdk_def Let_def or_default_def)

lemma sample_mkdir: "\<exists>fs. MkdirAll ''/run/linux-net.dra.infinitydon.com'' config_fs = (Inr (), fs)"
  by (simp add: MkdirAll_def next_wfault_def sample_paths sample_fs_def put_node_def node_at_def numeral_eq_Suc DefaultDriverName_def)

lemma sample_reload: "\<exists>ps. reloadIPPools (node_host id) d (s\<lparr>sys_w := in_pod\<rparr>) = s\<lparr>sys_w := in_pod, sys_ipPools := ps\<rparr>"
  by (simp add: reloadIPPools_def onServer_def serve_def next_fault_def nic_node_def empty_server_def) (rule exI, rule refl)

lemma sample_publish: "cfg_Interfaces (drv_cfg d) = [] \<Longrightarrow> \<not> dc_Enabled (cfg_DPDK (drv_cfg d)) \<Longrightarrow> kn_faults (sys_w s) = [] \<Longrightarrow>
    publish (node_host id) d s = (Inr (), s\<lparr>sys_w := (sys_w s)\<lparr>kn_published := []\<rparr>\<rparr>)"
  by (simp add: publish_def publishDPDK_def andThen_def onW_def kcall_def ok_def)

lemma sample_bringUp:
  assumes "reloadIPPools (node_host id) d s = s1" and "MkdirAll (filepath_Join [opt_KubeletPluginsDir opts, drv_driverName d]) (sys_fs s1) = (Inr (), fs)"
    and "opt_KubeletPluginsDir opts \<noteq> []" and "kn_faults (sys_w s1) = []" and "cfg_Interfaces (drv_cfg d) = []" and "\<not> dc_Enabled (cfg_DPDK (drv_cfg d))"
  shows "\<exists>s2. bringUp (node_host id) opts d s = (Inr (), s2)"
  using assms by (simp add: bringUp_def Let_def or_default_def andThen_def mapErr_def onFs_def onW_def onError_def kcall_def sample_publish ok_def)

lemma sample_start: "\<exists>d s fs w. Start (node_host id) sample_codecs sample_options config_fs in_pod = (Inr (d, s), fs, w)"
proof -
  let ?d = "\<lparr>drv_nodeName = ''node-1'', drv_driverName = DefaultDriverName, drv_cfg = sample_loaded, drv_devices = devicesOf sample_loaded\<rparr>"
  let ?s = "\<lparr>sys_store = empty_store ''/run/state'', sys_fs = config_fs, sys_w = in_pod, sys_ipPools = [], sys_dpdk = []\<rparr>"
  obtain ps where r: "reloadIPPools (node_host id) ?d ?s = ?s\<lparr>sys_ipPools := ps\<rparr>"
    using sample_reload [of ?d ?s] by (auto simp del: One_nat_def)
  obtain fs where fs: "MkdirAll ''/run/linux-net.dra.infinitydon.com'' config_fs = (Inr (), fs)" using sample_mkdir by blast
  have "\<exists>s2. bringUp (node_host id) sample_options ?d ?s = (Inr (), s2)"
    by (rule sample_bringUp [OF r]) (simp_all add: sample_paths fs nic_node_def nic_drv_def)
  then show ?thesis
    by (auto simp: Start_def stateFile_def or_default_def NewStore_def sample_read DefaultDriverName_def)
qed

lemma sample_main: "\<exists>d s. draMain (node_host id) sample_machine sample_codecs sample_flags config_fs in_pod = Serving d s"
  using sample_start by (auto simp: draMain_def sample_opts)

theorem draMain_ready_witness:
  "\<exists>d s. draMain (node_host id) sample_machine sample_codecs sample_flags config_fs in_pod = Serving d s
     \<and> wf_config (drv_cfg d) \<and> drv_nodeName d \<noteq> [] \<and> drv_driverName d = cfg_DriverName (drv_cfg d)"
proof -
  obtain d s where m: "draMain (node_host id) sample_machine sample_codecs sample_flags config_fs in_pod = Serving d s"
    using sample_main by blast
  have h: "\<And>name. mGetHostname sample_machine (df_hostnameOverride sample_flags) = Inr name \<Longrightarrow> name \<noteq> []" by (auto simp: sample_machine_def)
  have "df_driverName sample_flags = []" by (simp add: sample_flags_def)
  with draMain_ready [OF h m] m show ?thesis by (intro exI [of _ d] exI [of _ s]) simp
qed

lemma draRun_signal:
  assumes "draMain N M J fl fs w = Serving d s"
  shows "\<exists>fs' w'. draRun N M J fl [Call ev, Signal] fs w = Stopped fs' w'"
  using assms by (simp add: draRun_def Let_def)

theorem draRun_registered_witness:
  "\<exists>d s fs w. draMain (node_host id) sample_machine sample_codecs sample_flags config_fs in_pod = Serving d s \<and> kn_registered (sys_w s)
     \<and> draRun (node_host id) sample_machine sample_codecs sample_flags [Call (Ticks 1), Signal] config_fs in_pod = Stopped fs w \<and> \<not> kn_registered w"
proof -
  let ?main = "draMain (node_host id) sample_machine sample_codecs sample_flags config_fs in_pod"
    and ?run = "draRun (node_host id) sample_machine sample_codecs sample_flags [Call (Ticks 1), Signal] config_fs in_pod"
  obtain d s where m: "?main = Serving d s" using sample_main by blast
  from draRun_signal [OF m] obtain fs w where r: "?run = Stopped fs w" by blast
  have n: "\<not> kn_registered in_pod" by (simp add: nic_node_def)
  from draRun_registered [where N = "node_host id" and reg = kn_registered and w = in_pod and M = sample_machine and J = sample_codecs
      and fl = sample_flags and fs = config_fs and events = "[Call (Ticks 1), Signal]", OF plg.plugin_api_axioms n]
  have "kn_registered (sys_w s) \<and> \<not> kn_registered w" unfolding m r by simp
  with m r show ?thesis by blast
qed

section \<open>The controller binary\<close>

lemma controllerStep_lost [simp]:
  "ev \<noteq> StoppedLeading \<Longrightarrow> cs_lostLeadership (controllerStep K idle ev st) = cs_lostLeadership st"
  "ev \<noteq> StoppedLeading \<Longrightarrow> cs_ctxDone (controllerStep K idle ev st) = (cs_ctxDone st \<or> cancels ev)"
  by (cases ev; simp add: OnStartedLeading_def)+

lemma runElected_lost:
  assumes "runElected K idle events st = (returned, st')" and "\<not> cs_lostLeadership st"
  shows "returned \<longleftrightarrow> StoppedLeading \<in> set events"
    and "cs_lostLeadership st' \<longleftrightarrow>
      StoppedLeading \<in> set events \<and> \<not> cs_ctxDone st \<and> \<not> list_ex cancels (takeWhile (\<lambda>ev. ev \<noteq> StoppedLeading) events)"
  using assms by (induction events arbitrary: st) (auto simp: OnStoppedLeading_def split: if_splits)

lemma aloneStep_lost:
  "cs_lostLeadership (if ev = Tick \<or> cancels ev then controllerStep K idle ev st else st) = cs_lostLeadership st"
  "cs_ctxDone (if ev = Tick \<or> cancels ev then controllerStep K idle ev st else st) = (cs_ctxDone st \<or> cancels ev)"
  by (cases ev; simp)+

lemma runAlone_lost:
  assumes "runAlone K idle events st = (returned, st')"
  shows "cs_lostLeadership st' = cs_lostLeadership st \<and>
    (returned \<longleftrightarrow> LoopDone \<in> set (if cs_ctxDone st then events else dropWhile (\<lambda>ev. \<not> cancels ev) events))"
  using assms
proof (induction events arbitrary: st)
  case (Cons ev events)
  show ?case
  proof (cases "ev = LoopDone \<and> cs_ctxDone st")
    case True
    with Cons.prems show ?thesis by auto
  next
    case False
    with Cons.prems have "runAlone K idle events (if ev = Tick \<or> cancels ev then controllerStep K idle ev st else st) = (returned, st')" by simp
    from Cons.IH [OF this] False show ?thesis unfolding aloneStep_lost by (cases ev) auto
  qed
qed simp


text \<open>The cluster, through the life of a controller.\<close>

context cluster_api
begin

lemma controllerStep_steps:
  assumes "\<And>w. table_steps K (tab w) (tab (idle w))"
  shows "table_steps K (tab (cs_w st)) (tab (cs_w (controllerStep K idle ev st)))"
  using Reconcile_steps [of "cs_w st"] rtranclp_trans [OF assms Reconcile_steps]
  by (cases ev) (simp_all add: OnStartedLeading_def OnStoppedLeading_def)

lemma runElected_steps:
  assumes "\<And>w. table_steps K (tab w) (tab (idle w))"
  shows "table_steps K (tab (cs_w st)) (tab (cs_w (snd (runElected K idle events st))))"
proof (induction events arbitrary: st)
  case (Cons ev events)
  note one = controllerStep_steps [OF assms, of st ev]
  from one rtranclp_trans [OF one Cons] show ?case by (cases ev) simp_all
qed simp

lemma runAlone_steps:
  assumes "\<And>w. table_steps K (tab w) (tab (idle w))"
  shows "table_steps K (tab (cs_w st)) (tab (cs_w (snd (runAlone K idle events st))))"
proof (induction events arbitrary: st)
  case (Cons ev events)
  note one = controllerStep_steps [OF assms, of st ev]
  from Cons [of st] rtranclp_trans [OF one Cons] show ?case by simp
qed simp

lemma controllerMain_steps:
  assumes "\<And>w. table_steps K (tab w) (tab (idle w))"
  shows "table_steps K (tab w) (tab (snd (controllerMain K M idle fl events w)))"
proof -
  define st0 where "st0 = \<lparr>cs_ctxDone = False, cs_lostLeadership = False, cs_looping = False, cs_w = w\<rparr>"
  have w: "cs_w st0 = w" by (simp add: st0_def)
  have start: "table_steps K (tab (cs_w st0)) (tab (cs_w (OnStartedLeading K st0)))"
    using Reconcile_steps by (simp add: OnStartedLeading_def)
  have "snd (controllerMain K M idle fl events w) \<in>
      {w, cs_w (snd (runElected K idle events st0)), cs_w (snd (runAlone K idle events (OnStartedLeading K st0)))}"
    by (simp add: controllerMain_def st0_def Let_def case_prod_beta split: sum.split)
  with runElected_steps [OF assms, of st0 events] rtranclp_trans [OF start runAlone_steps [OF assms]] show ?thesis
    unfolding w by auto
qed

end

lemma runElected_standby:
  assumes "StartedLeading \<notin> set events" and "\<not> cs_looping st"
  shows "cs_w (snd (runElected K idle events st)) = cs_w st"
  using assms
proof (induction events arbitrary: st)
  case (Cons ev events)
  then have "cs_w (controllerStep K idle ev st) = cs_w st \<and> \<not> cs_looping (controllerStep K idle ev st)"
    by (cases ev) (simp_all add: OnStoppedLeading_def)
  with Cons show ?case by (cases ev) simp_all
qed simp


definition server_machine :: "(server, unit, unit, unit) machine" where
  "server_machine = \<lparr>mUnmarshalConfig = (\<lambda>_. Inl (Errorf [] [])), mGetHostname = (\<lambda>_. Inr ''node-1''), mHostname = Inr ''host-1'',
     mGetenv = (\<lambda>_. []), mInClusterConfig = Inr (), mBuildConfigFromFlags = (\<lambda>_ _. Inr ()), mNewForConfig = (\<lambda>_. Inr ()),
     mDynamicForConfig = (\<lambda>_. Inr ()), mStubStop = ok ()\<rparr>"


end
