(* ===== verification/Spec2Isabelle.thy ===== *)
theory Spec2Isabelle
  imports Reconciler Ipam_Props Ip_Loops Dpdk_Props Cdi_Files Status_Props Driver_Claims Command_Props
begin

text \<open>
  \<^bold>\<open>The program.\<close>  \<^verbatim>\<open>dra-linux-networks\<close> gives Kubernetes pods secondary network interfaces through dynamic
  resource allocation.  On every node a driver (\<^verbatim>\<open>internal/driver\<close>) publishes the configured interfaces and the
  DPDK devices it finds, prepares the claims the kubelet hands it, and, called by the container runtime, moves or
  creates the interfaces in the network namespaces of pods.  Addresses come from pools; an \<^verbatim>\<open>IPAllocation\<close> object
  in the cluster, named after pool and address, is the lock on an address (\<^verbatim>\<open>internal/ipamapi\<close>).  A controller
  (\<^verbatim>\<open>internal/controller\<close>) deletes the allocations of claims that are gone and counts the live ones.  The driver
  remembers what it has prepared in a store that is written to a state file after each change
  (\<^verbatim>\<open>internal/driver/store.go\<close>).

  \<^bold>\<open>How it is modelled.\<close>  A Go function with effects is a function on an explicit state that returns an error or a
  value and the new state (\<open>('s, 'a) eff\<close>, \<^verbatim>\<open>Go_Prelude\<close>); early returns, ignored errors, \<^verbatim>\<open>defer\<close>
  and loops are the combinators of \<^verbatim>\<open>Effects\<close>.  The state of the driver (\<open>'w sys\<close>, \<^verbatim>\<open>Driver_State\<close>) is its
  store, the file system, its caches, and a world \<open>'w\<close> that only the calls of two records reach: \<open>kube\<close>, the
  clients of the API server (\<^verbatim>\<open>Kube_API\<close>), and \<open>host\<close>, netlink, network namespaces, the kubelet helper and
  the runtime's stub (\<^verbatim>\<open>Net_API\<close>).  What the code relies on of them is stated as locales and proved of concrete
  instances by interpretation: \<open>alloc_api\<close>, \<open>quiet_alloc_api\<close>, \<open>release_api\<close>, \<open>cluster_api\<close>, \<open>still_cluster\<close>,
  \<open>driver_api\<close> and \<open>claim_api\<close> of an API server with other writers, lost requests and lost replies
  (\<^verbatim>\<open>Api_Server\<close>); \<open>link_api\<close> of a node with a table of devices, namespaces and a schedule of kernel errors
  (\<^verbatim>\<open>Node_Host\<close>).  The file system (\<^verbatim>\<open>Go_OS\<close>) has directories, files, symbolic links, failing and partial
  writes.  JSON texts are encoded and decoded by arguments of the definitions.  Go maps are association lists; their
  order stands for the iteration order.  Integers that can wrap around (addresses) are 32-bit words, bytes are 8-bit
  words; other integers never come near a bound and are \<open>int\<close>.

  \<^bold>\<open>Theories, by component.\<close>
  \<^item> \<^verbatim>\<open>Go_Prelude\<close>, \<^verbatim>\<open>Effects\<close>, \<^verbatim>\<open>Triples\<close>: errors, strings, effects; programs that respect a relation (\<open>keepsR\<close>), and
    triples for programs with errors.  \<^verbatim>\<open>Go_Net\<close>, \<^verbatim>\<open>Go_OS\<close>, \<^verbatim>\<open>Sha256\<close>: what is used of Go's standard library.
  \<^item> \<^verbatim>\<open>Config_Model\<close> (\<^verbatim>\<open>config.go\<close>): loading, defaulting and validation; every loaded configuration is well formed.
  \<^item> \<^verbatim>\<open>Ipam_Allocation\<close>, \<^verbatim>\<open>Ipam_Safety\<close> (\<^verbatim>\<open>allocation.go\<close>): the objects, reserving, finding and deleting them.  Every
    call amid others moves the table by steps that create an absent name or delete a present one, so that an address has at
    most one owner and changes hands only through a state without owner.
  \<^item> \<^verbatim>\<open>Reconciler\<close> (\<^verbatim>\<open>controller.go\<close>): a pass deletes exactly the stale allocations and the pools report the live
    count; the loop is modelled up to any number of ticks.
  \<^item> \<^verbatim>\<open>Driver_Types\<close>, \<^verbatim>\<open>Store_Model\<close>, \<^verbatim>\<open>Store_Props\<close>, \<^verbatim>\<open>Store_Refinement\<close> (\<^verbatim>\<open>types.go\<close>, \<^verbatim>\<open>store.go\<close>): the state
    file is replaced atomically, keys are injective and migrated, each method refines its specification on an abstract
    content, and a restart finds the content after some prefix of the operations.
  \<^item> \<^verbatim>\<open>Ip_Ranges\<close>, \<^verbatim>\<open>Ip_Loops\<close>, \<^verbatim>\<open>Driver_Ipam\<close>, \<^verbatim>\<open>Ipam_Props\<close> (\<^verbatim>\<open>ipam.go\<close>): ranges, static and dynamic addresses;
    a granted address is in its pool and owned by the claim alone, a pool is reported full only when it is.
  \<^item> \<^verbatim>\<open>Pod_Network\<close>, \<^verbatim>\<open>Inventory\<close>, \<^verbatim>\<open>Attributes\<close> (\<^verbatim>\<open>driver.go\<close>, \<^verbatim>\<open>inventory.go\<close>): configuration of a request, names of
    interfaces, identity of devices from sysfs, published attributes.
  \<^item> \<^verbatim>\<open>Status_Model\<close>, \<^verbatim>\<open>Status_Props\<close> (\<^verbatim>\<open>status.go\<close>): claim status, pod condition, annotation and events.
  \<^item> \<^verbatim>\<open>Host_Device\<close>, \<^verbatim>\<open>Link_API\<close>, \<^verbatim>\<open>Host_Device_Props\<close>, \<^verbatim>\<open>Host_Device_Claims\<close> (\<^verbatim>\<open>hostdevice.go\<close>): a restored device
    is back in the host's namespace as recorded, a failed attachment is undone or stays recorded.
  \<^item> \<^verbatim>\<open>Dpdk\<close>, \<^verbatim>\<open>Dpdk_Props\<close>, \<^verbatim>\<open>Cdi_Files\<close> (\<^verbatim>\<open>dpdk.go\<close>): discovery, preparation and CDI files; what is offered is allowed and
    isolated, a specification is written whole, and the removal takes away those of the claim and nothing else.
  \<^item> \<^verbatim>\<open>Driver\<close> (\<^verbatim>\<open>driver.go\<close>): publication, preparing and unpreparing claims, the calls of the runtime, the start.
    \<^verbatim>\<open>Driver_API\<close>, \<^verbatim>\<open>Node_Driver\<close>: no handler breaks the discipline of the allocation table.  \<^verbatim>\<open>Driver_Store\<close>: every
    handler keeps the store well formed.  \<^verbatim>\<open>Driver_Release\<close>, \<^verbatim>\<open>Driver_Attach\<close>: the exact effect of successful handlers on
    the store.  \<^verbatim>\<open>Driver_Run\<close>, \<^verbatim>\<open>Driver_Claims\<close>: the life of a process as a step relation with restarts and the actions of
    others, and the promises of the handlers.
  \<^item> \<^verbatim>\<open>Commands\<close>, \<^verbatim>\<open>Command_Props\<close> (\<^verbatim>\<open>cmd/linux-net-dra\<close>, \<^verbatim>\<open>cmd/linux-net-controller\<close>): the binaries, from the values of
    the flags to the exit.  A driver that reports itself ready has a well-formed configuration and is registered with the
    kubelet (\<open>plugin_api\<close>), and a process that has ended is not; the exit status of the controller for every
    sequence of signals and callbacks of the elector; a replica that is not elected leaves the cluster alone.

  \<^bold>\<open>Bounds.\<close>  No definition that models code takes fuel except \<open>rangeLoop\<close>, for which enough fuel is computed from the
  range, and the walks of \<^verbatim>\<open>Go_OS\<close> along symbolic links, whose bound (4096) is far above the kernel's 40; every other
  loop is structural recursion or has a termination proof.  Loops on a ticker are functions of the number of ticks.

  \<^bold>\<open>Not modelled.\<close>  Concurrency inside the driver: a handler is one step; the store's methods are atomic under its mutex,
  preparation is serialised by the driver's.  The parsing of the command line, the HTTP servers, the elector of client-go (its
  callbacks are events), the goroutine that reconnects to the runtime, logging, the Helm chart, and the end-to-end tests.
\<close>

end
